(* ===== verification/Prelude.thy ===== *)
theory Prelude
  imports Complex_Main "HOL-Library.Word" "HOL-Library.Multiset"
begin

text \<open>
  Shared vocabulary of the development: the model's basic types, Python exceptions as a
  datatype with the class tests the source's \<open>except\<close> clauses make, the state and exception
  monad in which every effectful Python or Rust operation is written, the predicate
  \<open>keeps\<close> ("this operation preserves that invariant") with its composition rules, and
  generic lemmas on lists and maps.
\<close>

section \<open>Basic types\<close>

type_synonym fd = int \<comment> \<open>a file descriptor, a Python int\<close>
type_synonym bytes = "8 word list"
type_synonym fut_id = nat \<comment> \<open>identity of a Future object\<close>
type_synonym errno = int

named_theorems py_defs \<open>defining equations of the monad's combinators\<close>
named_theorems keeps_intros \<open>composition rules for preservation of an invariant\<close>

section \<open>Exceptions\<close>

text \<open>
  \<open>OSError n\<close> stands for the whole \<open>OSError\<close> hierarchy: Python picks the subclass from the
  errno, so \<open>BlockingIOError\<close>, \<open>FileExistsError\<close> and \<open>FileNotFoundError\<close> are tests on it.
  \<open>CancelledError\<close> and PyO3's \<open>PanicException\<close> derive from \<open>BaseException\<close> and are not
  caught by \<open>except Exception\<close>.
\<close>

datatype exn =
    RuntimeError string
  | OSError errno
  | MemoryError string
  | ValueError string
  | TypeError string
  | NotImplementedError string
  | AttributeError string
  | NameError string
  | OverflowError string
  | InvalidStateError
  | CancelledError
  | PanicException
  | SSLWantReadError
  | SSLWantWriteError
  | UserExn nat

definition ENOENT :: errno where "ENOENT = 2"
definition EBADF :: errno where "EBADF = 9"
definition EAGAIN :: errno where "EAGAIN = 11"
definition EEXIST :: errno where "EEXIST = 17"

lemmas errno_defs = ENOENT_def EBADF_def EAGAIN_def EEXIST_def

fun is_OSError :: "exn \<Rightarrow> bool" where
  "is_OSError (OSError _) = True"
| "is_OSError SSLWantReadError = True"
| "is_OSError SSLWantWriteError = True"
| "is_OSError _ = False"

definition is_BlockingIOError :: "exn \<Rightarrow> bool" where
  "is_BlockingIOError e \<longleftrightarrow> e \<in> {OSError EAGAIN, OSError 114, OSError 115}"

definition is_FileExistsError :: "exn \<Rightarrow> bool" where
  "is_FileExistsError e \<longleftrightarrow> e = OSError EEXIST"

fun is_Exception :: "exn \<Rightarrow> bool" where
  "is_Exception CancelledError = False"
| "is_Exception PanicException = False"
| "is_Exception _ = True"

fun is_RuntimeError :: "exn \<Rightarrow> bool" where
  "is_RuntimeError (RuntimeError _) = True"
| "is_RuntimeError (NotImplementedError _) = True"
| "is_RuntimeError _ = False"

lemma BlockingIOError_is_OSError: "is_BlockingIOError e \<Longrightarrow> is_OSError e"
  by (auto simp: is_BlockingIOError_def)

lemma OSError_is_Exception: "is_OSError e \<Longrightarrow> is_Exception e"
  by (cases e) auto

section \<open>The state and exception monad\<close>

text \<open>
  An operation takes the state it may change and gives an exception or a value, and the
  state it leaves behind (a raise does not undo the writes before it).
\<close>

type_synonym ('s, 'a) pyM = "'s \<Rightarrow> (exn + 'a) \<times> 's"

definition ret :: "'a \<Rightarrow> ('s, 'a) pyM" where
  "ret a = (\<lambda>s. (Inr a, s))"

definition raise :: "exn \<Rightarrow> ('s, 'a) pyM" where
  "raise e = (\<lambda>s. (Inl e, s))"

definition bindM :: "('s, 'a) pyM \<Rightarrow> ('a \<Rightarrow> ('s, 'b) pyM) \<Rightarrow> ('s, 'b) pyM" where
  "bindM m f = (\<lambda>s. case m s of (Inl e, s') \<Rightarrow> (Inl e, s') | (Inr a, s') \<Rightarrow> f a s')"

definition seqM :: "('s, 'a) pyM \<Rightarrow> ('s, 'b) pyM \<Rightarrow> ('s, 'b) pyM" where
  "seqM m n = bindM m (\<lambda>_. n)"

definition getM :: "('s \<Rightarrow> 'a) \<Rightarrow> ('s, 'a) pyM" where
  "getM f = (\<lambda>s. (Inr (f s), s))"

definition modM :: "('s \<Rightarrow> 's) \<Rightarrow> ('s, unit) pyM" where
  "modM f = (\<lambda>s. (Inr (), f s))"

definition whenM :: "bool \<Rightarrow> ('s, unit) pyM \<Rightarrow> ('s, unit) pyM" where
  "whenM b m = (if b then m else ret ())"

text \<open>\<open>try: m / except <class test p> as e: h e\<close>.\<close>

definition tryM :: "('s, 'a) pyM \<Rightarrow> (exn \<Rightarrow> bool) \<Rightarrow> (exn \<Rightarrow> ('s, 'a) pyM) \<Rightarrow> ('s, 'a) pyM" where
  "tryM m p h = (\<lambda>s. case m s of
      (Inl e, s') \<Rightarrow> if p e then h e s' else (Inl e, s')
    | (Inr a, s') \<Rightarrow> (Inr a, s'))"

text \<open>\<open>try: m / finally: n\<close>: an exception of \<open>n\<close> replaces the outcome of \<open>m\<close>.\<close>

definition finallyM :: "('s, 'a) pyM \<Rightarrow> ('s, unit) pyM \<Rightarrow> ('s, 'a) pyM" where
  "finallyM m n = (\<lambda>s. case m s of (r, s') \<Rightarrow>
      (case n s' of (Inl e, s'') \<Rightarrow> (Inl e, s'') | (Inr _, s'') \<Rightarrow> (r, s'')))"

text \<open>Rust's \<open>m.map_err(|e| { cleanup; e })?\<close>: the cleanup runs and the error is passed on.\<close>

definition on_error :: "('s, 'a) pyM \<Rightarrow> ('s \<Rightarrow> 's) \<Rightarrow> ('s, 'a) pyM" where
  "on_error m cleanup = tryM m (\<lambda>_. True) (\<lambda>e. seqM (modM cleanup) (raise e))"

text \<open>A \<open>for\<close> loop: the first exception ends it.\<close>

fun forM :: "'a list \<Rightarrow> ('a \<Rightarrow> ('s, unit) pyM) \<Rightarrow> ('s, unit) pyM" where
  "forM [] f = ret ()"
| "forM (x # xs) f = seqM (f x) (forM xs f)"

lemmas [py_defs] = ret_def raise_def bindM_def seqM_def getM_def modM_def whenM_def tryM_def
  finallyM_def on_error_def

lemma on_error_apply: "on_error m g s = (case m s of
    (Inl e, s') \<Rightarrow> (Inl e, g s') | (Inr a, s') \<Rightarrow> (Inr a, s'))"
  by (auto simp: py_defs split: prod.splits sum.splits)

lemma ret_apply [simp]: "ret a s = (Inr a, s)"
  by (simp add: ret_def)

lemma raise_apply [simp]: "raise e s = (Inl e, s)"
  by (simp add: raise_def)

lemma getM_apply [simp]: "getM f s = (Inr (f s), s)"
  by (simp add: getM_def)

lemma modM_apply [simp]: "modM f s = (Inr (), f s)"
  by (simp add: modM_def)

lemma bindM_Inr [simp]: "m s = (Inr a, s') \<Longrightarrow> bindM m f s = f a s'"
  by (simp add: bindM_def)

lemma bindM_Inl [simp]: "m s = (Inl e, s') \<Longrightarrow> bindM m f s = (Inl e, s')"
  by (simp add: bindM_def)

lemma seqM_Inr [simp]: "m s = (Inr a, s') \<Longrightarrow> seqM m n s = n s'"
  by (simp add: seqM_def)

lemma seqM_Inl [simp]: "m s = (Inl e, s') \<Longrightarrow> seqM m n s = (Inl e, s')"
  by (simp add: seqM_def)

lemma whenM_simps [simp]: "whenM True m = m" "whenM False m = ret ()"
  by (simp_all add: whenM_def)

lemma tryM_Inr [simp]: "m s = (Inr a, s') \<Longrightarrow> tryM m p h s = (Inr a, s')"
  by (simp add: tryM_def)

lemma tryM_Inl [simp]: "m s = (Inl e, s') \<Longrightarrow> tryM m p h s = (if p e then h e s' else (Inl e, s'))"
  by (simp add: tryM_def)

lemma if_apply_M [simp]: "(if b then m else n) s = (if b then m s else n s)"
  by simp

text \<open>The monad laws, and that a loop over a joined list is two loops.\<close>

lemma bindM_ret_left [simp]: "bindM (ret a) f = f a"
  by (simp add: bindM_def ret_def)

lemma bindM_ret_right [simp]: "bindM m ret = m"
  by (auto simp: bindM_def ret_def fun_eq_iff split: prod.splits sum.splits)

lemma bindM_assoc: "bindM (bindM m f) g = bindM m (\<lambda>a. bindM (f a) g)"
  by (auto simp: bindM_def fun_eq_iff split: prod.splits sum.splits)

lemma seqM_assoc: "seqM (seqM m n) k = seqM m (seqM n k)"
  by (simp add: seqM_def bindM_assoc)

lemma seqM_ret [simp]: "seqM (ret ()) m = m"
  by (simp add: seqM_def)

lemma forM_append: "forM (xs @ ys) f = seqM (forM xs f) (forM ys f)"
  by (induction xs) (simp_all add: seqM_assoc)

section \<open>Preservation of invariants\<close>

definition keeps :: "('s \<Rightarrow> bool) \<Rightarrow> ('s, 'a) pyM \<Rightarrow> bool" where
  "keeps P m \<longleftrightarrow> (\<forall>s. P s \<longrightarrow> P (snd (m s)))"

lemma keepsI: "(\<And>s. P s \<Longrightarrow> P (snd (m s))) \<Longrightarrow> keeps P m"
  by (simp add: keeps_def)

lemma keepsD: "keeps P m \<Longrightarrow> P s \<Longrightarrow> m s = (r, s') \<Longrightarrow> P s'"
  by (metis keeps_def snd_conv)

lemma keeps_ret [keeps_intros]: "keeps P (ret a)"
  by (simp add: keeps_def)

lemma keeps_raise [keeps_intros]: "keeps P (raise e)"
  by (simp add: keeps_def)

lemma keeps_getM [keeps_intros]: "keeps P (getM f)"
  by (simp add: keeps_def)

lemma keeps_bindM [keeps_intros]:
  "keeps P m \<Longrightarrow> (\<And>a. keeps P (f a)) \<Longrightarrow> keeps P (bindM m f)"
  by (auto simp: keeps_def bindM_def split: prod.splits sum.splits)

lemma keeps_seqM [keeps_intros]: "keeps P m \<Longrightarrow> keeps P n \<Longrightarrow> keeps P (seqM m n)"
  by (simp add: seqM_def keeps_bindM)

lemma keeps_whenM [keeps_intros]: "keeps P m \<Longrightarrow> keeps P (whenM b m)"
  by (simp add: whenM_def keeps_ret)

lemma keeps_if [keeps_intros]: "keeps P m \<Longrightarrow> keeps P n \<Longrightarrow> keeps P (if b then m else n)"
  by simp

lemma keeps_option [keeps_intros]:
  "keeps P m \<Longrightarrow> (\<And>x. keeps P (f x)) \<Longrightarrow> keeps P (case v of None \<Rightarrow> m | Some x \<Rightarrow> f x)"
  by (cases v) auto

lemma keeps_sum [keeps_intros]:
  "(\<And>x. keeps P (f x)) \<Longrightarrow> (\<And>y. keeps P (g y)) \<Longrightarrow> keeps P (case v of Inl x \<Rightarrow> f x | Inr y \<Rightarrow> g y)"
  by (cases v) auto

lemma keeps_prod [keeps_intros]:
  "(\<And>x y. keeps P (f x y)) \<Longrightarrow> keeps P (case v of (x, y) \<Rightarrow> f x y)"
  by (cases v) auto

lemma keeps_tryM [keeps_intros]:
  "keeps P m \<Longrightarrow> (\<And>e. keeps P (h e)) \<Longrightarrow> keeps P (tryM m p h)"
  by (auto simp: keeps_def tryM_def split: prod.splits sum.splits)

lemma keeps_finallyM [keeps_intros]: "keeps P m \<Longrightarrow> keeps P n \<Longrightarrow> keeps P (finallyM m n)"
  by (auto simp: keeps_def finallyM_def split: prod.splits sum.splits)

lemma keeps_forM [keeps_intros]: "(\<And>x. keeps P (f x)) \<Longrightarrow> keeps P (forM xs f)"
  by (induction xs) (auto intro: keeps_intros)

lemma keeps_modM: "(\<And>s. P s \<Longrightarrow> P (f s)) \<Longrightarrow> keeps P (modM f)"
  by (simp add: keeps_def)

section \<open>Pre- and postconditions\<close>

text \<open>
  \<open>triple P m Q E\<close>: from a state with \<open>P\<close>, a normal return \<open>a\<close> leaves \<open>Q a\<close> and a raise \<open>e\<close>
  leaves \<open>E e\<close>. Used where an invariant is broken and restored inside one operation.
\<close>

named_theorems triple_intros \<open>composition rules for triples\<close>

definition triple ::
  "('s \<Rightarrow> bool) \<Rightarrow> ('s, 'a) pyM \<Rightarrow> ('a \<Rightarrow> 's \<Rightarrow> bool) \<Rightarrow> (exn \<Rightarrow> 's \<Rightarrow> bool) \<Rightarrow> bool" where
  "triple P m Q E \<longleftrightarrow> (\<forall>s. P s \<longrightarrow> (case m s of (Inr a, s') \<Rightarrow> Q a s' | (Inl e, s') \<Rightarrow> E e s'))"

lemma triple_ret [triple_intros]: "(\<And>s. P s \<Longrightarrow> Q a s) \<Longrightarrow> triple P (ret a) Q E"
  by (simp add: triple_def)

lemma triple_raise [triple_intros]: "(\<And>s. P s \<Longrightarrow> E e s) \<Longrightarrow> triple P (raise e) Q E"
  by (simp add: triple_def)

lemma triple_getM [triple_intros]: "(\<And>s. P s \<Longrightarrow> Q (f s) s) \<Longrightarrow> triple P (getM f) Q E"
  by (simp add: triple_def)

lemma triple_modM [triple_intros]: "(\<And>s. P s \<Longrightarrow> Q () (f s)) \<Longrightarrow> triple P (modM f) Q E"
  by (simp add: triple_def)

lemma triple_bindM:
  "triple P m R E \<Longrightarrow> (\<And>a. triple (R a) (f a) Q E) \<Longrightarrow> triple P (bindM m f) Q E"
  by (fastforce simp: triple_def bindM_def split: prod.splits sum.splits)

lemma triple_seqM: "triple P m (\<lambda>_. R) E \<Longrightarrow> triple R n Q E \<Longrightarrow> triple P (seqM m n) Q E"
  by (simp add: seqM_def triple_bindM)

lemma triple_try_all:
  "triple P m Q R \<Longrightarrow> (\<And>e. triple (R e) (h e) Q E) \<Longrightarrow> triple P (tryM m (\<lambda>_. True) h) Q E"
  by (fastforce simp: triple_def tryM_def split: prod.splits sum.splits)

lemma triple_on_error:
  "triple P m Q (\<lambda>_. R) \<Longrightarrow> (\<And>s. R s \<Longrightarrow> E (g s)) \<Longrightarrow> triple P (on_error m g) Q (\<lambda>_. E)"
  by (fastforce simp: triple_def on_error_apply split: prod.splits sum.splits)

lemma triple_if [triple_intros]:
  "triple P m Q E \<Longrightarrow> triple P n Q E \<Longrightarrow> triple P (if b then m else n) Q E"
  by simp

lemma triple_pre: "triple P m Q E \<Longrightarrow> (\<And>s. P' s \<Longrightarrow> P s) \<Longrightarrow> triple P' m Q E"
  by (simp add: triple_def)

lemma triple_keeps: "triple P m (\<lambda>_. P) (\<lambda>_. P) \<longleftrightarrow> keeps P m"
  by (auto simp: triple_def keeps_def split: prod.splits sum.splits)
    (metis old.sum.exhaust prod.collapse snd_conv)+

lemma keeps_triple: "keeps P m \<Longrightarrow> triple P m (\<lambda>_. P) (\<lambda>_. P)"
  by (simp add: triple_keeps)

section \<open>Which exceptions can escape\<close>

named_theorems raises_intros \<open>composition rules for the exceptions of an operation\<close>

definition raises_only :: "(exn \<Rightarrow> bool) \<Rightarrow> ('s, 'a) pyM \<Rightarrow> bool" where
  "raises_only P m \<longleftrightarrow> (\<forall>s e. fst (m s) = Inl e \<longrightarrow> P e)"

lemma raises_onlyI: "(\<And>s e s'. m s = (Inl e, s') \<Longrightarrow> P e) \<Longrightarrow> raises_only P m"
  by (metis raises_only_def prod.collapse)

lemma raises_onlyD: "raises_only P m \<Longrightarrow> m s = (Inl e, s') \<Longrightarrow> P e"
  by (metis raises_only_def fst_conv)

lemma raises_ret [raises_intros]: "raises_only P (ret a)"
  by (simp add: raises_only_def)

lemma raises_raise [raises_intros]: "P e \<Longrightarrow> raises_only P (raise e)"
  by (simp add: raises_only_def)

lemma raises_getM [raises_intros]: "raises_only P (getM f)"
  by (simp add: raises_only_def)

lemma raises_modM [raises_intros]: "raises_only P (modM f)"
  by (simp add: raises_only_def)

lemma raises_bindM [raises_intros]:
  "raises_only P m \<Longrightarrow> (\<And>a. raises_only P (f a)) \<Longrightarrow> raises_only P (bindM m f)"
  by (rule raises_onlyI) (auto simp: bindM_def dest: raises_onlyD split: prod.splits sum.splits)

lemma raises_seqM [raises_intros]: "raises_only P m \<Longrightarrow> raises_only P n \<Longrightarrow> raises_only P (seqM m n)"
  by (simp add: seqM_def raises_bindM)

lemma raises_whenM [raises_intros]: "raises_only P m \<Longrightarrow> raises_only P (whenM b m)"
  by (simp add: whenM_def raises_ret)

lemma raises_if [raises_intros]: "raises_only P m \<Longrightarrow> raises_only P n \<Longrightarrow> raises_only P (if b then m else n)"
  by simp

lemma raises_option [raises_intros]:
  "raises_only P m \<Longrightarrow> (\<And>x. raises_only P (f x)) \<Longrightarrow> raises_only P (case v of None \<Rightarrow> m | Some x \<Rightarrow> f x)"
  by (cases v) auto

lemma raises_prod [raises_intros]:
  "(\<And>x y. raises_only P (f x y)) \<Longrightarrow> raises_only P (case v of (x, y) \<Rightarrow> f x y)"
  by (cases v) auto

lemma raises_forM [raises_intros]: "(\<And>x. raises_only P (f x)) \<Longrightarrow> raises_only P (forM xs f)"
  by (induction xs) (auto intro: raises_intros)

text \<open>A handler for everything the body raises leaves only its own exceptions.\<close>

lemma raises_tryM:
  "raises_only (\<lambda>e. p e \<or> P e) m \<Longrightarrow> (\<And>e. raises_only P (h e)) \<Longrightarrow> raises_only P (tryM m p h)"
  by (rule raises_onlyI) (auto simp: tryM_def dest: raises_onlyD split: prod.splits sum.splits if_splits)

lemma raises_mono: "raises_only P m \<Longrightarrow> (\<And>e. P e \<Longrightarrow> Q e) \<Longrightarrow> raises_only Q m"
  by (auto simp: raises_only_def)

lemma raises_only_False: "raises_only (\<lambda>_. False) m \<Longrightarrow> \<exists>a s'. m s = (Inr a, s')"
  by (cases "m s"; cases "fst (m s)") (auto dest: raises_onlyD)

section \<open>Decimal rendering\<close>

text \<open>\<open>str\<close> of an int (Rust's \<open>Display\<close> of an integer is the same).\<close>

fun show_nat :: "nat \<Rightarrow> string" where
  "show_nat n =
    (if n < 10 then [char_of (48 + n)] else show_nat (n div 10) @ [char_of (48 + n mod 10)])"

declare show_nat.simps [simp del]

definition show_int :: "int \<Rightarrow> string" where
  "show_int i = (if i < 0 then ''-'' @ show_nat (nat (- i)) else show_nat (nat i))"

fun parse_nat :: "nat \<Rightarrow> string \<Rightarrow> nat" where
  "parse_nat acc [] = acc"
| "parse_nat acc (c # cs) = parse_nat (10 * acc + (of_char c - 48)) cs"

lemma parse_nat_append: "parse_nat acc (xs @ ys) = parse_nat (parse_nat acc xs) ys"
  by (induction xs arbitrary: acc) simp_all

lemma parse_show_nat: "parse_nat 0 (show_nat n) = n"
proof (induction n rule: show_nat.induct)
  case (1 n)
  show ?case
  proof (cases "n < 10")
    case True
    then show ?thesis by (subst show_nat.simps) simp
  next
    case False
    with 1 have "parse_nat 0 (show_nat (n div 10)) = n div 10" by simp
    with False show ?thesis by (subst show_nat.simps) (simp add: parse_nat_append)
  qed
qed

lemma show_nat_inject [simp]: "show_nat m = show_nat n \<longleftrightarrow> m = n"
  by (metis parse_show_nat)

section \<open>Substring test\<close>

text \<open>\<open>pat in s\<close> on strings.\<close>

fun starts_with :: "string \<Rightarrow> string \<Rightarrow> bool" where
  "starts_with [] s = True"
| "starts_with (c # cs) [] = False"
| "starts_with (c # cs) (d # ds) = (c = d \<and> starts_with cs ds)"

fun contains :: "string \<Rightarrow> string \<Rightarrow> bool" where
  "contains pat [] = (pat = [])"
| "contains pat (c # cs) = (starts_with pat (c # cs) \<or> contains pat cs)"

lemma starts_with_iff: "starts_with pat s \<longleftrightarrow> (\<exists>t. s = pat @ t)"
  by (induction pat s rule: starts_with.induct) auto

lemma contains_iff: "contains pat s \<longleftrightarrow> (\<exists>a b. s = a @ pat @ b)"
proof (induction s)
  case Nil
  then show ?case by auto
next
  case (Cons c cs)
  show ?case
  proof
    assume "contains pat (c # cs)"
    then consider "starts_with pat (c # cs)" | "contains pat cs" by auto
    then show "\<exists>a b. c # cs = a @ pat @ b"
    proof cases
      case 1
      then obtain t where "c # cs = [] @ pat @ t" by (auto simp: starts_with_iff)
      then show ?thesis by blast
    next
      case 2
      with Cons obtain a b where "c # cs = (c # a) @ pat @ b" by auto
      then show ?thesis by blast
    qed
  next
    assume "\<exists>a b. c # cs = a @ pat @ b"
    then obtain a b where ab: "c # cs = a @ pat @ b" by blast
    show "contains pat (c # cs)"
    proof (cases a)
      case Nil
      with ab have "starts_with pat (c # cs)" by (auto simp: starts_with_iff)
      then show ?thesis by simp
    next
      case (Cons x xs)
      with ab have "cs = xs @ pat @ b" by simp
      with Cons.IH show ?thesis by auto
    qed
  qed
qed

section \<open>Lists and maps\<close>

lemma distinct_butfirst: "distinct (x # xs) \<Longrightarrow> x \<notin> set xs"
  by simp

lemma ran_map_upd_Some: "m k = None \<Longrightarrow> ran (m(k \<mapsto> v)) = insert v (ran m)"
  by (rule ran_map_upd)

lemma ran_fun_upd_None_subset: "ran (m(k := None)) \<subseteq> ran m"
  by (auto simp: ran_def)

lemma inj_on_dom_map_upd:
  "inj_on m (dom m) \<Longrightarrow> v \<notin> ran m \<Longrightarrow> inj_on (m(k \<mapsto> v)) (dom (m(k \<mapsto> v)))"
  by (auto simp: inj_on_def dom_def ran_def)

lemma inj_on_dom_fun_upd_None: "inj_on m (dom m) \<Longrightarrow> inj_on (m(k := None)) (dom (m(k := None)))"
  by (auto simp: inj_on_def dom_def)

lemma ran_remove_inj:
  assumes "inj_on m (dom m)" and "m k = Some v"
  shows "ran (m(k := None)) = ran m - {v}"
proof (intro equalityI subsetI)
  fix x assume "x \<in> ran m - {v}"
  then obtain a where a: "m a = Some x" and "x \<noteq> v" by (auto simp: ran_def)
  with assms(2) have "a \<noteq> k" by auto
  with a show "x \<in> ran (m(k := None))" by (auto simp: ran_def)
next
  fix x assume "x \<in> ran (m(k := None))"
  then obtain a where "m a = Some x" "a \<noteq> k" by (auto simp: ran_def split: if_splits)
  with assms show "x \<in> ran m - {v}" by (auto simp: ran_def inj_on_def dom_def)
qed

end
