(* ===== verification/Errors.thy ===== *)
theory Errors
  imports Prelude
begin

text \<open>
  The error type of the engine (\<open>src/src/error.rs\<close>) with the text \<open>thiserror\<close> gives each variant,
  and its translation into Python exceptions: everywhere \<open>RuntimeError\<close>, except for the buffer pool
  in the engine's constructor, whose errors become \<open>MemoryError\<close>.
\<close>

datatype error =
    BufferAllocation string
  | RingInit string
  | RingOp string
  | EventFd string
  | Fd string
  | ForkDetected
  | NoBuffersAvailable
  | CreditExhausted fd
  | InvalidGeneration nat nat \<comment> \<open>expected, got\<close>
  | SqpollUnavailable string
  | Io string
  | Nix string

fun error_text :: "error \<Rightarrow> string" where
  "error_text (BufferAllocation msg) = ''Buffer allocation failed: '' @ msg"
| "error_text (RingInit msg) = ''`io_uring` initialization failed: '' @ msg"
| "error_text (RingOp msg) = ''`io_uring` operation failed: '' @ msg"
| "error_text (EventFd msg) = ''eventfd operation failed: '' @ msg"
| "error_text (Fd msg) = ''File descriptor error: '' @ msg"
| "error_text ForkDetected = ''Fork detected, ring must be reinitialized''"
| "error_text NoBuffersAvailable = ''No buffers available in pool''"
| "error_text (CreditExhausted f) = ''Credit budget exhausted for fd '' @ show_int f"
| "error_text (InvalidGeneration expected got) =
    ''Invalid generation ID: expected '' @ show_nat expected @ '', got '' @ show_nat got"
| "error_text (SqpollUnavailable msg) = ''SQPOLL not available: '' @ msg"
| "error_text (Io msg) = ''I/O error: '' @ msg"
| "error_text (Nix msg) = ''System error: '' @ msg"

abbreviation runtime_error :: "error \<Rightarrow> exn" where
  "runtime_error e \<equiv> RuntimeError (error_text e)"

abbreviation memory_error :: "error \<Rightarrow> exn" where
  "memory_error e \<equiv> MemoryError (error_text e)"

end
