(* ===== verification/Buffer_Pool.thy ===== *)
theory Buffer_Pool
  imports Errors
begin

text \<open>
  The pre-allocated buffer pool (\<open>src/src/buffer.rs\<close>): buffer references with their read
  offset, and the pool with its free list, its quarantine and its memory. Indices are \<open>u16\<close>
  in the source and natural numbers here, with the one truncating cast (the loop bound of
  \<open>BufferPool::new\<close>) written out. An \<open>Instant\<close> is a count of nanoseconds, so the truncating
  subtraction on naturals is \<open>Instant::duration_since\<close>, which saturates at zero.
  The interface the core relies on is the locale \<open>buffer_allocator\<close>.
\<close>

section \<open>Buffer references\<close>

record buffer_ref =
  br_index :: nat
  br_len :: nat
  br_offset :: nat
  br_generation :: nat

definition buffer_ref_new :: "nat \<Rightarrow> nat \<Rightarrow> nat \<Rightarrow> buffer_ref" where
  "buffer_ref_new idx len gen = \<lparr>br_index = idx, br_len = len, br_offset = 0, br_generation = gen\<rparr>"

definition remaining :: "buffer_ref \<Rightarrow> nat" where
  "remaining b = br_len b - br_offset b" \<comment> \<open>\<open>saturating_sub\<close>\<close>

definition is_consumed :: "buffer_ref \<Rightarrow> bool" where
  "is_consumed b \<longleftrightarrow> br_offset b \<ge> br_len b"

definition advance :: "nat \<Rightarrow> buffer_ref \<Rightarrow> buffer_ref" where
  "advance amount b = b\<lparr>br_offset := min (min (br_offset b + amount) (2 ^ 64 - 1)) (br_len b)\<rparr>"

section \<open>The pool\<close>

record buffer_pool =
  bp_base :: "64 word" \<comment> \<open>the address of the mapping\<close>
  bp_buffer_size :: nat
  bp_buffer_count :: nat
  bp_free_list :: "nat list"
  bp_quarantine :: "(nat \<times> nat) list" \<comment> \<open>index and release time\<close>
  bp_generation :: nat
  bp_mem :: "nat \<Rightarrow> bytes" \<comment> \<open>the mmap'd region, buffer by buffer\<close>

definition QUARANTINE_DURATION :: nat where
  "QUARANTINE_DURATION = 1000"

text \<open>
  \<open>BufferPool::new\<close>. \<open>mmap\<close> is the kernel's answer: an error or the address of the memory. The free list is filled by
  \<open>for i in 0..buffer_count as u16\<close>.
\<close>

definition pool_new :: "string + 64 word \<Rightarrow> nat \<Rightarrow> nat \<Rightarrow> exn + buffer_pool" where
  "pool_new mmap bsize bcount =
    (if bsize * bcount \<ge> 2 ^ 64 then Inl (memory_error (BufferAllocation ''size overflow''))
     else (case mmap of
        Inl msg \<Rightarrow> Inl (memory_error (BufferAllocation (''mmap failed: '' @ msg)))
      | Inr base \<Rightarrow> Inr \<lparr>bp_base = base, bp_buffer_size = bsize, bp_buffer_count = bcount,
          bp_free_list = [0..<bcount mod 2 ^ 16], bp_quarantine = [], bp_generation = 1,
          bp_mem = (\<lambda>_. replicate bsize 0)\<rparr>))"

definition increment_generation :: "buffer_pool \<Rightarrow> nat \<times> buffer_pool" where
  "increment_generation p =
    (let g = (bp_generation p + 1) mod 2 ^ 64 in (g, p\<lparr>bp_generation := g\<rparr>))"

fun reclaim_loop :: "nat \<Rightarrow> (nat \<times> nat) list \<Rightarrow> nat list \<Rightarrow> (nat \<times> nat) list \<times> nat list" where
  "reclaim_loop now [] free = ([], free)"
| "reclaim_loop now ((i, t) # q) free =
    (if now - t \<ge> QUARANTINE_DURATION then reclaim_loop now q (free @ [i])
     else (q @ [(i, t)], free))"

definition reclaim_quarantined :: "nat \<Rightarrow> buffer_pool \<Rightarrow> buffer_pool" where
  "reclaim_quarantined now p =
    (let (q, f) = reclaim_loop now (bp_quarantine p) (bp_free_list p)
     in p\<lparr>bp_quarantine := q, bp_free_list := f\<rparr>)"

definition acquire :: "nat \<Rightarrow> buffer_pool \<Rightarrow> nat option \<times> buffer_pool" where
  "acquire now p =
    (let p' = reclaim_quarantined now p
     in case bp_free_list p' of
          [] \<Rightarrow> (None, p')
        | i # f \<Rightarrow> (Some i, p'\<lparr>bp_free_list := f\<rparr>))"

definition release :: "nat \<Rightarrow> nat \<Rightarrow> buffer_pool \<Rightarrow> buffer_pool" where
  "release idx gen p =
    (if gen \<noteq> bp_generation p then p else p\<lparr>bp_free_list := bp_free_list p @ [idx]\<rparr>)"

definition get_buffer_ptr :: "buffer_pool \<Rightarrow> nat \<Rightarrow> 64 word" where
  "get_buffer_ptr p idx = bp_base p + of_nat (idx * bp_buffer_size p)"

text \<open>\<open>as_iovecs\<close>: what is registered with the kernel, address and length of every buffer.\<close>

definition as_iovecs :: "buffer_pool \<Rightarrow> (64 word \<times> nat) list" where
  "as_iovecs p = map (\<lambda>i. (get_buffer_ptr p (i mod 2 ^ 16), bp_buffer_size p)) [0..<bp_buffer_count p]"

definition get_buffer_slice :: "buffer_pool \<Rightarrow> nat \<Rightarrow> nat \<Rightarrow> bytes" where
  "get_buffer_slice p idx len = take (min len (bp_buffer_size p)) (bp_mem p idx)"

text \<open>\<open>stats\<close>: total, free, quarantined, in use; the \<open>usize\<close> subtraction wraps.\<close>

definition pool_stats :: "buffer_pool \<Rightarrow> nat \<times> nat \<times> nat \<times> nat" where
  "pool_stats p =
    (let f = length (bp_free_list p); q = length (bp_quarantine p); n = bp_buffer_count p
     in (n, f, q, nat ((int n - int f - int q) mod 2 ^ 64)))"

definition avail :: "buffer_pool \<Rightarrow> nat multiset" where
  "avail p = mset (bp_free_list p) + mset (map fst (bp_quarantine p))"

section \<open>The allocator interface\<close>

text \<open>
  What a client of a buffer pool relies on: taking a buffer removes it from what is available,
  a pool refuses only when nothing is available, giving one back adds it. In the client
  lemmas \<open>K\<close> is the conserved collection of all buffers and \<open>out\<close> what the clients hold.
\<close>

locale buffer_allocator =
  fixes acq :: "'p \<Rightarrow> nat option \<times> 'p"
    and rel :: "nat \<Rightarrow> 'p \<Rightarrow> 'p"
    and pool_avail :: "'p \<Rightarrow> nat multiset"
    and invar :: "'p \<Rightarrow> bool"
  assumes acq_Some: "invar p \<Longrightarrow> acq p = (Some i, p') \<Longrightarrow> pool_avail p = add_mset i (pool_avail p')"
    and acq_None: "invar p \<Longrightarrow> acq p = (None, p') \<Longrightarrow> pool_avail p = {#} \<and> pool_avail p' = {#}"
    and rel_avail: "invar p \<Longrightarrow> pool_avail (rel i p) = add_mset i (pool_avail p)"
    and invar_acq: "invar p \<Longrightarrow> acq p = (r, p') \<Longrightarrow> invar p'"
    and invar_rel: "invar p \<Longrightarrow> invar (rel i p)"
begin

lemma acquire_conserves:
  assumes "invar p" and "pool_avail p + out = K" and "acq p = (Some i, p')"
  shows "pool_avail p' + add_mset i out = K"
  using assms acq_Some by fastforce

lemma release_conserves:
  assumes "invar p" and "pool_avail p + add_mset i out = K"
  shows "pool_avail (rel i p) + out = K"
  using assms by (simp add: rel_avail)

lemma acquire_exclusive:
  assumes "invar p" and "pool_avail p + out = mset_set {..<n}" and "acq p = (Some i, p')"
  shows "i \<notin># out" and "i \<notin># pool_avail p'" and "i < n"
proof -
  have "add_mset i (pool_avail p' + out) = mset_set {..<n}"
    using acquire_conserves [OF assms] by simp
  then have "count (pool_avail p' + out) i + 1 = count (mset_set {..<n}) i"
    by (metis count_add_mset Suc_eq_plus1)
  moreover have "count (mset_set {..<n}) i \<le> 1"
    by (simp add: count_mset_set')
  ultimately have "count (pool_avail p' + out) i = 0" and "count (mset_set {..<n}) i = 1"
    by linarith+
  then show "i \<notin># out" and "i \<notin># pool_avail p'" and "i < n"
    by (auto simp: count_mset_set' not_in_iff split: if_splits)
qed

lemma acquire_fails_iff: "invar p \<Longrightarrow> fst (acq p) = None \<longleftrightarrow> pool_avail p = {#}"
proof (cases "acq p")
  case (Pair r p')
  assume "invar p"
  with Pair show ?thesis
    using acq_Some [of p _ p'] acq_None [of p p'] by (cases r) auto
qed

end

section \<open>The pool is an allocator\<close>

lemma reclaim_loop_mset:
  "reclaim_loop now q f = (q', f') \<Longrightarrow>
     mset f' + mset (map fst q') = mset f + mset (map fst q)"
  by (induction now q f rule: reclaim_loop.induct) (auto split: if_splits)

lemma avail_reclaim [simp]: "avail (reclaim_quarantined now p) = avail p"
  by (auto simp: reclaim_quarantined_def avail_def split: prod.splits dest: reclaim_loop_mset)

lemma reclaim_loop_progress:
  assumes "\<forall>(i, t) \<in> set q. now - t \<ge> QUARANTINE_DURATION"
  shows "reclaim_loop now q f = ([], f @ map fst q)"
  using assms by (induction now q f rule: reclaim_loop.induct) auto

text \<open>
  Since \<open>release\<close> puts a buffer straight back on the free list, the quarantine of a pool
  that started empty stays empty: that is the pool's well-formedness.
\<close>

definition pool_wf :: "buffer_pool \<Rightarrow> bool" where
  "pool_wf p \<longleftrightarrow> bp_quarantine p = []"

lemma reclaim_empty [simp]: "pool_wf p \<Longrightarrow> reclaim_quarantined now p = p"
  by (simp add: pool_wf_def reclaim_quarantined_def)

lemma acquire_wf: "pool_wf p \<Longrightarrow> acquire now p = (case bp_free_list p of
    [] \<Rightarrow> (None, p) | i # f \<Rightarrow> (Some i, p\<lparr>bp_free_list := f\<rparr>))"
  by (simp add: acquire_def)

interpretation pool: buffer_allocator "acquire now" "\<lambda>i p. release i (bp_generation p) p" avail pool_wf
  by unfold_locales
    (auto simp: acquire_wf release_def avail_def pool_wf_def split: list.splits)

lemma pool_new_wf: "pool_new e bsize bcount = Inr p \<Longrightarrow> pool_wf p"
  by (auto simp: pool_new_def pool_wf_def split: if_splits sum.splits)

lemma acquire_frame [simp]:
  "bp_buffer_size (snd (acquire now p)) = bp_buffer_size p"
  "bp_buffer_count (snd (acquire now p)) = bp_buffer_count p"
  "bp_generation (snd (acquire now p)) = bp_generation p"
  "bp_mem (snd (acquire now p)) = bp_mem p"
  by (auto simp: acquire_def reclaim_quarantined_def Let_def split: prod.splits list.splits)

lemma release_frame [simp]:
  "bp_buffer_size (release i g p) = bp_buffer_size p"
  "bp_buffer_count (release i g p) = bp_buffer_count p"
  "bp_generation (release i g p) = bp_generation p"
  "bp_mem (release i g p) = bp_mem p"
  "bp_quarantine (release i g p) = bp_quarantine p"
  by (simp_all add: release_def)

end
