(* ===== verification/Fd_State.thy ===== *)
theory Fd_State
  imports Buffer_Pool "HOL-Library.AList"
begin

text \<open>
  The per-descriptor state machine and its manager (\<open>src/src/state.rs\<close>): in-flight count,
  queue of filled buffers, credit budget, generation and pause flag. Counts are natural
  numbers; the saturating \<open>u32\<close> operations and the wrapping sum are written out. The
  manager's \<open>HashMap\<close> is an association list with distinct keys.
\<close>

datatype socket_type = TcpStream | TcpListener | Udp | UnixStream | UnixListener | Other

definition DEFAULT_CREDIT_BUDGET :: nat where
  "DEFAULT_CREDIT_BUDGET = 64"

record fd_state =
  fs_inflight_count :: nat
  fs_buffer_queue :: "buffer_ref list"
  fs_credit_budget :: nat
  fs_generation_id :: nat
  fs_is_paused :: bool
  fs_socket_type :: socket_type

definition fd_state_new :: "nat \<Rightarrow> socket_type \<Rightarrow> fd_state" where
  "fd_state_new gen st = \<lparr>fs_inflight_count = 0, fs_buffer_queue = [],
     fs_credit_budget = DEFAULT_CREDIT_BUDGET, fs_generation_id = gen, fs_is_paused = False,
     fs_socket_type = st\<rparr>"

definition fs_used :: "fd_state \<Rightarrow> nat" where
  "fs_used s = (fs_inflight_count s + length (fs_buffer_queue s) mod 2 ^ 32) mod 2 ^ 32"

definition has_credit :: "fd_state \<Rightarrow> bool" where
  "has_credit s \<longleftrightarrow> fs_used s < fs_credit_budget s"

definition available_credit :: "fd_state \<Rightarrow> nat" where
  "available_credit s = fs_credit_budget s - fs_used s"

definition fs_should_submit_recv :: "fd_state \<Rightarrow> bool" where
  "fs_should_submit_recv s \<longleftrightarrow> \<not> fs_is_paused s \<and> has_credit s"

definition on_submit :: "fd_state \<Rightarrow> fd_state" where
  "on_submit s = s\<lparr>fs_inflight_count := min (fs_inflight_count s + 1) (2 ^ 32 - 1)\<rparr>"

definition on_completion :: "buffer_ref \<Rightarrow> fd_state \<Rightarrow> fd_state" where
  "on_completion b s = s\<lparr>fs_inflight_count := fs_inflight_count s - 1,
     fs_buffer_queue := fs_buffer_queue s @ [b]\<rparr>"

definition on_completion_empty :: "fd_state \<Rightarrow> fd_state" where
  "on_completion_empty s = s\<lparr>fs_inflight_count := fs_inflight_count s - 1\<rparr>"

definition take_buffer :: "fd_state \<Rightarrow> buffer_ref option \<times> fd_state" where
  "take_buffer s = (case fs_buffer_queue s of
      [] \<Rightarrow> (None, s) | b # bs \<Rightarrow> (Some b, s\<lparr>fs_buffer_queue := bs\<rparr>))"

definition fs_pause :: "fd_state \<Rightarrow> fd_state" where
  "fs_pause s = s\<lparr>fs_is_paused := True\<rparr>"

definition fs_resume :: "fd_state \<Rightarrow> fd_state" where
  "fs_resume s = s\<lparr>fs_is_paused := False\<rparr>"

definition is_valid_generation :: "nat \<Rightarrow> fd_state \<Rightarrow> bool" where
  "is_valid_generation gen s \<longleftrightarrow> fs_generation_id s = gen"

section \<open>The manager\<close>

record fd_manager =
  fm_states :: "(fd \<times> fd_state) list"
  fm_generation_id :: nat

definition fd_manager_new :: fd_manager where
  "fd_manager_new = \<lparr>fm_states = [], fm_generation_id = 1\<rparr>"

definition fm_lookup :: "fd_manager \<Rightarrow> fd \<Rightarrow> fd_state option" where
  "fm_lookup m = map_of (fm_states m)"

definition fm_increment_generation :: "fd_manager \<Rightarrow> fd_manager" where
  "fm_increment_generation m = m\<lparr>fm_generation_id := (fm_generation_id m + 1) mod 2 ^ 64\<rparr>"

definition fm_register :: "fd \<Rightarrow> socket_type \<Rightarrow> fd_manager \<Rightarrow> fd_manager" where
  "fm_register f st m =
    m\<lparr>fm_states := AList.update f (fd_state_new (fm_generation_id m) st) (fm_states m)\<rparr>"

definition fm_unregister :: "fd \<Rightarrow> fd_manager \<Rightarrow> buffer_ref list option \<times> fd_manager" where
  "fm_unregister f m =
    (map_option fs_buffer_queue (fm_lookup m f), m\<lparr>fm_states := AList.delete f (fm_states m)\<rparr>)"

text \<open>
  \<open>with_state_mut\<close>: the closure runs only on a registered descriptor of the current
  generation.
\<close>

definition fm_check :: "fd \<Rightarrow> fd_manager \<Rightarrow> exn + fd_state" where
  "fm_check f m = (case fm_lookup m f of
      None \<Rightarrow> Inl (runtime_error (Fd (''FD '' @ show_int f @ '' not registered'')))
    | Some s \<Rightarrow>
        if is_valid_generation (fm_generation_id m) s then Inr s
        else Inl (runtime_error (InvalidGeneration (fm_generation_id m) (fs_generation_id s))))"

definition with_state_mut :: "fd \<Rightarrow> (fd_state \<Rightarrow> fd_state) \<Rightarrow> (fd_manager, unit) pyM" where
  "with_state_mut f g m = (case fm_check f m of
      Inl e \<Rightarrow> (Inl e, m)
    | Inr s \<Rightarrow> (Inr (), m\<lparr>fm_states := AList.update f (g s) (fm_states m)\<rparr>))"

definition fm_should_submit_recv :: "fd \<Rightarrow> fd_manager \<Rightarrow> bool" where
  "fm_should_submit_recv f m = (case fm_lookup m f of
      None \<Rightarrow> False | Some s \<Rightarrow> fs_should_submit_recv s)"

definition fm_pause_reading :: "fd \<Rightarrow> (fd_manager, unit) pyM" where
  "fm_pause_reading f = with_state_mut f fs_pause"

definition fm_resume_reading :: "fd \<Rightarrow> (fd_manager, unit) pyM" where
  "fm_resume_reading f = with_state_mut f fs_resume"

definition invalidate_all :: "fd_manager \<Rightarrow> (fd \<times> buffer_ref list) list \<times> fd_manager" where
  "invalidate_all m =
    (map (\<lambda>(f, s). (f, fs_buffer_queue s)) (fm_states m), m\<lparr>fm_states := []\<rparr>)"

text \<open>\<open>stats\<close>: count, in flight, queued, paused.\<close>

definition fm_stats :: "fd_manager \<Rightarrow> nat \<times> nat \<times> nat \<times> nat" where
  "fm_stats m =
    (let ss = map snd (fm_states m)
     in (length ss, sum_list (map fs_inflight_count ss),
         sum_list (map (length \<circ> fs_buffer_queue) ss), length (filter fs_is_paused ss)))"

section \<open>Well-formedness and lookups\<close>

definition fm_wf :: "fd_manager \<Rightarrow> bool" where
  "fm_wf m \<longleftrightarrow> distinct (map fst (fm_states m))"

named_theorems fm_lookup_simps \<open>what a lookup gives after each operation\<close>

lemma lookup_register [fm_lookup_simps]:
  "fm_lookup (fm_register f st m) g =
     (if g = f then Some (fd_state_new (fm_generation_id m) st) else fm_lookup m g)"
  by (simp add: fm_lookup_def fm_register_def update_conv')

lemma lookup_unregister [fm_lookup_simps]:
  "fm_lookup (snd (fm_unregister f m)) g = (if g = f then None else fm_lookup m g)"
  by (simp add: fm_lookup_def fm_unregister_def delete_conv')

lemma lookup_update [fm_lookup_simps]:
  "fm_lookup (m\<lparr>fm_states := AList.update f s (fm_states m)\<rparr>) g =
     (if g = f then Some s else fm_lookup m g)"
  by (simp add: fm_lookup_def update_conv')

lemma lookup_with_state_mut:
  "with_state_mut f g m = (r, m') \<Longrightarrow> fm_lookup m' k =
     (if k = f \<and> r = Inr () then map_option g (fm_lookup m f) else fm_lookup m k)"
  by (auto simp: with_state_mut_def fm_check_def fm_lookup_simps split: option.splits if_splits
      sum.splits)

lemma fm_wf_register: "fm_wf m \<Longrightarrow> fm_wf (fm_register f st m)"
  by (simp add: fm_wf_def fm_register_def distinct_update)

lemma fm_wf_unregister: "fm_wf m \<Longrightarrow> fm_wf (snd (fm_unregister f m))"
  by (simp add: fm_wf_def fm_unregister_def distinct_delete)

lemma fm_wf_with_state_mut: "keeps fm_wf (with_state_mut f g)"
  by (auto simp: keeps_def fm_wf_def with_state_mut_def distinct_update split: sum.splits)

text \<open>A descriptor never uses more than its credit if submissions are guarded by the check.\<close>

lemma fs_used_small:
  "fs_inflight_count s + length (fs_buffer_queue s) < 2 ^ 32 \<Longrightarrow>
     fs_used s = fs_inflight_count s + length (fs_buffer_queue s)"
  by (simp add: fs_used_def)

definition credit_ok :: "fd_state \<Rightarrow> bool" where
  "credit_ok s \<longleftrightarrow> fs_credit_budget s \<le> DEFAULT_CREDIT_BUDGET \<and>
     fs_inflight_count s + length (fs_buffer_queue s) \<le> fs_credit_budget s"

lemma credit_ok_used: "credit_ok s \<Longrightarrow> fs_used s = fs_inflight_count s + length (fs_buffer_queue s)"
  by (rule fs_used_small) (simp add: credit_ok_def DEFAULT_CREDIT_BUDGET_def)

lemma credit_ok_new: "credit_ok (fd_state_new gen st)"
  by (simp add: credit_ok_def fd_state_new_def)

lemma credit_ok_submit: "credit_ok s \<Longrightarrow> fs_should_submit_recv s \<Longrightarrow> credit_ok (on_submit s)"
  using credit_ok_used [of s]
  by (auto simp: credit_ok_def fs_should_submit_recv_def has_credit_def on_submit_def min_def)

lemma credit_ok_completion: "credit_ok s \<Longrightarrow> 0 < fs_inflight_count s \<Longrightarrow> credit_ok (on_completion b s)"
  by (auto simp: credit_ok_def on_completion_def)

lemma credit_ok_other:
  "credit_ok s \<Longrightarrow> credit_ok (on_completion_empty s)"
  "credit_ok s \<Longrightarrow> credit_ok (fs_pause s)"
  "credit_ok s \<Longrightarrow> credit_ok (fs_resume s)"
  "credit_ok s \<Longrightarrow> credit_ok (snd (take_buffer s))"
  by (auto simp: credit_ok_def on_completion_empty_def fs_pause_def fs_resume_def take_buffer_def
      split: list.splits)

end
