(* ===== verification/Scheduler.thy ===== *)
theory Scheduler
  imports Prelude
begin

text \<open>
  The ready queue (\<open>src/src/scheduler.rs\<close>): a mutex-protected \<open>VecDeque\<close> of handles, pushed
  at the back and taken from the front, with the batch \<open>drain\<close> that swaps the whole queue for
  an empty one. The interface the event loop relies on is the locale \<open>ready_queue\<close>.
\<close>

type_synonym 'h scheduler = "'h list"

definition sched_new :: "'h scheduler" where
  "sched_new = []"

definition sched_push :: "'h \<Rightarrow> 'h scheduler \<Rightarrow> 'h scheduler" where
  "sched_push h q = q @ [h]"

definition sched_pop :: "'h scheduler \<Rightarrow> 'h option \<times> 'h scheduler" where
  "sched_pop q = (case q of [] \<Rightarrow> (None, []) | h # q' \<Rightarrow> (Some h, q'))"

definition sched_is_empty :: "'h scheduler \<Rightarrow> bool" where
  "sched_is_empty q \<longleftrightarrow> q = []"

definition sched_len :: "'h scheduler \<Rightarrow> nat" where
  "sched_len q = length q"

definition sched_drain :: "'h scheduler \<Rightarrow> 'h list \<times> 'h scheduler" where
  "sched_drain q = (if sched_is_empty q then ([], q) else (q, sched_new))"

definition sched_clear :: "'h scheduler \<Rightarrow> 'h scheduler" where
  "sched_clear q = []"

section \<open>The ready queue interface\<close>

locale ready_queue =
  fixes push :: "'h \<Rightarrow> 'q \<Rightarrow> 'q"
    and drain :: "'q \<Rightarrow> 'h list \<times> 'q"
    and len :: "'q \<Rightarrow> nat"
    and contents :: "'q \<Rightarrow> 'h list"
  assumes contents_push: "contents (push h q) = contents q @ [h]"
    and fst_drain: "fst (drain q) = contents q"
    and snd_drain: "contents (snd (drain q)) = []"
    and len_contents: "len q = length (contents q)"
begin

lemma contents_fold_push: "contents (fold push hs q) = contents q @ hs"
  by (induction hs arbitrary: q) (simp_all add: contents_push)

text \<open>Batch semantics: what is pushed while a batch runs is the next batch, in order.\<close>

lemma drain_after_pushes:
  "fst (drain (fold push hs q)) = contents q @ hs"
  "contents (fold push hs (snd (drain q))) = hs"
  by (simp_all add: fst_drain contents_fold_push snd_drain)

lemma len_fold_push: "len (fold push hs q) = len q + length hs"
  by (simp add: len_contents contents_fold_push)

lemma len_zero_iff: "len q = 0 \<longleftrightarrow> fst (drain q) = []"
  by (simp add: len_contents fst_drain)

end

interpretation sched: ready_queue sched_push sched_drain sched_len "\<lambda>q. q"
  by unfold_locales
    (auto simp: sched_push_def sched_drain_def sched_len_def sched_is_empty_def sched_new_def)

lemma sched_pop_push:
  "sched_pop (sched_push h q) =
    (case q of [] \<Rightarrow> (Some h, []) | g # q' \<Rightarrow> (Some g, sched_push h q'))"
  by (cases q) (simp_all add: sched_pop_def sched_push_def)

end
