(* ===== verification/Timer_Heap.thy ===== *)
theory Timer_Heap
  imports Prelude
begin

text \<open>
  The timer heap (\<open>src/src/timer.rs\<close>): a \<open>BinaryHeap\<close> of entries ordered by expiration, least
  first. Expirations are reals (finite floats; a NaN is outside the model). The heap is the
  list of its entries; \<open>heap_peek\<close> picks a least one. \<open>BinaryHeap\<close> does not say which of
  several equal entries comes first, so no theorem depends on the choice made here: they are
  proved in the locale \<open>timer_queue\<close>, whose laws leave it open.
\<close>

type_synonym 'h timer_heap = "(real \<times> 'h) list"

fun heap_peek :: "'h timer_heap \<Rightarrow> (real \<times> 'h) option" where
  "heap_peek [] = None"
| "heap_peek (x # xs) = (case heap_peek xs of
      None \<Rightarrow> Some x
    | Some y \<Rightarrow> if fst x \<le> fst y then Some x else Some y)"

fun heap_pop :: "'h timer_heap \<Rightarrow> 'h timer_heap" where
  "heap_pop [] = []"
| "heap_pop (x # xs) = (case heap_peek xs of
      None \<Rightarrow> []
    | Some y \<Rightarrow> if fst x \<le> fst y then xs else x # heap_pop xs)"

definition timer_push :: "real \<Rightarrow> 'h \<Rightarrow> 'h timer_heap \<Rightarrow> 'h timer_heap" where
  "timer_push expiration handle h = h @ [(expiration, handle)]"

lemma heap_peek_None [simp]: "heap_peek h = None \<longleftrightarrow> h = []"
  by (cases h) (auto split: option.splits)

lemma length_heap_pop: "h \<noteq> [] \<Longrightarrow> length (heap_pop h) < length h"
proof (induction h)
  case (Cons x xs)
  then show ?case by (cases "xs = []") (auto split: option.splits)
qed simp

text \<open>\<open>pop_expired\<close>: the \<open>while let Some(top) = heap.peek()\<close> loop.\<close>

function pop_expired :: "real \<Rightarrow> 'h timer_heap \<Rightarrow> 'h list \<times> 'h timer_heap" where
  "pop_expired now h = (case heap_peek h of
      None \<Rightarrow> ([], h)
    | Some first \<Rightarrow>
        if fst first \<le> now
        then (case pop_expired now (heap_pop h) of (hs, h') \<Rightarrow> (snd first # hs, h'))
        else ([], h))"
  by pat_completeness auto
termination
  by (relation "measure (length \<circ> snd)") (auto intro!: length_heap_pop)

declare pop_expired.simps [simp del]

definition next_expiration :: "'h timer_heap \<Rightarrow> real option" where
  "next_expiration h = map_option fst (heap_peek h)"

section \<open>The timer queue interface\<close>

locale timer_queue =
  fixes push :: "real \<Rightarrow> 'h \<Rightarrow> 'q \<Rightarrow> 'q"
    and peek :: "'q \<Rightarrow> (real \<times> 'h) option"
    and pop :: "'q \<Rightarrow> 'q"
    and expire :: "real \<Rightarrow> 'q \<Rightarrow> 'h list \<times> 'q"
    and entries :: "'q \<Rightarrow> (real \<times> 'h) multiset"
  assumes entries_push: "entries (push t h q) = add_mset (t, h) (entries q)"
    and peek_None: "peek q = None \<longleftrightarrow> entries q = {#}"
    and peek_in: "peek q = Some e \<Longrightarrow> e \<in># entries q"
    and peek_least: "peek q = Some e \<Longrightarrow> e' \<in># entries q \<Longrightarrow> fst e \<le> fst e'"
    and entries_pop: "peek q = Some e \<Longrightarrow> entries (pop q) = entries q - {#e#}"
    and expire_loop: "expire now q = (case peek q of
        None \<Rightarrow> ([], q)
      | Some first \<Rightarrow> if fst first \<le> now
          then (case expire now (pop q) of (hs, q') \<Rightarrow> (snd first # hs, q')) else ([], q))"
begin

text \<open>
  The whole effect of an expiry pass: there is an ordered list of entries, none later than
  \<open>now\<close>, whose handles are returned; they leave the queue and everything left is later.
\<close>

lemma expire_spec:
  "\<exists>es. fst (expire now q) = map snd es \<and> sorted (map fst es) \<and>
     entries q = mset es + entries (snd (expire now q)) \<and>
     (\<forall>e \<in> set es. fst e \<le> now) \<and> (\<forall>e \<in># entries (snd (expire now q)). now < fst e)"
proof (induction "size (entries q)" arbitrary: q rule: less_induct)
  case less
  show ?case
  proof (cases "peek q")
    case None
    then have "expire now q = ([], q)" by (subst expire_loop) simp
    with None show ?thesis by (intro exI [of _ "[]"]) (simp add: peek_None)
  next
    case (Some first)
    show ?thesis
    proof (cases "fst first \<le> now")
      case False
      with Some peek_least [OF Some] have "\<forall>e \<in># entries q. now < fst e" by force
      with Some False show ?thesis
        by (intro exI [of _ "[]"]) (simp add: expire_loop [of now q])
    next
      case True
      have q: "entries q = add_mset first (entries (pop q))"
        using peek_in [OF Some] entries_pop [OF Some] by simp
      then have "size (entries (pop q)) < size (entries q)" by simp
      from less [OF this] obtain es where es: "fst (expire now (pop q)) = map snd es"
        "sorted (map fst es)" "entries (pop q) = mset es + entries (snd (expire now (pop q)))"
        "\<forall>e \<in> set es. fst e \<le> now" "\<forall>e \<in># entries (snd (expire now (pop q))). now < fst e"
        by blast
      have "\<forall>e \<in> set es. fst first \<le> fst e"
        using es(3) q peek_least [OF Some] by auto
      moreover have "expire now q = (snd first # fst (expire now (pop q)), snd (expire now (pop q)))"
        using Some True by (subst expire_loop) (simp split: prod.splits)
      ultimately show ?thesis using True es q
        by (intro exI [of _ "first # es"]) auto
    qed
  qed
qed

lemma expire_idle: "\<forall>e \<in># entries q. now < fst e \<Longrightarrow> expire now q = ([], q)"
  by (subst expire_loop) (use peek_in in \<open>force split: option.splits\<close>)

lemma expire_twice: "expire now (snd (expire now q)) = ([], snd (expire now q))"
  using expire_spec [of now q] by (blast intro: expire_idle)

end

lemma heap_peek_in: "heap_peek h = Some e \<Longrightarrow> e \<in> set h"
  by (induction h arbitrary: e) (auto split: option.splits if_splits)

lemma heap_peek_least: "heap_peek h = Some e \<Longrightarrow> e' \<in> set h \<Longrightarrow> fst e \<le> fst e'"
  by (induction h arbitrary: e) (fastforce split: option.splits if_splits)+

lemma mset_heap_pop: "heap_peek h = Some e \<Longrightarrow> mset h = add_mset e (mset (heap_pop h))"
  by (induction h arbitrary: e) (auto split: option.splits if_splits)

section \<open>The order of the entries\<close>

text \<open>
  \<open>impl Ord for TimerEntry\<close>: the entry with the smaller expiration is the greater one, so that
  the max-heap \<open>BinaryHeap\<close> yields the earliest first. Entries with equal expirations compare as
  equal, whatever their handles, so this is a preorder. The peek of the model is a greatest entry in
  that order, which is all \<open>BinaryHeap\<close> promises.
\<close>

datatype 'h timer_entry = TimerEntry (expiration: real) (entry_handle: 'h)

definition entry_le :: "'h timer_entry \<Rightarrow> 'h timer_entry \<Rightarrow> bool" where
  "entry_le x y \<longleftrightarrow> expiration y \<le> expiration x"

instantiation timer_entry :: (type) preorder
begin

definition less_eq_timer_entry :: "'a timer_entry \<Rightarrow> 'a timer_entry \<Rightarrow> bool" where
  "x \<le> y \<longleftrightarrow> entry_le x y"

definition less_timer_entry :: "'a timer_entry \<Rightarrow> 'a timer_entry \<Rightarrow> bool" where
  "x < y \<longleftrightarrow> entry_le x y \<and> \<not> entry_le y (x :: 'a timer_entry)"

instance
  by intro_classes (auto simp: less_eq_timer_entry_def less_timer_entry_def entry_le_def)

end

lemma heap_peek_greatest:
  "heap_peek h = Some e \<Longrightarrow> e' \<in> set h \<Longrightarrow>
     TimerEntry (fst e') (snd e') \<le> TimerEntry (fst e) (snd e)"
  by (simp add: less_eq_timer_entry_def entry_le_def heap_peek_least)

section \<open>The heap is a timer queue\<close>

interpretation timers: timer_queue timer_push heap_peek heap_pop pop_expired mset
proof (unfold_locales, goal_cases)
  case (4 q e e') then show ?case using heap_peek_least by fastforce
next
  case (5 q e) then show ?case by (simp add: mset_heap_pop)
next
  case (6 now q) show ?case by (rule pop_expired.simps)
qed (auto simp: timer_push_def heap_peek_in)

end
