(* ===== verification/User_Data.thy ===== *)
theory User_Data
  imports Prelude
begin

unbundle bit_operations_syntax

text \<open>
  The 64-bit \<open>user_data\<close> tag of every submission (\<open>src/src/ring.rs\<close>): the operation types,
  the encoder, the accessors of a completion entry, and the buffer id in the completion flags.
  The encoding is proved to be a round trip on all three fields and so injective; the layout
  lemma says which bits carry what.
\<close>

section \<open>Operation types\<close>

datatype op_type =
    Recv | Send | Accept | Connect | Close | Timeout | RecvMulti | SendZC | AcceptMulti
  | RecvMsg | SendMsg | ProvideBuffer | FixedFdTable | Unknown

fun op_code :: "op_type \<Rightarrow> 8 word" where
  "op_code Recv = 0"
| "op_code Send = 1"
| "op_code Accept = 2"
| "op_code Connect = 3"
| "op_code Close = 4"
| "op_code Timeout = 5"
| "op_code RecvMulti = 6"
| "op_code SendZC = 7"
| "op_code AcceptMulti = 8"
| "op_code RecvMsg = 9"
| "op_code SendMsg = 10"
| "op_code ProvideBuffer = 11"
| "op_code FixedFdTable = 12"
| "op_code Unknown = 255"

definition from_u8 :: "8 word \<Rightarrow> op_type" where
  "from_u8 v =
    (if v = 0 then Recv else if v = 1 then Send else if v = 2 then Accept
     else if v = 3 then Connect else if v = 4 then Close else if v = 5 then Timeout
     else if v = 6 then RecvMulti else if v = 7 then SendZC else if v = 8 then AcceptMulti
     else if v = 9 then RecvMsg else if v = 10 then SendMsg else if v = 11 then ProvideBuffer
     else if v = 12 then FixedFdTable else Unknown)"

fun as_str :: "op_type \<Rightarrow> string" where
  "as_str Recv = ''recv''"
| "as_str Send = ''send''"
| "as_str Accept = ''accept''"
| "as_str Connect = ''connect''"
| "as_str Close = ''close''"
| "as_str Timeout = ''timeout''"
| "as_str RecvMulti = ''recv_multi''"
| "as_str SendZC = ''send_zc''"
| "as_str AcceptMulti = ''accept_multi''"
| "as_str RecvMsg = ''recvmsg''"
| "as_str SendMsg = ''sendmsg''"
| "as_str ProvideBuffer = ''provide_buffer''"
| "as_str FixedFdTable = ''fixed_fd_table''"
| "as_str Unknown = ''unknown''"

section \<open>Encoding and completion entries\<close>

definition encode_user_data :: "32 word \<Rightarrow> op_type \<Rightarrow> 16 word \<Rightarrow> 64 word" where
  "encode_user_data fd op gen =
     (ucast fd OR push_bit 32 (ucast (op_code op)) OR push_bit 48 (ucast gen))"

record completion_entry =
  ce_user_data :: "64 word"
  ce_result :: int
  ce_flags :: "32 word"
  ce_buffer_index :: "16 word option"

definition ce_fd :: "completion_entry \<Rightarrow> 32 word" where
  "ce_fd c = ucast (ce_user_data c AND 0xFFFFFFFF)"

definition ce_op_type :: "completion_entry \<Rightarrow> op_type" where
  "ce_op_type c = from_u8 (ucast (drop_bit 32 (ce_user_data c) AND 0xFF))"

definition ce_generation :: "completion_entry \<Rightarrow> 16 word" where
  "ce_generation c = ucast (drop_bit 48 (ce_user_data c) AND 0xFFFF)"

definition is_error :: "completion_entry \<Rightarrow> bool" where
  "is_error c \<longleftrightarrow> ce_result c < 0"

definition is_eof :: "completion_entry \<Rightarrow> bool" where
  "is_eof c \<longleftrightarrow> ce_result c = 0"

definition cqe_buffer_id :: "32 word \<Rightarrow> 16 word" where
  "cqe_buffer_id flags = ucast (drop_bit 16 flags)"

definition cqe_has_buffer :: "32 word \<Rightarrow> bool" where
  "cqe_has_buffer flags \<longleftrightarrow> flags AND 1 \<noteq> 0"

section \<open>Round trips\<close>

lemma from_u8_op_code [simp]: "from_u8 (op_code op) = op"
  by (cases op) (simp_all add: from_u8_def)

lemma as_str_inject: "as_str a = as_str b \<longleftrightarrow> a = b"
  by (cases a; cases b) simp_all

text \<open>Each field sits in bits of its own, so reading it back is bit arithmetic.\<close>

lemma bit_encode_user_data:
  "bit (encode_user_data fd op gen) n \<longleftrightarrow>
     n < 64 \<and> (bit fd n \<or> 32 \<le> n \<and> bit (op_code op) (n - 32) \<or> 48 \<le> n \<and> bit gen (n - 48))"
  by (auto simp: encode_user_data_def bit_or_iff bit_push_bit_iff bit_ucast_iff)

lemma decode_fd: "ucast (encode_user_data fd op gen AND 0xFFFFFFFF) = fd"
proof (rule bit_word_eqI)
  fix n assume "n < LENGTH(32)"
  moreover have "bit (0xFFFFFFFF :: 64 word) n \<longleftrightarrow> n < 32"
    using bit_mask_iff [where 'a = "64 word", of 32 n] by (auto simp: mask_numeral)
  ultimately show "bit (ucast (encode_user_data fd op gen AND 0xFFFFFFFF) :: 32 word) n = bit fd n"
    by (auto simp: bit_ucast_iff bit_and_iff bit_encode_user_data)
qed

lemma decode_op: "ucast (drop_bit 32 (encode_user_data fd op gen) AND 0xFF) = op_code op"
proof (rule bit_word_eqI)
  fix n assume n: "n < LENGTH(8)"
  moreover have "bit (0xFF :: 64 word) n \<longleftrightarrow> n < 8"
    using bit_mask_iff [where 'a = "64 word", of 8 n] by (auto simp: mask_numeral)
  moreover have "\<not> bit fd (32 + n)"
    using bit_imp_le_length [of fd "32 + n"] by auto
  ultimately show "bit (ucast (drop_bit 32 (encode_user_data fd op gen) AND 0xFF) :: 8 word) n
      = bit (op_code op) n"
    by (auto simp: bit_ucast_iff bit_and_iff bit_encode_user_data bit_drop_bit_eq)
qed

lemma decode_gen: "ucast (drop_bit 48 (encode_user_data fd op gen) AND 0xFFFF) = gen"
proof (rule bit_word_eqI)
  fix n assume n: "n < LENGTH(16)"
  moreover have "bit (0xFFFF :: 64 word) n \<longleftrightarrow> n < 16"
    using bit_mask_iff [where 'a = "64 word", of 16 n] by (auto simp: mask_numeral)
  moreover have "\<not> bit fd (48 + n)" and "\<not> bit (op_code op) (16 + n)"
    using bit_imp_le_length [of fd "48 + n"] bit_imp_le_length [of "op_code op" "16 + n"] by auto
  ultimately show "bit (ucast (drop_bit 48 (encode_user_data fd op gen) AND 0xFFFF) :: 16 word) n
      = bit gen n"
    by (auto simp: bit_ucast_iff bit_and_iff bit_encode_user_data bit_drop_bit_eq)
qed

text \<open>
  C26. The round trip: whatever descriptor, operation and generation a submission was tagged
  with, its completion entry gives back exactly these three, whatever the kernel's result and
  flags are.
\<close>

theorem user_data_roundtrip:
  "ce_fd c = fd \<and> ce_op_type c = op \<and> ce_generation c = gen"
  if "ce_user_data c = encode_user_data fd op gen"
  using that by (simp add: ce_fd_def ce_op_type_def ce_generation_def decode_fd decode_op decode_gen)

theorem user_data_roundtrip_witness:
  "ce_fd \<lparr>ce_user_data = encode_user_data 42 Recv 1, ce_result = 0, ce_flags = 0,
      ce_buffer_index = None\<rparr> = 42"
  using user_data_roundtrip [of _ 42 Recv 1] by simp

lemma encode_user_data_inject:
  "encode_user_data fd op gen = encode_user_data fd' op' gen' \<longleftrightarrow> fd = fd' \<and> op = op' \<and> gen = gen'"
  by (metis decode_fd decode_op decode_gen from_u8_op_code)

lemma op_bits:
  "drop_bit 32 (encode_user_data fd op gen) AND 0xFF = ucast (op_code op)"
  "drop_bit 40 (encode_user_data fd op gen) AND 0xFF = 0"
proof -
  have ff: "bit (0xFF :: 64 word) n \<longleftrightarrow> n < 8" for n
    using bit_mask_iff [where 'a = "64 word", of 8 n] by (auto simp: mask_numeral)
  have fd: "\<not> bit fd (32 + n)" for n
    using bit_imp_le_length [of fd "32 + n"] by auto
  have op: "bit (op_code op) n \<Longrightarrow> n < 8" for n
    using bit_imp_le_length [of "op_code op" n] by auto
  show "drop_bit 32 (encode_user_data fd op gen) AND 0xFF = ucast (op_code op)"
    by (rule bit_word_eqI)
      (auto simp: bit_and_iff bit_drop_bit_eq bit_encode_user_data ff fd bit_ucast_iff
        simp del: bit_numeral_word_iff dest: op)
  have fd': "\<not> bit fd (40 + n)" for n
    using bit_imp_le_length [of fd "40 + n"] by auto
  have op': "\<not> bit (op_code op) (8 + n)" for n
    using op [of "8 + n"] by auto
  show "drop_bit 40 (encode_user_data fd op gen) AND 0xFF = 0"
    by (rule bit_word_eqI)
      (auto simp: bit_and_iff bit_drop_bit_eq bit_encode_user_data ff fd' op'
        simp del: bit_numeral_word_iff)
qed

end
