(* ===== verification/Fixed_Fd.thy ===== *)
theory Fixed_Fd
  imports Prelude
begin

text \<open>
  The registered-file table (\<open>src/src/fixed_fd.rs\<close>): the map from descriptors to fixed
  indices, the mirror of the kernel's array, and the stack of free indices (a \<open>Vec\<close>, popped
  from its end). The invariant says the three agree; insert, remove and the two constructors
  keep it.
\<close>

record fixed_fd_table =
  ft_index_map :: "fd \<rightharpoonup> nat"
  ft_files :: "fd list"
  ft_free_indices :: "nat list"

definition fixed_new :: "nat \<Rightarrow> fixed_fd_table" where
  "fixed_new capacity = \<lparr>ft_index_map = Map.empty, ft_files = replicate capacity (- 1),
     ft_free_indices = rev [0..<capacity]\<rparr>"

text \<open>
  \<open>init_from_slice\<close>: entry \<open>i\<close> holds the \<open>i\<close>-th descriptor; of equal descriptors the last one
  wins the map.
\<close>

definition fixed_init :: "nat \<Rightarrow> fd list \<Rightarrow> fixed_fd_table" where
  "fixed_init capacity fds = \<lparr>
     ft_index_map = fold (\<lambda>i m. if fds ! i \<noteq> - 1 then m(fds ! i \<mapsto> i) else m) [0..<min capacity (length fds)] Map.empty,
     ft_files = map (\<lambda>i. if i < length fds then fds ! i else - 1) [0..<capacity],
     ft_free_indices = rev (filter (\<lambda>i. length fds \<le> i \<or> fds ! i = - 1) [0..<capacity])\<rparr>"

definition fixed_insert :: "fd \<Rightarrow> fixed_fd_table \<Rightarrow> nat option \<times> fixed_fd_table" where
  "fixed_insert f t = (case ft_index_map t f of
      Some idx \<Rightarrow> (Some idx, t)
    | None \<Rightarrow>
        if ft_free_indices t = [] then (None, t)
        else let idx = last (ft_free_indices t)
             in (Some idx, t\<lparr>ft_index_map := (ft_index_map t)(f \<mapsto> idx),
                  ft_files := (ft_files t)[idx := f],
                  ft_free_indices := butlast (ft_free_indices t)\<rparr>))"

definition fixed_remove :: "fd \<Rightarrow> fixed_fd_table \<Rightarrow> nat option \<times> fixed_fd_table" where
  "fixed_remove f t = (case ft_index_map t f of
      None \<Rightarrow> (None, t)
    | Some idx \<Rightarrow> (Some idx, t\<lparr>ft_index_map := (ft_index_map t)(f := None),
         ft_files := (ft_files t)[idx := - 1],
         ft_free_indices := ft_free_indices t @ [idx]\<rparr>))"

definition get_index :: "fd \<Rightarrow> fixed_fd_table \<Rightarrow> nat option" where
  "get_index f t = ft_index_map t f"

section \<open>Invariant\<close>

definition fixed_wf :: "fixed_fd_table \<Rightarrow> bool" where
  "fixed_wf t \<longleftrightarrow>
     distinct (ft_free_indices t) \<and> inj_on (ft_index_map t) (dom (ft_index_map t)) \<and>
     ran (ft_index_map t) \<inter> set (ft_free_indices t) = {} \<and>
     ran (ft_index_map t) \<union> set (ft_free_indices t) = {..<length (ft_files t)} \<and>
     (\<forall>f idx. ft_index_map t f = Some idx \<longrightarrow> ft_files t ! idx = f)"

lemma fixed_wf_new: "fixed_wf (fixed_new n)"
  by (auto simp: fixed_wf_def fixed_new_def)

lemma fixed_wf_insert:
  assumes wf: "fixed_wf t"
  shows "fixed_wf (snd (fixed_insert f t))"
proof (cases "ft_index_map t f = None \<and> ft_free_indices t \<noteq> []")
  case False
  with wf show ?thesis by (auto simp: fixed_insert_def split: option.splits)
next
  case True
  let ?fs = "ft_free_indices t"
  define idx where "idx = last ?fs"
  from True have fs: "?fs = butlast ?fs @ [idx]" by (simp add: idx_def)
  then have idx: "idx \<in> set ?fs" by (metis in_set_conv_decomp)
  from wf have "distinct ?fs" by (simp add: fixed_wf_def)
  with fs have d: "distinct (butlast ?fs)" "idx \<notin> set (butlast ?fs)"
    by (metis distinct_append, metis distinct_append disjoint_iff list.set_intros(1))
  from fs have s: "set ?fs = insert idx (set (butlast ?fs))" by (metis list.simps(15) rotate1.simps(2) set_rotate1)
  have new: "idx \<notin> ran (ft_index_map t)" and lt: "idx < length (ft_files t)"
    using wf idx by (auto simp: fixed_wf_def)
  have files: "ft_files t ! idx' = f'" "idx \<noteq> idx'" if "ft_index_map t f' = Some idx'" for f' idx'
    using wf new that by (auto simp: fixed_wf_def ran_def)
  have ran: "ran ((ft_index_map t)(f \<mapsto> idx)) = insert idx (ran (ft_index_map t))"
    using True by (simp add: ran_map_upd_Some)
  have inj: "inj_on ((ft_index_map t)(f \<mapsto> idx)) (dom ((ft_index_map t)(f \<mapsto> idx)))"
    using wf new by (intro inj_on_dom_map_upd) (auto simp: fixed_wf_def)
  have parts: "ran (ft_index_map t) \<inter> set (butlast ?fs) = {}"
    "insert idx (ran (ft_index_map t)) \<union> set (butlast ?fs) = {..<length (ft_files t)}"
    using wf s by (auto simp: fixed_wf_def)
  have "snd (fixed_insert f t) = t\<lparr>ft_index_map := (ft_index_map t)(f \<mapsto> idx),
      ft_files := (ft_files t)[idx := f], ft_free_indices := butlast ?fs\<rparr>"
    using True by (simp add: fixed_insert_def Let_def idx_def)
  with d inj parts show ?thesis
    unfolding fixed_wf_def ran by (simp add: ran files lt)
qed

lemma fixed_wf_remove:
  assumes wf: "fixed_wf t"
  shows "fixed_wf (snd (fixed_remove f t))"
proof (cases "ft_index_map t f")
  case None
  with wf show ?thesis by (simp add: fixed_remove_def)
next
  case (Some idx)
  from wf have inj: "inj_on (ft_index_map t) (dom (ft_index_map t))" by (simp add: fixed_wf_def)
  note r = ran_remove_inj [OF inj Some]
  have "idx \<noteq> idx'" if "ft_index_map t f' = Some idx'" "f' \<noteq> f" for f' idx'
    using inj Some that by (auto simp: inj_on_def dom_def)
  moreover have "idx \<in> ran (ft_index_map t)" using Some by (auto simp: ran_def)
  ultimately show ?thesis using wf Some inj_on_dom_fun_upd_None [OF inj, of f]
    by (auto simp: fixed_wf_def fixed_remove_def r)
qed


lemma fixed_init_map:
  assumes "m \<le> length fds" "distinct (filter (\<lambda>f. f \<noteq> - 1) fds)"
  shows "(fold (\<lambda>i t. if fds ! i \<noteq> - 1 then t(fds ! i \<mapsto> i) else t) [0..<m] Map.empty) f = Some i \<longleftrightarrow>
    i < m \<and> fds ! i = f \<and> f \<noteq> (- 1 :: fd)"
  using assms(1)
proof (induction m)
  case (Suc m)
  have uniq: "i = m" if "i < m" "fds ! i = fds ! m" "fds ! m \<noteq> - 1" for i
  proof -
    have "filter (\<lambda>f. f \<noteq> - 1) (take m fds) @ [fds ! m] = filter (\<lambda>f. f \<noteq> - 1) (take (Suc m) fds)"
      using Suc.prems that(3) by (simp add: take_Suc_conv_app_nth)
    moreover have "distinct (filter (\<lambda>f. f \<noteq> - 1) (take (Suc m) fds))"
      using assms(2) by (metis append_take_drop_id distinct_append filter_append)
    ultimately have "fds ! m \<notin> set (filter (\<lambda>f. f \<noteq> - 1) (take m fds))"
      by (metis distinct_append disjoint_insert(1) list.simps(15) not_distinct_conv_prefix)
    moreover have "fds ! i \<in> set (take m fds)" using that(1) Suc.prems by (metis in_set_conv_nth length_take min.absorb2 nth_take Suc_leD)
    ultimately show ?thesis using that by simp
  qed
  with Suc show ?case by (auto simp: less_Suc_eq)
qed simp

lemma fixed_wf_init:
  assumes "distinct (filter (\<lambda>f. f \<noteq> - 1) fds)"
  shows "fixed_wf (fixed_init capacity fds)"
proof -
  let ?t = "fixed_init capacity fds"
  have map: "ft_index_map ?t f = Some i \<longleftrightarrow> i < min capacity (length fds) \<and> fds ! i = f \<and> f \<noteq> - 1" for f i
    using fixed_init_map [OF min.cobounded2 assms] by (simp add: fixed_init_def)
  have ran: "ran (ft_index_map ?t) = {i. i < min capacity (length fds) \<and> fds ! i \<noteq> - 1}"
    by (auto simp: ran_def map)
  have inj: "inj_on (ft_index_map ?t) (dom (ft_index_map ?t))"
    by (rule inj_onI) (metis domD map)
  have free: "distinct (ft_free_indices ?t)"
    "set (ft_free_indices ?t) = {i. i < capacity \<and> (length fds \<le> i \<or> fds ! i = - 1)}"
    by (auto simp: fixed_init_def)
  have files: "length (ft_files ?t) = capacity" "i < capacity \<Longrightarrow> i < length fds \<Longrightarrow> ft_files ?t ! i = fds ! i" for i
    by (simp_all add: fixed_init_def)
  show ?thesis
    unfolding fixed_wf_def ran free(2) files(1) using inj free(1) map files(2) by auto
qed

end
