(* ===== verification/Ring.thy ===== *)
theory Ring
  imports User_Data Fixed_Fd Errors
begin

text \<open>
  The submission and completion rings (\<open>src/src/ring.rs\<close>). The kernel side is explicit state:
  \<open>rg_kernel\<close> holds the submissions the kernel has taken and not yet answered, \<open>rg_cq\<close> the
  completions it has posted, and \<open>rg_enter_err\<close> its answer to the next \<open>io_uring_enter\<close>.
\<close>

record sqe =
  sq_op :: op_type
  sq_fd :: fd
  sq_fixed :: "nat option" \<comment> \<open>the registered index when \<open>types::Fixed\<close> is used\<close>
  sq_buf :: "nat option" \<comment> \<open>the pool buffer the operation reads or writes\<close>
  sq_len :: nat
  sq_group :: "nat option" \<comment> \<open>the group of provided buffers\<close>
  sq_link :: bool \<comment> \<open>\<open>IOSQE_IO_LINK\<close>: tied to the next entry\<close>
  sq_time :: "(nat \<times> nat) option" \<comment> \<open>seconds and nanoseconds of a timeout\<close>
  sq_user_data :: "64 word"

record cqe =
  cq_user_data :: "64 word"
  cq_result :: int
  cq_flags :: "32 word"

record ring =
  rg_sq :: "sqe list"
  rg_sq_capacity :: nat
  rg_kernel :: "sqe list"
  rg_cq :: "cqe list"
  rg_enter_err :: "string option"
  rg_event_fd :: fd
  rg_sqpoll_enabled :: bool
  rg_generation_id :: nat
  rg_original_pid :: nat
  rg_is_active :: bool
  rg_buffers_registered :: bool
  rg_registered_fds :: "fixed_fd_table option"
  rg_provided_buf_group :: "nat option"
  rg_kernel_files :: "fd list option" \<comment> \<open>the kernel's table of registered files\<close>

definition ring_op_error :: "string \<Rightarrow> exn" where
  "ring_op_error msg = runtime_error (RingOp msg)"

definition generation_u16 :: "ring \<Rightarrow> 16 word" where
  "generation_u16 r = word_of_nat (rg_generation_id r)"

definition check_fork :: "nat \<Rightarrow> ring \<Rightarrow> bool" where
  "check_fork pid r \<longleftrightarrow> pid \<noteq> rg_original_pid r"

definition lookup_fixed :: "fd \<Rightarrow> ring \<Rightarrow> nat option" where
  "lookup_fixed f r = Option.bind (rg_registered_fds r) (get_index f)"

section \<open>Submission\<close>

text \<open>\<open>with_sq\<close> and the full check every \<open>prep_*\<close> makes before \<open>sq.push\<close>.\<close>

definition sq_push :: "sqe \<Rightarrow> (ring, unit) pyM" where
  "sq_push e r =
    (if length (rg_sq r) \<ge> rg_sq_capacity r then (Inl (ring_op_error ''SQ is full''), r)
     else (Inr (), r\<lparr>rg_sq := rg_sq r @ [e]\<rparr>))"

definition mk_sqe :: "op_type \<Rightarrow> fd \<Rightarrow> nat option \<Rightarrow> nat \<Rightarrow> 16 word \<Rightarrow> ring \<Rightarrow> sqe" where
  "mk_sqe op f buf len gen r =
    \<lparr>sq_op = op, sq_fd = f, sq_fixed = lookup_fixed f r, sq_buf = buf, sq_len = len,
     sq_group = None, sq_link = False, sq_time = None,
     sq_user_data = encode_user_data (word_of_int f) op gen\<rparr>"

definition prep_recv :: "fd \<Rightarrow> nat \<Rightarrow> nat \<Rightarrow> 16 word \<Rightarrow> (ring, unit) pyM" where
  "prep_recv f buf len gen r = sq_push (mk_sqe Recv f (Some buf) len gen r) r"

definition prep_send :: "fd \<Rightarrow> nat \<Rightarrow> nat \<Rightarrow> 16 word \<Rightarrow> (ring, unit) pyM" where
  "prep_send f buf len gen r = sq_push (mk_sqe Send f (Some buf) len gen r) r"

definition prep_accept :: "fd \<Rightarrow> 16 word \<Rightarrow> (ring, unit) pyM" where
  "prep_accept f gen r = sq_push (mk_sqe Accept f None 0 gen r) r"

definition prep_accept_multishot :: "fd \<Rightarrow> 16 word \<Rightarrow> (ring, unit) pyM" where
  "prep_accept_multishot f gen r = sq_push (mk_sqe AcceptMulti f None 0 gen r) r"

definition prep_recv_multishot :: "fd \<Rightarrow> nat \<Rightarrow> 16 word \<Rightarrow> (ring, unit) pyM" where
  "prep_recv_multishot f buf_group gen r = sq_push ((mk_sqe RecvMulti f None 0 gen r)\<lparr>sq_group := Some buf_group\<rparr>) r"

definition prep_send_zc :: "fd \<Rightarrow> nat \<Rightarrow> nat \<Rightarrow> 16 word \<Rightarrow> (ring, unit) pyM" where
  "prep_send_zc f buf len gen r = sq_push (mk_sqe SendZC f (Some buf) len gen r) r"

definition prep_close :: "fd \<Rightarrow> 16 word \<Rightarrow> (ring, unit) pyM" where
  "prep_close f gen r = sq_push ((mk_sqe Close f None 0 gen r)\<lparr>sq_fixed := None\<rparr>) r"

definition prep_recvmsg :: "fd \<Rightarrow> nat \<Rightarrow> nat \<Rightarrow> 16 word \<Rightarrow> (ring, unit) pyM" where
  "prep_recvmsg f buf len gen r = sq_push (mk_sqe RecvMsg f (Some buf) len gen r) r"

definition prep_sendmsg :: "fd \<Rightarrow> nat \<Rightarrow> 16 word \<Rightarrow> (ring, unit) pyM" where
  "prep_sendmsg f len gen r = sq_push (mk_sqe SendMsg f None len gen r) r"

definition ring_submit :: "(ring, nat) pyM" where
  "ring_submit r =
    (if rg_sq r = [] then (Inr 0, r)
     else (case rg_enter_err r of
        Some msg \<Rightarrow> (Inl (ring_op_error (''submit failed: '' @ msg)), r)
      | None \<Rightarrow> (Inr (length (rg_sq r)), r\<lparr>rg_kernel := rg_kernel r @ rg_sq r, rg_sq := []\<rparr>)))"

section \<open>Completion\<close>

definition entry_of :: "cqe \<Rightarrow> completion_entry" where
  "entry_of c = \<lparr>ce_user_data = cq_user_data c, ce_result = cq_result c, ce_flags = cq_flags c,
     ce_buffer_index =
       (if cqe_has_buffer (cq_flags c) then Some (cqe_buffer_id (cq_flags c)) else None)\<rparr>"

definition drain_cq :: "ring \<Rightarrow> completion_entry list \<times> ring" where
  "drain_cq r = (map entry_of (rg_cq r), r\<lparr>rg_cq := []\<rparr>)"

text \<open>The kernel answers one submission it holds: the only way a completion arises.\<close>

definition kernel_complete :: "nat \<Rightarrow> int \<Rightarrow> 32 word \<Rightarrow> ring \<Rightarrow> ring" where
  "kernel_complete i res flags r =
    (if i < length (rg_kernel r)
     then r\<lparr>rg_cq := rg_cq r @ [\<lparr>cq_user_data = sq_user_data (rg_kernel r ! i),
               cq_result = res, cq_flags = flags\<rparr>],
            rg_kernel := take i (rg_kernel r) @ drop (Suc i) (rg_kernel r)\<rparr>
     else r)"

definition ring_shutdown :: "ring \<Rightarrow> ring" where
  "ring_shutdown r = r\<lparr>rg_is_active := False, rg_buffers_registered := False,
     rg_registered_fds := None, rg_provided_buf_group := None,
     rg_kernel_files := (if rg_registered_fds r = None then rg_kernel_files r else None)\<rparr>"

section \<open>Every tag of a ring is well formed\<close>

definition sqe_ok :: "ring \<Rightarrow> sqe \<Rightarrow> bool" where
  "sqe_ok r e \<longleftrightarrow>
     (\<exists>gen. sq_user_data e = encode_user_data (word_of_int (sq_fd e)) (sq_op e) gen)"

lemmas prep_defs = prep_recv_def prep_send_def prep_accept_def prep_accept_multishot_def
  prep_close_def prep_recvmsg_def prep_sendmsg_def sq_push_def

lemma mk_sqe_ok: "sqe_ok r (mk_sqe op f buf len gen r')" "sqe_ok r ((mk_sqe op f buf len gen r')\<lparr>sq_fixed := None\<rparr>)"
  by (auto simp: sqe_ok_def mk_sqe_def)

lemma ring_submit_empties: "ring_submit r = (Inr n, r') \<Longrightarrow> rg_sq r' = [] \<and> rg_kernel r' = rg_kernel r @ rg_sq r"
  by (auto simp: ring_submit_def split: if_splits option.splits)

end
