(* ===== verification/Buf_Ring.thy ===== *)
theory Buf_Ring
  imports Prelude
begin

unbundle bit_operations_syntax

text \<open>
  The provided buffer ring (\<open>src/src/buf_ring.rs\<close>) and how the engine fills it when it is
  made (\<open>UringCore::new\<close> in \<open>src/src/lib.rs\<close>): a header and a power-of-two number of entries in
  one allocation, a 16-bit tail that wraps, and entries addressed by the tail's low bits. The
  allocation is a function from entry number to entry; \<open>entry_offset\<close> is the byte offset an entry
  is written at.
\<close>

record io_uring_buf =
  ib_addr :: "64 word"
  ib_len :: "32 word"
  ib_bid :: "16 word"

record pbuf_ring =
  pb_tail :: "16 word"
  pb_slots :: "nat \<Rightarrow> io_uring_buf"
  pb_ring_entries :: "16 word"
  pb_mask :: "16 word"
  pb_bgid :: "16 word"

definition header_size :: nat where
  "header_size = 16"

definition entry_size :: nat where
  "entry_size = 16"

definition total_size :: "16 word \<Rightarrow> nat" where
  "total_size n = header_size + entry_size * unat n"

definition entry_offset :: "nat \<Rightarrow> nat" where
  "entry_offset idx = header_size + entry_size * idx"

definition is_power_of_two :: "16 word \<Rightarrow> bool" where
  "is_power_of_two n \<longleftrightarrow> (\<exists>k \<in> set [0..<16]. unat n = 2 ^ k)"

text \<open>\<open>alloc\<close>: whether the allocation succeeds.\<close>

definition pbuf_new :: "bool \<Rightarrow> 16 word \<Rightarrow> 16 word \<Rightarrow> string + pbuf_ring" where
  "pbuf_new alloc n bgid =
    (if \<not> is_power_of_two n then Inl ''ring_entries must be a power of 2''
     else if \<not> alloc then Inl ''Failed to allocate ring memory''
     else Inr \<lparr>pb_tail = 0, pb_slots = (\<lambda>_. \<lparr>ib_addr = 0, ib_len = 0, ib_bid = 0\<rparr>), pb_ring_entries = n,
       pb_mask = n - 1, pb_bgid = bgid\<rparr>)"

definition slot_of :: "pbuf_ring \<Rightarrow> nat \<Rightarrow> nat" where
  "slot_of r i = unat ((pb_tail r + of_nat i) AND pb_mask r)"

definition add_buffers :: "16 word \<Rightarrow> (nat \<Rightarrow> io_uring_buf) \<Rightarrow> pbuf_ring \<Rightarrow> pbuf_ring" where
  "add_buffers cnt get_buf r = r\<lparr>
     pb_slots := fold (\<lambda>i slots. slots(slot_of r i := get_buf i)) [0..<unat cnt] (pb_slots r),
     pb_tail := pb_tail r + cnt\<rparr>"

text \<open>\<open>usize::next_power_of_two\<close>: doubling from 1.\<close>

function double_until :: "nat \<Rightarrow> nat \<Rightarrow> nat" where
  "double_until p n = (if n \<le> p \<or> p = 0 then p else double_until (2 * p) n)"
  by pat_completeness auto
termination
  by (relation "measure (\<lambda>(p, n). n - p)") auto

declare double_until.simps [simp del]

definition next_power_of_two :: "nat \<Rightarrow> nat" where
  "next_power_of_two n = double_until 1 n"

text \<open>
  The set-up: the ring gets \<open>buffer_count\<close> rounded up, cut to 16 bits, and every buffer of the pool;
  \<open>registered\<close> is the kernel's answer. A ring that cannot be made is left out.
\<close>

definition setup_pbuf_ring ::
  "bool \<Rightarrow> bool \<Rightarrow> (nat \<Rightarrow> 64 word) \<Rightarrow> nat \<Rightarrow> nat \<Rightarrow> pbuf_ring option" where
  "setup_pbuf_ring alloc registered buffer_ptr buffer_size buffer_count =
    (case pbuf_new alloc (of_nat (next_power_of_two buffer_count)) 1 of
       Inl _ \<Rightarrow> None
     | Inr pr \<Rightarrow>
         if registered
         then Some (add_buffers (of_nat buffer_count)
                (\<lambda>i. \<lparr>ib_addr = buffer_ptr i, ib_len = of_nat buffer_size, ib_bid = of_nat i\<rparr>) pr)
         else None)"

section \<open>Entries and the wrapping tail\<close>

definition pbuf_wf :: "pbuf_ring \<Rightarrow> bool" where
  "pbuf_wf r \<longleftrightarrow> is_power_of_two (pb_ring_entries r) \<and> pb_mask r = pb_ring_entries r - 1"

lemma pbuf_wf_new: "pbuf_new alloc n bgid = Inr r \<Longrightarrow> pbuf_wf r"
  by (auto simp: pbuf_new_def pbuf_wf_def split: if_splits)

lemma pbuf_wf_add: "pbuf_wf r \<Longrightarrow> pbuf_wf (add_buffers cnt get_buf r)"
  by (simp add: pbuf_wf_def add_buffers_def)

lemma unat_and_pow2:
  fixes x n :: "16 word"
  assumes "unat n = 2 ^ k" "k < 16"
  shows "unat (x AND (n - 1)) = unat x mod unat n"
proof -
  have "n = of_nat (unat n)" by simp
  also have "\<dots> = 2 ^ k" unfolding assms(1) by simp
  finally have "n = 2 ^ k" .
  then have "x AND (n - 1) = take_bit k x" by (simp add: take_bit_eq_mask mask_eq_exp_minus_1)
  then have "unat (x AND (n - 1)) = take_bit k (unat x)" by (simp add: unsigned_take_bit_eq)
  then show ?thesis using assms(1) by (simp add: take_bit_eq_mod)
qed

lemma slot_of_mod:
  assumes "pbuf_wf r"
  shows "slot_of r i = (unat (pb_tail r) + i) mod unat (pb_ring_entries r)"
proof -
  from assms obtain k where k: "unat (pb_ring_entries r) = 2 ^ k" "k < 16" "pb_mask r = pb_ring_entries r - 1"
    by (auto simp: pbuf_wf_def is_power_of_two_def)
  have "(2::nat) ^ k dvd 2 ^ 16" using k(2) by (intro le_imp_power_dvd) simp
  moreover have "unat (pb_tail r + of_nat i) = (unat (pb_tail r) + i) mod 2 ^ 16"
    by (simp add: unat_word_ariths unat_of_nat mod_add_right_eq)
  ultimately show ?thesis
    using unat_and_pow2 [OF k(1,2)] k by (simp add: slot_of_def mod_mod_cancel)
qed

lemma fold_upd_other:
  "j \<notin> g ` {..<m} \<Longrightarrow> fold (\<lambda>i f. f(g i := v i)) [0..<m] h j = h j"
  by (induction m) (auto simp: lessThan_Suc)

lemma fold_upd_at:
  assumes "inj_on g {..<m}" "i < m"
  shows "fold (\<lambda>i f. f(g i := v i)) [0..<m] h (g i) = v i"
  using assms
proof (induction m)
  case (Suc m)
  have inj: "inj_on g {..<m}" using Suc.prems(1) by (rule inj_on_subset) auto
  show ?case
  proof (cases "i = m")
    case False
    with Suc.prems have "i < m" "g i \<noteq> g m" by (auto dest: inj_onD)
    with Suc.IH [OF inj] show ?thesis by simp
  qed simp
qed simp

lemma mod_distinct:
  fixes n t i j :: nat
  assumes "i < n" "j < n" "(t + i) mod n = (t + j) mod n"
  shows "i = j"
proof (cases i j rule: linorder_cases)
  case less
  with assms have "n dvd j - i" using mod_eq_dvd_iff_nat [of "t + i" "t + j" n] by simp
  with less assms(2) show ?thesis by (auto dest: dvd_imp_le)
next
  case greater
  with assms have "n dvd i - j" using mod_eq_dvd_iff_nat [of "t + j" "t + i" n] by simp
  with greater assms(1) show ?thesis by (auto dest: dvd_imp_le)
qed

lemma slot_of_inj:
  assumes "pbuf_wf r" "m \<le> unat (pb_ring_entries r)"
  shows "inj_on (slot_of r) {..<m}"
proof (rule inj_onI)
  fix i j assume "i \<in> {..<m}" "j \<in> {..<m}" and eq: "slot_of r i = slot_of r j"
  then have "i < unat (pb_ring_entries r)" "j < unat (pb_ring_entries r)" using assms(2) by auto
  then show "i = j" using eq unfolding slot_of_mod [OF assms(1)] by (rule mod_distinct)
qed

text \<open>The rounding of the buffer count: a power of two that is large enough, and in 16 bits up to 32768.\<close>

lemma double_until_pow:
  assumes "n \<le> 2 ^ m" "k \<le> m"
  shows "\<exists>j. k \<le> j \<and> j \<le> m \<and> double_until (2 ^ k) n = 2 ^ j \<and> n \<le> 2 ^ j"
  using assms(2)
proof (induction "m - k" arbitrary: k)
  case 0
  then have "k = m" by simp
  with assms(1) show ?case by (auto simp: double_until.simps)
next
  case (Suc d)
  show ?case
  proof (cases "n \<le> 2 ^ k")
    case True
    with Suc.prems show ?thesis by (auto simp: double_until.simps)
  next
    case False
    have "\<exists>j. Suc k \<le> j \<and> j \<le> m \<and> double_until (2 ^ Suc k) n = 2 ^ j \<and> n \<le> 2 ^ j"
      using Suc.hyps(2) by (intro Suc.hyps(1)) simp_all
    with False show ?thesis by (subst double_until.simps) (auto intro: Suc_leD)
  qed
qed

lemma setup_fits:
  assumes "n \<le> 2 ^ 15"
  shows "is_power_of_two (of_nat (next_power_of_two n)) \<and>
    unat (of_nat n :: 16 word) \<le> unat (of_nat (next_power_of_two n) :: 16 word)"
proof -
  from double_until_pow [OF assms, of 0] obtain j where j: "j \<le> 15" "next_power_of_two n = 2 ^ j" "n \<le> 2 ^ j"
    by (auto simp: next_power_of_two_def)
  have "(2::nat) ^ j \<le> 2 ^ 15" using j(1) by (intro power_increasing) simp_all
  then have "unat (of_nat (2 ^ j) :: 16 word) = 2 ^ j" "unat (of_nat n :: 16 word) = n"
    using assms by (simp_all add: unat_of_nat del: of_nat_power)
  then show ?thesis using j by (auto simp: is_power_of_two_def simp del: of_nat_power)
qed

text \<open>
  C27. Filling the provided buffer ring: as long as no more buffers are added than the ring has
  entries, the \<open>i\<close>-th buffer is found in the entry after the tail by \<open>i\<close>, counted around the
  ring, also when the 16-bit tail wraps; no other entry changes, the tail advances by the number
  added, and no entry is written outside the allocation.
\<close>

theorem add_buffers_fills_ring:
  assumes wf: "pbuf_wf r" and fits: "unat cnt \<le> unat (pb_ring_entries r)"
    and r': "r' = add_buffers cnt get_buf r"
  shows "(\<forall>i < unat cnt. pb_slots r' ((unat (pb_tail r) + i) mod unat (pb_ring_entries r)) = get_buf i) \<and>
    (\<forall>j. (\<forall>i < unat cnt. j \<noteq> (unat (pb_tail r) + i) mod unat (pb_ring_entries r)) \<longrightarrow> pb_slots r' j = pb_slots r j) \<and>
    unat (pb_tail r') = (unat (pb_tail r) + unat cnt) mod 2 ^ 16 \<and> pbuf_wf r' \<and>
    (\<forall>i. entry_offset (slot_of r i) + entry_size \<le> total_size (pb_ring_entries r))"
proof -
  note inj = slot_of_inj [OF wf fits] and slot = slot_of_mod [OF wf]
  have pos: "0 < unat (pb_ring_entries r)" using wf by (auto simp: pbuf_wf_def is_power_of_two_def)
  have "entry_offset (slot_of r i) + entry_size \<le> total_size (pb_ring_entries r)" for i
    using mod_less_divisor [OF pos, of "unat (pb_tail r) + i"]
    by (simp add: slot entry_offset_def total_size_def entry_size_def)
  moreover have "pb_slots r' (slot_of r i) = get_buf i" if "i < unat cnt" for i
    using fold_upd_at [OF inj that] by (simp add: r' add_buffers_def)
  moreover have "pb_slots r' j = pb_slots r j" if "\<forall>i < unat cnt. j \<noteq> slot_of r i" for j
    using that fold_upd_other [of j "slot_of r" "unat cnt"] by (auto simp: r' add_buffers_def)
  moreover have "unat (pb_tail r') = (unat (pb_tail r) + unat cnt) mod 2 ^ 16"
    by (simp add: r' add_buffers_def unat_word_ariths)
  ultimately show ?thesis using pbuf_wf_add [OF wf] by (simp add: slot r')
qed

theorem add_buffers_fills_ring_witness:
  "\<exists>r. pbuf_new True 4 1 = Inr r \<and>
     pb_slots (add_buffers 2 (\<lambda>i. \<lparr>ib_addr = 0, ib_len = 8, ib_bid = of_nat i\<rparr>) (r\<lparr>pb_tail := 65535\<rparr>)) 0 =
       \<lparr>ib_addr = 0, ib_len = 8, ib_bid = 1\<rparr>"
proof -
  let ?r = "\<lparr>pb_tail = 0, pb_slots = (\<lambda>_. \<lparr>ib_addr = 0, ib_len = 0, ib_bid = 0\<rparr>), pb_ring_entries = 4,
       pb_mask = 3, pb_bgid = 1\<rparr> :: pbuf_ring"
  have new: "pbuf_new True 4 1 = Inr ?r" by (simp add: pbuf_new_def is_power_of_two_def upt_rec)
  have "pbuf_wf (?r\<lparr>pb_tail := 65535\<rparr>)" using pbuf_wf_new [OF new] by (simp add: pbuf_wf_def)
  from add_buffers_fills_ring [OF this _ refl, of 2 "\<lambda>i. \<lparr>ib_addr = 0, ib_len = 8, ib_bid = of_nat i\<rparr>",
      THEN conjunct1, rule_format, of 1] new
  show ?thesis by simp
qed

end
