(* ===== verification/Core.thy ===== *)
theory Core
  imports Buffer_Pool Fd_State Scheduler Timer_Heap Ring Buf_Ring
begin

text \<open>
  The engine \<open>UringCore\<close> (\<open>src/src/lib.rs\<close>): its maps and the operations the Python layer
  calls. \<open>'h\<close> is the type of handles in the ready queue and the timer heap, \<open>'c\<close> the type of
  reader and writer callbacks. Operations that can raise are in the monad of the prelude; the
  lenses \<open>on_ring\<close> and \<open>on_fds\<close> run an operation of a part on the whole. The phases of
  \<open>run_tick\<close> that touch only the engine (timers, draining, buffer handling, collecting
  futures) are here; the phases that call back into Python are in theory \<open>Event_Loop\<close>.
\<close>

section \<open>Values handed to Python\<close>

datatype addr =
    InetAddr string nat
  | Inet6Addr string nat nat nat
  | UnixPath string
  | UnixAbstract bytes

text \<open>What is handed to the kernel: \<open>SaUn\<close> carries all of \<open>sun_path\<close>.\<close>

datatype sockaddr = SaIn string nat | SaIn6 string nat nat nat | SaUn bytes

datatype pyval =
    VNone
  | VInt int
  | VBytes bytes
  | VDatagram bytes "addr option" \<comment> \<open>the pair of data and address of \<open>recvmsg\<close>\<close>
  | VObj nat \<comment> \<open>any other Python object\<close>

fun truthy :: "pyval \<Rightarrow> bool" where
  "truthy VNone = False"
| "truthy (VInt i) = (i \<noteq> 0)"
| "truthy (VBytes b) = (b \<noteq> [])"
| "truthy (VDatagram _ _) = True"
| "truthy (VObj _) = True"

section \<open>State\<close>

record ('h, 'c) uring_core =
  uc_ring :: ring
  uc_buffer_pool :: buffer_pool
  uc_fd_states :: fd_manager
  uc_inflight_recv_buffers :: "fd \<rightharpoonup> nat"
  uc_timers :: "'h timer_heap"
  uc_scheduler :: "'h scheduler"
  uc_futures :: "fd \<rightharpoonup> fut_id"
  uc_readers :: "fd \<rightharpoonup> 'c"
  uc_writers :: "fd \<rightharpoonup> 'c"
  uc_recvmsg_states :: "fd \<rightharpoonup> addr option" \<comment> \<open>the peer address the kernel filled in\<close>
  uc_sendmsg_states :: "fd \<rightharpoonup> bytes \<times> sockaddr"
  uc_pbuf_ring :: "pbuf_ring option"
  uc_stopping :: bool
  uc_clock :: nat \<comment> \<open>\<open>Instant::now()\<close> in nanoseconds\<close>

definition on_ring :: "(ring, 'a) pyM \<Rightarrow> (('h, 'c) uring_core, 'a) pyM" where
  "on_ring m c = (case m (uc_ring c) of (r, g) \<Rightarrow> (r, c\<lparr>uc_ring := g\<rparr>))"

definition on_fds :: "(fd_manager, 'a) pyM \<Rightarrow> (('h, 'c) uring_core, 'a) pyM" where
  "on_fds m c = (case m (uc_fd_states c) of (r, g) \<Rightarrow> (r, c\<lparr>uc_fd_states := g\<rparr>))"

definition core_acquire :: "(('h, 'c) uring_core, nat option) pyM" where
  "core_acquire c = (case acquire (uc_clock c) (uc_buffer_pool c) of
      (r, p) \<Rightarrow> (Inr r, c\<lparr>uc_buffer_pool := p\<rparr>))"

text \<open>\<open>self.buffer_pool.release(idx, self.buffer_pool.generation_id())\<close>.\<close>

definition pool_release :: "nat \<Rightarrow> ('h, 'c) uring_core \<Rightarrow> ('h, 'c) uring_core" where
  "pool_release idx c = c\<lparr>uc_buffer_pool :=
     release idx (bp_generation (uc_buffer_pool c)) (uc_buffer_pool c)\<rparr>"

section \<open>Registration\<close>

definition socket_type_of :: "string \<Rightarrow> socket_type" where
  "socket_type_of s =
    (if s = ''tcp'' then TcpStream else if s = ''tcp_listener'' then TcpListener
     else if s = ''udp'' then Udp else if s = ''unix'' then UnixStream
     else if s = ''unix_listener'' then UnixListener else Other)"

definition register_fd :: "fd \<Rightarrow> string \<Rightarrow> ('h, 'c) uring_core \<Rightarrow> ('h, 'c) uring_core" where
  "register_fd f st c = c\<lparr>uc_fd_states := fm_register f (socket_type_of st) (uc_fd_states c)\<rparr>"

definition release_inflight :: "fd \<Rightarrow> ('h, 'c) uring_core \<Rightarrow> ('h, 'c) uring_core" where
  "release_inflight f c = (case uc_inflight_recv_buffers c f of
      None \<Rightarrow> c
    | Some idx \<Rightarrow> pool_release idx
        (c\<lparr>uc_inflight_recv_buffers := (uc_inflight_recv_buffers c)(f := None)\<rparr>))"

definition unregister_fd :: "fd \<Rightarrow> ('h, 'c) uring_core \<Rightarrow> ('h, 'c) uring_core" where
  "unregister_fd f c =
    (let c1 = release_inflight f c;
         (bufs, m) = fm_unregister f (uc_fd_states c1);
         c2 = c1\<lparr>uc_fd_states := m\<rparr>
     in case bufs of
          None \<Rightarrow> c2
        | Some bs \<Rightarrow> fold (\<lambda>b. pool_release (br_index b)) bs c2)"

definition pause_reading :: "fd \<Rightarrow> (('h, 'c) uring_core, unit) pyM" where
  "pause_reading f = on_fds (fm_pause_reading f)"

definition resume_reading :: "fd \<Rightarrow> (('h, 'c) uring_core, unit) pyM" where
  "resume_reading f = on_fds (fm_resume_reading f)"

definition buffer_stats :: "('h, 'c) uring_core \<Rightarrow> nat \<times> nat \<times> nat \<times> nat" where
  "buffer_stats c = pool_stats (uc_buffer_pool c)"

definition fd_stats :: "('h, 'c) uring_core \<Rightarrow> nat \<times> nat \<times> nat \<times> nat" where
  "fd_stats c = fm_stats (uc_fd_states c)"

section \<open>Submission\<close>

definition ring_gen :: "('h, 'c) uring_core \<Rightarrow> 16 word" where
  "ring_gen c = generation_u16 (uc_ring c)"

definition track_recv :: "fd \<Rightarrow> nat \<Rightarrow> ('h, 'c) uring_core \<Rightarrow> ('h, 'c) uring_core" where
  "track_recv f idx c =
    (let c' = c\<lparr>uc_inflight_recv_buffers := (uc_inflight_recv_buffers c)(f \<mapsto> idx)\<rparr>
     in case uc_inflight_recv_buffers c f of None \<Rightarrow> c' | Some old \<Rightarrow> pool_release old c')"

definition future_insert :: "fd \<Rightarrow> fut_id \<Rightarrow> ('h, 'c) uring_core \<Rightarrow> ('h, 'c) uring_core" where
  "future_insert f fut c = c\<lparr>uc_futures := (uc_futures c)(f \<mapsto> fut)\<rparr>"

definition future_remove :: "fd \<Rightarrow> ('h, 'c) uring_core \<Rightarrow> ('h, 'c) uring_core" where
  "future_remove f c = c\<lparr>uc_futures := (uc_futures c)(f := None)\<rparr>"

fun prefix_error :: "string \<Rightarrow> exn \<Rightarrow> exn" where
  "prefix_error pre (RuntimeError msg) = RuntimeError (pre @ msg)"
| "prefix_error pre e = e"

definition with_prefix :: "string \<Rightarrow> ('s, 'a) pyM \<Rightarrow> ('s, 'a) pyM" where
  "with_prefix pre m = tryM m (\<lambda>_. True) (\<lambda>e. raise (prefix_error pre e))"

definition flush :: "(('h, 'c) uring_core, unit) pyM" where
  "flush = bindM (on_ring ring_submit) (\<lambda>_. ret ())"

definition submit_recv :: "fd \<Rightarrow> fut_id \<Rightarrow> (('h, 'c) uring_core, unit) pyM" where
  "submit_recv f fut =
    bindM (getM (\<lambda>c. fm_should_submit_recv f (uc_fd_states c))) (\<lambda>ok.
    if \<not> ok then ret ()
    else bindM core_acquire (\<lambda>r. case r of
        None \<Rightarrow> raise (RuntimeError ''No buffers available for recv'')
      | Some idx \<Rightarrow>
          seqM (on_error (on_fds (with_state_mut f on_submit)) (pool_release idx))
         (seqM (modM (future_insert f fut))
         (seqM (on_error (bindM (getM (\<lambda>c. (bp_buffer_size (uc_buffer_pool c), ring_gen c)))
                  (\<lambda>(len, gen). on_ring (prep_recv f idx len gen)))
                 (future_remove f \<circ> pool_release idx))
         (seqM (modM (track_recv f idx)) flush)))))"

definition submit_recvfrom :: "fd \<Rightarrow> fut_id \<Rightarrow> (('h, 'c) uring_core, unit) pyM" where
  "submit_recvfrom f fut =
    bindM (getM (\<lambda>c. fm_should_submit_recv f (uc_fd_states c))) (\<lambda>ok.
    if \<not> ok then ret ()
    else bindM core_acquire (\<lambda>r. case r of
        None \<Rightarrow> raise (RuntimeError ''No buffers available for recvfrom'')
      | Some idx \<Rightarrow>
          seqM (on_error (on_fds (with_state_mut f on_submit)) (pool_release idx))
         (seqM (modM (future_insert f fut))
         (seqM (on_error (bindM (getM (\<lambda>c. (bp_buffer_size (uc_buffer_pool c), ring_gen c)))
                  (\<lambda>(len, gen). with_prefix ''prep_recvmsg failed: ''
                     (on_ring (prep_recvmsg f idx len gen))))
                 (future_remove f \<circ> pool_release idx))
         (seqM (modM (\<lambda>c. c\<lparr>uc_recvmsg_states := (uc_recvmsg_states c)(f \<mapsto> None)\<rparr>))
         (seqM (modM (track_recv f idx)) flush))))))"

text \<open>
  \<open>submit_send\<close>. The slice taken from the buffer is at most \<open>buffer_size\<close> long, and
  \<open>copy_from_slice\<close> panics on a length mismatch.
\<close>

definition submit_send :: "fd \<Rightarrow> bytes \<Rightarrow> fut_id \<Rightarrow> (('h, 'c) uring_core, unit) pyM" where
  "submit_send f data fut =
    bindM core_acquire (\<lambda>r. case r of
        None \<Rightarrow> raise (RuntimeError ''No buffers available'')
      | Some idx \<Rightarrow>
          bindM (getM (\<lambda>c. bp_buffer_size (uc_buffer_pool c))) (\<lambda>len.
          if length data > len then raise PanicException
          else
           seqM (modM (\<lambda>c. c\<lparr>uc_buffer_pool := (uc_buffer_pool c)\<lparr>bp_mem :=
                   (bp_mem (uc_buffer_pool c))(idx :=
                      data @ drop (length data) (bp_mem (uc_buffer_pool c) idx))\<rparr>\<rparr>))
          (seqM (modM (future_insert f fut))
          (seqM (on_error (bindM (getM ring_gen) (\<lambda>gen. on_ring (prep_send f idx (length data) gen)))
                  (future_remove f \<circ> pool_release idx))
           flush))))"

definition submit_accept :: "fd \<Rightarrow> fut_id \<Rightarrow> (('h, 'c) uring_core, unit) pyM" where
  "submit_accept f fut =
    bindM (getM ring_gen) (\<lambda>gen.
    seqM (modM (future_insert f fut))
   (seqM (on_error (on_ring (prep_accept f gen)) (future_remove f))
    flush))"

definition submit_close :: "fd \<Rightarrow> (('h, 'c) uring_core, unit) pyM" where
  "submit_close f = bindM (getM ring_gen) (\<lambda>gen. seqM (on_ring (prep_close f gen)) flush)"

text \<open>
  The address of a datagram. \<open>v4\<close> and \<open>v6\<close> are the parsers of \<open>std::net\<close>, which accept or refuse a
  host string. A Unix path of at most 107 bytes is copied into the zeroed 108 bytes of
  \<open>sun_path\<close>, and \<open>msg_namelen\<close> always covers all of them.
\<close>

definition SUN_PATH_LEN :: nat where "SUN_PATH_LEN = 108"

definition unix_sockaddr :: "bytes \<Rightarrow> exn + sockaddr" where
  "unix_sockaddr path =
    (if length path \<ge> SUN_PATH_LEN then Inl (ValueError ''UNIX socket path too long'')
     else Inr (SaUn (path @ replicate (SUN_PATH_LEN - length path) 0)))"

definition encode_addr :: "(string \<Rightarrow> bool) \<Rightarrow> (string \<Rightarrow> bool) \<Rightarrow> addr \<Rightarrow> exn + sockaddr" where
  "encode_addr v4 v6 a = (case a of
      InetAddr host port \<Rightarrow>
        if port \<ge> 2 ^ 16 then Inl (OverflowError ''port'')
        else if v4 host then Inr (SaIn host port) else Inl (ValueError ''Invalid IPv4 address'')
    | Inet6Addr host port flow scope \<Rightarrow>
        if port \<ge> 2 ^ 16 then Inl (OverflowError ''port'')
        else if flow \<ge> 2 ^ 32 then Inl (OverflowError ''flowinfo'')
        else if scope \<ge> 2 ^ 32 then Inl (OverflowError ''scope_id'')
        else if v6 host then Inr (SaIn6 host port flow scope)
        else Inl (ValueError ''Invalid IPv6 address'')
    | UnixPath p \<Rightarrow> unix_sockaddr (map of_char p)
    | UnixAbstract b \<Rightarrow> unix_sockaddr b)"

text \<open>\<open>submit_sendto\<close>: the future is stored last, after the flush.\<close>

definition submit_sendto ::
  "(string \<Rightarrow> bool) \<Rightarrow> (string \<Rightarrow> bool) \<Rightarrow> fd \<Rightarrow> bytes \<Rightarrow> addr \<Rightarrow> fut_id \<Rightarrow> (('h, 'c) uring_core, unit) pyM" where
  "submit_sendto v4 v6 f data a fut = (case encode_addr v4 v6 a of
      Inl e \<Rightarrow> raise e
    | Inr sa \<Rightarrow>
    bindM (getM ring_gen) (\<lambda>gen.
    seqM (with_prefix ''prep_sendmsg failed: '' (on_ring (prep_sendmsg f (length data) gen)))
   (seqM (modM (\<lambda>c. c\<lparr>uc_sendmsg_states := (uc_sendmsg_states c)(f \<mapsto> (data, sa))\<rparr>))
   (seqM flush (modM (future_insert f fut))))))"

definition core_shutdown :: "('h, 'c) uring_core \<Rightarrow> ('h, 'c) uring_core" where
  "core_shutdown c = c\<lparr>uc_ring := ring_shutdown (uc_ring c)\<rparr>"

section \<open>Timers, ready queue, readers and writers\<close>

definition push_timer :: "real \<Rightarrow> 'h \<Rightarrow> ('h, 'c) uring_core \<Rightarrow> ('h, 'c) uring_core" where
  "push_timer t h c = c\<lparr>uc_timers := timer_push t h (uc_timers c)\<rparr>"

definition push_task :: "'h \<Rightarrow> ('h, 'c) uring_core \<Rightarrow> ('h, 'c) uring_core" where
  "push_task h c = c\<lparr>uc_scheduler := sched_push h (uc_scheduler c)\<rparr>"

definition ready_len :: "('h, 'c) uring_core \<Rightarrow> nat" where
  "ready_len c = sched_len (uc_scheduler c)"

definition core_add_reader :: "fd \<Rightarrow> 'c \<Rightarrow> ('h, 'c) uring_core \<Rightarrow> ('h, 'c) uring_core" where
  "core_add_reader f cb c = c\<lparr>uc_readers := (uc_readers c)(f \<mapsto> cb)\<rparr>"

definition core_remove_reader :: "fd \<Rightarrow> ('h, 'c) uring_core \<Rightarrow> ('h, 'c) uring_core" where
  "core_remove_reader f c = c\<lparr>uc_readers := (uc_readers c)(f := None)\<rparr>"

definition core_add_writer :: "fd \<Rightarrow> 'c \<Rightarrow> ('h, 'c) uring_core \<Rightarrow> ('h, 'c) uring_core" where
  "core_add_writer f cb c = c\<lparr>uc_writers := (uc_writers c)(f \<mapsto> cb)\<rparr>"

definition core_remove_writer :: "fd \<Rightarrow> ('h, 'c) uring_core \<Rightarrow> ('h, 'c) uring_core" where
  "core_remove_writer f c = c\<lparr>uc_writers := (uc_writers c)(f := None)\<rparr>"

section \<open>The engine's phases of a tick\<close>

record item =
  it_fd :: fd
  it_result :: int
  it_op :: op_type
  it_data :: "pyval option"

text \<open>Step 1: expired timers go to the ready queue.\<close>

definition tick_timers :: "real \<Rightarrow> ('h, 'c) uring_core \<Rightarrow> ('h, 'c) uring_core" where
  "tick_timers now c =
    (case pop_expired now (uc_timers c) of (hs, t) \<Rightarrow>
       fold push_task hs (c\<lparr>uc_timers := t\<rparr>))"

text \<open>Step 2: submit what is pending and take the completions.\<close>

definition tick_drain :: "(('h, 'c) uring_core, completion_entry list) pyM" where
  "tick_drain = seqM flush (\<lambda>c. case drain_cq (uc_ring c) of (es, r) \<Rightarrow> (Inr es, c\<lparr>uc_ring := r\<rparr>))"

text \<open>Phase 1 for one completion: data extraction and buffer release.\<close>

definition recv_data :: "op_type \<Rightarrow> int \<Rightarrow> bytes \<Rightarrow> addr option \<Rightarrow> pyval option" where
  "recv_data op res sl a =
    (if res > 0 then (case a of
        Some ad \<Rightarrow> Some (VDatagram sl (Some ad))
      | None \<Rightarrow> Some (VBytes sl))
     else None)"

definition phase1 :: "completion_entry \<Rightarrow> ('h, 'c) uring_core \<Rightarrow> item \<times> ('h, 'c) uring_core" where
  "phase1 e c =
    (let f = sint (ce_fd e); res = ce_result e; op = ce_op_type e;
         multi = (if op = RecvMulti \<and> res > 0
                  then map_option (\<lambda>b. VBytes (get_buffer_slice (uc_buffer_pool c) (unat b) (nat res)))
                         (ce_buffer_index e)
                  else None);
         mk = (\<lambda>d. \<lparr>it_fd = f, it_result = res, it_op = op, it_data = d\<rparr>)
     in if op = SendMsg
        then (mk (Some (VInt res)), c\<lparr>uc_sendmsg_states := (uc_sendmsg_states c)(f := None)\<rparr>)
        else if op = Recv \<or> op = RecvMsg
        then (case uc_inflight_recv_buffers c f of
            None \<Rightarrow> (mk multi, c)
          | Some idx \<Rightarrow>
              let c1 = c\<lparr>uc_inflight_recv_buffers := (uc_inflight_recv_buffers c)(f := None)\<rparr>;
                  a = (if op = RecvMsg \<and> res > 0 then Option.bind (uc_recvmsg_states c f) id else None);
                  c2 = (if op = RecvMsg
                        then c1\<lparr>uc_recvmsg_states := (uc_recvmsg_states c1)(f := None)\<rparr> else c1);
                  d = recv_data op res (get_buffer_slice (uc_buffer_pool c) idx (nat res)) a
              in (mk d, pool_release idx c2))
        else (mk multi, c))"

fun phase1_all :: "completion_entry list \<Rightarrow> ('h, 'c) uring_core \<Rightarrow> item list \<times> ('h, 'c) uring_core" where
  "phase1_all [] c = ([], c)"
| "phase1_all (e # es) c =
    (case phase1 e c of (i, c') \<Rightarrow> case phase1_all es c' of (is, c'') \<Rightarrow> (i # is, c''))"

text \<open>Phase 2: the futures of the completed descriptors leave the map.\<close>

fun phase2 :: "fd list \<Rightarrow> ('h, 'c) uring_core \<Rightarrow> (fd \<rightharpoonup> fut_id) \<Rightarrow> (fd \<rightharpoonup> fut_id) \<times> ('h, 'c) uring_core" where
  "phase2 [] c res = (res, c)"
| "phase2 (f # fs) c res = (case uc_futures c f of
      None \<Rightarrow> phase2 fs c res
    | Some fut \<Rightarrow> phase2 fs (future_remove f c) (res(f \<mapsto> fut)))"

text \<open>
  Everything of \<open>run_tick\<close> before Python is called: the completed items in order, and the
  futures taken out of the map for them.
\<close>

definition tick_core :: "real \<Rightarrow> (('h, 'c) uring_core, item list \<times> (fd \<rightharpoonup> fut_id)) pyM" where
  "tick_core now =
    seqM (modM (tick_timers now))
   (bindM tick_drain (\<lambda>es c.
     case phase1_all es c of (items, c1) \<Rightarrow>
     case phase2 (map it_fd items) c1 Map.empty of (futs, c2) \<Rightarrow> (Inr (items, futs), c2)))"

section \<open>Construction\<close>

text \<open>
  \<open>UringCore::new\<close>. The kernel's answers are arguments: to the ring setup, to \<open>mmap\<close>, to
  the buffer registration (\<open>Some 12\<close> is \<open>ENOMEM\<close>, which gets its own text), the eventfd and
  the process id. A kernel without \<open>SQPOLL\<close> falls back to the plain ring; a provided buffer ring that
  cannot be made or registered is left out. The kernel rounds the ring's size up to a power of two.
\<close>

record kernel_answers =
  ka_sqpoll_ok :: bool \<comment> \<open>whether a ring with \<open>SQPOLL\<close> can be made\<close>
  ka_ring_err :: "string option"
  ka_eventfd :: "string + fd"
  ka_register_eventfd_err :: "string option"
  ka_mmap :: "string + 64 word"
  ka_register_err :: "(errno \<times> string) option"
  ka_pbuf_alloc :: bool
  ka_pbuf_registered :: bool
  ka_pid :: nat

definition create_ring :: "kernel_answers \<Rightarrow> bool \<Rightarrow> exn + bool" where
  "create_ring k try_sqpoll =
    (if try_sqpoll \<and> ka_sqpoll_ok k then Inr True
     else (case ka_ring_err k of Some msg \<Rightarrow> Inl (runtime_error (RingInit msg)) | None \<Rightarrow> Inr False))"

definition ring_new :: "kernel_answers \<Rightarrow> nat \<Rightarrow> bool \<Rightarrow> exn + ring" where
  "ring_new k ring_size try_sqpoll = (case create_ring k try_sqpoll of
      Inl e \<Rightarrow> Inl e
    | Inr sqpoll \<Rightarrow> (case ka_eventfd k of
        Inl msg \<Rightarrow> Inl (runtime_error (EventFd msg))
      | Inr efd \<Rightarrow> (case ka_register_eventfd_err k of
          Some msg \<Rightarrow> Inl (runtime_error (EventFd (''Failed to register eventfd: '' @ msg)))
        | None \<Rightarrow> Inr \<lparr>rg_sq = [], rg_sq_capacity = next_power_of_two ring_size, rg_kernel = [], rg_cq = [],
            rg_enter_err = None, rg_event_fd = efd, rg_sqpoll_enabled = sqpoll,
            rg_generation_id = 1, rg_original_pid = ka_pid k, rg_is_active = True,
            rg_buffers_registered = False, rg_registered_fds = None, rg_provided_buf_group = None,
            rg_kernel_files = None\<rparr>)))"

definition register_buffers :: "kernel_answers \<Rightarrow> ring \<Rightarrow> exn + ring" where
  "register_buffers k r = (case ka_register_err k of
      None \<Rightarrow> Inr (r\<lparr>rg_buffers_registered := True\<rparr>)
    | Some (e, msg) \<Rightarrow>
        Inl (ring_op_error (if e = 12
          then ''register_buffers failed: Cannot allocate memory (ENOMEM). This usually means the RLIMIT_MEMLOCK is too low. Try increasing it with 'ulimit -l 65536' or editing /etc/security/limits.conf. Original error: 12''
          else ''register_buffers failed: '' @ msg)))"

definition core_new :: "kernel_answers \<Rightarrow> nat \<Rightarrow> nat \<Rightarrow> nat \<Rightarrow> bool \<Rightarrow> exn + ('h, 'c) uring_core" where
  "core_new k bsize bcount ring_size try_sqpoll = (case ring_new k ring_size try_sqpoll of
      Inl e \<Rightarrow> Inl e
    | Inr r \<Rightarrow> (case pool_new (ka_mmap k) bsize bcount of
        Inl e \<Rightarrow> Inl e
      | Inr p \<Rightarrow> (case register_buffers k r of
          Inl e \<Rightarrow> Inl e
        | Inr r' \<Rightarrow>
            let pb = setup_pbuf_ring (ka_pbuf_alloc k) (ka_pbuf_registered k) (get_buffer_ptr p) bsize bcount
            in Inr \<lparr>uc_ring = r'\<lparr>rg_provided_buf_group := map_option (\<lambda>_. 1) pb\<rparr>,
              uc_buffer_pool = p, uc_fd_states = fd_manager_new,
              uc_inflight_recv_buffers = Map.empty, uc_timers = [], uc_scheduler = sched_new,
              uc_futures = Map.empty, uc_readers = Map.empty, uc_writers = Map.empty,
              uc_recvmsg_states = Map.empty, uc_sendmsg_states = Map.empty, uc_pbuf_ring = pb,
              uc_stopping = False, uc_clock = 0\<rparr>)))"

section \<open>Steps of the engine\<close>

text \<open>
  One step is one call of the Python layer, whether it returns or raises, or the kernel
  answering a submission, filling in an address or letting time pass.
\<close>

inductive core_step :: "('h, 'c) uring_core \<Rightarrow> ('h, 'c) uring_core \<Rightarrow> bool" where
  step_register: "core_step c (register_fd f st c)"
| step_unregister: "core_step c (unregister_fd f c)"
| step_pause: "core_step c (snd (pause_reading f c))"
| step_resume: "core_step c (snd (resume_reading f c))"
| step_recv: "core_step c (snd (submit_recv f fut c))"
| step_recvfrom: "core_step c (snd (submit_recvfrom f fut c))"
| step_send: "core_step c (snd (submit_send f data fut c))"
| step_accept: "core_step c (snd (submit_accept f fut c))"
| step_close: "core_step c (snd (submit_close f c))"
| step_sendto: "core_step c (snd (submit_sendto v4 v6 f data a fut c))"
| step_timer: "core_step c (push_timer t h c)"
| step_task: "core_step c (push_task h c)"
| step_tick: "core_step c (snd (tick_core now c))"
| step_kernel: "core_step c (c\<lparr>uc_ring := kernel_complete i res flags (uc_ring c)\<rparr>)"
| step_memory: "core_step c (c\<lparr>uc_buffer_pool := (uc_buffer_pool c)\<lparr>bp_mem := mm\<rparr>\<rparr>)"
| step_clock: "core_step c (c\<lparr>uc_clock := k\<rparr>)"

inductive core_reach :: "('h, 'c) uring_core \<Rightarrow> bool" where
  reach_new: "core_new k bsize bcount ring_size sqpoll = Inr c \<Longrightarrow> core_reach c"
| reach_step: "core_reach c \<Longrightarrow> core_step c c' \<Longrightarrow> core_reach c'"

end
