(* ===== verification/Core_Inv.thy ===== *)
theory Core_Inv
  imports Core
begin

text \<open>
  Buffer ownership in the engine. Every pool buffer is free, or tracked for one descriptor's
  receive, or held by an operation that is running; \<open>buffers_in S\<close> says the free list has no
  duplicates, the tracking map is injective and disjoint from it, and every index is in \<open>S\<close>.
  Each operation of the engine keeps it for every \<open>S\<close>: for \<open>S\<close> the indices of the pool it is
  the safety invariant of every reachable state, for \<open>S\<close> the buffers now accounted for it says
  that no step brings back a buffer that was lost.
\<close>

definition queues_empty :: "fd_manager \<Rightarrow> bool" where
  "queues_empty m \<longleftrightarrow> (\<forall>f s. fm_lookup m f = Some s \<longrightarrow> fs_buffer_queue s = [])"

definition buffers_in :: "nat set \<Rightarrow> ('h, 'c) uring_core \<Rightarrow> bool" where
  "buffers_in S c \<longleftrightarrow>
     pool_wf (uc_buffer_pool c) \<and> distinct (bp_free_list (uc_buffer_pool c)) \<and>
     inj_on (uc_inflight_recv_buffers c) (dom (uc_inflight_recv_buffers c)) \<and>
     ran (uc_inflight_recv_buffers c) \<inter> set (bp_free_list (uc_buffer_pool c)) = {} \<and>
     ran (uc_inflight_recv_buffers c) \<union> set (bp_free_list (uc_buffer_pool c)) \<subseteq> S \<and>
     S \<subseteq> {..<bp_buffer_count (uc_buffer_pool c)} \<and> queues_empty (uc_fd_states c)"

text \<open>\<open>held S idx\<close>: the running operation owns buffer \<open>idx\<close> of \<open>S\<close>, nobody else does.\<close>

definition held :: "nat set \<Rightarrow> nat \<Rightarrow> ('h, 'c) uring_core \<Rightarrow> bool" where
  "held S idx c \<longleftrightarrow> buffers_in S c \<and> idx \<notin> ran (uc_inflight_recv_buffers c) \<and>
     idx \<notin> set (bp_free_list (uc_buffer_pool c)) \<and> idx \<in> S"

lemma held_ok: "held S idx c \<Longrightarrow> (buffers_in S) c"
  by (simp add: held_def)

section \<open>Frame: what the invariant does not look at\<close>

lemma buffers_in_frame [simp]:
  "(buffers_in S) (c\<lparr>uc_ring := r\<rparr>) = (buffers_in S) c"
  "(buffers_in S) (c\<lparr>uc_timers := t\<rparr>) = (buffers_in S) c"
  "(buffers_in S) (c\<lparr>uc_scheduler := q\<rparr>) = (buffers_in S) c"
  "(buffers_in S) (c\<lparr>uc_futures := fs\<rparr>) = (buffers_in S) c"
  "(buffers_in S) (c\<lparr>uc_readers := rd\<rparr>) = (buffers_in S) c"
  "(buffers_in S) (c\<lparr>uc_writers := wr\<rparr>) = (buffers_in S) c"
  "(buffers_in S) (c\<lparr>uc_recvmsg_states := rs\<rparr>) = (buffers_in S) c"
  "(buffers_in S) (c\<lparr>uc_sendmsg_states := ss\<rparr>) = (buffers_in S) c"
  "(buffers_in S) (c\<lparr>uc_clock := k\<rparr>) = (buffers_in S) c"
  "(buffers_in S) (c\<lparr>uc_buffer_pool := (uc_buffer_pool c)\<lparr>bp_mem := mm\<rparr>\<rparr>) = (buffers_in S) c"
  by (simp_all add: buffers_in_def pool_wf_def)

lemma held_frame [simp]:
  "held S idx (c\<lparr>uc_ring := r\<rparr>) = held S idx c"
  "held S idx (c\<lparr>uc_futures := fs\<rparr>) = held S idx c"
  "held S idx (c\<lparr>uc_recvmsg_states := rs\<rparr>) = held S idx c"
  "held S idx (c\<lparr>uc_buffer_pool := (uc_buffer_pool c)\<lparr>bp_mem := mm\<rparr>\<rparr>) = held S idx c"
  by (simp_all add: held_def)

lemma keeps_on_ring:
  assumes "\<And>c r. P (c\<lparr>uc_ring := r\<rparr>) = P c"
  shows "keeps P (on_ring m)"
  by (auto simp: keeps_def on_ring_def assms split: prod.splits)

lemmas keeps_ring [keeps_intros] = keeps_on_ring [of "buffers_in S" for S, simplified] keeps_on_ring [of "held S idx" for S idx, simplified]

lemma keeps_flush [keeps_intros]: "keeps (buffers_in S) flush" "keeps (held S idx) flush"
  unfolding flush_def by (intro keeps_intros)+

section \<open>The parts of an operation\<close>

lemma triple_acquire:
  "triple (buffers_in S) core_acquire
     (\<lambda>r c. case r of None \<Rightarrow> (buffers_in S) c | Some idx \<Rightarrow> held S idx c) E"
  by (auto simp: triple_def core_acquire_def buffers_in_def held_def acquire_wf pool_wf_def
      split: list.splits)

lemma queues_empty_with_state_mut:
  assumes "\<And>s. fs_buffer_queue (g s) = fs_buffer_queue s"
  shows "keeps queues_empty (with_state_mut f g)"
  using assms by (auto simp: keeps_def queues_empty_def with_state_mut_def fm_check_def fm_lookup_simps
      split: option.splits sum.splits if_splits)

lemma keeps_on_fds:
  assumes "\<And>s. fs_buffer_queue (g s) = fs_buffer_queue s"
  shows "keeps (buffers_in S) (on_fds (with_state_mut f g))" "keeps (held S idx) (on_fds (with_state_mut f g))"
  using queues_empty_with_state_mut [OF assms, of f]
  by (auto simp: keeps_def on_fds_def held_def buffers_in_def split: prod.splits)

lemma keeps_on_submit [keeps_intros]:
  "keeps (buffers_in S) (on_fds (with_state_mut f on_submit))"
  "keeps (held S idx) (on_fds (with_state_mut f on_submit))"
  by (intro keeps_on_fds; simp add: on_submit_def)+

lemma release_held: "held S idx c \<Longrightarrow> (buffers_in S) (pool_release idx c)"
  by (auto simp: held_def buffers_in_def pool_release_def release_def pool_wf_def)

lemma untrack_held:
  assumes ok: "(buffers_in S) c" and f: "uc_inflight_recv_buffers c f = Some idx"
  shows "held S idx (c\<lparr>uc_inflight_recv_buffers := (uc_inflight_recv_buffers c)(f := None)\<rparr>)"
proof -
  from ok have inj: "inj_on (uc_inflight_recv_buffers c) (dom (uc_inflight_recv_buffers c))"
    by (simp add: buffers_in_def)
  have "idx \<in> ran (uc_inflight_recv_buffers c)" using f by (auto simp: ran_def)
  with ok f inj inj_on_dom_fun_upd_None [OF inj, of f] show ?thesis
    unfolding held_def buffers_in_def by (auto simp: ran_remove_inj [OF inj f] pool_wf_def)
qed

text \<open>Tracking a held buffer: the entry it replaces, if any, goes back to the free list.\<close>

lemma track_fresh:
  assumes h: "held S idx c" and None: "uc_inflight_recv_buffers c f = None"
  shows "(buffers_in S) (c\<lparr>uc_inflight_recv_buffers := (uc_inflight_recv_buffers c)(f \<mapsto> idx)\<rparr>)"
proof -
  let ?m = "uc_inflight_recv_buffers c"
  have "inj_on (?m(f \<mapsto> idx)) (dom (?m(f \<mapsto> idx)))"
    using h by (intro inj_on_dom_map_upd) (auto simp: held_def buffers_in_def)
  moreover have "ran (?m(f \<mapsto> idx)) = insert idx (ran ?m)"
    using None by (rule ran_map_upd_Some)
  ultimately show ?thesis using h
    unfolding held_def buffers_in_def by (simp del: dom_fun_upd)
qed

lemma track_held:
  assumes h: "held S idx c"
  shows "(buffers_in S) (track_recv f idx c)"
proof (cases "uc_inflight_recv_buffers c f")
  case None
  with h show ?thesis by (simp add: track_recv_def track_fresh)
next
  case (Some old)
  let ?m = "uc_inflight_recv_buffers c"
  let ?c1 = "c\<lparr>uc_inflight_recv_buffers := ?m(f := None)\<rparr>"
  have m: "inj_on ?m (dom ?m)" "idx \<notin> ran ?m" using h by (simp_all add: held_def buffers_in_def)
  have old: "held S old ?c1" using h Some by (intro untrack_held) (auto dest: held_ok)
  have idx: "held S idx (pool_release old ?c1)"
    using h release_held [OF old] Some
    by (auto simp: held_def pool_release_def release_def ran_remove_inj [OF m(1) Some] ran_def)
  have "(buffers_in S) ((pool_release old ?c1)\<lparr>uc_inflight_recv_buffers :=
      (uc_inflight_recv_buffers (pool_release old ?c1))(f \<mapsto> idx)\<rparr>)"
    by (rule track_fresh [OF idx]) (simp add: pool_release_def)
  moreover have "(pool_release old ?c1)\<lparr>uc_inflight_recv_buffers :=
      (uc_inflight_recv_buffers (pool_release old ?c1))(f \<mapsto> idx)\<rparr> = track_recv f idx c"
    using Some by (simp add: track_recv_def pool_release_def Let_def)
  ultimately show ?thesis by simp
qed

section \<open>Every operation keeps the invariant\<close>

lemma keeps_with_prefix [keeps_intros]: "keeps P m \<Longrightarrow> keeps P (with_prefix pre m)"
  unfolding with_prefix_def by (intro keeps_intros)

lemma keeps_future [keeps_intros]:
  "keeps (buffers_in S) (modM (future_insert f fut))" "keeps (held S idx) (modM (future_insert f fut))"
  by (intro keeps_modM; simp add: future_insert_def)+

lemma triple_release_held:
  "keeps (held S idx) m \<Longrightarrow>
     triple (held S idx) (on_error m (future_remove f \<circ> pool_release idx)) (\<lambda>_. held S idx) (\<lambda>_. (buffers_in S))"
  "keeps (held S idx) m \<Longrightarrow>
     triple (held S idx) (on_error m (pool_release idx)) (\<lambda>_. held S idx) (\<lambda>_. (buffers_in S))"
  by (rule triple_on_error [OF keeps_triple]; simp add: release_held future_remove_def)+

lemma triple_track:
  "triple (held S idx) (seqM (modM (track_recv f idx)) flush) (\<lambda>_. (buffers_in S)) (\<lambda>_. (buffers_in S))"
  by (rule triple_seqM [where R = "buffers_in S"])
    (auto intro!: triple_modM keeps_triple keeps_intros track_held)

lemma triple_with_buffer:
  assumes "\<And>idx. triple (held S idx) (body idx) (\<lambda>_. (buffers_in S)) (\<lambda>_. (buffers_in S))"
  shows "keeps (buffers_in S) (bindM core_acquire (\<lambda>r. case r of None \<Rightarrow> raise e | Some idx \<Rightarrow> body idx))"
  unfolding triple_keeps [symmetric]
  by (rule triple_bindM [OF triple_acquire])
    (auto intro: triple_raise assms split: option.split)

lemma triple_held_seq:
  assumes "triple (held S idx) m (\<lambda>_. held S idx) (\<lambda>_. (buffers_in S))"
    and "triple (held S idx) n (\<lambda>_. (buffers_in S)) (\<lambda>_. (buffers_in S))"
  shows "triple (held S idx) (seqM m n) (\<lambda>_. (buffers_in S)) (\<lambda>_. (buffers_in S))"
  using assms by (rule triple_seqM)

lemma triple_held_keeps:
  assumes "keeps (held S idx) m"
  shows "triple (held S idx) m (\<lambda>_. held S idx) (\<lambda>_. (buffers_in S))"
  using keeps_triple [OF assms] by (auto simp: triple_def dest: held_ok split: prod.splits sum.splits)

lemma keeps_submit_recv [keeps_intros]: "keeps (buffers_in S) (submit_recv f fut)"
  unfolding submit_recv_def
  by (intro keeps_bindM keeps_getM keeps_if keeps_ret triple_with_buffer triple_held_seq triple_track
      triple_release_held triple_held_keeps keeps_intros)

lemma keeps_submit_recvfrom [keeps_intros]: "keeps (buffers_in S) (submit_recvfrom f fut)"
  unfolding submit_recvfrom_def
  by (intro keeps_bindM keeps_getM keeps_if keeps_ret triple_with_buffer triple_held_seq triple_track
      triple_release_held triple_held_keeps keeps_intros keeps_modM) simp_all

lemma triple_drop_held:
  assumes "keeps (held S idx) m"
  shows "triple (held S idx) m (\<lambda>_. (buffers_in S)) (\<lambda>_. (buffers_in S))"
  using keeps_triple [OF assms] by (auto simp: triple_def dest: held_ok split: prod.splits sum.splits)

lemma triple_held_bind_get:
  "(\<And>a. triple (held S idx) (g a) Q E) \<Longrightarrow> triple (held S idx) (bindM (getM h) g) Q E"
  by (rule triple_bindM [where R = "\<lambda>_. held S idx"]) (auto intro: triple_getM)

lemma keeps_submit_send [keeps_intros]: "keeps (buffers_in S) (submit_send f data fut)"
  unfolding submit_send_def
  by (intro keeps_bindM keeps_getM keeps_if keeps_ret triple_with_buffer triple_held_bind_get
      triple_if triple_raise held_ok triple_held_seq triple_release_held triple_held_keeps
      triple_drop_held keeps_intros keeps_modM) (assumption | simp)+

lemma keeps_submit_rest [keeps_intros]:
  "keeps (buffers_in S) (submit_accept f fut)"
  "keeps (buffers_in S) (submit_close f)"
  "keeps (buffers_in S) (submit_sendto v4 v6 f data a fut)"
  unfolding submit_accept_def submit_close_def submit_sendto_def on_error_def
  by (intro keeps_intros keeps_modM; simp add: future_remove_def)+

lemma keeps_pause_resume [keeps_intros]:
  "keeps (buffers_in S) (pause_reading f)" "keeps (buffers_in S) (resume_reading f)"
  unfolding pause_reading_def resume_reading_def fm_pause_reading_def fm_resume_reading_def
  by (intro keeps_on_fds; simp add: fs_pause_def fs_resume_def)+

lemma buffers_in_register: "(buffers_in S) c \<Longrightarrow> (buffers_in S) (register_fd f st c)"
  by (simp add: buffers_in_def register_fd_def queues_empty_def fm_lookup_simps fd_state_new_def)

lemma buffers_in_release_inflight: "(buffers_in S) c \<Longrightarrow> (buffers_in S) (release_inflight f c)"
  by (auto simp: release_inflight_def intro: release_held untrack_held split: option.split)

lemma buffers_in_unregister:
  assumes "(buffers_in S) c"
  shows "(buffers_in S) (unregister_fd f c)"
proof -
  let ?c = "release_inflight f c"
  have ok: "(buffers_in S) ?c" using assms by (rule buffers_in_release_inflight)
  then have q: "queues_empty (uc_fd_states ?c)" by (simp add: buffers_in_def)
  obtain bufs m where m: "fm_unregister f (uc_fd_states ?c) = (bufs, m)" by fastforce
  then have "queues_empty m" using q lookup_unregister [of f "uc_fd_states ?c"]
    by (auto simp: queues_empty_def)
  then have ok': "(buffers_in S) (?c\<lparr>uc_fd_states := m\<rparr>)" using ok by (simp add: buffers_in_def)
  have "bufs = None \<or> bufs = Some []" using m q
    by (auto simp: fm_unregister_def queues_empty_def)
  with m ok' show ?thesis by (auto simp: unregister_fd_def Let_def)
qed

lemma buffers_in_phase1: "(buffers_in S) c \<Longrightarrow> phase1 e c = (i, c') \<Longrightarrow> (buffers_in S) c'"
  by (auto simp: phase1_def Let_def split: if_splits option.splits
      intro!: release_held untrack_held)

lemma buffers_in_phase1_all: "phase1_all es c = (is, c') \<Longrightarrow> (buffers_in S) c \<Longrightarrow> (buffers_in S) c'"
  by (induction es c arbitrary: "is" rule: phase1_all.induct)
    (auto split: prod.splits dest: buffers_in_phase1)

lemma buffers_in_phase2: "phase2 fs c res = (res', c') \<Longrightarrow> (buffers_in S) c' = (buffers_in S) c"
  by (induction fs c res rule: phase2.induct) (auto simp: future_remove_def split: option.splits)

lemma buffers_in_push_task: "(buffers_in S) (fold push_task hs c) = (buffers_in S) c"
  by (induction hs arbitrary: c) (simp_all add: push_task_def)

lemma keeps_tick_core [keeps_intros]: "keeps (buffers_in S) (tick_core now)"
proof -
  have "keeps (buffers_in S) (modM (tick_timers now))"
    by (rule keeps_modM) (simp add: tick_timers_def buffers_in_push_task split: prod.split)
  moreover have "keeps (buffers_in S) tick_drain"
    unfolding tick_drain_def
    by (intro keeps_seqM keeps_flush) (simp add: keeps_def drain_cq_def)
  moreover have "keeps (buffers_in S) (\<lambda>c. case phase1_all es c of (items, c1) \<Rightarrow>
     case phase2 (map it_fd items) c1 Map.empty of (futs, c2) \<Rightarrow> (Inr (items, futs), c2))" for es
    by (auto simp: keeps_def buffers_in_phase2 dest: buffers_in_phase1_all split: prod.splits)
  ultimately show ?thesis unfolding tick_core_def by (intro keeps_seqM keeps_bindM)
qed

lemma buffers_in_new: "core_new k bsize bcount n sp = Inr c \<Longrightarrow> buffers_in {..<bcount mod 2 ^ 16} c"
  by (auto simp: core_new_def Let_def pool_new_def buffers_in_def pool_wf_def queues_empty_def
      fd_manager_new_def fm_lookup_def split: sum.splits option.splits if_splits)

lemma core_step_buffers_in: "core_step c c' \<Longrightarrow> (buffers_in S) c \<Longrightarrow> (buffers_in S) c'"
proof (induction rule: core_step.induct)
  case (step_timer c t h)
  then show ?case by (simp add: push_timer_def)
next
  case (step_task c h)
  then show ?case by (simp add: push_task_def)
qed (simp_all add: buffers_in_register buffers_in_unregister keeps_intros [unfolded keeps_def, rule_format])

end
