(* ===== verification/Core_Props.thy ===== *)
theory Core_Props
  imports Core_Inv Fixed_Fd
begin

text \<open>
  Properties of the engine: buffer ownership in every reachable state, what \<open>submit_recv\<close> does on
  each of its paths, the round trip of received bytes from the kernel's buffer to the completion
  handed to Python, and the accounting of receive credit and of send buffers.
\<close>

section \<open>A small engine for the witnesses\<close>

definition demo_answers :: kernel_answers where
  "demo_answers = \<lparr>ka_sqpoll_ok = False, ka_ring_err = None, ka_eventfd = Inr 3, ka_register_eventfd_err = None,
     ka_mmap = Inr 4096, ka_register_err = None, ka_pbuf_alloc = False, ka_pbuf_registered = False, ka_pid = 1\<rparr>"

definition demo_core :: "(nat, nat) uring_core" where
  "demo_core = \<lparr>uc_ring = \<lparr>rg_sq = [], rg_sq_capacity = 8, rg_kernel = [], rg_cq = [],
        rg_enter_err = None, rg_event_fd = 3, rg_sqpoll_enabled = False,
        rg_generation_id = 1, rg_original_pid = 1, rg_is_active = True,
        rg_buffers_registered = True, rg_registered_fds = None, rg_provided_buf_group = None,
        rg_kernel_files = None\<rparr>,
     uc_buffer_pool = \<lparr>bp_base = 4096, bp_buffer_size = 4, bp_buffer_count = 2, bp_free_list = [0, 1],
        bp_quarantine = [], bp_generation = 1, bp_mem = (\<lambda>_. replicate 4 0)\<rparr>,
     uc_fd_states = fd_manager_new,
     uc_inflight_recv_buffers = Map.empty, uc_timers = [], uc_scheduler = sched_new,
     uc_futures = Map.empty, uc_readers = Map.empty, uc_writers = Map.empty,
     uc_recvmsg_states = Map.empty, uc_sendmsg_states = Map.empty, uc_pbuf_ring = None,
     uc_stopping = False, uc_clock = 0\<rparr>"

lemma next_power_of_two_8: "next_power_of_two 8 = 8"
  by (simp add: next_power_of_two_def double_until.simps)

lemma demo_core_new: "core_new demo_answers 4 2 8 True = Inr demo_core"
  by (simp add: core_new_def ring_new_def create_ring_def pool_new_def register_buffers_def demo_answers_def
      setup_pbuf_ring_def pbuf_new_def next_power_of_two_8
      demo_core_def upt_rec)

definition demo_registered :: "(nat, nat) uring_core" where
  "demo_registered = register_fd 5 ''tcp'' demo_core"

lemma demo_registered_reach: "core_reach demo_registered"
  unfolding demo_registered_def
  by (rule reach_step [OF reach_new [OF demo_core_new] step_register])

section \<open>Buffer ownership\<close>

lemma core_reach_buffers_in: "core_reach c \<Longrightarrow> \<exists>n < 2 ^ 16. buffers_in {..<n} c"
proof (induction rule: core_reach.induct)
  case (reach_new k bsize bcount ring_size sp c)
  then have "buffers_in {..<bcount mod 2 ^ 16} c" by (rule buffers_in_new)
  then show ?case by (intro exI [of _ "bcount mod 2 ^ 16"] conjI) simp_all
next
  case (reach_step c c')
  then show ?case by (blast intro: core_step_buffers_in)
qed



section \<open>Submitting a receive\<close>

text \<open>The conditions under which \<open>submit_recv\<close> goes all the way: \<open>idx\<close> is the buffer it takes.\<close>

definition can_recv :: "fd \<Rightarrow> nat \<Rightarrow> nat list \<Rightarrow> fd_state \<Rightarrow> ('h, 'c) uring_core \<Rightarrow> bool" where
  "can_recv f idx rest s c \<longleftrightarrow>
     pool_wf (uc_buffer_pool c) \<and> bp_free_list (uc_buffer_pool c) = idx # rest \<and>
     fm_lookup (uc_fd_states c) f = Some s \<and> fs_should_submit_recv s \<and>
     is_valid_generation (fm_generation_id (uc_fd_states c)) s \<and>
     length (rg_sq (uc_ring c)) < rg_sq_capacity (uc_ring c) \<and> rg_enter_err (uc_ring c) = None"

definition recv_sqe :: "fd \<Rightarrow> nat \<Rightarrow> ('h, 'c) uring_core \<Rightarrow> sqe" where
  "recv_sqe f idx c =
     mk_sqe Recv f (Some idx) (bp_buffer_size (uc_buffer_pool c)) (ring_gen c) (uc_ring c)"

definition after_recv ::
  "fd \<Rightarrow> fut_id \<Rightarrow> nat \<Rightarrow> nat list \<Rightarrow> fd_state \<Rightarrow> ('h, 'c) uring_core \<Rightarrow> ('h, 'c) uring_core" where
  "after_recv f fut idx rest s c = (track_recv f idx (c\<lparr>
     uc_buffer_pool := (uc_buffer_pool c)\<lparr>bp_free_list := rest\<rparr>,
     uc_fd_states := (uc_fd_states c)\<lparr>fm_states := AList.update f (on_submit s) (fm_states (uc_fd_states c))\<rparr>,
     uc_futures := (uc_futures c)(f \<mapsto> fut)\<rparr>))\<lparr>
     uc_ring := (uc_ring c)\<lparr>rg_kernel := rg_kernel (uc_ring c) @ rg_sq (uc_ring c) @ [recv_sqe f idx c],
                           rg_sq := []\<rparr>\<rparr>"

lemma pool_wf_free_list [simp]: "pool_wf (p\<lparr>bp_free_list := l\<rparr>) = pool_wf p"
  by (simp add: pool_wf_def)

lemma track_recv_frame [simp]:
  "uc_ring (track_recv f idx c) = uc_ring c" "uc_fd_states (track_recv f idx c) = uc_fd_states c"
  "uc_futures (track_recv f idx c) = uc_futures c"
  "uc_inflight_recv_buffers (track_recv f idx c) = (uc_inflight_recv_buffers c)(f \<mapsto> idx)"
  "bp_buffer_size (uc_buffer_pool (track_recv f idx c)) = bp_buffer_size (uc_buffer_pool c)"
  "bp_free_list (uc_buffer_pool (track_recv f idx c)) = bp_free_list (uc_buffer_pool c) @
     (case uc_inflight_recv_buffers c f of None \<Rightarrow> [] | Some old \<Rightarrow> [old])"
  "pool_wf (uc_buffer_pool (track_recv f idx c)) = pool_wf (uc_buffer_pool c)"
  by (auto simp: track_recv_def pool_release_def release_def pool_wf_def Let_def split: option.split)

lemma track_recv_ring [simp]:
  "track_recv f idx (c\<lparr>uc_ring := r\<rparr>) = (track_recv f idx c)\<lparr>uc_ring := r\<rparr>"
  by (simp add: track_recv_def pool_release_def Let_def split: option.split)

lemma submit_recv_ok:
  assumes "can_recv f idx rest s c"
  shows "submit_recv f fut c = (Inr (), after_recv f fut idx rest s c)"
  using assms
  by (simp add: can_recv_def submit_recv_def core_acquire_def acquire_wf fm_should_submit_recv_def
      on_fds_def with_state_mut_def fm_check_def on_error_apply future_insert_def on_ring_def
      prep_defs flush_def ring_submit_def after_recv_def recv_sqe_def ring_gen_def)

lemma submit_recv_refused:
  "\<not> fm_should_submit_recv f (uc_fd_states c) \<Longrightarrow> submit_recv f fut c = (Inr (), c)"
  by (simp add: submit_recv_def)

lemma submit_recv_no_buffer:
  assumes "fm_should_submit_recv f (uc_fd_states c)" "pool_wf (uc_buffer_pool c)"
    "bp_free_list (uc_buffer_pool c) = []"
  shows "submit_recv f fut c = (Inl (RuntimeError ''No buffers available for recv''), c)"
  using assms by (simp add: submit_recv_def core_acquire_def acquire_wf)

text \<open>With a full submission queue the buffer goes back, but the credit stays charged.\<close>

lemma submit_recv_queue_full:
  assumes "can_recv f idx rest s (c\<lparr>uc_ring := (uc_ring c)\<lparr>rg_sq_capacity := Suc (length (rg_sq (uc_ring c)))\<rparr>\<rparr>)"
    and "rg_sq_capacity (uc_ring c) \<le> length (rg_sq (uc_ring c))"
  shows "submit_recv f fut c = (Inl (ring_op_error ''SQ is full''), c\<lparr>
     uc_buffer_pool := (uc_buffer_pool c)\<lparr>bp_free_list := rest @ [idx]\<rparr>,
     uc_fd_states := (uc_fd_states c)\<lparr>fm_states := AList.update f (on_submit s) (fm_states (uc_fd_states c))\<rparr>,
     uc_futures := (uc_futures c)(f := None)\<rparr>)"
  using assms
  by (simp add: can_recv_def submit_recv_def core_acquire_def acquire_wf fm_should_submit_recv_def
      on_fds_def with_state_mut_def fm_check_def on_error_apply future_insert_def on_ring_def
      prep_defs future_remove_def pool_release_def release_def ring_gen_def)


lemma demo_can_recv: "can_recv 5 0 [1] (fd_state_new 1 TcpStream) demo_registered"
  by (simp add: can_recv_def demo_registered_def demo_core_def register_fd_def fm_register_def
      fd_manager_new_def fm_lookup_def socket_type_of_def pool_wf_def fs_should_submit_recv_def
      fd_state_new_def has_credit_def fs_used_def DEFAULT_CREDIT_BUDGET_def is_valid_generation_def)


section \<open>From the kernel's buffer to the completion\<close>

lemma ce_fd_tag:
  assumes "- (2 ^ 31) \<le> f" and "f < 2 ^ 31"
  shows "sint (ce_fd \<lparr>ce_user_data = encode_user_data (word_of_int f) op gen, ce_result = res,
           ce_flags = fl, ce_buffer_index = b\<rparr>) = f"
  using assms by (simp add: ce_fd_def decode_fd sint_sbintrunc' signed_take_bit_int_eq_self)

text \<open>The kernel has written \<open>data\<close> into the buffer and completed the receive.\<close>

definition recv_answered ::
  "nat \<Rightarrow> bytes \<Rightarrow> 32 word \<Rightarrow> ('h, 'c) uring_core \<Rightarrow> ('h, 'c) uring_core" where
  "recv_answered idx data flags c = c\<lparr>
     uc_buffer_pool := (uc_buffer_pool c)\<lparr>bp_mem := (bp_mem (uc_buffer_pool c))
        (idx := data @ drop (length data) (bp_mem (uc_buffer_pool c) idx))\<rparr>,
     uc_ring := kernel_complete (length (rg_kernel (uc_ring c)) - 1) (int (length data)) flags (uc_ring c)\<rparr>"

lemma tick_timers_frame:
  "uc_ring (tick_timers now c) = uc_ring c" "uc_buffer_pool (tick_timers now c) = uc_buffer_pool c"
  "uc_inflight_recv_buffers (tick_timers now c) = uc_inflight_recv_buffers c"
  "uc_futures (tick_timers now c) = uc_futures c" "uc_fd_states (tick_timers now c) = uc_fd_states c"
  "uc_recvmsg_states (tick_timers now c) = uc_recvmsg_states c"
  "uc_sendmsg_states (tick_timers now c) = uc_sendmsg_states c"
proof -
  have frame: "uc_ring (fold push_task hs c) = uc_ring c \<and> uc_buffer_pool (fold push_task hs c) = uc_buffer_pool c \<and>
      uc_inflight_recv_buffers (fold push_task hs c) = uc_inflight_recv_buffers c \<and>
      uc_futures (fold push_task hs c) = uc_futures c \<and> uc_fd_states (fold push_task hs c) = uc_fd_states c \<and>
      uc_recvmsg_states (fold push_task hs c) = uc_recvmsg_states c \<and>
      uc_sendmsg_states (fold push_task hs c) = uc_sendmsg_states c" for hs and c :: "('a, 'b) uring_core"
    by (induction hs arbitrary: c) (simp_all add: push_task_def)
  show "uc_ring (tick_timers now c) = uc_ring c" "uc_buffer_pool (tick_timers now c) = uc_buffer_pool c"
    "uc_inflight_recv_buffers (tick_timers now c) = uc_inflight_recv_buffers c"
    "uc_futures (tick_timers now c) = uc_futures c" "uc_fd_states (tick_timers now c) = uc_fd_states c"
    "uc_recvmsg_states (tick_timers now c) = uc_recvmsg_states c"
    "uc_sendmsg_states (tick_timers now c) = uc_sendmsg_states c"
    by (simp_all add: tick_timers_def frame split: prod.split)
qed

text \<open>
  The tick after the kernel has answered a receive: the completion with its bytes and its future,
  and every part of the engine that the next submission looks at.
\<close>

lemma recv_tick:
  assumes can: "can_recv f idx rest s c" and cq: "rg_cq (uc_ring c) = []"
    and f: "uc_inflight_recv_buffers c f = None"
    and range: "- (2 ^ 31) \<le> f" "f < 2 ^ 31"
    and data: "data \<noteq> []" "length data \<le> bp_buffer_size (uc_buffer_pool c)"
  shows "\<exists>c'. tick_core now (recv_answered idx data flags (snd (submit_recv f fut c))) =
      (Inr ([\<lparr>it_fd = f, it_result = int (length data), it_op = Recv, it_data = Some (VBytes data)\<rparr>],
            [f \<mapsto> fut]), c') \<and>
    bp_free_list (uc_buffer_pool c') = rest @ [idx] \<and> pool_wf (uc_buffer_pool c') \<and>
    uc_inflight_recv_buffers c' = uc_inflight_recv_buffers c \<and> uc_futures c' f = None \<and>
    uc_fd_states c' = (uc_fd_states c)\<lparr>fm_states := AList.update f (on_submit s) (fm_states (uc_fd_states c))\<rparr> \<and>
    rg_sq (uc_ring c') = [] \<and> rg_cq (uc_ring c') = [] \<and> rg_enter_err (uc_ring c') = None \<and>
    rg_sq_capacity (uc_ring c') = rg_sq_capacity (uc_ring c) \<and>
    (uc_timers c = [] \<longrightarrow> uc_timers c' = [] \<and> uc_scheduler c' = uc_scheduler c)"
proof -
  let ?c = "tick_timers now (recv_answered idx data flags (after_recv f fut idx rest s c))"
  have ring: "rg_sq (uc_ring ?c) = []"
    "map entry_of (rg_cq (uc_ring ?c)) =
       [entry_of \<lparr>cq_user_data = encode_user_data (word_of_int f) Recv (ring_gen c),
          cq_result = int (length data), cq_flags = flags\<rparr>]"
    using cq by (simp_all add: tick_timers_frame recv_answered_def after_recv_def kernel_complete_def
        recv_sqe_def mk_sqe_def nth_append)
  have quiet: "uc_timers ?c = [] \<and> uc_scheduler ?c = uc_scheduler c" if "uc_timers c = []"
    using that f by (simp add: tick_timers_def pop_expired.simps recv_answered_def after_recv_def track_recv_def)
  have pool: "pool_wf (uc_buffer_pool c)" "rg_enter_err (uc_ring c) = None" using can by (simp_all add: can_recv_def)
  show ?thesis
    using data f ring quiet pool
    by (simp add: submit_recv_ok [OF can] tick_core_def tick_drain_def flush_def on_ring_def ring_submit_def
        drain_cq_def phase1_def Let_def entry_of_def ce_fd_tag [OF range] ce_op_type_def decode_op from_u8_def
        tick_timers_frame recv_answered_def after_recv_def track_recv_def recv_data_def get_buffer_slice_def
        pool_release_def release_def future_remove_def fun_upd_idem kernel_complete_def pool_wf_def)
qed

text \<open>
  C3. Received bytes reach Python unchanged: after a successful \<open>submit_recv\<close>, when the kernel
  writes \<open>data\<close> into the buffer it was given and completes the receive, the next tick reports
  exactly one completion, a receive on that descriptor with those bytes, together with the future
  that was waiting, and the buffer is back on the free list.
\<close>

theorem recv_roundtrip:
  assumes can: "can_recv f idx rest s c" and cq: "rg_cq (uc_ring c) = []"
    and f: "uc_inflight_recv_buffers c f = None"
    and range: "- (2 ^ 31) \<le> f" "f < 2 ^ 31"
    and data: "data \<noteq> []" "length data \<le> bp_buffer_size (uc_buffer_pool c)"
  shows "\<exists>c'. tick_core now (recv_answered idx data flags (snd (submit_recv f fut c))) =
      (Inr ([\<lparr>it_fd = f, it_result = int (length data), it_op = Recv, it_data = Some (VBytes data)\<rparr>],
            [f \<mapsto> fut]), c') \<and>
    bp_free_list (uc_buffer_pool c') = rest @ [idx] \<and>
    uc_inflight_recv_buffers c' = uc_inflight_recv_buffers c \<and> uc_futures c' f = None"
  using recv_tick [OF assms, of now flags fut] by blast

theorem recv_roundtrip_witness:
  "\<exists>c'. tick_core 0 (recv_answered 0 [104, 105] 0 (snd (submit_recv 5 7 demo_registered))) =
      (Inr ([\<lparr>it_fd = 5, it_result = 2, it_op = Recv, it_data = Some (VBytes [104, 105])\<rparr>],
            [5 \<mapsto> 7]), c') \<and> bp_free_list (uc_buffer_pool c') = [1, 0]"
proof -
  have "rg_cq (uc_ring demo_registered) = []" "bp_buffer_size (uc_buffer_pool demo_registered) = 4"
    "uc_inflight_recv_buffers demo_registered 5 = None"
    by (simp_all add: demo_registered_def demo_core_def register_fd_def)
  then show ?thesis
    using recv_roundtrip [OF demo_can_recv, of "[104, 105]" 0 0 7] by auto
qed

section \<open>Overlapping receives\<close>

text \<open>The kernel has completed the receive it was given first.\<close>

definition first_answered ::
  "nat \<Rightarrow> bytes \<Rightarrow> 32 word \<Rightarrow> ('h, 'c) uring_core \<Rightarrow> ('h, 'c) uring_core" where
  "first_answered idx data flags c = c\<lparr>
     uc_buffer_pool := (uc_buffer_pool c)\<lparr>bp_mem := (bp_mem (uc_buffer_pool c))
        (idx := data @ drop (length data) (bp_mem (uc_buffer_pool c) idx))\<rparr>,
     uc_ring := kernel_complete 0 (int (length data)) flags (uc_ring c)\<rparr>"

lemma submit_recv_twice:
  assumes can: "can_recv f i1 (i2 # rest) s c" and credit: "fs_should_submit_recv (on_submit s)"
    and f: "uc_inflight_recv_buffers c f = None"
  shows "submit_recv f fut2 (snd (submit_recv f fut1 c)) =
    (Inr (), after_recv f fut2 i2 rest (on_submit s) (after_recv f fut1 i1 (i2 # rest) s c))"
proof -
  have "can_recv f i2 rest (on_submit s) (after_recv f fut1 i1 (i2 # rest) s c)"
    using can credit f by (auto simp: can_recv_def after_recv_def fm_lookup_def update_conv' is_valid_generation_def on_submit_def)
  from submit_recv_ok [OF this] submit_recv_ok [OF can] show ?thesis by simp
qed

text \<open>
  C33. Overlapping receives on one descriptor mix up their buffers: after a second \<open>submit_recv\<close> the
  engine knows only the second buffer. When the kernel completes the first receive, the bytes
  handed to Python are the old content of the second buffer, for the future of the second receive;
  the buffer with the data was released before it was filled, and the second buffer is
  released although the kernel still holds a receive into it.
\<close>

theorem overlapping_receives_wrong_bytes:
  assumes can: "can_recv f i1 (i2 # rest) s c" and credit: "fs_should_submit_recv (on_submit s)"
    and f: "uc_inflight_recv_buffers c f = None" "- (2 ^ 31) \<le> f" "f < 2 ^ 31" and ne: "i1 \<noteq> i2"
    and ring: "rg_kernel (uc_ring c) = []" "rg_sq (uc_ring c) = []" "rg_cq (uc_ring c) = []"
    and data: "data \<noteq> []" "length data \<le> bp_buffer_size (uc_buffer_pool c)"
    and c2: "c2 = snd (submit_recv f fut2 (snd (submit_recv f fut1 c)))"
  shows "i1 \<in> set (bp_free_list (uc_buffer_pool c2)) \<and>
    (\<exists>c'. tick_core now (first_answered i1 data flags c2) =
      (Inr ([\<lparr>it_fd = f, it_result = int (length data), it_op = Recv,
             it_data = Some (VBytes (take (length data) (bp_mem (uc_buffer_pool c) i2)))\<rparr>], [f \<mapsto> fut2]), c') \<and>
    i2 \<in> set (bp_free_list (uc_buffer_pool c')) \<and> map sq_buf (rg_kernel (uc_ring c')) = [Some i2] \<and> uc_futures c' f = None)"
proof -
  let ?c2 = "after_recv f fut2 i2 rest (on_submit s) (after_recv f fut1 i1 (i2 # rest) s c)"
  have c2': "c2 = ?c2" using submit_recv_twice [OF can credit f(1)] c2 by simp
  have "rg_enter_err (uc_ring c) = None" "pool_wf (uc_buffer_pool c)" using can by (simp_all add: can_recv_def)
  then show ?thesis unfolding c2'
    using data ne ring f(1)
    by (simp add: recv_sqe_def mk_sqe_def tick_core_def tick_drain_def flush_def on_ring_def ring_submit_def
        drain_cq_def phase1_def Let_def entry_of_def ce_fd_tag [OF f(2,3)] ce_op_type_def decode_op from_u8_def
        tick_timers_frame first_answered_def after_recv_def track_recv_def recv_data_def get_buffer_slice_def
        pool_release_def release_def future_remove_def kernel_complete_def)
qed

theorem overlapping_receives_wrong_bytes_witness:
  "\<exists>c'. tick_core 0 (first_answered 0 [104, 105] 0 (snd (submit_recv 5 8 (snd (submit_recv 5 7 demo_registered))))) =
      (Inr ([\<lparr>it_fd = 5, it_result = 2, it_op = Recv, it_data = Some (VBytes [0, 0])\<rparr>], [5 \<mapsto> 8]), c') \<and>
     1 \<in> set (bp_free_list (uc_buffer_pool c'))"
proof -
  have "fs_should_submit_recv (on_submit (fd_state_new 1 TcpStream))" "uc_inflight_recv_buffers demo_registered 5 = None"
    "rg_kernel (uc_ring demo_registered) = []" "rg_sq (uc_ring demo_registered) = []" "rg_cq (uc_ring demo_registered) = []"
    by (simp_all add: demo_registered_def demo_core_def register_fd_def fs_should_submit_recv_def on_submit_def
        fd_state_new_def has_credit_def fs_used_def DEFAULT_CREDIT_BUDGET_def)
  moreover have "take (length [104, 105 :: 8 word]) (bp_mem (uc_buffer_pool demo_registered) 1) = [0, 0]"
    by (simp add: demo_registered_def demo_core_def register_fd_def)
  moreover have "bp_buffer_size (uc_buffer_pool demo_registered) = 4"
    by (simp add: demo_registered_def demo_core_def register_fd_def)
  ultimately show ?thesis
    using overlapping_receives_wrong_bytes [OF demo_can_recv, of "[104, 105]" _ 8 7 0 0] by auto
qed

section \<open>Receive credit\<close>

text \<open>What one step of the engine can do to the table of descriptor states.\<close>

inductive fds_step :: "fd_manager \<Rightarrow> fd_manager \<Rightarrow> bool" where
  fds_same: "fds_step m m"
| fds_register: "fds_step m (fm_register f st m)"
| fds_unregister: "fds_step m (snd (fm_unregister f m))"
| fds_charge: "fm_should_submit_recv f m \<Longrightarrow> fds_step m (snd (with_state_mut f on_submit m))"
| fds_pause: "fds_step m (snd (with_state_mut f fs_pause m))"
| fds_resume: "fds_step m (snd (with_state_mut f fs_resume m))"

text \<open>Operations that leave the table alone keep every predicate of it.\<close>

lemma keeps_fds [keeps_intros]:
  "keeps (\<lambda>c. Q (uc_fd_states c)) core_acquire"
  "keeps (\<lambda>c. Q (uc_fd_states c)) (on_ring m)"
  "keeps (\<lambda>c. Q (uc_fd_states c)) flush"
  "keeps (\<lambda>c. Q (uc_fd_states c)) (modM (future_insert f fut))"
  "keeps (\<lambda>c. Q (uc_fd_states c)) (modM (future_remove f))"
  "keeps (\<lambda>c. Q (uc_fd_states c)) (modM (track_recv f idx))"
  "keeps (\<lambda>c. Q (uc_fd_states c)) (modM (pool_release idx))"
  "keeps (\<lambda>c. Q (uc_fd_states c)) (modM (future_remove f \<circ> pool_release idx))"
  by (auto simp: keeps_def core_acquire_def on_ring_def flush_def bindM_def future_insert_def
      future_remove_def track_recv_def pool_release_def Let_def split: prod.splits option.splits sum.splits)

lemma keeps_fds_on_error [keeps_intros]:
  assumes "keeps (\<lambda>c. Q (uc_fd_states c)) m" "keeps (\<lambda>c. Q (uc_fd_states c)) (modM g)"
  shows "keeps (\<lambda>c. Q (uc_fd_states c)) (on_error m g)"
  unfolding on_error_def using assms by (intro keeps_intros)

lemma on_fds_charge:
  assumes "fm_should_submit_recv f m0"
  shows "triple (\<lambda>c. uc_fd_states c = m0) (on_error (on_fds (with_state_mut f on_submit)) (pool_release idx))
     (\<lambda>_ c. fds_step m0 (uc_fd_states c)) (\<lambda>_ c. fds_step m0 (uc_fd_states c))"
  using fds_charge [OF assms]
  by (auto simp: triple_def on_error_apply on_fds_def pool_release_def split: prod.splits sum.splits)

lemma triple_charge:
  assumes "fm_should_submit_recv f m0" "keeps (\<lambda>c. fds_step m0 (uc_fd_states c)) n"
  shows "triple (\<lambda>c. uc_fd_states c = m0)
     (seqM (on_error (on_fds (with_state_mut f on_submit)) (pool_release idx)) n)
     (\<lambda>_ c. fds_step m0 (uc_fd_states c)) (\<lambda>_ c. fds_step m0 (uc_fd_states c))"
  by (rule triple_seqM [OF on_fds_charge [OF assms(1)] keeps_triple [OF assms(2)]])

lemma triple_acquire_fds:
  assumes "\<And>idx. triple (\<lambda>c. uc_fd_states c = m0) (body idx) (\<lambda>_ c. fds_step m0 (uc_fd_states c))
      (\<lambda>_ c. fds_step m0 (uc_fd_states c))"
  shows "triple (\<lambda>c. uc_fd_states c = m0)
     (bindM core_acquire (\<lambda>r. case r of None \<Rightarrow> raise e | Some idx \<Rightarrow> body idx))
     (\<lambda>_ c. fds_step m0 (uc_fd_states c)) (\<lambda>_ c. fds_step m0 (uc_fd_states c))"
proof (rule triple_bindM [where R = "\<lambda>_ c. uc_fd_states c = m0"])
  show "triple (\<lambda>c. uc_fd_states c = m0) core_acquire (\<lambda>_ c. uc_fd_states c = m0)
      (\<lambda>_ c. fds_step m0 (uc_fd_states c))"
    by (auto simp: triple_def core_acquire_def fds_same split: prod.splits)
  show "triple (\<lambda>c. uc_fd_states c = m0) (case r of None \<Rightarrow> raise e | Some idx \<Rightarrow> body idx)
      (\<lambda>_ c. fds_step m0 (uc_fd_states c)) (\<lambda>_ c. fds_step m0 (uc_fd_states c))" for r
    using assms by (auto simp: fds_same intro: triple_raise split: option.split)
qed

lemma fds_of_triple:
  "triple (\<lambda>c. uc_fd_states c = m0) m (\<lambda>_ c. fds_step m0 (uc_fd_states c)) (\<lambda>_ c. fds_step m0 (uc_fd_states c))
     \<Longrightarrow> uc_fd_states c = m0 \<Longrightarrow> fds_step m0 (uc_fd_states (snd (m c)))"
  by (auto simp: triple_def split: prod.splits sum.splits) (metis sum.exhaust_sel prod.collapse)

lemma submit_recv_fds: "fds_step (uc_fd_states c) (uc_fd_states (snd (submit_recv f fut c)))"
proof (cases "fm_should_submit_recv f (uc_fd_states c)")
  case True
  then show ?thesis
    unfolding submit_recv_def
    by (simp, intro fds_of_triple [OF triple_acquire_fds] triple_charge keeps_intros) simp_all
qed (simp add: submit_recv_refused fds_same)

lemma submit_recvfrom_fds: "fds_step (uc_fd_states c) (uc_fd_states (snd (submit_recvfrom f fut c)))"
proof (cases "fm_should_submit_recv f (uc_fd_states c)")
  case True
  then show ?thesis
    unfolding submit_recvfrom_def
    by (simp, intro fds_of_triple [OF triple_acquire_fds] triple_charge keeps_intros keeps_modM) simp_all
qed (simp add: submit_recvfrom_def fds_same)

lemma keeps_fds_submit [keeps_intros]:
  "keeps (\<lambda>c. Q (uc_fd_states c)) (submit_send f data fut)"
  "keeps (\<lambda>c. Q (uc_fd_states c)) (submit_accept f fut)"
  "keeps (\<lambda>c. Q (uc_fd_states c)) (submit_close f)"
  "keeps (\<lambda>c. Q (uc_fd_states c)) (submit_sendto v4 v6 f data a fut)"
  unfolding submit_send_def submit_accept_def submit_close_def submit_sendto_def
  by (intro keeps_intros keeps_modM; simp)+

lemma phase1_fds: "phase1 e c = (i, c') \<Longrightarrow> uc_fd_states c' = uc_fd_states c"
  by (auto simp: phase1_def Let_def pool_release_def split: if_splits option.splits)

lemma phase1_all_fds: "phase1_all es c = (is, c') \<Longrightarrow> uc_fd_states c' = uc_fd_states c"
  by (induction es c arbitrary: "is" rule: phase1_all.induct) (auto split: prod.splits dest: phase1_fds)

lemma phase2_frame:
  "phase2 fs c res = (res', c') \<Longrightarrow> uc_fd_states c' = uc_fd_states c \<and> uc_buffer_pool c' = uc_buffer_pool c \<and>
     uc_inflight_recv_buffers c' = uc_inflight_recv_buffers c \<and> uc_ring c' = uc_ring c \<and>
     uc_scheduler c' = uc_scheduler c \<and> uc_timers c' = uc_timers c"
  by (induction fs c res rule: phase2.induct) (auto simp: future_remove_def split: option.splits)

lemma keeps_fds_tick [keeps_intros]: "keeps (\<lambda>c. Q (uc_fd_states c)) (tick_core now)"
proof -
  have "keeps (\<lambda>c. Q (uc_fd_states c)) tick_drain"
    unfolding tick_drain_def by (intro keeps_intros) (simp add: keeps_def drain_cq_def)
  moreover have "keeps (\<lambda>c. Q (uc_fd_states c)) (modM (tick_timers now))"
    by (simp add: keeps_def tick_timers_frame)
  moreover have "keeps (\<lambda>c. Q (uc_fd_states c)) (\<lambda>c. case phase1_all es c of (items, c1) \<Rightarrow>
     case phase2 (map it_fd items) c1 Map.empty of (futs, c2) \<Rightarrow> (Inr (items, futs), c2))" for es
    by (auto simp: keeps_def split: prod.splits) (metis phase1_all_fds phase2_frame)
  ultimately show ?thesis unfolding tick_core_def by (intro keeps_seqM keeps_bindM)
qed

lemma keeps_fds_same:
  assumes "\<And>Q. keeps (\<lambda>c. Q (uc_fd_states c)) m"
  shows "fds_step (uc_fd_states c) (uc_fd_states (snd (m c)))"
  using assms [of "\<lambda>x. x = uc_fd_states c"] by (simp add: keeps_def fds_same)

lemma release_fold_fds: "uc_fd_states (fold (\<lambda>b. pool_release (br_index b)) bs c) = uc_fd_states c"
  by (induction bs arbitrary: c) (simp_all add: pool_release_def)

lemma unregister_fds:
  "uc_fd_states (unregister_fd f c) = snd (fm_unregister f (uc_fd_states c))"
  by (auto simp: unregister_fd_def release_inflight_def Let_def pool_release_def release_fold_fds
      split: option.split prod.split)

lemma on_fds_states: "uc_fd_states (snd (on_fds m c)) = snd (m (uc_fd_states c))"
  by (simp add: on_fds_def split: prod.split)

lemma core_step_fds: "core_step c c' \<Longrightarrow> fds_step (uc_fd_states c) (uc_fd_states c')"
proof (induction rule: core_step.induct)
  case (step_register c f st)
  then show ?case by (simp add: register_fd_def fds_register)
next
  case (step_unregister c f)
  then show ?case by (simp add: unregister_fds fds_unregister)
next
  case (step_pause c f)
  then show ?case by (simp add: pause_reading_def fm_pause_reading_def on_fds_states fds_pause)
next
  case (step_resume c f)
  then show ?case by (simp add: resume_reading_def fm_resume_reading_def on_fds_states fds_resume)
next
  case (step_recv c f fut)
  show ?case by (rule submit_recv_fds)
next
  case (step_recvfrom c f fut)
  show ?case by (rule submit_recvfrom_fds)
next
  case (step_timer c t h)
  then show ?case by (simp add: push_timer_def fds_same)
next
  case (step_task c h)
  then show ?case by (simp add: push_task_def fds_same)
qed (auto intro!: keeps_fds_same keeps_intros simp: fds_same)

definition all_credit_ok :: "fd_manager \<Rightarrow> bool" where
  "all_credit_ok m \<longleftrightarrow> (\<forall>f s. fm_lookup m f = Some s \<longrightarrow> credit_ok s)"

lemma with_state_mut_credit:
  assumes "all_credit_ok m" "\<And>s. fm_lookup m f = Some s \<Longrightarrow> credit_ok s \<Longrightarrow> credit_ok (g s)"
  shows "all_credit_ok (snd (with_state_mut f g m))"
  using assms lookup_with_state_mut [of f g m "fst (with_state_mut f g m)" "snd (with_state_mut f g m)"]
  by (auto simp: all_credit_ok_def split: if_splits)

lemma fds_step_credit: "fds_step m m' \<Longrightarrow> all_credit_ok m \<Longrightarrow> all_credit_ok m'"
proof (induction rule: fds_step.induct)
  case (fds_register m f st)
  then show ?case by (auto simp: all_credit_ok_def fm_lookup_simps credit_ok_new split: if_splits)
next
  case (fds_unregister m f)
  then show ?case by (auto simp: all_credit_ok_def fm_lookup_simps split: if_splits)
next
  case (fds_charge f m)
  then show ?case by (auto intro!: with_state_mut_credit credit_ok_submit simp: fm_should_submit_recv_def)
next
  case (fds_pause m f)
  then show ?case by (auto intro!: with_state_mut_credit credit_ok_other)
next
  case (fds_resume m f)
  then show ?case by (auto intro!: with_state_mut_credit credit_ok_other)
qed

lemma fds_step_spends:
  assumes "fds_step m m'" "all_credit_ok m" "fm_lookup m' f = Some s'"
  shows "(\<exists>gen st. s' = fd_state_new gen st) \<or>
    (\<exists>s. fm_lookup m f = Some s \<and> fs_inflight_count s \<le> fs_inflight_count s')"
  using assms
proof (induction rule: fds_step.induct)
  case (fds_register m g st)
  then show ?case by (auto simp: fm_lookup_simps split: if_splits)
next
  case (fds_unregister m g)
  then show ?case by (auto simp: fm_lookup_simps split: if_splits)
next
  case (fds_charge g m)
  then show ?case
    using lookup_with_state_mut [of g on_submit m "fst (with_state_mut g on_submit m)" "snd (with_state_mut g on_submit m)" f]
    by (fastforce simp: on_submit_def all_credit_ok_def credit_ok_def DEFAULT_CREDIT_BUDGET_def split: if_splits)
next
  case (fds_pause m g)
  then show ?case
    using lookup_with_state_mut [of g fs_pause m "fst (with_state_mut g fs_pause m)" "snd (with_state_mut g fs_pause m)" f]
    by (fastforce simp: fs_pause_def split: if_splits)
next
  case (fds_resume m g)
  then show ?case
    using lookup_with_state_mut [of g fs_resume m "fst (with_state_mut g fs_resume m)" "snd (with_state_mut g fs_resume m)" f]
    by (fastforce simp: fs_resume_def split: if_splits)
qed auto

lemma core_reach_credit: "core_reach c \<Longrightarrow> all_credit_ok (uc_fd_states c)"
proof (induction rule: core_reach.induct)
  case (reach_new k bsize bcount ring_size sp c)
  then show ?case
    by (auto simp: core_new_def Let_def all_credit_ok_def fd_manager_new_def fm_lookup_def split: sum.splits)
next
  case (reach_step c c')
  then show ?case by (blast intro: fds_step_credit core_step_fds)
qed



text \<open>
  The stall: once 64 receives have been counted for a descriptor, \<open>submit_recv\<close> reports
  success and does nothing, whatever future it was given; the future is never stored, so nothing
  will ever settle it.
\<close>

lemma credit_exhausted_stalls:
  assumes "core_reach c" and "fm_lookup (uc_fd_states c) f = Some s" and "fs_inflight_count s = 64"
  shows "submit_recv f fut c = (Inr (), c)"
proof -
  have ok: "credit_ok s" using core_reach_credit [OF assms(1)] assms(2) by (simp add: all_credit_ok_def)
  then have "fs_credit_budget s \<le> fs_used s"
    using assms(3) by (simp add: credit_ok_used) (simp add: credit_ok_def DEFAULT_CREDIT_BUDGET_def)
  then show ?thesis
    by (intro submit_recv_refused)
      (simp add: fm_should_submit_recv_def assms(2) fs_should_submit_recv_def has_credit_def)
qed

section \<open>Sending\<close>

definition can_send :: "nat \<Rightarrow> nat list \<Rightarrow> bytes \<Rightarrow> ('h, 'c) uring_core \<Rightarrow> bool" where
  "can_send idx rest data c \<longleftrightarrow>
     pool_wf (uc_buffer_pool c) \<and> bp_free_list (uc_buffer_pool c) = idx # rest \<and>
     length data \<le> bp_buffer_size (uc_buffer_pool c) \<and>
     length (rg_sq (uc_ring c)) < rg_sq_capacity (uc_ring c) \<and> rg_enter_err (uc_ring c) = None"

definition after_send ::
  "fd \<Rightarrow> bytes \<Rightarrow> fut_id \<Rightarrow> nat \<Rightarrow> nat list \<Rightarrow> ('h, 'c) uring_core \<Rightarrow> ('h, 'c) uring_core" where
  "after_send f data fut idx rest c = c\<lparr>
     uc_buffer_pool := (uc_buffer_pool c)\<lparr>bp_free_list := rest, bp_mem := (bp_mem (uc_buffer_pool c))
        (idx := data @ drop (length data) (bp_mem (uc_buffer_pool c) idx))\<rparr>,
     uc_futures := (uc_futures c)(f \<mapsto> fut),
     uc_ring := (uc_ring c)\<lparr>rg_kernel := rg_kernel (uc_ring c) @ rg_sq (uc_ring c) @
         [mk_sqe Send f (Some idx) (length data) (ring_gen c) (uc_ring c)], rg_sq := []\<rparr>\<rparr>"

lemma submit_send_ok:
  assumes "can_send idx rest data c"
  shows "submit_send f data fut c = (Inr (), after_send f data fut idx rest c)"
  using assms
  by (simp add: can_send_def submit_send_def core_acquire_def acquire_wf on_error_apply future_insert_def
      on_ring_def prep_defs flush_def ring_submit_def after_send_def ring_gen_def)

text \<open>
  C25. Every outcome of \<open>submit_send\<close> short of an \<open>io_uring_enter\<close> error: without a free buffer it
  raises and changes nothing; data longer than a buffer panics, and the buffer it took is on no
  list any more; otherwise the kernel is handed one send of exactly the caller's bytes, tagged
  with the descriptor, and the future is stored; with a full queue the buffer is free again.
\<close>

theorem submit_send_outcomes:
  "(pool_wf (uc_buffer_pool c) \<and> bp_free_list (uc_buffer_pool c) = [] \<longrightarrow>
      submit_send f data fut c = (Inl (RuntimeError ''No buffers available''), c)) \<and>
   (pool_wf (uc_buffer_pool c) \<and> bp_free_list (uc_buffer_pool c) = idx # rest \<and>
      bp_buffer_size (uc_buffer_pool c) < length data \<longrightarrow>
      submit_send f data fut c =
        (Inl PanicException, c\<lparr>uc_buffer_pool := (uc_buffer_pool c)\<lparr>bp_free_list := rest\<rparr>\<rparr>)) \<and>
   (can_send idx rest data c \<longrightarrow>
      submit_send f data fut c = (Inr (), after_send f data fut idx rest c) \<and>
      get_buffer_slice (uc_buffer_pool (after_send f data fut idx rest c)) idx (length data) = data) \<and>
   (pool_wf (uc_buffer_pool c) \<and> bp_free_list (uc_buffer_pool c) = idx # rest \<and>
      length data \<le> bp_buffer_size (uc_buffer_pool c) \<and>
      rg_sq_capacity (uc_ring c) \<le> length (rg_sq (uc_ring c)) \<longrightarrow>
      fst (submit_send f data fut c) = Inl (ring_op_error ''SQ is full'') \<and>
      bp_free_list (uc_buffer_pool (snd (submit_send f data fut c))) = rest @ [idx])"
proof (intro conjI impI)
  assume "pool_wf (uc_buffer_pool c) \<and> bp_free_list (uc_buffer_pool c) = []"
  then show "submit_send f data fut c = (Inl (RuntimeError ''No buffers available''), c)"
    by (simp add: submit_send_def core_acquire_def acquire_wf)
next
  assume "pool_wf (uc_buffer_pool c) \<and> bp_free_list (uc_buffer_pool c) = idx # rest \<and>
      bp_buffer_size (uc_buffer_pool c) < length data"
  then show "submit_send f data fut c =
        (Inl PanicException, c\<lparr>uc_buffer_pool := (uc_buffer_pool c)\<lparr>bp_free_list := rest\<rparr>\<rparr>)"
    by (simp add: submit_send_def core_acquire_def acquire_wf)
next
  assume c: "can_send idx rest data c"
  show "submit_send f data fut c = (Inr (), after_send f data fut idx rest c)"
    by (rule submit_send_ok [OF c])
  show "get_buffer_slice (uc_buffer_pool (after_send f data fut idx rest c)) idx (length data) = data"
    using c by (simp add: can_send_def after_send_def get_buffer_slice_def)
next
  assume "pool_wf (uc_buffer_pool c) \<and> bp_free_list (uc_buffer_pool c) = idx # rest \<and>
      length data \<le> bp_buffer_size (uc_buffer_pool c) \<and>
      rg_sq_capacity (uc_ring c) \<le> length (rg_sq (uc_ring c))"
  then show "fst (submit_send f data fut c) = Inl (ring_op_error ''SQ is full'')"
    and "bp_free_list (uc_buffer_pool (snd (submit_send f data fut c))) = rest @ [idx]"
    by (simp_all add: submit_send_def core_acquire_def acquire_wf on_error_apply future_insert_def
        on_ring_def prep_defs future_remove_def pool_release_def release_def ring_gen_def)
qed

lemma demo_can_send: "can_send 0 [1] [104, 105] demo_core"
  by (simp add: can_send_def demo_core_def pool_wf_def)

theorem submit_send_outcomes_witness:
  "submit_send 5 [104, 105] 7 demo_core = (Inr (), after_send 5 [104, 105] 7 0 [1] demo_core) \<and>
   fst (submit_send 5 [1, 2, 3, 4, 5] 7 demo_core) = Inl PanicException"
  using submit_send_outcomes [of demo_core 5 "[104, 105]" 7 0 "[1]"] demo_can_send
    submit_send_outcomes [of demo_core 5 "[1, 2, 3, 4, 5]" 7 0 "[1]"]
  by (simp add: demo_core_def pool_wf_def)

text \<open>The buffers the engine accounts for: free or tracked for a receive.\<close>

definition owned :: "('h, 'c) uring_core \<Rightarrow> nat set" where
  "owned c = ran (uc_inflight_recv_buffers c) \<union> set (bp_free_list (uc_buffer_pool c))"

lemma buffers_in_owned: "buffers_in S c \<Longrightarrow> buffers_in (owned c) c"
  by (auto simp: buffers_in_def owned_def)

lemma owned_subset: "buffers_in S c \<Longrightarrow> owned c \<subseteq> S"
  by (simp add: buffers_in_def owned_def)

lemma core_steps_buffers_in: "rtranclp core_step c c' \<Longrightarrow> buffers_in S c \<Longrightarrow> buffers_in S c'"
  by (induction rule: rtranclp_induct) (auto dest: core_step_buffers_in)

text \<open>
  C36. Send buffers leak: a successful \<open>submit_send\<close> takes a buffer out of the engine's books, and
  whatever the engine does afterwards, ticks that complete the send included, that buffer is
  never free or tracked again. A pool of \<open>n\<close> buffers therefore serves at most \<open>n\<close> sends.
\<close>

theorem send_buffer_never_returns:
  assumes "core_reach c" and "can_send idx rest data c"
    and "rtranclp core_step (snd (submit_send f data fut c)) c'"
  shows "idx \<in> owned c \<and> idx \<notin> owned c' \<and> owned c' \<subseteq> owned c - {idx}"
proof -
  from core_reach_buffers_in [OF assms(1)] obtain n where ok: "buffers_in {..<n} c" by blast
  have free: "bp_free_list (uc_buffer_pool c) = idx # rest" using assms(2) by (simp add: can_send_def)
  let ?c1 = "after_send f data fut idx rest c"
  have "buffers_in (owned ?c1) ?c1"
    using core_step_buffers_in [OF step_send ok, of f data fut] submit_send_ok [OF assms(2), of f fut]
    by (intro buffers_in_owned) simp
  then have "buffers_in (owned ?c1) c'"
    using assms(3) core_steps_buffers_in by (simp add: submit_send_ok [OF assms(2)])
  then have "owned c' \<subseteq> owned ?c1" by (rule owned_subset)
  moreover have "owned ?c1 = owned c - {idx}"
    using ok free by (auto simp: owned_def after_send_def buffers_in_def)
  moreover have "idx \<in> owned c" using free by (simp add: owned_def)
  ultimately show ?thesis by blast
qed

theorem send_buffer_never_returns_witness:
  "0 \<notin> owned (snd (tick_core 0 (snd (submit_send 5 [104, 105] 7 demo_core))))"
proof -
  have "rtranclp core_step (snd (submit_send 5 [104, 105] 7 demo_core))
      (snd (tick_core 0 (snd (submit_send 5 [104, 105] 7 demo_core))))"
    by (blast intro: step_tick)
  from send_buffer_never_returns [OF reach_new [OF demo_core_new] demo_can_send this] show ?thesis by simp
qed

section \<open>One future per descriptor\<close>

text \<open>
  C37. The engine keeps one future per descriptor, whatever the operation: a send submitted while
  a receive is outstanding replaces the receive's future, and when the receive completes, its
  bytes are delivered to the send's future.
\<close>

theorem send_future_gets_received_bytes:
  assumes can: "can_recv f idx (idx2 # rest) s c" and cq: "rg_cq (uc_ring c) = []"
    and f: "uc_inflight_recv_buffers c f = None"
    and sq: "rg_kernel (uc_ring c) = []" "rg_sq (uc_ring c) = []"
    and range: "- (2 ^ 31) \<le> f" "f < 2 ^ 31" and distinct: "idx \<noteq> idx2"
    and sent: "length sent \<le> bp_buffer_size (uc_buffer_pool c)"
    and data: "data \<noteq> []" "length data \<le> bp_buffer_size (uc_buffer_pool c)"
  shows "\<exists>c1 c2. submit_recv f recv_fut c = (Inr (), c1) \<and> submit_send f sent send_fut c1 = (Inr (), c2) \<and>
    fst (tick_core now (c2\<lparr>
       uc_buffer_pool := (uc_buffer_pool c2)\<lparr>bp_mem := (bp_mem (uc_buffer_pool c2))
          (idx := data @ drop (length data) (bp_mem (uc_buffer_pool c2) idx))\<rparr>,
       uc_ring := kernel_complete 0 (int (length data)) flags (uc_ring c2)\<rparr>)) =
      Inr ([\<lparr>it_fd = f, it_result = int (length data), it_op = Recv, it_data = Some (VBytes data)\<rparr>],
           [f \<mapsto> send_fut])"
proof -
  let ?c1 = "after_recv f recv_fut idx (idx2 # rest) s c"
  let ?c2 = "after_send f sent send_fut idx2 rest ?c1"
  let ?c3 = "?c2\<lparr>
       uc_buffer_pool := (uc_buffer_pool ?c2)\<lparr>bp_mem := (bp_mem (uc_buffer_pool ?c2))
          (idx := data @ drop (length data) (bp_mem (uc_buffer_pool ?c2) idx))\<rparr>,
       uc_ring := kernel_complete 0 (int (length data)) flags (uc_ring ?c2)\<rparr>"
  have send: "can_send idx2 rest sent ?c1"
    using can f sent sq
    by (auto simp: can_send_def can_recv_def after_recv_def)
  have ring: "rg_sq (uc_ring (tick_timers now ?c3)) = []"
    "map entry_of (rg_cq (uc_ring (tick_timers now ?c3))) =
       [entry_of \<lparr>cq_user_data = encode_user_data (word_of_int f) Recv (ring_gen c),
          cq_result = int (length data), cq_flags = flags\<rparr>]"
    using cq sq by (simp_all add: tick_timers_frame after_send_def after_recv_def kernel_complete_def
        recv_sqe_def mk_sqe_def)
  have "fst (tick_core now ?c3) =
      Inr ([\<lparr>it_fd = f, it_result = int (length data), it_op = Recv, it_data = Some (VBytes data)\<rparr>],
           [f \<mapsto> send_fut])"
    using data f ring distinct
    by (simp add: tick_core_def tick_drain_def flush_def on_ring_def ring_submit_def
        drain_cq_def phase1_def Let_def entry_of_def ce_fd_tag [OF range] ce_op_type_def decode_op from_u8_def
        tick_timers_frame after_send_def after_recv_def track_recv_def recv_data_def get_buffer_slice_def
        pool_release_def release_def future_remove_def fun_upd_idem)
  then show ?thesis using submit_recv_ok [OF can, of recv_fut] submit_send_ok [OF send, of f send_fut] by blast
qed

theorem send_future_gets_received_bytes_witness:
  "\<exists>c1 c2. submit_recv 5 7 demo_registered = (Inr (), c1) \<and> submit_send 5 [104, 105] 8 c1 = (Inr (), c2) \<and>
     uc_futures c2 5 = Some 8"
proof -
  have d: "rg_cq (uc_ring demo_registered) = []" "bp_buffer_size (uc_buffer_pool demo_registered) = 4"
    "uc_inflight_recv_buffers demo_registered 5 = None" "rg_kernel (uc_ring demo_registered) = []"
    "rg_sq (uc_ring demo_registered) = []"
    by (simp_all add: demo_registered_def demo_core_def register_fd_def)
  obtain c1 c2 where c: "submit_recv 5 7 demo_registered = (Inr (), c1)"
    "submit_send 5 [104, 105] 8 c1 = (Inr (), c2)"
    using d(2) send_future_gets_received_bytes [OF demo_can_recv d(1) d(3) d(4) d(5), of "[104, 105]" "[1]" 7 8 0 0]
    by auto
  have "can_send 1 [] [104, 105] c1"
    using c(1) d submit_recv_ok [OF demo_can_recv, of 7]
    by (auto simp: can_send_def after_recv_def demo_registered_def demo_core_def register_fd_def pool_wf_def
        track_recv_def)
  then have "uc_futures c2 5 = Some 8" using c(2) by (auto simp: submit_send_ok after_send_def)
  with c show ?thesis by blast
qed

section \<open>Timers in a tick\<close>



section \<open>Limits of the configuration\<close>

lemma core_new_free_list:
  "core_new k bsize bcount n sp = Inr c \<Longrightarrow> bp_free_list (uc_buffer_pool c) = [0..<bcount mod 2 ^ 16] \<and>
     bp_buffer_count (uc_buffer_pool c) = bcount"
  by (auto simp: core_new_def Let_def pool_new_def split: sum.splits option.splits if_splits)

text \<open>
  The buffer count is truncated to 16 bits when the free list is filled: an engine configured
  with \<open>n\<close> buffers has only \<open>n mod 2\<^sup>1\<^sup>6\<close> usable ones, and with a multiple of 65536 every
  receive on a descriptor with credit and every send fails in every reachable state.
\<close>

lemma buffer_count_truncated:
  assumes "core_new k bsize bcount n sp = Inr c" and "bcount mod 2 ^ 16 = 0" and "rtranclp core_step c c'"
  shows "bp_buffer_count (uc_buffer_pool c) = bcount \<and> bp_free_list (uc_buffer_pool c') = [] \<and>
    submit_send f data fut c' = (Inl (RuntimeError ''No buffers available''), c')"
proof -
  have "buffers_in {..<bcount mod 2 ^ 16} c" using assms(1) by (rule buffers_in_new)
  then have "buffers_in {} c'" using assms(2,3) by (auto dest: core_steps_buffers_in)
  then have empty: "bp_free_list (uc_buffer_pool c') = []" "pool_wf (uc_buffer_pool c')"
    by (auto simp: buffers_in_def)
  then show ?thesis using core_new_free_list [OF assms(1)]
    by (simp add: submit_send_def core_acquire_def acquire_wf)
qed

text \<open>
  A datagram to a name in the abstract Unix namespace never reaches that name: the kernel
  takes all \<open>msg_namelen\<close> bytes of an abstract name as significant, and the address handed to it
  is the name padded with zeros to 108 bytes. Longer names are refused.
\<close>

lemma abstract_address_padded:
  "encode_addr v4 v6 (UnixAbstract name) =
    (if length name \<ge> 108 then Inl (ValueError ''UNIX socket path too long'')
     else Inr (SaUn (name @ replicate (108 - length name) 0))) \<and>
   encode_addr v4 v6 (UnixAbstract name) \<noteq> Inr (SaUn name)"
  by (simp add: encode_addr_def unix_sockaddr_def SUN_PATH_LEN_def)

end
