(* ===== verification/Ring_Files.thy ===== *)
theory Ring_Files
  imports Ring
begin

text \<open>
  The rest of the ring (\<open>src/src/ring.rs\<close>): registered files and their mirror of the kernel's table,
  linked connects and timeouts, capabilities. A \<open>Some msg\<close> given to an operation is the kernel
  refusing its \<open>io_uring_register\<close> call; without one the kernel does what is documented: one table at
  a time, updates only within it.
\<close>

section \<open>The kernel's table\<close>

definition DEFAULT_RING_SIZE :: nat where
  "DEFAULT_RING_SIZE = 4096"

definition k_register_files :: "string option \<Rightarrow> fd list \<Rightarrow> ring \<Rightarrow> string + ring" where
  "k_register_files err fds r = (case err of
      Some msg \<Rightarrow> Inl msg
    | None \<Rightarrow> if rg_kernel_files r \<noteq> None then Inl ''Device or resource busy (os error 16)''
        else Inr (r\<lparr>rg_kernel_files := Some fds\<rparr>))"

definition k_files_update :: "string option \<Rightarrow> nat \<Rightarrow> fd \<Rightarrow> ring \<Rightarrow> string + ring" where
  "k_files_update err idx f r = (case err of
      Some msg \<Rightarrow> Inl msg
    | None \<Rightarrow> (case rg_kernel_files r of
        None \<Rightarrow> Inl ''No such device or address (os error 6)''
      | Some fs \<Rightarrow> if idx < length fs then Inr (r\<lparr>rg_kernel_files := Some (fs[idx := f])\<rparr>)
          else Inl ''Invalid argument (os error 22)''))"

section \<open>Registered files\<close>

definition init_table :: "string option \<Rightarrow> (ring, unit) pyM" where
  "init_table err r =
    (if rg_registered_fds r \<noteq> None then (Inr (), r)
     else let t = fixed_new DEFAULT_RING_SIZE in
       (case k_register_files err (ft_files t) r of
          Inl msg \<Rightarrow> (Inl (ring_op_error (''register_files init failed: '' @ msg)), r)
        | Inr r' \<Rightarrow> (Inr (), r'\<lparr>rg_registered_fds := Some t\<rparr>)))"

definition add_file :: "string option \<Rightarrow> fd \<Rightarrow> (ring, nat) pyM" where
  "add_file err f r = (case rg_registered_fds r of
      None \<Rightarrow> (Inl PanicException, r)
    | Some t \<Rightarrow> (case get_index f t of
        Some idx \<Rightarrow> (Inr idx, r)
      | None \<Rightarrow> (case fixed_insert f t of
          (None, _) \<Rightarrow> (Inl (ring_op_error ''Fixed file table full''), r)
        | (Some idx, t') \<Rightarrow> (case k_files_update err idx f r of
            Inr r' \<Rightarrow> (Inr idx, r'\<lparr>rg_registered_fds := Some t'\<rparr>)
          | Inl msg \<Rightarrow> (Inl (ring_op_error (''register_files_update failed: '' @ msg)),
              r\<lparr>rg_registered_fds := Some (snd (fixed_remove f t'))\<rparr>)))))"

definition register_file :: "string option \<Rightarrow> string option \<Rightarrow> fd \<Rightarrow> (ring, nat) pyM" where
  "register_file init_err err f = seqM (init_table init_err) (add_file err f)"

definition unregister_file :: "string option \<Rightarrow> fd \<Rightarrow> (ring, unit) pyM" where
  "unregister_file err f r = (case rg_registered_fds r of
      None \<Rightarrow> (Inr (), r)
    | Some t \<Rightarrow> (case fixed_remove f t of
        (None, _) \<Rightarrow> (Inr (), r)
      | (Some idx, t') \<Rightarrow> (case k_files_update err idx (- 1) r of
          Inr r' \<Rightarrow> (Inr (), r'\<lparr>rg_registered_fds := Some t'\<rparr>)
        | Inl msg \<Rightarrow> (Inl (ring_op_error (''unregister_file failed: '' @ msg)),
            r\<lparr>rg_registered_fds := Some t'\<rparr>))))"

definition register_fds :: "string option \<Rightarrow> fd list \<Rightarrow> (ring, unit) pyM" where
  "register_fds err fds r = (case k_register_files err fds r of
      Inl msg \<Rightarrow> (Inl (ring_op_error (''register_files failed: '' @ msg)), r)
    | Inr r' \<Rightarrow> (Inr (), r'\<lparr>rg_registered_fds :=
        Some (fixed_init (max (length fds) DEFAULT_RING_SIZE) fds)\<rparr>))"

definition unregister_fds :: "string option \<Rightarrow> (ring, unit) pyM" where
  "unregister_fds err r =
    (if rg_registered_fds r = None then (Inr (), r)
     else (case err of
        Some msg \<Rightarrow> (Inl (ring_op_error (''unregister_files failed: '' @ msg)), r)
      | None \<Rightarrow> (Inr (), r\<lparr>rg_registered_fds := None, rg_kernel_files := None\<rparr>)))"

section \<open>Connect with timeout, timers\<close>

definition timespec_ms :: "nat \<Rightarrow> nat \<times> nat" where
  "timespec_ms ms = (ms div 1000, (ms mod 1000) * 1000000)"

definition timespec_ns :: "nat \<Rightarrow> nat \<times> nat" where
  "timespec_ns ns = (ns div 1000000000, ns mod 1000000000)"

definition prep_connect_with_timeout :: "fd \<Rightarrow> nat \<Rightarrow> nat \<Rightarrow> 16 word \<Rightarrow> (ring, unit) pyM" where
  "prep_connect_with_timeout f addr_len timeout_ms gen r =
    (if length (rg_sq r) + 2 > rg_sq_capacity r then (Inl (ring_op_error ''SQ is full for connect+timeout''), r)
     else (Inr (), r\<lparr>rg_sq := rg_sq r @
        [(mk_sqe Connect f None addr_len gen r)\<lparr>sq_link := True\<rparr>,
         (mk_sqe Timeout f None 0 gen r)\<lparr>sq_fixed := None, sq_time := Some (timespec_ms timeout_ms)\<rparr>]\<rparr>))"

text \<open>A timer belongs to no descriptor; its tag is the caller's.\<close>

definition timer_sqe :: "(nat \<times> nat) option \<Rightarrow> 64 word \<Rightarrow> sqe" where
  "timer_sqe time user_data = \<lparr>sq_op = Timeout, sq_fd = - 1, sq_fixed = None, sq_buf = None, sq_len = 0,
     sq_group = None, sq_link = False, sq_time = time, sq_user_data = user_data\<rparr>"

definition prep_timeout :: "nat \<Rightarrow> 64 word \<Rightarrow> (ring, unit) pyM" where
  "prep_timeout deadline_ns user_data = sq_push (timer_sqe (Some (timespec_ns deadline_ns)) user_data)"

definition cancel_timeout :: "64 word \<Rightarrow> (ring, unit) pyM" where
  "cancel_timeout user_data = sq_push (timer_sqe None user_data)"

section \<open>Provided buffers, waiting, capabilities\<close>

definition register_pbuf_ring :: "string option \<Rightarrow> nat \<Rightarrow> (ring, unit) pyM" where
  "register_pbuf_ring err bgid r = (case err of
      Some msg \<Rightarrow> (Inl (ring_op_error (''register_buf_ring failed: '' @ msg)), r)
    | None \<Rightarrow> (Inr (), r\<lparr>rg_provided_buf_group := Some bgid\<rparr>))"

definition unregister_pbuf_ring :: "string option \<Rightarrow> (ring, unit) pyM" where
  "unregister_pbuf_ring err r = (case err of
      Some msg \<Rightarrow> (Inl (ring_op_error (''unregister_buf_ring failed: '' @ msg)), r)
    | None \<Rightarrow> (Inr (), r\<lparr>rg_provided_buf_group := None\<rparr>))"

text \<open>
  Unlike \<open>submit\<close> it enters the kernel even with nothing to submit. \<open>arrived\<close> are the completions the
  kernel posts while the call waits; that there are enough of them is the kernel's promise.
\<close>

definition submit_and_wait :: "cqe list \<Rightarrow> (ring, nat) pyM" where
  "submit_and_wait arrived r = (case rg_enter_err r of
      Some msg \<Rightarrow> (Inl (ring_op_error (''submit_and_wait failed: '' @ msg)), r)
    | None \<Rightarrow> (Inr (length (rg_sq r)),
        r\<lparr>rg_kernel := rg_kernel r @ rg_sq r, rg_sq := [], rg_cq := rg_cq r @ arrived\<rparr>))"

record ring_capabilities =
  rc_sqpoll :: bool
  rc_registered_fds :: bool
  rc_multishot_recv :: bool
  rc_send_zc :: bool
  rc_provided_buffers :: bool

definition capabilities :: "ring \<Rightarrow> ring_capabilities" where
  "capabilities r = \<lparr>rc_sqpoll = rg_sqpoll_enabled r, rc_registered_fds = (rg_registered_fds r \<noteq> None),
     rc_multishot_recv = True, rc_send_zc = True, rc_provided_buffers = (rg_provided_buf_group r \<noteq> None)\<rparr>"

section \<open>A fixed index always names its own file\<close>

definition names_files :: "fixed_fd_table \<Rightarrow> fd list \<Rightarrow> bool" where
  "names_files t fs \<longleftrightarrow> (\<forall>f i. ft_index_map t f = Some i \<longrightarrow> i < length fs \<and> fs ! i = f) \<and>
     distinct (ft_free_indices t) \<and> (\<forall>f i. ft_index_map t f = Some i \<longrightarrow> i \<notin> set (ft_free_indices t))"

definition files_ok :: "ring \<Rightarrow> bool" where
  "files_ok r \<longleftrightarrow> (case rg_registered_fds r of
      None \<Rightarrow> True
    | Some t \<Rightarrow> (case rg_kernel_files r of None \<Rightarrow> False | Some fs \<Rightarrow> names_files t fs))"

lemma names_files_new: "names_files (fixed_new n) fs"
  by (simp add: names_files_def fixed_new_def)

lemma fixed_init_sound:
  "ft_index_map (fixed_init capacity fds) f = Some i \<Longrightarrow> i < length fds \<and> fds ! i = f \<and> f \<noteq> - 1"
proof -
  have "fold (\<lambda>i m. if fds ! i \<noteq> - 1 then m(fds ! i \<mapsto> i) else m) is m0 f = Some i \<Longrightarrow>
      (i \<in> set is \<and> fds ! i = f \<and> f \<noteq> - 1) \<or> m0 f = Some i" for "is" m0
    by (induction "is" arbitrary: m0) (fastforce split: if_splits)+
  then show "ft_index_map (fixed_init capacity fds) f = Some i \<Longrightarrow> i < length fds \<and> fds ! i = f \<and> f \<noteq> - 1"
    by (fastforce simp: fixed_init_def)
qed

lemma names_files_init: "names_files (fixed_init capacity fds) fds"
proof -
  have "i \<notin> set (ft_free_indices (fixed_init capacity fds))" if "i < length fds" "fds ! i \<noteq> - 1" for i
    using that by (simp add: fixed_init_def)
  moreover have "distinct (ft_free_indices (fixed_init capacity fds))" by (simp add: fixed_init_def)
  ultimately show ?thesis
    unfolding names_files_def using fixed_init_sound [of capacity fds] by blast
qed

lemma names_files_insert:
  assumes t: "names_files t fs" and new: "ft_index_map t f = None" and ins: "fixed_insert f t = (Some i, t')"
    and i: "i < length fs"
  shows "names_files t' (fs[i := f])"
proof -
  let ?free = "ft_free_indices t"
  from new ins have ne: "?free \<noteq> []" and t': "t' = t\<lparr>ft_index_map := (ft_index_map t)(f \<mapsto> i),
      ft_files := (ft_files t)[i := f], ft_free_indices := butlast ?free\<rparr>" and last: "i = last ?free"
    by (auto simp: fixed_insert_def Let_def split: if_splits)
  from ne last have free: "?free = butlast ?free @ [i]" by simp
  then have "distinct (butlast ?free @ [i])" using t by (simp add: names_files_def)
  then have d: "distinct (butlast ?free)" "i \<notin> set (butlast ?free)" by simp_all
  have "i \<in> set ?free" using ne last by simp
  then have fresh: "ft_index_map t g \<noteq> Some i" for g using t by (auto simp: names_files_def)
  have old: "j < length fs \<and> fs ! j = g \<and> j \<notin> set (butlast ?free)" if "ft_index_map t g = Some j" for g j
    using t that in_set_butlastD [of j ?free] by (auto simp: names_files_def)
  show ?thesis
    unfolding names_files_def t' using d i fresh old by (auto simp: nth_list_update)
qed

lemma names_files_remove:
  assumes t: "names_files t fs" and rem: "fixed_remove f t = (Some i, t')"
  shows "names_files t' fs \<and> names_files t' (fs[i := x])"
proof -
  from rem have f: "ft_index_map t f = Some i" and t': "t' = t\<lparr>ft_index_map := (ft_index_map t)(f := None),
      ft_files := (ft_files t)[i := - 1], ft_free_indices := ft_free_indices t @ [i]\<rparr>"
    by (auto simp: fixed_remove_def split: option.splits)
  have i: "i \<notin> set (ft_free_indices t)" "fs ! i = f" using t f by (auto simp: names_files_def)
  have old: "j < length fs \<and> fs ! j = g \<and> j \<notin> set (ft_free_indices t) \<and> j \<noteq> i"
    if "ft_index_map t g = Some j" "g \<noteq> f" for g j
    using t that i(2) by (auto simp: names_files_def)
  then have upd: "fs[i := x] ! j = g" if "ft_index_map t g = Some j" "g \<noteq> f" for g j using that by fastforce
  have "distinct (ft_free_indices t)" using t by (simp add: names_files_def)
  then show ?thesis unfolding names_files_def t' using i(1) old upd by auto
qed

lemma fixed_remove_insert:
  "ft_index_map t f = None \<Longrightarrow> fixed_insert f t = (Some i, t') \<Longrightarrow> ft_index_map (snd (fixed_remove f t')) = ft_index_map t \<and>
     ft_free_indices (snd (fixed_remove f t')) = ft_free_indices t"
  by (auto simp: fixed_insert_def fixed_remove_def Let_def split: if_splits)

lemma names_files_rollback:
  assumes "names_files t fs" "ft_index_map t f = None" "fixed_insert f t = (Some i, t')"
  shows "names_files (snd (fixed_remove f t')) fs"
  using assms fixed_remove_insert [OF assms(2,3)] by (simp add: names_files_def)

text \<open>Every operation keeps the agreement, whatever the kernel answers.\<close>

lemma files_ok_init: "keeps files_ok (init_table err)"
  by (auto simp: keeps_def init_table_def files_ok_def k_register_files_def Let_def names_files_new split: option.splits sum.splits)

lemma files_ok_add: "keeps files_ok (add_file err f)"
proof (rule keepsI)
  fix r assume ok: "files_ok r"
  show "files_ok (snd (add_file err f r))"
  proof (cases "rg_registered_fds r")
    case None
    with ok show ?thesis by (simp add: add_file_def)
  next
    case (Some t)
    with ok obtain fs where fs: "rg_kernel_files r = Some fs" "names_files t fs"
      by (auto simp: files_ok_def split: option.splits)
    obtain res t' where ins: "fixed_insert f t = (res, t')" by (rule prod.exhaust)
    show ?thesis
    proof (cases "ft_index_map t f = None \<and> res \<noteq> None")
      case True
      then obtain i where i: "res = Some i" "ft_index_map t f = None" by auto
      have "names_files t' (fs[i := f])" if "i < length fs" using names_files_insert [OF fs(2) i(2) _ that] ins i(1) by simp
      moreover have "names_files (snd (fixed_remove f t')) fs" using names_files_rollback [OF fs(2) i(2)] ins i(1) by simp
      ultimately show ?thesis
        using Some fs ins i by (auto simp: add_file_def get_index_def k_files_update_def files_ok_def split: option.split)
    next
      case False
      with ok Some ins show ?thesis by (auto simp: add_file_def get_index_def split: option.split)
    qed
  qed
qed

lemma files_ok_register_file: "keeps files_ok (register_file e1 e2 f)"
  unfolding register_file_def by (intro keeps_seqM files_ok_init files_ok_add)

lemma files_ok_unregister_file: "keeps files_ok (unregister_file err f)"
proof (rule keepsI)
  fix r assume ok: "files_ok r"
  show "files_ok (snd (unregister_file err f r))"
  proof (cases "rg_registered_fds r")
    case None
    with ok show ?thesis by (simp add: unregister_file_def)
  next
    case (Some t)
    with ok obtain fs where fs: "rg_kernel_files r = Some fs" "names_files t fs"
      by (auto simp: files_ok_def split: option.splits)
    obtain res t' where rem: "fixed_remove f t = (res, t')" by (rule prod.exhaust)
    then show ?thesis
      using ok Some fs names_files_remove [OF fs(2), of f _ t']
      by (auto simp: unregister_file_def k_files_update_def files_ok_def split: option.split)
  qed
qed

lemma files_ok_register_fds: "keeps files_ok (register_fds err fds)"
  by (auto simp: keeps_def register_fds_def k_register_files_def files_ok_def names_files_init split: option.splits)

lemma files_ok_unregister_fds: "keeps files_ok (unregister_fds err)"
  by (auto simp: keeps_def unregister_fds_def files_ok_def split: option.splits)

inductive files_step :: "ring \<Rightarrow> ring \<Rightarrow> bool" where
  fs_register: "files_step r (snd (register_file e1 e2 f r))"
| fs_unregister: "files_step r (snd (unregister_file err f r))"
| fs_register_all: "files_step r (snd (register_fds err fds r))"
| fs_unregister_all: "files_step r (snd (unregister_fds err r))"
| fs_shutdown: "files_step r (ring_shutdown r)"

lemma files_ok_step: "files_step r r' \<Longrightarrow> files_ok r \<Longrightarrow> files_ok r'"
proof (induction rule: files_step.induct)
  case (fs_register r e1 e2 f)
  then show ?case using files_ok_register_file by (simp add: keeps_def)
next
  case (fs_unregister r err f)
  then show ?case using files_ok_unregister_file by (simp add: keeps_def)
next
  case (fs_register_all r err fds)
  then show ?case using files_ok_register_fds by (simp add: keeps_def)
next
  case (fs_unregister_all r err)
  then show ?case using files_ok_unregister_fds by (simp add: keeps_def)
next
  case (fs_shutdown r)
  then show ?case by (simp add: files_ok_def ring_shutdown_def)
qed

text \<open>
  C28. A fixed index always names its own file: starting from a ring without registered files, after
  any registrations and removals, one by one or as a whole, and whatever the kernel refuses, an
  operation prepared for a descriptor that is in the table carries the index under which the
  kernel's own table holds exactly that descriptor.
\<close>

theorem fixed_index_names_its_file:
  assumes "rg_registered_fds r = None" and "rtranclp files_step r r'"
    and "sq_fixed (mk_sqe op f buf len gen r') = Some i"
  shows "\<exists>fs. rg_kernel_files r' = Some fs \<and> i < length fs \<and> fs ! i = f"
proof -
  have "files_ok r'" using assms(2,1) by (induction rule: rtranclp_induct) (auto simp: files_ok_def dest: files_ok_step)
  moreover from assms(3) obtain t where "rg_registered_fds r' = Some t" "ft_index_map t f = Some i"
    by (auto simp: mk_sqe_def lookup_fixed_def get_index_def split: bind_splits)
  ultimately show ?thesis by (auto simp: files_ok_def names_files_def split: option.splits)
qed

definition demo_ring :: ring where
  "demo_ring = \<lparr>rg_sq = [], rg_sq_capacity = 8, rg_kernel = [], rg_cq = [], rg_enter_err = None, rg_event_fd = 3,
     rg_sqpoll_enabled = False, rg_generation_id = 1, rg_original_pid = 1, rg_is_active = True,
     rg_buffers_registered = True, rg_registered_fds = None, rg_provided_buf_group = None, rg_kernel_files = None\<rparr>"

theorem fixed_index_names_its_file_witness:
  "\<exists>fs. rg_kernel_files (snd (register_file None None 5 demo_ring)) = Some fs \<and> fs ! 0 = 5"
proof -
  have "files_step demo_ring (snd (register_file None None 5 demo_ring))" by (rule fs_register)
  moreover have "sq_fixed (mk_sqe Recv 5 None 0 1 (snd (register_file None None 5 demo_ring))) = Some 0"
    by (simp add: register_file_def init_table_def add_file_def demo_ring_def k_register_files_def k_files_update_def
        fixed_new_def fixed_insert_def get_index_def Let_def DEFAULT_RING_SIZE_def mk_sqe_def lookup_fixed_def last_rev)
  moreover have "rg_registered_fds demo_ring = None" by (simp add: demo_ring_def)
  ultimately show ?thesis using fixed_index_names_its_file by blast
qed

text \<open>
  A connect with timeout is two linked entries or nothing, and its time is the number of
  milliseconds asked for, in a well-formed \<open>timespec\<close>.
\<close>

lemma connect_with_timeout_pair:
  "(length (rg_sq r) + 2 > rg_sq_capacity r \<longrightarrow> snd (prep_connect_with_timeout f n ms gen r) = r) \<and>
   (length (rg_sq r) + 2 \<le> rg_sq_capacity r \<longrightarrow>
      (\<exists>c t. rg_sq (snd (prep_connect_with_timeout f n ms gen r)) = rg_sq r @ [c, t] \<and> sq_link c \<and> sq_op c = Connect \<and>
        sq_time t = Some (timespec_ms ms))) \<and>
   1000000000 * fst (timespec_ms ms) + snd (timespec_ms ms) = 1000000 * ms \<and> snd (timespec_ms ms) < 1000000000"
proof -
  have "ms = 1000 * (ms div 1000) + ms mod 1000" by simp
  then have "1000000000 * (ms div 1000) + (ms mod 1000) * 1000000 = 1000000 * ms" by linarith
  moreover have "(ms mod 1000) * 1000000 < 1000000000" using mod_less_divisor [of 1000 ms] by linarith
  ultimately show ?thesis by (simp add: prep_connect_with_timeout_def timespec_ms_def mk_sqe_def)
qed

end
