(* ===== verification/Core_Multi.thy ===== *)
theory Core_Multi
  imports Core_Props Ring_Files
begin

text \<open>
  The operations of \<open>UringCore\<close> (\<open>src/src/lib.rs\<close>) that the Python package does not call: multishot
  submissions over the provided buffer ring, the separate \<open>drain_completions\<close>, registered files, the
  stop flag of the native loop. They are kept apart from the steps of theory \<open>Core\<close>: with them the
  ownership of buffers is no longer what \<open>Core_Props\<close> shows.
\<close>

definition submit_recv_multishot :: "fd \<Rightarrow> fut_id \<Rightarrow> (('h, 'c) uring_core, unit) pyM" where
  "submit_recv_multishot f fut = bindM (getM uc_pbuf_ring) (\<lambda>pr. case pr of
      None \<Rightarrow> raise (RuntimeError ''Provided Buffer Ring not available (kernel < 5.19 or not initialized)'')
    | Some pb \<Rightarrow>
        bindM (getM ring_gen) (\<lambda>gen.
        seqM (modM (future_insert f fut))
       (seqM (on_ring (prep_recv_multishot f (unat (pb_bgid pb)) gen)) flush)))"

definition submit_accept_multishot :: "fd \<Rightarrow> (('h, 'c) uring_core, unit) pyM" where
  "submit_accept_multishot f = bindM (getM ring_gen) (\<lambda>gen. seqM (on_ring (prep_accept_multishot f gen)) flush)"

definition core_register_file :: "string option \<Rightarrow> string option \<Rightarrow> fd \<Rightarrow> (('h, 'c) uring_core, nat) pyM" where
  "core_register_file e1 e2 f = on_ring (register_file e1 e2 f)"

definition core_unregister_file :: "string option \<Rightarrow> fd \<Rightarrow> (('h, 'c) uring_core, unit) pyM" where
  "core_unregister_file err f = on_ring (unregister_file err f)"

definition core_stop :: "('h, 'c) uring_core \<Rightarrow> ('h, 'c) uring_core" where
  "core_stop c = c\<lparr>uc_stopping := True\<rparr>"

definition core_clear_stop :: "('h, 'c) uring_core \<Rightarrow> ('h, 'c) uring_core" where
  "core_clear_stop c = c\<lparr>uc_stopping := False\<rparr>"

definition core_is_stopping :: "('h, 'c) uring_core \<Rightarrow> bool" where
  "core_is_stopping c = uc_stopping c"

section \<open>Draining completions\<close>

text \<open>
  One completion: what Python sees, the provided buffer to put back into the ring, and the engine.
  An error of \<open>with_state_mut\<close> is dropped.
\<close>

definition drain_one :: "completion_entry \<Rightarrow> ('h, 'c) uring_core \<Rightarrow> item \<times> nat list \<times> ('h, 'c) uring_core" where
  "drain_one e c =
    (let f = sint (ce_fd e); res = ce_result e; op = ce_op_type e; p = uc_buffer_pool c;
         mk = (\<lambda>d. \<lparr>it_fd = f, it_result = res, it_op = op, it_data = d\<rparr>);
         bytes = (\<lambda>i. if res > 0 then Some (VBytes (get_buffer_slice p i (nat res))) else None)
     in case ce_buffer_index e of
          Some b \<Rightarrow> (mk (bytes (unat b)), if op = RecvMulti then [unat b] else [], pool_release (unat b) c)
        | None \<Rightarrow>
            if op = Recv then
              (let c1 = snd (on_fds (with_state_mut f on_completion_empty) c)
               in case uc_inflight_recv_buffers c1 f of
                    None \<Rightarrow> (mk None, [], c1)
                  | Some idx \<Rightarrow> (mk (bytes idx), [], pool_release idx
                      (c1\<lparr>uc_inflight_recv_buffers := (uc_inflight_recv_buffers c1)(f := None)\<rparr>)))
            else (mk None, [], c))"

fun drain_all :: "completion_entry list \<Rightarrow> ('h, 'c) uring_core \<Rightarrow> item list \<times> nat list \<times> ('h, 'c) uring_core" where
  "drain_all [] c = ([], [], c)"
| "drain_all (e # es) c =
    (case drain_one e c of (i, bs, c') \<Rightarrow> case drain_all es c' of (is, bs', c'') \<Rightarrow> (i # is, bs @ bs', c''))"

definition replenish :: "nat list \<Rightarrow> ('h, 'c) uring_core \<Rightarrow> ('h, 'c) uring_core" where
  "replenish bids c = (case uc_pbuf_ring c of
      Some pr \<Rightarrow> if bids = [] then c
        else c\<lparr>uc_pbuf_ring := Some (add_buffers (of_nat (length bids))
          (\<lambda>i. \<lparr>ib_addr = get_buffer_ptr (uc_buffer_pool c) (bids ! i),
                ib_len = of_nat (bp_buffer_size (uc_buffer_pool c)), ib_bid = of_nat (bids ! i)\<rparr>) pr)\<rparr>
    | None \<Rightarrow> c)"

definition drain_completions :: "(('h, 'c) uring_core, item list) pyM" where
  "drain_completions c = (case drain_cq (uc_ring c) of (es, r) \<Rightarrow>
     case drain_all es (c\<lparr>uc_ring := r\<rparr>) of (items, bids, c') \<Rightarrow> (Inr items, replenish bids c'))"

section \<open>What draining does that a tick does not\<close>

lemma credit_cycle: "fs_inflight_count s < 2 ^ 32 - 1 \<Longrightarrow> on_completion_empty (on_submit s) = s"
  by (simp add: on_completion_empty_def on_submit_def min_def)

text \<open>
  C35. The other way to take completions closes the credit cycle that the tick leaves open: after a
  successful \<open>submit_recv\<close> and the kernel's answer, \<open>drain_completions\<close> reports the receive with
  exactly its bytes, the buffer is back on the free list, and the state of the descriptor, credit
  included, is what it was before the submission. The future stays in the map.
\<close>

theorem drain_completions_returns_credit:
  assumes can: "can_recv f idx rest s c" and cq: "rg_cq (uc_ring c) = []"
    and f: "uc_inflight_recv_buffers c f = None" "- (2 ^ 31) \<le> f" "f < 2 ^ 31" and credit: "fs_inflight_count s < 2 ^ 32 - 1"
    and data: "data \<noteq> []" "length data \<le> bp_buffer_size (uc_buffer_pool c)" "\<not> cqe_has_buffer flags"
  shows "\<exists>c'. drain_completions (recv_answered idx data flags (snd (submit_recv f fut c))) =
      (Inr [\<lparr>it_fd = f, it_result = int (length data), it_op = Recv, it_data = Some (VBytes data)\<rparr>], c') \<and>
    bp_free_list (uc_buffer_pool c') = rest @ [idx] \<and> fm_lookup (uc_fd_states c') f = Some s \<and>
    uc_inflight_recv_buffers c' = uc_inflight_recv_buffers c \<and> uc_futures c' f = Some fut"
proof -
  let ?c = "recv_answered idx data flags (after_recv f fut idx rest s c)"
  have ring: "map entry_of (rg_cq (uc_ring ?c)) =
       [entry_of \<lparr>cq_user_data = encode_user_data (word_of_int f) Recv (ring_gen c),
          cq_result = int (length data), cq_flags = flags\<rparr>]"
    using cq by (simp add: recv_answered_def after_recv_def kernel_complete_def recv_sqe_def mk_sqe_def nth_append)
  have gen: "is_valid_generation (fm_generation_id (uc_fd_states c)) (on_submit s)"
    using can by (simp add: can_recv_def is_valid_generation_def on_submit_def)
  show ?thesis
    using data f(1) ring gen credit_cycle [OF credit]
    by (simp add: submit_recv_ok [OF can] drain_completions_def drain_cq_def drain_one_def Let_def entry_of_def
        ce_fd_tag [OF f(2,3)] ce_op_type_def decode_op from_u8_def recv_answered_def after_recv_def track_recv_def
        on_fds_def with_state_mut_def fm_check_def fm_lookup_def update_conv' get_buffer_slice_def pool_release_def
        release_def replenish_def fun_upd_idem split: option.split)
qed

theorem drain_completions_returns_credit_witness:
  "\<exists>c'. drain_completions (recv_answered 0 [104, 105] 0 (snd (submit_recv 5 7 demo_registered))) =
      (Inr [\<lparr>it_fd = 5, it_result = 2, it_op = Recv, it_data = Some (VBytes [104, 105])\<rparr>], c') \<and>
     fm_lookup (uc_fd_states c') 5 = Some (fd_state_new 1 TcpStream)"
proof -
  have "rg_cq (uc_ring demo_registered) = []" "bp_buffer_size (uc_buffer_pool demo_registered) = 4"
    "uc_inflight_recv_buffers demo_registered 5 = None" "fs_inflight_count (fd_state_new 1 TcpStream) = 0"
    by (simp_all add: demo_registered_def demo_core_def register_fd_def fd_state_new_def)
  then show ?thesis
    using drain_completions_returns_credit [OF demo_can_recv, of "[104, 105]" 0 7]
    by (auto simp: cqe_has_buffer_def)
qed

lemma count_list_distinct: "distinct xs \<Longrightarrow> x \<in> set xs \<Longrightarrow> count_list xs x = 1"
  by (induction xs) (auto simp: count_list_0_iff)

section \<open>Buffers of multishot receives\<close>

text \<open>
  A multishot receive has no sound way back for its buffer. Both ways of taking completions
  hand Python the bytes of the provided buffer. The tick gives the buffer back to nobody: pool and
  provided ring stay as they are, so the ring runs dry. \<open>drain_completions\<close> puts it into the
  provided ring and also on the pool's free list, where a new engine has it already: the same
  buffer is then free twice and provided to the kernel as well.
\<close>

lemma multishot_buffer_has_no_way_back:
  assumes e: "ce_op_type e = RecvMulti" "ce_buffer_index e = Some b" "0 < ce_result e"
    and i: "i = \<lparr>it_fd = sint (ce_fd e), it_result = ce_result e, it_op = RecvMulti,
      it_data = Some (VBytes (get_buffer_slice (uc_buffer_pool c) (unat b) (nat (ce_result e))))\<rparr>"
    and c: "core_new k bsize bcount n sp = Inr c" "unat b < bcount mod 2 ^ 16"
  shows "phase1 e c = (i, c) \<and>
    (\<exists>c'. drain_all [e] c = ([i], [unat b], c') \<and> count_list (bp_free_list (uc_buffer_pool c')) (unat b) = 2)"
proof -
  from c have free: "bp_free_list (uc_buffer_pool c) = [0..<bcount mod 2 ^ 16]" "bp_generation (uc_buffer_pool c) = 1"
    using core_new_free_list [OF c(1)] by (auto simp: core_new_def Let_def pool_new_def split: sum.splits option.splits if_splits)
  have "count_list [0..<bcount mod 2 ^ 16] (unat b) = 1"
    using c(2) by (intro count_list_distinct) simp_all
  then show ?thesis
    using e i free by (simp add: phase1_def drain_one_def Let_def pool_release_def release_def)
qed

end
