(* ===== verification/Metrics.thy ===== *)
theory Metrics
  imports Core_Inv
begin

text \<open>
  \<open>Metrics\<close> and \<open>MetricsCollector\<close> (\<open>src/python/uringcore/metrics.py\<close>): the snapshot, its two
  renderings, and the collector with its callbacks. A callback gets the snapshot and may raise;
  callbacks that change the collector's own list while it iterates are outside the model.
\<close>

record metrics =
  buffers_total :: nat
  buffers_free :: nat
  buffers_quarantined :: nat
  buffers_in_use :: nat
  fd_count :: nat
  fd_inflight :: nat
  fd_queued :: nat
  fd_paused :: nat
  timestamp :: real

datatype json = JNat nat | JFloat real | JDict "(string \<times> json) list"

definition to_dict :: "metrics \<Rightarrow> json" where
  "to_dict m = JDict
    [(''buffers'', JDict
       [(''total'', JNat (buffers_total m)), (''free'', JNat (buffers_free m)),
        (''quarantined'', JNat (buffers_quarantined m)), (''in_use'', JNat (buffers_in_use m))]),
     (''file_descriptors'', JDict
       [(''count'', JNat (fd_count m)), (''inflight'', JNat (fd_inflight m)),
        (''queued'', JNat (fd_queued m)), (''paused'', JNat (fd_paused m))]),
     (''timestamp'', JFloat (timestamp m))]"

text \<open>One gauge of the exposition format: its help, type and sample lines.\<close>

definition gauge :: "string \<Rightarrow> string \<Rightarrow> nat \<Rightarrow> string list" where
  "gauge name help v =
    [''# HELP '' @ name @ '' '' @ help, ''# TYPE '' @ name @ '' gauge'', name @ '' '' @ show_nat v]"

definition prometheus_lines :: "metrics \<Rightarrow> string list" where
  "prometheus_lines m =
    gauge ''uringcore_buffers_total'' ''Total buffers in pool'' (buffers_total m) @ [[]] @
    gauge ''uringcore_buffers_free'' ''Available buffers'' (buffers_free m) @ [[]] @
    gauge ''uringcore_buffers_quarantined'' ''Buffers in quarantine'' (buffers_quarantined m) @ [[]] @
    gauge ''uringcore_buffers_in_use'' ''Buffers currently in use'' (buffers_in_use m) @ [[]] @
    gauge ''uringcore_fd_count'' ''Registered file descriptors'' (fd_count m) @ [[]] @
    gauge ''uringcore_fd_inflight'' ''Operations in flight'' (fd_inflight m) @ [[]] @
    gauge ''uringcore_fd_queued'' ''Queued operations'' (fd_queued m) @ [[]] @
    gauge ''uringcore_fd_paused'' ''Paused file descriptors'' (fd_paused m)"

fun join_lines :: "string list \<Rightarrow> string" where
  "join_lines [] = []"
| "join_lines [l] = l"
| "join_lines (l # ls) = l @ CHR 0x0A # join_lines ls"

definition to_prometheus :: "metrics \<Rightarrow> string" where
  "to_prometheus m = join_lines (prometheus_lines m)"

section \<open>The collector\<close>

record collector =
  mc_callbacks :: "nat list"
  mc_notified :: "(nat \<times> metrics) list" \<comment> \<open>the calls made, in order\<close>

definition collector_new :: collector where
  "collector_new = \<lparr>mc_callbacks = [], mc_notified = []\<rparr>"

definition snapshot :: "('h, 'c) uring_core \<Rightarrow> real \<Rightarrow> metrics" where
  "snapshot c now =
    (case buffer_stats c of (b0, b1, b2, b3) \<Rightarrow> case fd_stats c of (f0, f1, f2, f3) \<Rightarrow>
       \<lparr>buffers_total = b0, buffers_free = b1, buffers_quarantined = b2, buffers_in_use = b3,
        fd_count = f0, fd_inflight = f1, fd_queued = f2, fd_paused = f3, timestamp = now\<rparr>)"

definition run_metrics_callback ::
  "(nat \<Rightarrow> metrics \<Rightarrow> exn option) \<Rightarrow> metrics \<Rightarrow> nat \<Rightarrow> (collector, unit) pyM" where
  "run_metrics_callback U m k =
    seqM (modM (\<lambda>s. s\<lparr>mc_notified := mc_notified s @ [(k, m)]\<rparr>))
         (case U k m of None \<Rightarrow> ret () | Some e \<Rightarrow> raise e)"

definition collect ::
  "(nat \<Rightarrow> metrics \<Rightarrow> exn option) \<Rightarrow> ('h, 'c) uring_core \<Rightarrow> real \<Rightarrow> (collector, metrics) pyM" where
  "collect U c now =
    (let m = snapshot c now in
     bindM (getM mc_callbacks) (\<lambda>cbs.
     seqM (forM cbs (\<lambda>k. tryM (run_metrics_callback U m k) is_Exception (\<lambda>_. ret ())))
          (ret m)))"

definition add_callback :: "nat \<Rightarrow> collector \<Rightarrow> collector" where
  "add_callback k s = s\<lparr>mc_callbacks := mc_callbacks s @ [k]\<rparr>"

definition remove_callback :: "nat \<Rightarrow> collector \<Rightarrow> collector" where
  "remove_callback k s = s\<lparr>mc_callbacks := remove1 k (mc_callbacks s)\<rparr>"

text \<open>\<open>None\<close>: the loop has no engine attribute.\<close>

definition get_metrics :: "('h, 'c) uring_core option \<Rightarrow> real \<Rightarrow> metrics option" where
  "get_metrics core now = (case core of
      None \<Rightarrow> None
    | Some c \<Rightarrow> (case collect (\<lambda>_ _. None) c now collector_new of
        (Inr m, _) \<Rightarrow> Some m | (Inl _, _) \<Rightarrow> None))"

end
