(* ===== verification/Policy.thy ===== *)
theory Policy
  imports Prelude
begin

text \<open>
  \<open>EventLoopPolicy\<close> (\<open>src/python/uringcore/policy.py\<close>) and \<open>new_event_loop\<close>
  (\<open>src/python/uringcore/__init__.py\<close>): the loop of each thread. A loop is known by identity and
  by whether it is closed; \<open>err\<close> is the error of constructing one, if it fails.
\<close>

record policy =
  po_local :: "nat \<Rightarrow> nat option" \<comment> \<open>thread to loop: the \<open>threading.local\<close>\<close>
  po_closed :: "nat \<Rightarrow> bool"
  po_next :: nat

definition policy_new_event_loop :: "exn option \<Rightarrow> (policy, nat) pyM" where
  "policy_new_event_loop err = (case err of
      Some e \<Rightarrow> raise e
    | None \<Rightarrow> (\<lambda>s. (Inr (po_next s),
        s\<lparr>po_next := Suc (po_next s), po_closed := (po_closed s)(po_next s := False)\<rparr>)))"

definition set_event_loop :: "nat \<Rightarrow> nat option \<Rightarrow> (policy, unit) pyM" where
  "set_event_loop th l = modM (\<lambda>s. s\<lparr>po_local := (po_local s)(th := l)\<rparr>)"

definition get_event_loop :: "nat \<Rightarrow> exn option \<Rightarrow> (policy, nat) pyM" where
  "get_event_loop th err = bindM (getM (\<lambda>s. (po_local s th, po_closed s))) (\<lambda>(l, closed).
     case l of
       Some k \<Rightarrow> if closed k
         then bindM (policy_new_event_loop err) (\<lambda>k'. seqM (set_event_loop th (Some k')) (ret k'))
         else ret k
     | None \<Rightarrow> bindM (policy_new_event_loop err) (\<lambda>k'. seqM (set_event_loop th (Some k')) (ret k')))"

definition get_child_watcher :: "nat option" where
  "get_child_watcher = None"

section \<open>Properties\<close>

definition policy_wf :: "policy \<Rightarrow> bool" where
  "policy_wf s \<longleftrightarrow> (\<forall>th k. po_local s th = Some k \<longrightarrow> k < po_next s)"

lemma policy_wf_new [keeps_intros]: "keeps policy_wf (policy_new_event_loop err)"
  by (auto simp: keeps_def policy_new_event_loop_def policy_wf_def less_Suc_eq split: option.splits)

lemma get_event_loop_wf: "keeps policy_wf (get_event_loop th err)"
  by (auto simp: keeps_def get_event_loop_def policy_new_event_loop_def set_event_loop_def policy_wf_def
      less_Suc_eq py_defs split: option.splits sum.splits)

lemma get_event_loop_open:
  "get_event_loop th err s = (Inr k, s') \<Longrightarrow> po_local s' th = Some k \<and> \<not> po_closed s' k"
  by (auto simp: get_event_loop_def policy_new_event_loop_def set_event_loop_def py_defs
      split: option.splits sum.splits if_splits prod.splits)

end
