(* ===== verification/Loop_State.thy ===== *)
theory Loop_State
  imports Core_Inv
begin

unbundle bit_operations_syntax

text \<open>
  The state of \<open>UringEventLoop\<close> (\<open>src/python/uringcore/loop.py\<close>) with the standard-library
  objects it works on: \<open>asyncio\<close> futures and handles (by identity), the \<open>epoll\<close> object and the
  kernel's table of open descriptors, the monotonic clock. \<open>'cb\<close> is the type of callbacks
  with their arguments; the record is extensible, so every transport theory adds its own
  objects to it and uses the operations below unchanged.
\<close>

section \<open>Futures, handles and the loop record\<close>

datatype fut_state = Pending | Finished pyval | Failed exn | Cancelled

record 'cb future =
  fu_state :: fut_state
  fu_callbacks :: "'cb list"

text \<open>
  A handle is a \<open>UringHandle\<close> (\<open>src/src/handle.rs\<close>) or, for timers and reader or writer
  events, an \<open>asyncio\<close> handle; the two report an exception of their callback differently.
\<close>

datatype handle_kind = NativeHandle | AsyncioHandle

record 'cb handle =
  ha_kind :: handle_kind
  ha_callback :: 'cb
  ha_cancelled :: bool

record 'cb loop =
  lo_core :: "(nat, 'cb) uring_core"
  lo_handles :: "nat \<rightharpoonup> 'cb handle"
  lo_next_handle :: nat
  lo_futs :: "fut_id \<Rightarrow> 'cb future"
  lo_next_fut :: fut_id
  lo_closed :: bool
  lo_stopping :: bool
  lo_running :: bool
  lo_debug :: bool
  lo_transports :: "fd \<rightharpoonup> nat"
  lo_servers :: "fd \<rightharpoonup> nat \<times> nat" \<comment> \<open>server object and protocol factory\<close>
  lo_io_futures :: "fd \<times> string \<rightharpoonup> fut_id"
  lo_epoll :: "fd \<rightharpoonup> 32 word"
  lo_epoll_closed :: bool
  lo_open_fds :: "fd \<Rightarrow> bool"
  lo_eventfd_count :: nat
  lo_readers :: "fd \<rightharpoonup> 'cb"
  lo_writers :: "fd \<rightharpoonup> 'cb"
  lo_signal_handlers :: "int \<rightharpoonup> 'cb"
  lo_os_signals :: "int \<rightharpoonup> 'cb" \<comment> \<open>installed handlers; \<open>None\<close> is \<open>SIG_DFL\<close>\<close>
  lo_exception_handler :: "nat option"
  lo_default_executor :: "nat option"
  lo_time :: real \<comment> \<open>\<open>time.monotonic()\<close>\<close>
  lo_printed :: "string list"
  lo_tracebacks :: "exn list" \<comment> \<open>exceptions the engine printed\<close>

definition on_core ::
  "((nat, 'cb) uring_core, 'a) pyM \<Rightarrow> (('cb, 'x) loop_scheme, 'a) pyM" where
  "on_core m w = (case m (lo_core w) of (r, c) \<Rightarrow> (r, w\<lparr>lo_core := c\<rparr>))"

definition mod_core ::
  "((nat, 'cb) uring_core \<Rightarrow> (nat, 'cb) uring_core) \<Rightarrow> (('cb, 'x) loop_scheme, unit) pyM" where
  "mod_core g = modM (\<lambda>w. w\<lparr>lo_core := g (lo_core w)\<rparr>)"

definition event_fd :: "('cb, 'x) loop_scheme \<Rightarrow> fd" where
  "event_fd w = rg_event_fd (uc_ring (lo_core w))"

section \<open>Checks\<close>

definition check_closed :: "(('cb, 'x) loop_scheme, unit) pyM" where
  "check_closed = bindM (getM lo_closed) (\<lambda>b.
     whenM b (raise (RuntimeError ''Event loop is closed'')))"

definition check_running :: "(('cb, 'x) loop_scheme, unit) pyM" where
  "check_running = bindM (getM lo_running) (\<lambda>b.
     whenM b (raise (RuntimeError ''This event loop is already running'')))"

text \<open>
  In debug mode the loop calls \<open>self._check_callback\<close>, which neither the class nor
  \<open>asyncio.AbstractEventLoop\<close> defines.
\<close>

definition debug_check :: "(('cb, 'x) loop_scheme, unit) pyM" where
  "debug_check = bindM (getM lo_debug) (\<lambda>b.
     whenM b (raise (AttributeError ''_check_callback'')))"

section \<open>Callback scheduling\<close>

definition new_handle :: "handle_kind \<Rightarrow> 'cb \<Rightarrow> (('cb, 'x) loop_scheme, nat) pyM" where
  "new_handle k cb w = (Inr (lo_next_handle w),
     w\<lparr>lo_handles := (lo_handles w)(lo_next_handle w \<mapsto> \<lparr>ha_kind = k, ha_callback = cb, ha_cancelled = False\<rparr>),
       lo_next_handle := Suc (lo_next_handle w)\<rparr>)"

definition cancel_handle :: "nat \<Rightarrow> ('cb, 'x) loop_scheme \<Rightarrow> ('cb, 'x) loop_scheme" where
  "cancel_handle h w = w\<lparr>lo_handles :=
     (lo_handles w)(h := map_option (\<lambda>x. x\<lparr>ha_cancelled := True\<rparr>) (lo_handles w h))\<rparr>"

definition call_soon :: "'cb \<Rightarrow> (('cb, 'x) loop_scheme, nat) pyM" where
  "call_soon cb =
    seqM check_closed
   (seqM debug_check
   (bindM (new_handle NativeHandle cb) (\<lambda>h. seqM (mod_core (push_task h)) (ret h))))"

text \<open>\<open>_write_to_self\<close>: the write raises the eventfd's counter; its errors are ignored.\<close>

definition write_to_self :: "(('cb, 'x) loop_scheme, unit) pyM" where
  "write_to_self = modM (\<lambda>w. if lo_open_fds w (event_fd w)
     then w\<lparr>lo_eventfd_count := lo_eventfd_count w + 1\<rparr> else w)"

definition call_soon_threadsafe :: "'cb \<Rightarrow> (('cb, 'x) loop_scheme, nat) pyM" where
  "call_soon_threadsafe cb =
    seqM check_closed
   (seqM debug_check
   (bindM (new_handle NativeHandle cb) (\<lambda>h.
    seqM (mod_core (push_task h)) (seqM write_to_self (ret h)))))"

definition call_at :: "real \<Rightarrow> 'cb \<Rightarrow> (('cb, 'x) loop_scheme, nat) pyM" where
  "call_at t cb =
    seqM check_closed
   (bindM (new_handle AsyncioHandle cb) (\<lambda>h. seqM (mod_core (push_timer t h)) (ret h)))"

definition call_later :: "real \<Rightarrow> 'cb \<Rightarrow> (('cb, 'x) loop_scheme, nat) pyM" where
  "call_later delay cb =
    seqM check_closed (bindM (getM lo_time) (\<lambda>now. call_at (now + delay) cb))"

definition loop_time :: "(('cb, 'x) loop_scheme, real) pyM" where
  "loop_time = getM lo_time"

section \<open>asyncio futures\<close>

definition create_future :: "(('cb, 'x) loop_scheme, fut_id) pyM" where
  "create_future w = (Inr (lo_next_fut w),
     w\<lparr>lo_futs := (lo_futs w)(lo_next_fut w := \<lparr>fu_state = Pending, fu_callbacks = []\<rparr>),
       lo_next_fut := Suc (lo_next_fut w)\<rparr>)"

definition fut_done :: "fut_id \<Rightarrow> ('cb, 'x) loop_scheme \<Rightarrow> bool" where
  "fut_done f w \<longleftrightarrow> fu_state (lo_futs w f) \<noteq> Pending"

definition set_fut :: "fut_id \<Rightarrow> 'cb future \<Rightarrow> ('cb, 'x) loop_scheme \<Rightarrow> ('cb, 'x) loop_scheme" where
  "set_fut f x w = w\<lparr>lo_futs := (lo_futs w)(f := x)\<rparr>"

text \<open>A future settles once; its callbacks are then scheduled in the order they were added.\<close>

definition settle :: "fut_id \<Rightarrow> fut_state \<Rightarrow> (('cb, 'x) loop_scheme, unit) pyM" where
  "settle f st =
    bindM (getM (\<lambda>w. fu_callbacks (lo_futs w f))) (\<lambda>cbs.
    seqM (modM (set_fut f \<lparr>fu_state = st, fu_callbacks = []\<rparr>))
         (forM cbs (\<lambda>cb. bindM (call_soon cb) (\<lambda>_. ret ()))))"

definition set_result :: "fut_id \<Rightarrow> pyval \<Rightarrow> (('cb, 'x) loop_scheme, unit) pyM" where
  "set_result f v = bindM (getM (fut_done f)) (\<lambda>d.
     if d then raise InvalidStateError else settle f (Finished v))"

definition set_exception :: "fut_id \<Rightarrow> exn \<Rightarrow> (('cb, 'x) loop_scheme, unit) pyM" where
  "set_exception f e = bindM (getM (fut_done f)) (\<lambda>d.
     if d then raise InvalidStateError else settle f (Failed e))"

definition fut_cancel :: "fut_id \<Rightarrow> (('cb, 'x) loop_scheme, bool) pyM" where
  "fut_cancel f = bindM (getM (fut_done f)) (\<lambda>d.
     if d then ret False else seqM (settle f Cancelled) (ret True))"

definition fut_result :: "fut_id \<Rightarrow> (('cb, 'x) loop_scheme, pyval) pyM" where
  "fut_result f = bindM (getM (\<lambda>w. fu_state (lo_futs w f))) (\<lambda>st. case st of
      Pending \<Rightarrow> raise InvalidStateError
    | Cancelled \<Rightarrow> raise CancelledError
    | Failed e \<Rightarrow> raise e
    | Finished v \<Rightarrow> ret v)"

definition fut_exception :: "fut_id \<Rightarrow> (('cb, 'x) loop_scheme, exn option) pyM" where
  "fut_exception f = bindM (getM (\<lambda>w. fu_state (lo_futs w f))) (\<lambda>st. case st of
      Pending \<Rightarrow> raise InvalidStateError
    | Cancelled \<Rightarrow> raise CancelledError
    | Failed e \<Rightarrow> ret (Some e)
    | Finished v \<Rightarrow> ret None)"

definition add_done_callback :: "fut_id \<Rightarrow> 'cb \<Rightarrow> (('cb, 'x) loop_scheme, unit) pyM" where
  "add_done_callback f cb = bindM (getM (\<lambda>w. lo_futs w f)) (\<lambda>x.
     if fu_state x \<noteq> Pending then bindM (call_soon cb) (\<lambda>_. ret ())
     else modM (set_fut f (x\<lparr>fu_callbacks := fu_callbacks x @ [cb]\<rparr>)))"

section \<open>epoll\<close>

definition EPOLLIN :: "32 word" where "EPOLLIN = 1"
definition EPOLLOUT :: "32 word" where "EPOLLOUT = 4"
definition EPOLLERR :: "32 word" where "EPOLLERR = 8"
definition EPOLLHUP :: "32 word" where "EPOLLHUP = 16"

lemmas epoll_defs = EPOLLIN_def EPOLLOUT_def EPOLLERR_def EPOLLHUP_def

definition epoll_guard :: "fd \<Rightarrow> (('cb, 'x) loop_scheme, unit) pyM" where
  "epoll_guard f = bindM (getM (\<lambda>w. (lo_epoll_closed w, lo_open_fds w f))) (\<lambda>(c, opn).
     if f < 0 then raise (ValueError (''file descriptor cannot be a negative integer ('' @ show_int f @ '')''))
     else if c then raise (ValueError ''I/O operation on closed epoll object'')
     else whenM (\<not> opn) (raise (OSError EBADF)))"

definition epoll_register :: "fd \<Rightarrow> 32 word \<Rightarrow> (('cb, 'x) loop_scheme, unit) pyM" where
  "epoll_register f ev = seqM (epoll_guard f) (bindM (getM (\<lambda>w. lo_epoll w f)) (\<lambda>old. case old of
      Some _ \<Rightarrow> raise (OSError EEXIST)
    | None \<Rightarrow> modM (\<lambda>w. w\<lparr>lo_epoll := (lo_epoll w)(f \<mapsto> ev)\<rparr>)))"

definition epoll_modify :: "fd \<Rightarrow> 32 word \<Rightarrow> (('cb, 'x) loop_scheme, unit) pyM" where
  "epoll_modify f ev = seqM (epoll_guard f) (bindM (getM (\<lambda>w. lo_epoll w f)) (\<lambda>old. case old of
      None \<Rightarrow> raise (OSError ENOENT)
    | Some _ \<Rightarrow> modM (\<lambda>w. w\<lparr>lo_epoll := (lo_epoll w)(f \<mapsto> ev)\<rparr>)))"

definition epoll_unregister :: "fd \<Rightarrow> (('cb, 'x) loop_scheme, unit) pyM" where
  "epoll_unregister f = seqM (epoll_guard f) (bindM (getM (\<lambda>w. lo_epoll w f)) (\<lambda>old. case old of
      None \<Rightarrow> raise (OSError ENOENT)
    | Some _ \<Rightarrow> modM (\<lambda>w. w\<lparr>lo_epoll := (lo_epoll w)(f := None)\<rparr>)))"

text \<open>Closing a descriptor takes it out of the kernel's table and out of the interest set.\<close>

definition os_close :: "fd \<Rightarrow> ('cb, 'x) loop_scheme \<Rightarrow> ('cb, 'x) loop_scheme" where
  "os_close f w = w\<lparr>lo_open_fds := (lo_open_fds w)(f := False), lo_epoll := (lo_epoll w)(f := None)\<rparr>"

section \<open>Readers and writers\<close>

definition remove_reader :: "fd \<Rightarrow> (('cb, 'x) loop_scheme, bool) pyM" where
  "remove_reader f = bindM (getM (\<lambda>w. lo_readers w f)) (\<lambda>r. case r of
      None \<Rightarrow> ret False
    | Some _ \<Rightarrow>
        seqM (modM (\<lambda>w. w\<lparr>lo_readers := (lo_readers w)(f := None)\<rparr>))
       (seqM (mod_core (core_remove_reader f))
       (bindM (getM (\<lambda>w. lo_writers w f)) (\<lambda>wr.
        seqM (tryM (if wr \<noteq> None then epoll_modify f EPOLLOUT else epoll_unregister f)
                is_OSError (\<lambda>_. ret ()))
             (ret True)))))"

definition remove_writer :: "fd \<Rightarrow> (('cb, 'x) loop_scheme, bool) pyM" where
  "remove_writer f = bindM (getM (\<lambda>w. lo_writers w f)) (\<lambda>r. case r of
      None \<Rightarrow> ret False
    | Some _ \<Rightarrow>
        seqM (modM (\<lambda>w. w\<lparr>lo_writers := (lo_writers w)(f := None)\<rparr>))
       (seqM (mod_core (core_remove_writer f))
       (bindM (getM (\<lambda>w. lo_readers w f)) (\<lambda>rd.
        seqM (tryM (if rd \<noteq> None then epoll_modify f EPOLLIN else epoll_unregister f)
                is_OSError (\<lambda>_. ret ()))
             (ret True)))))"

definition add_reader :: "fd \<Rightarrow> 'cb \<Rightarrow> (('cb, 'x) loop_scheme, unit) pyM" where
  "add_reader f cb =
    seqM check_closed
   (seqM (remove_reader f)
   (bindM (getM (\<lambda>w. lo_writers w f)) (\<lambda>wr.
    let ev = (if wr \<noteq> None then EPOLLIN OR EPOLLOUT else EPOLLIN)
    in seqM (tryM (if wr \<noteq> None then epoll_modify f ev else epoll_register f ev)
               is_FileExistsError (\<lambda>_. epoll_modify f ev))
      (seqM (modM (\<lambda>w. w\<lparr>lo_readers := (lo_readers w)(f \<mapsto> cb)\<rparr>))
            (mod_core (core_add_reader f cb))))))"

definition add_writer :: "fd \<Rightarrow> 'cb \<Rightarrow> (('cb, 'x) loop_scheme, unit) pyM" where
  "add_writer f cb =
    seqM check_closed
   (seqM (remove_writer f)
   (bindM (getM (\<lambda>w. lo_readers w f)) (\<lambda>rd.
    let ev = (if rd \<noteq> None then EPOLLOUT OR EPOLLIN else EPOLLOUT)
    in seqM (tryM (if rd \<noteq> None then epoll_modify f ev else epoll_register f ev)
               is_FileExistsError (\<lambda>_. epoll_modify f ev))
      (seqM (modM (\<lambda>w. w\<lparr>lo_writers := (lo_writers w)(f \<mapsto> cb)\<rparr>))
            (mod_core (core_add_writer f cb))))))"

section \<open>Debug mode, exception handler, signals, executor\<close>

definition get_debug :: "(('cb, 'x) loop_scheme, bool) pyM" where
  "get_debug = getM lo_debug"

definition set_debug :: "bool \<Rightarrow> (('cb, 'x) loop_scheme, unit) pyM" where
  "set_debug b = modM (\<lambda>w. w\<lparr>lo_debug := b\<rparr>)"

definition set_exception_handler :: "nat option \<Rightarrow> (('cb, 'x) loop_scheme, unit) pyM" where
  "set_exception_handler h = modM (\<lambda>w. w\<lparr>lo_exception_handler := h\<rparr>)"

definition default_exception_handler :: "string option \<Rightarrow> (('cb, 'x) loop_scheme, unit) pyM" where
  "default_exception_handler msg = modM (\<lambda>w. w\<lparr>lo_printed := lo_printed w @ [case msg of
      None \<Rightarrow> ''Unhandled exception in event loop''
    | Some m \<Rightarrow> if m = [] then ''Unhandled exception in event loop'' else m]\<rparr>)"

text \<open>\<open>user\<close> runs a user-supplied exception handler.\<close>

definition call_exception_handler ::
  "(nat \<Rightarrow> string option \<Rightarrow> (('cb, 'x) loop_scheme, unit) pyM) \<Rightarrow> string option
     \<Rightarrow> (('cb, 'x) loop_scheme, unit) pyM" where
  "call_exception_handler user msg = bindM (getM lo_exception_handler) (\<lambda>h. case h of
      Some k \<Rightarrow> user k msg
    | None \<Rightarrow> default_exception_handler msg)"

definition SIGKILL :: int where "SIGKILL = 9"
definition SIGSTOP :: int where "SIGSTOP = 19"

text \<open>
  \<open>sig_err\<close> is the answer of \<open>signal.signal\<close>, which raises outside the main thread or on a
  bad number; the loop's own table is written before it is asked.
\<close>

definition add_signal_handler ::
  "exn option \<Rightarrow> int \<Rightarrow> 'cb \<Rightarrow> (('cb, 'x) loop_scheme, unit) pyM" where
  "add_signal_handler sig_err sig cb =
    seqM check_closed
   (if sig = SIGKILL \<or> sig = SIGSTOP
    then raise (RuntimeError (''Cannot register handler for signal '' @ show_int sig))
    else
      seqM (modM (\<lambda>w. w\<lparr>lo_signal_handlers := (lo_signal_handlers w)(sig \<mapsto> cb)\<rparr>))
           (case sig_err of
              Some e \<Rightarrow> raise e
            | None \<Rightarrow> modM (\<lambda>w. w\<lparr>lo_os_signals := (lo_os_signals w)(sig \<mapsto> cb)\<rparr>)))"

definition remove_signal_handler :: "int \<Rightarrow> (('cb, 'x) loop_scheme, bool) pyM" where
  "remove_signal_handler sig = bindM (getM (\<lambda>w. lo_signal_handlers w sig)) (\<lambda>h. case h of
      None \<Rightarrow> ret False
    | Some _ \<Rightarrow>
        seqM (modM (\<lambda>w. w\<lparr>lo_signal_handlers := (lo_signal_handlers w)(sig := None)\<rparr>))
       (seqM (modM (\<lambda>w. w\<lparr>lo_os_signals := (lo_os_signals w)(sig := None)\<rparr>)) (ret True)))"

text \<open>Delivery of a signal runs the installed \<open>_signal_handler\<close>.\<close>

definition deliver_signal :: "int \<Rightarrow> (('cb, 'x) loop_scheme, unit) pyM" where
  "deliver_signal sig = bindM (getM (\<lambda>w. lo_os_signals w sig)) (\<lambda>h. case h of
      None \<Rightarrow> ret ()
    | Some cb \<Rightarrow> bindM (call_soon_threadsafe cb) (\<lambda>_. ret ()))"

definition set_default_executor :: "nat option \<Rightarrow> (('cb, 'x) loop_scheme, unit) pyM" where
  "set_default_executor e = modM (\<lambda>w. w\<lparr>lo_default_executor := e\<rparr>)"

section \<open>Stopping and closing\<close>

definition stop :: "(('cb, 'x) loop_scheme, unit) pyM" where
  "stop = modM (\<lambda>w. w\<lparr>lo_stopping := True\<rparr>)"

definition loop_close :: "(('cb, 'x) loop_scheme, unit) pyM" where
  "loop_close = bindM (getM (\<lambda>w. (lo_running w, lo_closed w))) (\<lambda>(running, closed).
    if running then raise (RuntimeError ''Cannot close a running event loop'')
    else if closed then ret ()
    else
      seqM (modM (\<lambda>w. w\<lparr>lo_default_executor := None\<rparr>))
     (seqM (bindM (getM event_fd) epoll_unregister)
     (seqM (modM (\<lambda>w. w\<lparr>lo_epoll_closed := True\<rparr>))
     (seqM (mod_core core_shutdown)
           (modM (\<lambda>w. w\<lparr>lo_closed := True\<rparr>))))))"

section \<open>The poll timeout\<close>

definition calculate_timeout :: "('cb, 'x) loop_scheme \<Rightarrow> real" where
  "calculate_timeout w =
    (if lo_stopping w then 0
     else if ready_len (lo_core w) > 0 then 0
     else (case next_expiration (uc_timers (lo_core w)) of
        Some next_time \<Rightarrow> min (max 0 (next_time - lo_time w)) (1 / 100)
      | None \<Rightarrow> 1 / 100))"

section \<open>Closed forms\<close>

definition scheduled :: "'cb \<Rightarrow> ('cb, 'x) loop_scheme \<Rightarrow> ('cb, 'x) loop_scheme" where
  "scheduled cb w = w\<lparr>
     lo_handles := (lo_handles w)(lo_next_handle w \<mapsto>
        \<lparr>ha_kind = NativeHandle, ha_callback = cb, ha_cancelled = False\<rparr>),
     lo_next_handle := Suc (lo_next_handle w), lo_core := push_task (lo_next_handle w) (lo_core w)\<rparr>"

definition refusal :: "('cb, 'x) loop_scheme \<Rightarrow> exn option" where
  "refusal w = (if lo_closed w then Some (RuntimeError ''Event loop is closed'')
     else if lo_debug w then Some (AttributeError ''_check_callback'') else None)"

lemma check_closed_eq [simp]:
  "check_closed w = (if lo_closed w then Inl (RuntimeError ''Event loop is closed'') else Inr (), w)"
  by (simp add: check_closed_def)

lemma check_running_eq [simp]:
  "check_running w = (if lo_running w then Inl (RuntimeError ''This event loop is already running'') else Inr (), w)"
  by (simp add: check_running_def)

lemma call_soon_eq:
  "call_soon cb w = (case refusal w of
      Some e \<Rightarrow> (Inl e, w) | None \<Rightarrow> (Inr (lo_next_handle w), scheduled cb w))"
  by (simp add: call_soon_def debug_check_def new_handle_def mod_core_def scheduled_def refusal_def)

lemma call_soon_ok [simp]:
  "refusal w = None \<Longrightarrow> call_soon cb w = (Inr (lo_next_handle w), scheduled cb w)"
  by (simp add: call_soon_eq)

lemma scheduled_frame [simp]:
  "lo_closed (scheduled cb w) = lo_closed w" "lo_debug (scheduled cb w) = lo_debug w"
  "lo_futs (scheduled cb w) = lo_futs w" "lo_open_fds (scheduled cb w) = lo_open_fds w"
  "lo_readers (scheduled cb w) = lo_readers w" "lo_writers (scheduled cb w) = lo_writers w"
  "lo_epoll (scheduled cb w) = lo_epoll w" "lo_epoll_closed (scheduled cb w) = lo_epoll_closed w"
  "lo_io_futures (scheduled cb w) = lo_io_futures w" "lo_transports (scheduled cb w) = lo_transports w"
  "lo_stopping (scheduled cb w) = lo_stopping w" "lo_running (scheduled cb w) = lo_running w"
  "refusal (scheduled cb w) = refusal w"
  "uc_scheduler (lo_core (scheduled cb w)) = uc_scheduler (lo_core w) @ [lo_next_handle w]"
  "uc_ring (lo_core (scheduled cb w)) = uc_ring (lo_core w)"
  "uc_readers (lo_core (scheduled cb w)) = uc_readers (lo_core w)"
  "uc_writers (lo_core (scheduled cb w)) = uc_writers (lo_core w)"
  by (simp_all add: scheduled_def refusal_def push_task_def sched_push_def)

lemma refusal_None [simp]: "refusal w = None \<longleftrightarrow> \<not> lo_closed w \<and> \<not> lo_debug w"
  by (simp add: refusal_def)

end
