(* ===== verification/Fd_Watch.thy ===== *)
theory Fd_Watch
  imports Loop_State
begin

unbundle bit_operations_syntax

text \<open>
  Reader and writer registration is consistent: for every descriptor but the loop's own
  eventfd, the epoll interest set holds exactly the events the Python tables ask for, and the
  engine's tables mirror the Python ones. Under that invariant the four operations have closed
  forms, \<open>add_reader\<close> and \<open>add_writer\<close> either register or change nothing, and both pairs
  satisfy the interface \<open>fd_watch\<close> that the pipe, datagram and subprocess transports rely on.
\<close>

definition interest :: "('cb, 'x) loop_scheme \<Rightarrow> fd \<Rightarrow> 32 word option" where
  "interest w f =
    (if lo_readers w f \<noteq> None
     then Some (if lo_writers w f \<noteq> None then EPOLLIN OR EPOLLOUT else EPOLLIN)
     else if lo_writers w f \<noteq> None then Some EPOLLOUT else None)"

definition watch_ok :: "fd \<Rightarrow> ('cb, 'x) loop_scheme \<Rightarrow> bool" where
  "watch_ok e w \<longleftrightarrow> \<not> lo_epoll_closed w \<and>
     (\<forall>f. f \<noteq> e \<longrightarrow> lo_epoll w f = interest w f \<and> (interest w f \<noteq> None \<longrightarrow> 0 \<le> f \<and> lo_open_fds w f)) \<and>
     uc_readers (lo_core w) = lo_readers w \<and> uc_writers (lo_core w) = lo_writers w"

definition unwatch_reader :: "fd \<Rightarrow> ('cb, 'x) loop_scheme \<Rightarrow> ('cb, 'x) loop_scheme" where
  "unwatch_reader f w = w\<lparr>lo_readers := (lo_readers w)(f := None),
     lo_core := core_remove_reader f (lo_core w),
     lo_epoll := (lo_epoll w)(f := (if lo_writers w f \<noteq> None then Some EPOLLOUT else None))\<rparr>"

definition unwatch_writer :: "fd \<Rightarrow> ('cb, 'x) loop_scheme \<Rightarrow> ('cb, 'x) loop_scheme" where
  "unwatch_writer f w = w\<lparr>lo_writers := (lo_writers w)(f := None),
     lo_core := core_remove_writer f (lo_core w),
     lo_epoll := (lo_epoll w)(f := (if lo_readers w f \<noteq> None then Some EPOLLIN else None))\<rparr>"

definition watch_reader :: "fd \<Rightarrow> 'cb \<Rightarrow> ('cb, 'x) loop_scheme \<Rightarrow> ('cb, 'x) loop_scheme" where
  "watch_reader f cb w = w\<lparr>lo_readers := (lo_readers w)(f \<mapsto> cb),
     lo_core := core_add_reader f cb (lo_core w),
     lo_epoll := (lo_epoll w)(f \<mapsto> (if lo_writers w f \<noteq> None then EPOLLIN OR EPOLLOUT else EPOLLIN))\<rparr>"

definition watch_writer :: "fd \<Rightarrow> 'cb \<Rightarrow> ('cb, 'x) loop_scheme \<Rightarrow> ('cb, 'x) loop_scheme" where
  "watch_writer f cb w = w\<lparr>lo_writers := (lo_writers w)(f \<mapsto> cb),
     lo_core := core_add_writer f cb (lo_core w),
     lo_epoll := (lo_epoll w)(f \<mapsto> (if lo_readers w f \<noteq> None then EPOLLOUT OR EPOLLIN else EPOLLOUT))\<rparr>"

lemmas watch_defs = unwatch_reader_def unwatch_writer_def watch_reader_def watch_writer_def
  core_remove_reader_def core_remove_writer_def core_add_reader_def core_add_writer_def

lemmas epoll_op_defs = epoll_register_def epoll_modify_def epoll_unregister_def epoll_guard_def

section \<open>Closed forms\<close>

lemma remove_reader_eq:
  assumes "watch_ok e w" and "f \<noteq> e"
  shows "remove_reader f w = (Inr (lo_readers w f \<noteq> None), unwatch_reader f w)"
proof (cases "lo_readers w f")
  case None
  from assms have "lo_epoll w f = interest w f" "uc_readers (lo_core w) = lo_readers w"
    by (auto simp: watch_ok_def)
  with None have "unwatch_reader f w = w"
    by (simp add: watch_defs interest_def fun_upd_idem split: if_splits)
  with None show ?thesis by (simp add: remove_reader_def)
next
  case (Some cb)
  with assms have "lo_epoll w f \<noteq> None" "lo_open_fds w f" "\<not> lo_epoll_closed w" "0 \<le> f"
    by (auto simp: watch_ok_def interest_def)
  with Some show ?thesis
    by (auto simp: remove_reader_def epoll_op_defs mod_core_def watch_defs)
qed

lemma remove_writer_eq:
  assumes "watch_ok e w" and "f \<noteq> e"
  shows "remove_writer f w = (Inr (lo_writers w f \<noteq> None), unwatch_writer f w)"
proof (cases "lo_writers w f")
  case None
  from assms have "lo_epoll w f = interest w f" "uc_writers (lo_core w) = lo_writers w"
    by (auto simp: watch_ok_def)
  with None have "unwatch_writer f w = w"
    by (simp add: watch_defs interest_def fun_upd_idem split: if_splits)
  with None show ?thesis by (simp add: remove_writer_def)
next
  case (Some cb)
  with assms have "lo_epoll w f \<noteq> None" "lo_open_fds w f" "\<not> lo_epoll_closed w" "0 \<le> f"
    by (auto simp: watch_ok_def interest_def)
  with Some show ?thesis
    by (auto simp: remove_writer_def epoll_op_defs mod_core_def watch_defs)
qed

definition watchable :: "fd \<Rightarrow> ('cb, 'x) loop_scheme \<Rightarrow> bool" where
  "watchable f w \<longleftrightarrow> \<not> lo_closed w \<and> 0 \<le> f \<and> lo_open_fds w f"

lemma watch_after_unwatch [simp]:
  "watch_reader f cb (unwatch_reader f w) = watch_reader f cb w"
  "watch_writer f cb (unwatch_writer f w) = watch_writer f cb w"
  by (simp_all add: watch_defs)

lemma unwatch_frame [simp]:
  "lo_closed (unwatch_reader f w) = lo_closed w" "lo_closed (unwatch_writer f w) = lo_closed w"
  "lo_epoll_closed (unwatch_reader f w) = lo_epoll_closed w"
  "lo_epoll_closed (unwatch_writer f w) = lo_epoll_closed w"
  "lo_open_fds (unwatch_reader f w) = lo_open_fds w" "lo_open_fds (unwatch_writer f w) = lo_open_fds w"
  "lo_writers (unwatch_reader f w) = lo_writers w" "lo_readers (unwatch_writer f w) = lo_readers w"
  "lo_readers (unwatch_reader f w) = (lo_readers w)(f := None)"
  "lo_writers (unwatch_writer f w) = (lo_writers w)(f := None)"
  "lo_epoll (unwatch_reader f w) f = (if lo_writers w f \<noteq> None then Some EPOLLOUT else None)"
  "lo_epoll (unwatch_writer f w) f = (if lo_readers w f \<noteq> None then Some EPOLLIN else None)"
  by (simp_all add: watch_defs)

lemma add_reader_eq:
  assumes ok: "watch_ok e w" and fe: "f \<noteq> e" and can: "watchable f w"
  shows "add_reader f cb w = (Inr (), watch_reader f cb w)"
proof -
  from ok have "\<not> lo_epoll_closed w" by (simp add: watch_ok_def)
  then have "add_reader f cb w = (Inr (), watch_reader f cb (unwatch_reader f w))"
    using can remove_reader_eq [OF ok fe]
    by (auto simp: add_reader_def check_closed_def watchable_def epoll_op_defs Let_def mod_core_def
        watch_reader_def)
  then show ?thesis by simp
qed

lemma add_writer_eq:
  assumes ok: "watch_ok e w" and fe: "f \<noteq> e" and can: "watchable f w"
  shows "add_writer f cb w = (Inr (), watch_writer f cb w)"
proof -
  from ok have "\<not> lo_epoll_closed w" by (simp add: watch_ok_def)
  then have "add_writer f cb w = (Inr (), watch_writer f cb (unwatch_writer f w))"
    using can remove_writer_eq [OF ok fe]
    by (auto simp: add_writer_def check_closed_def watchable_def epoll_op_defs Let_def mod_core_def
        watch_writer_def)
  then show ?thesis by simp
qed

text \<open>Where the registration cannot be made, nothing changes.\<close>

lemma unwatched_closed_fd:
  assumes "watch_ok e w" "f \<noteq> e" "\<not> (0 \<le> f \<and> lo_open_fds w f)"
  shows "lo_readers w f = None" "lo_writers w f = None"
proof -
  from assms have "interest w f = None" by (auto simp: watch_ok_def)
  then show "lo_readers w f = None" "lo_writers w f = None"
    by (simp_all add: interest_def split: if_splits)
qed

lemma add_reader_fail:
  assumes ok: "watch_ok e w" and fe: "f \<noteq> e" and can: "\<not> watchable f w"
  shows "add_reader f cb w =
    (Inl (if lo_closed w then RuntimeError ''Event loop is closed''
          else if f < 0 then ValueError (''file descriptor cannot be a negative integer ('' @ show_int f @ '')'')
          else OSError EBADF), w)"
proof (cases "lo_closed w")
  case True
  then show ?thesis by (simp add: add_reader_def check_closed_def)
next
  case False
  with can have nopen: "\<not> (0 \<le> f \<and> lo_open_fds w f)" by (simp add: watchable_def)
  with unwatched_closed_fd [OF ok fe] have "lo_readers w f = None" "lo_writers w f = None" by auto
  moreover from ok have "\<not> lo_epoll_closed w" by (simp add: watch_ok_def)
  ultimately show ?thesis
    using False nopen
    by (auto simp: add_reader_def check_closed_def remove_reader_def epoll_op_defs Let_def
        is_FileExistsError_def errno_defs)
qed

lemma add_writer_fail:
  assumes ok: "watch_ok e w" and fe: "f \<noteq> e" and can: "\<not> watchable f w"
  shows "add_writer f cb w =
    (Inl (if lo_closed w then RuntimeError ''Event loop is closed''
          else if f < 0 then ValueError (''file descriptor cannot be a negative integer ('' @ show_int f @ '')'')
          else OSError EBADF), w)"
proof (cases "lo_closed w")
  case True
  then show ?thesis by (simp add: add_writer_def check_closed_def)
next
  case False
  with can have nopen: "\<not> (0 \<le> f \<and> lo_open_fds w f)" by (simp add: watchable_def)
  with unwatched_closed_fd [OF ok fe] have "lo_readers w f = None" "lo_writers w f = None" by auto
  moreover from ok have "\<not> lo_epoll_closed w" by (simp add: watch_ok_def)
  ultimately show ?thesis
    using False nopen
    by (auto simp: add_writer_def check_closed_def remove_writer_def epoll_op_defs Let_def
        is_FileExistsError_def errno_defs)
qed

section \<open>Preservation of the consistency\<close>

lemma epoll_or_commute: "EPOLLOUT OR EPOLLIN = EPOLLIN OR EPOLLOUT"
  by (simp add: or.commute)

lemma watch_ok_unwatch:
  assumes "watch_ok e w" "f \<noteq> e"
  shows "watch_ok e (unwatch_reader f w)" "watch_ok e (unwatch_writer f w)"
  using assms by (auto simp: watch_ok_def watch_defs interest_def)

lemma watch_ok_watch:
  assumes "watch_ok e w" "f \<noteq> e" "watchable f w"
  shows "watch_ok e (watch_reader f cb w)" "watch_ok e (watch_writer f cb w)"
  using assms by (auto simp: watch_ok_def watch_defs interest_def epoll_or_commute watchable_def)

text \<open>Closing a descriptor nobody watches keeps it; closing a watched one leaves a stale entry.\<close>

lemma watch_ok_os_close:
  assumes "watch_ok e w" "lo_readers w f = None" "lo_writers w f = None"
  shows "watch_ok e (os_close f w)"
  using assms by (auto simp: watch_ok_def os_close_def interest_def)

lemma not_watch_ok_os_close:
  assumes "f \<noteq> e" "lo_readers w f \<noteq> None"
  shows "\<not> watch_ok e (os_close f w)"
  using assms by (auto simp: watch_ok_def os_close_def interest_def)

section \<open>The interface the transports use\<close>

text \<open>
  \<open>add\<close> and \<open>rem\<close> are a registration pair over one table; the other table is not touched.
  \<open>mine f\<close> excludes the descriptor the loop keeps for itself and \<open>can f s\<close> says the loop is
  open and so is \<open>f\<close>.
\<close>

locale fd_watch =
  fixes add :: "fd \<Rightarrow> 'cb \<Rightarrow> ('s, unit) pyM"
    and rem :: "fd \<Rightarrow> ('s, bool) pyM"
    and table other :: "'s \<Rightarrow> fd \<rightharpoonup> 'cb"
    and ok :: "'s \<Rightarrow> bool"
    and mine :: "fd \<Rightarrow> bool"
    and can :: "fd \<Rightarrow> 's \<Rightarrow> bool"
  assumes rem_law: "ok s \<Longrightarrow> mine f \<Longrightarrow> \<exists>s'. rem f s = (Inr (table s f \<noteq> None), s') \<and> ok s' \<and>
      table s' = (table s)(f := None) \<and> other s' = other s \<and> can g s' = can g s"
    and add_law: "ok s \<Longrightarrow> mine f \<Longrightarrow> can f s \<Longrightarrow> \<exists>s'. add f cb s = (Inr (), s') \<and> ok s' \<and>
      table s' = (table s)(f \<mapsto> cb) \<and> other s' = other s \<and> can g s' = can g s"
    and add_fail: "ok s \<Longrightarrow> mine f \<Longrightarrow> \<not> can f s \<Longrightarrow> \<exists>x. add f cb s = (Inl x, s)"
begin

lemma rem_keeps: "ok s \<Longrightarrow> mine f \<Longrightarrow> ok (snd (rem f s))"
  using rem_law [of s f f] by auto

lemma add_keeps: "ok s \<Longrightarrow> mine f \<Longrightarrow> ok (snd (add f cb s))"
  using add_law [of s f cb f] add_fail [of s f cb] by (cases "can f s") auto

lemma add_atomic: "ok s \<Longrightarrow> mine f \<Longrightarrow> add f cb s = (Inl x, s') \<Longrightarrow> s' = s"
  using add_law [of s f cb f] add_fail [of s f cb] by (cases "can f s") auto

lemma add_then_rem:
  assumes "ok s" "mine f" "can f s"
  shows "\<exists>s'. seqM (add f cb) (rem f) s = (Inr True, s') \<and> table s' = (table s)(f := None) \<and>
    other s' = other s \<and> ok s'"
proof -
  from add_law [OF assms, of cb f] obtain s1 where s1: "add f cb s = (Inr (), s1)" "ok s1"
    "table s1 = (table s)(f \<mapsto> cb)" "other s1 = other s" by blast
  with rem_law [of s1 f f] \<open>mine f\<close> show ?thesis by fastforce
qed

lemma rem_idempotent:
  assumes "ok s" "mine f"
  shows "\<exists>s'. seqM (rem f) (rem f) s = (Inr False, s') \<and> table s' f = None"
proof -
  from rem_law [OF assms, of f] obtain s1 where s1: "rem f s = (Inr (table s f \<noteq> None), s1)" "ok s1"
    "table s1 = (table s)(f := None)" by blast
  with rem_law [of s1 f f] \<open>mine f\<close> show ?thesis by fastforce
qed

lemma add_replaces:
  assumes "ok s" "mine f" "can f s"
  shows "\<exists>s'. seqM (add f a) (add f b) s = (Inr (), s') \<and> table s' = (table s)(f \<mapsto> b)"
proof -
  from add_law [OF assms, of a f] obtain s1 where s1: "add f a s = (Inr (), s1)" "ok s1"
    "table s1 = (table s)(f \<mapsto> a)" "can f s1" using assms by blast
  with add_law [of s1 f b f] \<open>mine f\<close> show ?thesis by fastforce
qed

end

interpretation rd: fd_watch add_reader remove_reader lo_readers lo_writers "watch_ok e"
  "\<lambda>f. f \<noteq> e" watchable for e
proof unfold_locales
  fix s :: "('a, 'b) loop_scheme" and f g cb
  assume ok: "watch_ok e s" and fe: "f \<noteq> e"
  show "\<exists>s'. remove_reader f s = (Inr (lo_readers s f \<noteq> None), s') \<and> watch_ok e s' \<and>
      lo_readers s' = (lo_readers s)(f := None) \<and> lo_writers s' = lo_writers s \<and>
      watchable g s' = watchable g s"
    using remove_reader_eq [OF ok fe] watch_ok_unwatch(1) [OF ok fe] by (simp add: watchable_def)
  show "\<exists>s'. add_reader f cb s = (Inr (), s') \<and> watch_ok e s' \<and>
      lo_readers s' = (lo_readers s)(f \<mapsto> cb) \<and> lo_writers s' = lo_writers s \<and>
      watchable g s' = watchable g s" if "watchable f s"
    using add_reader_eq [OF ok fe that] watch_ok_watch(1) [OF ok fe that]
    by (simp add: watch_reader_def watchable_def)
  show "\<exists>x. add_reader f cb s = (Inl x, s)" if "\<not> watchable f s"
    using add_reader_fail [OF ok fe that] by simp
qed

interpretation wr: fd_watch add_writer remove_writer lo_writers lo_readers "watch_ok e"
  "\<lambda>f. f \<noteq> e" watchable for e
proof unfold_locales
  fix s :: "('a, 'b) loop_scheme" and f g cb
  assume ok: "watch_ok e s" and fe: "f \<noteq> e"
  show "\<exists>s'. remove_writer f s = (Inr (lo_writers s f \<noteq> None), s') \<and> watch_ok e s' \<and>
      lo_writers s' = (lo_writers s)(f := None) \<and> lo_readers s' = lo_readers s \<and>
      watchable g s' = watchable g s"
    using remove_writer_eq [OF ok fe] watch_ok_unwatch(2) [OF ok fe] by (simp add: watchable_def)
  show "\<exists>s'. add_writer f cb s = (Inr (), s') \<and> watch_ok e s' \<and>
      lo_writers s' = (lo_writers s)(f \<mapsto> cb) \<and> lo_readers s' = lo_readers s \<and>
      watchable g s' = watchable g s" if "watchable f s"
    using add_writer_eq [OF ok fe that] watch_ok_watch(2) [OF ok fe that]
    by (simp add: watch_writer_def watchable_def)
  show "\<exists>x. add_writer f cb s = (Inl x, s)" if "\<not> watchable f s"
    using add_writer_fail [OF ok fe that] by simp
qed

end
