(* ===== verification/World.thy ===== *)
theory World
  imports Fd_Watch
begin

text \<open>
  The heap of the Python layer: one record per class of \<open>src/python/uringcore\<close>, by object
  identity, on top of the loop's state; the operating-system objects they use (sockets, pipes,
  the bytes in flight through them, child processes); and the calls into user code.

  Callbacks are values of \<open>callback\<close>: bound methods and closures with their arguments.
  User code (protocols, factories, callbacks) is a parameter \<open>U\<close> of every operation that calls
  it; \<open>U\<close> may change the state in any way and may raise. Each such call is also recorded in
  \<open>wo_calls\<close>, so that properties can speak about which calls are made and in what order.
\<close>

section \<open>Callbacks and calls into user code\<close>

datatype tref =
    SockT nat | ServerT nat | ReadPipeT nat | WritePipeT nat | DatagramT nat | SubprocT nat | SslT nat

datatype callback =
    OnRecvComplete nat fut_id
  | OnWriteComplete nat fut_id
  | SockConnectionLost nat "exn option"
  | StopCb
  | FutSetResult fut_id pyval
  | FutSetException fut_id exn
  | WakeWaiter fut_id
  | ConnectionMadeCb nat tref
  | ConnectionLostCb nat "exn option"
  | ReadPipeReady nat
  | WritePipeReady nat
  | DatagramReady nat
  | DatagramConnectionLost nat "exn option"
  | SubReadReady nat
  | SubWriteReady nat
  | PidfdReady nat
  | ProcessExitedCb nat int
  | TaskStep nat fut_id
  | UserCb nat

datatype user_call =
    Factory nat
  | ConnectionMade nat tref
  | ConnectionLost nat "exn option"
  | DataReceived nat pyval
  | EofReceived nat
  | PauseWriting nat
  | ResumeWriting nat
  | DatagramReceived nat bytes addr
  | ErrorReceived nat exn
  | PipeDataReceived nat int bytes
  | PipeConnectionLost nat int "exn option"
  | ProcessExited nat
  | ExceptionHandler nat "string option"
  | RunUserCb nat
  | RunTaskStep nat fut_id

section \<open>Objects\<close>

record sock =
  so_fd :: fd
  so_closed :: bool
  so_shut_wr :: bool

record pipe_obj =
  pi_fd :: fd
  pi_closed :: bool

record sock_transport =
  st_fd :: fd
  st_protocol :: nat
  st_sock :: "nat option"
  st_closing :: bool
  st_closed :: bool
  st_write_buffer_size :: int
  st_paused :: bool
  st_recv_pending :: bool
  st_high_water :: int
  st_low_water :: int

record server =
  sv_sockets :: "nat list"
  sv_factory :: nat
  sv_serving :: bool
  sv_forever_fut :: "fut_id option"

record read_pipe =
  rp_pipe :: nat
  rp_protocol :: nat
  rp_closing :: bool
  rp_paused :: bool

record write_pipe =
  wp_pipe :: nat
  wp_protocol :: nat
  wp_closing :: bool
  wp_buffer :: bytes
  wp_high_water :: int
  wp_low_water :: int

record datagram =
  dg_sock :: nat
  dg_protocol :: nat
  dg_address :: "addr option"
  dg_closing :: bool
  dg_closed :: bool

record sub_read =
  sr_pipe :: nat
  sr_protocol :: nat
  sr_fd :: int
  sr_closing :: bool

record sub_write =
  sw_pipe :: nat
  sw_protocol :: nat
  sw_fd :: int
  sw_closing :: bool
  sw_buffer :: bytes

datatype sub_pipe = SubRead nat | SubWrite nat

record subproc =
  sp_protocol :: nat
  sp_pid :: nat
  sp_returncode :: "int option"
  sp_closed :: bool
  sp_exit_waiters :: "fut_id list"
  sp_pipes :: "(int \<times> sub_pipe) list" \<comment> \<open>the dict \<open>_pipes\<close> in insertion order\<close>
  sp_pidfd :: "fd option"
  sp_thread :: bool \<comment> \<open>the fallback thread waits for the exit\<close>

text \<open>An \<open>ssl.SSLObject\<close> with its two memory BIOs; \<open>sb_state\<close> is OpenSSL's own state.\<close>

record ssl_object =
  sb_state :: nat
  sb_incoming :: bytes
  sb_outgoing :: bytes

record ssl_transport =
  sl_base :: nat
  sl_protocol :: nat
  sl_closing :: bool
  sl_closed :: bool
  sl_object :: ssl_object
  sl_handshake_started :: bool
  sl_handshake_complete :: bool
  sl_handshake_future :: "fut_id option"

section \<open>The operating system\<close>

text \<open>
  Per descriptor: the bytes waiting to be read, whether the other end is closed, the room for
  a write, what was written, waiting and sent datagrams, and an error the next call reports.
\<close>

record os =
  os_in :: "fd \<Rightarrow> bytes"
  os_eof :: "fd \<Rightarrow> bool"
  os_room :: "fd \<Rightarrow> nat"
  os_out :: "fd \<Rightarrow> bytes"
  os_dgram_in :: "fd \<Rightarrow> (bytes \<times> addr) list"
  os_dgram_out :: "fd \<Rightarrow> (bytes \<times> addr option) list"
  os_err :: "fd \<Rightarrow> errno option"
  os_exit :: "nat \<Rightarrow> int" \<comment> \<open>what \<open>wait()\<close> returns for a child process\<close>
  os_signals :: "(nat \<times> int) list" \<comment> \<open>signals handed to \<open>Popen.send_signal\<close>\<close>

record world = "callback loop" +
  wo_calls :: "user_call list"
  wo_socks :: "nat \<Rightarrow> sock"
  wo_transports :: "nat \<Rightarrow> sock_transport"
  wo_servers :: "nat \<Rightarrow> server"
  wo_pipes :: "nat \<Rightarrow> pipe_obj"
  wo_read_pipes :: "nat \<Rightarrow> read_pipe"
  wo_write_pipes :: "nat \<Rightarrow> write_pipe"
  wo_datagrams :: "nat \<Rightarrow> datagram"
  wo_sub_reads :: "nat \<Rightarrow> sub_read"
  wo_sub_writes :: "nat \<Rightarrow> sub_write"
  wo_subprocs :: "nat \<Rightarrow> subproc"
  wo_ssls :: "nat \<Rightarrow> ssl_transport"
  wo_next_id :: nat
  wo_running_loop :: bool \<comment> \<open>this loop is the thread's running loop\<close>
  wo_os :: os

type_synonym user = "user_call \<Rightarrow> (world, pyval) pyM"
type_synonym 'a act = "(world, 'a) pyM"

definition call_user :: "user \<Rightarrow> user_call \<Rightarrow> pyval act" where
  "call_user U c = seqM (modM (\<lambda>w. w\<lparr>wo_calls := wo_calls w @ [c]\<rparr>)) (U c)"

definition notify :: "user \<Rightarrow> user_call \<Rightarrow> unit act" where
  "notify U c = bindM (call_user U c) (\<lambda>_. ret ())"

definition new_id :: "nat act" where
  "new_id w = (Inr (wo_next_id w), w\<lparr>wo_next_id := Suc (wo_next_id w)\<rparr>)"

definition report :: "user \<Rightarrow> string \<Rightarrow> unit act" where
  "report U msg = call_exception_handler (\<lambda>k m. notify U (ExceptionHandler k m)) (Some msg)"

section \<open>Sockets and pipes\<close>

definition sock_fileno :: "nat \<Rightarrow> world \<Rightarrow> fd" where
  "sock_fileno k w = (let s = wo_socks w k in if so_closed s then - 1 else so_fd s)"

definition sock_close :: "nat \<Rightarrow> world \<Rightarrow> world" where
  "sock_close k w = (let s = wo_socks w k in
     if so_closed s then w
     else os_close (so_fd s) (w\<lparr>wo_socks := (wo_socks w)(k := s\<lparr>so_closed := True\<rparr>)\<rparr>))"

definition new_sock :: "fd \<Rightarrow> nat act" where
  "new_sock f = bindM new_id (\<lambda>k.
     seqM (modM (\<lambda>w. w\<lparr>wo_socks := (wo_socks w)(k := \<lparr>so_fd = f, so_closed = False, so_shut_wr = False\<rparr>)\<rparr>))
          (ret k))"

text \<open>\<open>pipe.fileno()\<close> raises on a closed file object; closing it twice is fine.\<close>

definition pipe_fileno :: "nat \<Rightarrow> fd act" where
  "pipe_fileno k = bindM (getM (\<lambda>w. wo_pipes w k)) (\<lambda>p.
     if pi_closed p then raise (ValueError ''I/O operation on closed file'') else ret (pi_fd p))"

definition pipe_close :: "nat \<Rightarrow> world \<Rightarrow> world" where
  "pipe_close k w = (let p = wo_pipes w k in
     if pi_closed p then w
     else os_close (pi_fd p) (w\<lparr>wo_pipes := (wo_pipes w)(k := p\<lparr>pi_closed := True\<rparr>)\<rparr>))"

text \<open>\<open>os.read(fd, n)\<close> and \<open>os.write(fd, data)\<close> on a non-blocking descriptor.\<close>

definition os_read :: "fd \<Rightarrow> nat \<Rightarrow> bytes act" where
  "os_read f n = bindM (getM (\<lambda>w. (lo_open_fds w f, wo_os w))) (\<lambda>(opn, s).
     if \<not> opn then raise (OSError EBADF)
     else case os_err s f of
        Some e \<Rightarrow> seqM (modM (\<lambda>w. w\<lparr>wo_os := s\<lparr>os_err := (os_err s)(f := None)\<rparr>\<rparr>)) (raise (OSError e))
      | None \<Rightarrow>
          if os_in s f \<noteq> []
          then seqM (modM (\<lambda>w. w\<lparr>wo_os := s\<lparr>os_in := (os_in s)(f := drop n (os_in s f))\<rparr>\<rparr>))
                    (ret (take n (os_in s f)))
          else if os_eof s f then ret [] else raise (OSError EAGAIN))"

definition os_write :: "fd \<Rightarrow> bytes \<Rightarrow> nat act" where
  "os_write f data = bindM (getM (\<lambda>w. (lo_open_fds w f, wo_os w))) (\<lambda>(opn, s).
     if \<not> opn then raise (OSError EBADF)
     else case os_err s f of
        Some e \<Rightarrow> seqM (modM (\<lambda>w. w\<lparr>wo_os := s\<lparr>os_err := (os_err s)(f := None)\<rparr>\<rparr>)) (raise (OSError e))
      | None \<Rightarrow>
          let n = min (os_room s f) (length data) in
          if data \<noteq> [] \<and> n = 0 then raise (OSError EAGAIN)
          else seqM (modM (\<lambda>w. w\<lparr>wo_os := s\<lparr>os_out := (os_out s)(f := os_out s f @ take n data),
                             os_room := (os_room s)(f := os_room s f - n)\<rparr>\<rparr>))
                    (ret n))"

text \<open>\<open>os.close(fd)\<close> raises on a descriptor that is not open.\<close>

definition os_close_fd :: "fd \<Rightarrow> unit act" where
  "os_close_fd f = bindM (getM (\<lambda>w. lo_open_fds w f)) (\<lambda>opn.
     if opn then modM (os_close f) else raise (OSError EBADF))"

definition os_set_nonblocking :: "fd \<Rightarrow> unit act" where
  "os_set_nonblocking f = bindM (getM (\<lambda>w. lo_open_fds w f)) (\<lambda>opn.
     whenM (\<not> opn) (raise (OSError EBADF)))"

end
