(* ===== verification/Transport.thy ===== *)
theory Transport
  imports World
begin

text \<open>
  \<open>UringSocketTransport\<close> (\<open>src/python/uringcore/transport.py\<close>): every method, in the order of
  the file. \<open>t\<close> is the transport's identity and \<open>U\<close> the user code it calls.
\<close>

abbreviation the_tr :: "nat \<Rightarrow> world \<Rightarrow> sock_transport" where
  "the_tr t w \<equiv> wo_transports w t"

definition mod_tr :: "nat \<Rightarrow> (sock_transport \<Rightarrow> sock_transport) \<Rightarrow> unit act" where
  "mod_tr t g = modM (\<lambda>w. w\<lparr>wo_transports := (wo_transports w)(t := g (wo_transports w t))\<rparr>)"

definition transport_new :: "fd \<Rightarrow> nat \<Rightarrow> nat option \<Rightarrow> sock_transport" where
  "transport_new f p s = \<lparr>st_fd = f, st_protocol = p, st_sock = s, st_closing = False,
     st_closed = False, st_write_buffer_size = 0, st_paused = False, st_recv_pending = False,
     st_high_water = 64 * 1024, st_low_water = 16 * 1024\<rparr>"

definition new_transport :: "fd \<Rightarrow> nat \<Rightarrow> nat option \<Rightarrow> nat act" where
  "new_transport f p s = bindM new_id (\<lambda>t. seqM (mod_tr t (\<lambda>_. transport_new f p s)) (ret t))"

section \<open>Closing and flow control of the receiving side\<close>

definition is_closing :: "nat \<Rightarrow> world \<Rightarrow> bool" where
  "is_closing t w \<longleftrightarrow> st_closing (the_tr t w) \<or> st_closed (the_tr t w)"

definition tr_close :: "nat \<Rightarrow> unit act" where
  "tr_close t = bindM (getM (the_tr t)) (\<lambda>s.
     if st_closing s then ret ()
     else seqM (mod_tr t (\<lambda>s. s\<lparr>st_closing := True\<rparr>))
       (case st_sock s of
          Some k \<Rightarrow> modM (sock_close k)
        | None \<Rightarrow> on_core (submit_close (st_fd s))))"

definition is_reading :: "nat \<Rightarrow> world \<Rightarrow> bool" where
  "is_reading t w \<longleftrightarrow> \<not> st_paused (the_tr t w) \<and> \<not> st_closing (the_tr t w)"

definition tr_pause_reading :: "nat \<Rightarrow> unit act" where
  "tr_pause_reading t = bindM (getM (the_tr t)) (\<lambda>s.
     if st_closing s \<or> st_paused s then ret ()
     else seqM (mod_tr t (\<lambda>s. s\<lparr>st_paused := True\<rparr>)) (on_core (pause_reading (st_fd s))))"

section \<open>Forced close\<close>

definition force_close :: "nat \<Rightarrow> exn option \<Rightarrow> unit act" where
  "force_close t exc = bindM (getM (the_tr t)) (\<lambda>s.
     if st_closed s then ret ()
     else
       seqM (mod_tr t (\<lambda>s. s\<lparr>st_closed := True, st_closing := True\<rparr>))
      (seqM (case st_sock s of Some k \<Rightarrow> modM (sock_close k) | None \<Rightarrow> ret ())
            (bindM (call_soon (SockConnectionLost t exc)) (\<lambda>_. ret ()))))"

definition error_received_exc :: "nat \<Rightarrow> exn \<Rightarrow> unit act" where
  "error_received_exc t exc = force_close t (Some exc)"

text \<open>\<open>_error_received\<close> takes an int or an exception; an int becomes an \<open>OSError\<close> as it is.\<close>

definition error_received :: "nat \<Rightarrow> int + exn \<Rightarrow> unit act" where
  "error_received t err = force_close t (Some (case err of Inl n \<Rightarrow> OSError n | Inr e \<Rightarrow> e))"

definition abort :: "nat \<Rightarrow> unit act" where
  "abort t = force_close t None"

definition call_connection_lost :: "user \<Rightarrow> nat \<Rightarrow> exn option \<Rightarrow> unit act" where
  "call_connection_lost U t exc = bindM (getM (the_tr t)) (\<lambda>s.
     tryM (notify U (ConnectionLost (st_protocol s) exc)) is_Exception (\<lambda>_. ret ()))"

section \<open>Receiving\<close>

definition rearm_recv :: "nat \<Rightarrow> unit act" where
  "rearm_recv t = bindM (getM (the_tr t)) (\<lambda>s.
     if st_closing s \<or> st_paused s \<or> st_recv_pending s then ret ()
     else tryM
       (seqM (mod_tr t (\<lambda>s. s\<lparr>st_recv_pending := True\<rparr>))
       (bindM create_future (\<lambda>fut.
        seqM (add_done_callback fut (OnRecvComplete t fut))
       (seqM (modM (\<lambda>w. w\<lparr>lo_io_futures := (lo_io_futures w)((st_fd s, ''recv'') \<mapsto> fut)\<rparr>))
             (on_core (submit_recv (st_fd s) fut))))))
       is_Exception
       (\<lambda>exc. seqM (mod_tr t (\<lambda>s. s\<lparr>st_recv_pending := False\<rparr>)) (error_received t (Inr exc))))"

definition tr_resume_reading :: "nat \<Rightarrow> unit act" where
  "tr_resume_reading t = bindM (getM (the_tr t)) (\<lambda>s.
     if st_closing s then ret ()
     else seqM (whenM (st_paused s)
                 (seqM (mod_tr t (\<lambda>s. s\<lparr>st_paused := False\<rparr>))
                       (on_core (resume_reading (st_fd s)))))
               (rearm_recv t))"

definition data_received :: "user \<Rightarrow> nat \<Rightarrow> pyval \<Rightarrow> unit act" where
  "data_received U t data = bindM (getM (the_tr t)) (\<lambda>s.
     tryM (notify U (DataReceived (st_protocol s) data)) is_Exception
       (\<lambda>_. report U ''Exception in data_received callback''))"

definition eof_received :: "user \<Rightarrow> nat \<Rightarrow> unit act" where
  "eof_received U t = bindM (getM (the_tr t)) (\<lambda>s.
     tryM (bindM (call_user U (EofReceived (st_protocol s))) (\<lambda>keep_open.
             whenM (\<not> truthy keep_open) (tr_close t)))
       is_Exception
       (\<lambda>_. seqM (report U ''Exception in eof_received callback'') (tr_close t)))"

definition on_recv_complete :: "user \<Rightarrow> nat \<Rightarrow> fut_id \<Rightarrow> unit act" where
  "on_recv_complete U t fut =
    seqM (mod_tr t (\<lambda>s. s\<lparr>st_recv_pending := False\<rparr>))
   (bindM (getM (the_tr t)) (\<lambda>s.
    if st_closing s then ret ()
    else tryM
      (bindM (fut_exception fut) (\<lambda>exc. case exc of
         Some e \<Rightarrow> error_received_exc t e
       | None \<Rightarrow>
           bindM (fut_result fut) (\<lambda>data.
           if truthy data
           then seqM (data_received U t data)
                  (bindM (getM (the_tr t)) (\<lambda>s.
                     whenM (\<not> st_paused s \<and> \<not> st_closing s) (rearm_recv t)))
           else eof_received U t)))
      is_Exception (error_received_exc t)))"

section \<open>Sending\<close>

definition set_write_buffer_limits :: "nat \<Rightarrow> int option \<Rightarrow> int option \<Rightarrow> unit act" where
  "set_write_buffer_limits t high low =
    seqM (case high of Some h \<Rightarrow> mod_tr t (\<lambda>s. s\<lparr>st_high_water := h\<rparr>) | None \<Rightarrow> ret ())
         (case low of Some l \<Rightarrow> mod_tr t (\<lambda>s. s\<lparr>st_low_water := l\<rparr>) | None \<Rightarrow> ret ())"

definition get_write_buffer_size :: "nat \<Rightarrow> world \<Rightarrow> int" where
  "get_write_buffer_size t w = st_write_buffer_size (the_tr t w)"

definition get_write_buffer_limits :: "nat \<Rightarrow> world \<Rightarrow> int \<times> int" where
  "get_write_buffer_limits t w = (st_low_water (the_tr t w), st_high_water (the_tr t w))"

definition tr_write :: "user \<Rightarrow> nat \<Rightarrow> bytes \<Rightarrow> unit act" where
  "tr_write U t data = bindM (getM (the_tr t)) (\<lambda>s.
     if st_closing s then ret ()
     else if data = [] then ret ()
     else tryM
       (bindM create_future (\<lambda>fut.
        seqM (add_done_callback fut (OnWriteComplete t fut))
       (seqM (on_core (submit_send (st_fd s) data fut))
       (seqM (mod_tr t (\<lambda>s. s\<lparr>st_write_buffer_size := st_write_buffer_size s + int (length data)\<rparr>))
       (bindM (getM (the_tr t)) (\<lambda>s.
        whenM (st_write_buffer_size s \<ge> st_high_water s)
          (notify U (PauseWriting (st_protocol s)))))))))
       is_Exception (error_received_exc t))"

text \<open>\<open>result < 0\<close> raises a \<open>TypeError\<close> when the value is not an int.\<close>

definition send_completed :: "user \<Rightarrow> nat \<Rightarrow> pyval \<Rightarrow> unit act" where
  "send_completed U t v = (case v of
      VInt result \<Rightarrow>
        if result < 0 then ret ()
        else
          seqM (mod_tr t (\<lambda>s. s\<lparr>st_write_buffer_size := max 0 (st_write_buffer_size s - result)\<rparr>))
         (bindM (getM (the_tr t)) (\<lambda>s.
          whenM (st_write_buffer_size s \<le> st_low_water s)
            (tryM (notify U (ResumeWriting (st_protocol s))) is_Exception (\<lambda>_. ret ()))))
    | _ \<Rightarrow> raise (TypeError ''<''))"

definition on_write_complete :: "user \<Rightarrow> nat \<Rightarrow> fut_id \<Rightarrow> unit act" where
  "on_write_complete U t fut = bindM (getM (the_tr t)) (\<lambda>s.
     if st_closing s then ret ()
     else tryM
       (bindM (fut_exception fut) (\<lambda>exc. case exc of
          Some e \<Rightarrow> error_received_exc t e
        | None \<Rightarrow> bindM (fut_result fut) (send_completed U t)))
       is_Exception (error_received_exc t))"

definition writelines :: "user \<Rightarrow> nat \<Rightarrow> bytes list \<Rightarrow> unit act" where
  "writelines U t datas = forM datas (tr_write U t)"

text \<open>A half-close; on a closed socket the error of \<open>shutdown\<close> is swallowed.\<close>

definition write_eof :: "nat \<Rightarrow> unit act" where
  "write_eof t = bindM (getM (the_tr t)) (\<lambda>s. case st_sock s of
      None \<Rightarrow> ret ()
    | Some k \<Rightarrow> modM (\<lambda>w. let so = wo_socks w k in
        if so_closed so then w else w\<lparr>wo_socks := (wo_socks w)(k := so\<lparr>so_shut_wr := True\<rparr>)\<rparr>))"

definition can_write_eof :: bool where
  "can_write_eof \<longleftrightarrow> True"

end
