(* ===== verification/Server.thy ===== *)
theory Server
  imports Transport
begin

text \<open>
  \<open>UringServer\<close> (\<open>src/python/uringcore/server.py\<close>). The coroutine \<open>serve_forever\<close> is split at
  its \<open>await\<close>.
\<close>

abbreviation the_sv :: "nat \<Rightarrow> world \<Rightarrow> server" where
  "the_sv k w \<equiv> wo_servers w k"

definition mod_sv :: "nat \<Rightarrow> (server \<Rightarrow> server) \<Rightarrow> unit act" where
  "mod_sv k g = modM (\<lambda>w. w\<lparr>wo_servers := (wo_servers w)(k := g (wo_servers w k))\<rparr>)"

definition server_new :: "nat list \<Rightarrow> nat \<Rightarrow> server" where
  "server_new socks factory =
    \<lparr>sv_sockets = socks, sv_factory = factory, sv_serving = False, sv_forever_fut = None\<rparr>"

definition new_server :: "nat list \<Rightarrow> nat \<Rightarrow> nat act" where
  "new_server socks factory = bindM new_id (\<lambda>k.
     seqM (mod_sv k (\<lambda>_. server_new socks factory)) (ret k))"

definition is_serving :: "nat \<Rightarrow> world \<Rightarrow> bool" where
  "is_serving k w = sv_serving (the_sv k w)"

definition close_listener :: "nat \<Rightarrow> unit act" where
  "close_listener s = bindM (getM (sock_fileno s)) (\<lambda>f.
     seqM (modM (\<lambda>w. w\<lparr>lo_servers := (lo_servers w)(f := None)\<rparr>))
    (seqM (mod_core (unregister_fd f)) (modM (sock_close s))))"

definition server_close :: "nat \<Rightarrow> unit act" where
  "server_close k = bindM (getM (\<lambda>w. sv_sockets (the_sv k w))) (\<lambda>socks.
     if socks = [] then ret ()
     else
       seqM (mod_sv k (\<lambda>s. s\<lparr>sv_serving := False\<rparr>))
      (seqM (forM socks close_listener)
            (mod_sv k (\<lambda>s. s\<lparr>sv_sockets := []\<rparr>))))"

text \<open>
  \<open>start_serving\<close> calls the engine's \<open>submit_accept(fd)\<close>, whose second parameter, the future,
  has no default: the call raises before anything is submitted.
\<close>

definition start_serving :: "nat \<Rightarrow> unit act" where
  "start_serving k = bindM (getM (the_sv k)) (\<lambda>s.
     if sv_serving s then ret ()
     else seqM (mod_sv k (\<lambda>s. s\<lparr>sv_serving := True\<rparr>))
       (forM (sv_sockets s) (\<lambda>_.
          raise (TypeError ''UringCore.submit_accept() missing 1 required positional argument''))))"

definition serve_forever_start :: "nat \<Rightarrow> fut_id act" where
  "serve_forever_start k = bindM (getM (the_sv k)) (\<lambda>s.
     if sv_forever_fut s \<noteq> None then raise (RuntimeError ''server.serve_forever() called twice'')
     else seqM (start_serving k)
       (bindM create_future (\<lambda>fut.
        seqM (mod_sv k (\<lambda>s. s\<lparr>sv_forever_fut := Some fut\<rparr>)) (ret fut))))"

definition serve_forever_finish :: "nat \<Rightarrow> fut_id \<Rightarrow> unit act" where
  "serve_forever_finish k fut =
    finallyM
      (tryM (bindM (fut_result fut) (\<lambda>_. ret ())) (\<lambda>e. e = CancelledError) (\<lambda>_. ret ()))
      (seqM (mod_sv k (\<lambda>s. s\<lparr>sv_forever_fut := None\<rparr>)) (server_close k))"

definition server_repr :: "nat \<Rightarrow> world \<Rightarrow> string" where
  "server_repr k w = ''<UringServer sockets='' @ show_nat (length (sv_sockets (the_sv k w)))
     @ '' serving='' @ (if sv_serving (the_sv k w) then ''True'' else ''False'') @ ''>''"

end
