(* ===== verification/Pipes.thy ===== *)
theory Pipes
  imports World
begin

text \<open>
  \<open>ReadPipeTransport\<close> and \<open>WritePipeTransport\<close> (\<open>src/python/uringcore/pipes.py\<close>), with the
  loop's \<open>connect_read_pipe\<close> and \<open>connect_write_pipe\<close>.
\<close>

section \<open>Operations of the read pipe\<close>

abbreviation the_rp :: "nat \<Rightarrow> world \<Rightarrow> read_pipe" where
  "the_rp t w \<equiv> wo_read_pipes w t"

definition mod_rp :: "nat \<Rightarrow> (read_pipe \<Rightarrow> read_pipe) \<Rightarrow> unit act" where
  "mod_rp t g = modM (\<lambda>w. w\<lparr>wo_read_pipes := (wo_read_pipes w)(t := g (wo_read_pipes w t))\<rparr>)"

definition rp_fileno :: "nat \<Rightarrow> fd act" where
  "rp_fileno t = bindM (getM (\<lambda>w. rp_pipe (the_rp t w))) pipe_fileno"

definition rp_remove_reader :: "nat \<Rightarrow> unit act" where
  "rp_remove_reader t = bindM (rp_fileno t) (\<lambda>f. bindM (remove_reader f) (\<lambda>_. ret ()))"

definition rp_add_reader :: "nat \<Rightarrow> unit act" where
  "rp_add_reader t = bindM (rp_fileno t) (\<lambda>f. add_reader f (ReadPipeReady t))"

definition read_pipe_new :: "nat \<Rightarrow> nat \<Rightarrow> nat act" where
  "read_pipe_new pipe p = bindM new_id (\<lambda>t.
     seqM (mod_rp t (\<lambda>_. \<lparr>rp_pipe = pipe, rp_protocol = p, rp_closing = False, rp_paused = False\<rparr>))
    (seqM (bindM (rp_fileno t) os_set_nonblocking)
    (seqM (rp_add_reader t)
    (seqM (call_soon (ConnectionMadeCb p (ReadPipeT t))) (ret t)))))"

definition rp_close :: "user \<Rightarrow> nat \<Rightarrow> unit act" where
  "rp_close U t = bindM (getM (the_rp t)) (\<lambda>s.
     if rp_closing s then ret ()
     else
       seqM (mod_rp t (\<lambda>s. s\<lparr>rp_closing := True\<rparr>))
      (seqM (rp_remove_reader t)
      (seqM (modM (pipe_close (rp_pipe s)))
            (notify U (ConnectionLost (rp_protocol s) None)))))"

definition rp_read_ready :: "user \<Rightarrow> nat \<Rightarrow> unit act" where
  "rp_read_ready U t = bindM (getM (the_rp t)) (\<lambda>s.
     if rp_paused s \<or> rp_closing s then ret ()
     else tryM
       (bindM (bindM (rp_fileno t) (\<lambda>f. os_read f 65536)) (\<lambda>data.
        if data \<noteq> [] then notify U (DataReceived (rp_protocol s) (VBytes data))
        else
          seqM (rp_remove_reader t)
         (bindM (call_user U (EofReceived (rp_protocol s))) (\<lambda>keep.
          if truthy keep then ret () else rp_close U t))))
       is_OSError
       (\<lambda>exc. seqM (rp_remove_reader t) (notify U (ConnectionLost (rp_protocol s) (Some exc)))))"

definition rp_pause_reading :: "nat \<Rightarrow> unit act" where
  "rp_pause_reading t = bindM (getM (the_rp t)) (\<lambda>s.
     if rp_closing s \<or> rp_paused s then ret ()
     else seqM (mod_rp t (\<lambda>s. s\<lparr>rp_paused := True\<rparr>)) (rp_remove_reader t))"

definition rp_resume_reading :: "nat \<Rightarrow> unit act" where
  "rp_resume_reading t = bindM (getM (the_rp t)) (\<lambda>s.
     if rp_closing s \<or> \<not> rp_paused s then ret ()
     else seqM (mod_rp t (\<lambda>s. s\<lparr>rp_paused := False\<rparr>)) (rp_add_reader t))"

definition rp_is_closing :: "nat \<Rightarrow> world \<Rightarrow> bool" where
  "rp_is_closing t w = rp_closing (the_rp t w)"

section \<open>Operations of the write pipe\<close>

abbreviation the_wp :: "nat \<Rightarrow> world \<Rightarrow> write_pipe" where
  "the_wp t w \<equiv> wo_write_pipes w t"

definition mod_wp :: "nat \<Rightarrow> (write_pipe \<Rightarrow> write_pipe) \<Rightarrow> unit act" where
  "mod_wp t g = modM (\<lambda>w. w\<lparr>wo_write_pipes := (wo_write_pipes w)(t := g (wo_write_pipes w t))\<rparr>)"

definition wp_fileno :: "nat \<Rightarrow> fd act" where
  "wp_fileno t = bindM (getM (\<lambda>w. wp_pipe (the_wp t w))) pipe_fileno"

definition wp_remove_writer :: "nat \<Rightarrow> unit act" where
  "wp_remove_writer t = bindM (wp_fileno t) (\<lambda>f. bindM (remove_writer f) (\<lambda>_. ret ()))"

definition is_OSError_or_ValueError :: "exn \<Rightarrow> bool" where
  "is_OSError_or_ValueError e \<longleftrightarrow> is_OSError e \<or> (\<exists>m. e = ValueError m)"

lemma is_OSError_or_ValueError_simps [simp]:
  "is_OSError_or_ValueError (OSError n)" "is_OSError_or_ValueError (ValueError m)"
  by (simp_all add: is_OSError_or_ValueError_def)

definition write_pipe_new :: "nat \<Rightarrow> nat \<Rightarrow> fut_id option \<Rightarrow> nat act" where
  "write_pipe_new pipe p waiter = bindM new_id (\<lambda>t.
     seqM (mod_wp t (\<lambda>_. \<lparr>wp_pipe = pipe, wp_protocol = p, wp_closing = False, wp_buffer = [],
            wp_high_water = 64 * 1024, wp_low_water = 16 * 1024\<rparr>))
    (seqM (tryM (bindM (wp_fileno t) os_set_nonblocking) is_OSError_or_ValueError
             (\<lambda>_. mod_wp t (\<lambda>s. s\<lparr>wp_closing := True\<rparr>)))
    (seqM (call_soon (ConnectionMadeCb p (WritePipeT t)))
    (seqM (case waiter of None \<Rightarrow> ret () | Some f \<Rightarrow> bindM (call_soon (WakeWaiter f)) (\<lambda>_. ret ()))
          (ret t)))))"

definition wp_write :: "user \<Rightarrow> nat \<Rightarrow> bytes \<Rightarrow> unit act" where
  "wp_write U t data = bindM (getM (the_wp t)) (\<lambda>s.
     if wp_closing s then ret ()
     else if data = [] then ret ()
     else
       seqM (mod_wp t (\<lambda>s. s\<lparr>wp_buffer := wp_buffer s @ data\<rparr>))
      (seqM (bindM (wp_fileno t) (\<lambda>f. add_writer f (WritePipeReady t)))
      (bindM (getM (the_wp t)) (\<lambda>s.
       whenM (int (length (wp_buffer s)) > wp_high_water s)
         (tryM (notify U (PauseWriting (wp_protocol s))) is_Exception (\<lambda>_. ret ()))))))"

definition wp_write_ready :: "user \<Rightarrow> nat \<Rightarrow> unit act" where
  "wp_write_ready U t = bindM (getM (the_wp t)) (\<lambda>s.
     if wp_buffer s = [] then wp_remove_writer t
     else tryM
       (bindM (bindM (wp_fileno t) (\<lambda>f. os_write f (wp_buffer s))) (\<lambda>n.
        seqM (mod_wp t (\<lambda>s. s\<lparr>wp_buffer := drop n (wp_buffer s)\<rparr>))
       (seqM (bindM (getM (the_wp t)) (\<lambda>s.
                whenM (int (length (wp_buffer s)) < wp_low_water s)
                  (tryM (notify U (ResumeWriting (wp_protocol s))) is_Exception (\<lambda>_. ret ()))))
       (bindM (getM (the_wp t)) (\<lambda>s.
          whenM (wp_buffer s = [])
            (seqM (wp_remove_writer t)
            (bindM (getM (the_wp t)) (\<lambda>s.
               whenM (wp_closing s)
                 (seqM (modM (pipe_close (wp_pipe s)))
                       (notify U (ConnectionLost (wp_protocol s) None)))))))))))
       is_OSError
       (\<lambda>exc. if is_BlockingIOError exc then ret ()
          else seqM (wp_remove_writer t) (notify U (ConnectionLost (wp_protocol s) (Some exc)))))"

definition wp_close :: "user \<Rightarrow> nat \<Rightarrow> unit act" where
  "wp_close U t = bindM (getM (the_wp t)) (\<lambda>s.
     if wp_closing s then ret ()
     else
       seqM (mod_wp t (\<lambda>s. s\<lparr>wp_closing := True\<rparr>))
         (whenM (wp_buffer s = [])
           (seqM (modM (pipe_close (wp_pipe s)))
                 (notify U (ConnectionLost (wp_protocol s) None)))))"

definition wp_is_closing :: "nat \<Rightarrow> world \<Rightarrow> bool" where
  "wp_is_closing t w = wp_closing (the_wp t w)"

definition wp_abort :: "user \<Rightarrow> nat \<Rightarrow> unit act" where
  "wp_abort U t =
    seqM (mod_wp t (\<lambda>s. s\<lparr>wp_buffer := []\<rparr>))
   (seqM (wp_remove_writer t)
   (seqM (bindM (getM (\<lambda>w. wp_pipe (the_wp t w))) (\<lambda>k. modM (pipe_close k)))
   (seqM (mod_wp t (\<lambda>s. s\<lparr>wp_closing := True\<rparr>))
   (bindM (getM (\<lambda>w. wp_protocol (the_wp t w))) (\<lambda>p. notify U (ConnectionLost p None))))))"

definition wp_get_write_buffer_size :: "nat \<Rightarrow> world \<Rightarrow> nat" where
  "wp_get_write_buffer_size t w = length (wp_buffer (the_wp t w))"

definition wp_set_write_buffer_limits :: "nat \<Rightarrow> int option \<Rightarrow> int option \<Rightarrow> unit act" where
  "wp_set_write_buffer_limits t high low =
    seqM (case high of Some h \<Rightarrow> mod_wp t (\<lambda>s. s\<lparr>wp_high_water := h\<rparr>) | None \<Rightarrow> ret ())
         (case low of Some l \<Rightarrow> mod_wp t (\<lambda>s. s\<lparr>wp_low_water := l\<rparr>) | None \<Rightarrow> ret ())"

definition wp_get_write_buffer_limits :: "nat \<Rightarrow> world \<Rightarrow> int \<times> int" where
  "wp_get_write_buffer_limits t w = (wp_low_water (the_wp t w), wp_high_water (the_wp t w))"

section \<open>Connecting pipes\<close>

text \<open>A protocol factory returns the protocol, an object of the model's \<open>VObj\<close>.\<close>

definition make_protocol :: "user \<Rightarrow> nat \<Rightarrow> nat act" where
  "make_protocol U factory = bindM (call_user U (Factory factory)) (\<lambda>v.
     ret (case v of VObj p \<Rightarrow> p | _ \<Rightarrow> 0))"

definition make_protocol_or_close :: "user \<Rightarrow> nat \<Rightarrow> nat \<Rightarrow> nat act" where
  "make_protocol_or_close U factory pipe =
    tryM (make_protocol U factory) is_Exception
      (\<lambda>e. seqM (modM (pipe_close pipe)) (raise e))"

definition connect_read_pipe :: "user \<Rightarrow> nat \<Rightarrow> nat \<Rightarrow> (nat \<times> nat) act" where
  "connect_read_pipe U factory pipe =
    seqM check_closed
   (bindM (make_protocol_or_close U factory pipe) (\<lambda>p.
    bindM (read_pipe_new pipe p) (\<lambda>t. ret (t, p))))"

definition connect_write_pipe :: "user \<Rightarrow> nat \<Rightarrow> nat \<Rightarrow> (nat \<times> nat) act" where
  "connect_write_pipe U factory pipe =
    seqM check_closed
   (bindM (make_protocol_or_close U factory pipe) (\<lambda>p.
    bindM (write_pipe_new pipe p None) (\<lambda>t. ret (t, p))))"

end
