(* ===== verification/Datagram.thy ===== *)
theory Datagram
  imports Pipes
begin

text \<open>
  \<open>UringDatagramTransport\<close> (\<open>src/python/uringcore/datagram.py\<close>) and the loop's
  \<open>create_datagram_endpoint\<close>.
\<close>

abbreviation the_dg :: "nat \<Rightarrow> world \<Rightarrow> datagram" where
  "the_dg t w \<equiv> wo_datagrams w t"

definition mod_dg :: "nat \<Rightarrow> (datagram \<Rightarrow> datagram) \<Rightarrow> unit act" where
  "mod_dg t g = modM (\<lambda>w. w\<lparr>wo_datagrams := (wo_datagrams w)(t := g (wo_datagrams w t))\<rparr>)"

definition mod_os :: "(os \<Rightarrow> os) \<Rightarrow> unit act" where
  "mod_os g = modM (\<lambda>w. w\<lparr>wo_os := g (wo_os w)\<rparr>)"

text \<open>The standard library's calls on a non-blocking datagram socket.\<close>

definition take_error :: "fd \<Rightarrow> 'a act \<Rightarrow> 'a act" where
  "take_error f m = bindM (getM (\<lambda>w. (lo_open_fds w f, os_err (wo_os w) f))) (\<lambda>(opn, err).
     if \<not> opn then raise (OSError EBADF)
     else case err of
        Some e \<Rightarrow> seqM (mod_os (\<lambda>s. s\<lparr>os_err := (os_err s)(f := None)\<rparr>)) (raise (OSError e))
      | None \<Rightarrow> m)"

definition sock_recvfrom_now :: "nat \<Rightarrow> (bytes \<times> addr) act" where
  "sock_recvfrom_now k = bindM (getM (sock_fileno k)) (\<lambda>f. take_error f
     (bindM (getM (\<lambda>w. os_dgram_in (wo_os w) f)) (\<lambda>q. case q of
        [] \<Rightarrow> raise (OSError EAGAIN)
      | d # ds \<Rightarrow> seqM (mod_os (\<lambda>s. s\<lparr>os_dgram_in := (os_dgram_in s)(f := ds)\<rparr>)) (ret d))))"

definition sock_sendto_now :: "nat \<Rightarrow> bytes \<Rightarrow> addr option \<Rightarrow> int act" where
  "sock_sendto_now k data a = bindM (getM (sock_fileno k)) (\<lambda>f. take_error f
     (bindM (getM (\<lambda>w. os_room (wo_os w) f)) (\<lambda>room.
      if room < length data then raise (OSError EAGAIN)
      else seqM (mod_os (\<lambda>s. s\<lparr>os_dgram_out := (os_dgram_out s)(f := os_dgram_out s f @ [(data, a)])\<rparr>))
                (ret (int (length data))))))"

section \<open>The transport\<close>

definition datagram_new :: "nat \<Rightarrow> nat \<Rightarrow> addr option \<Rightarrow> nat act" where
  "datagram_new k p a = bindM new_id (\<lambda>t.
     seqM (mod_dg t (\<lambda>_. \<lparr>dg_sock = k, dg_protocol = p, dg_address = a, dg_closing = False,
             dg_closed = False\<rparr>))
    (seqM (bindM (getM (sock_fileno k)) (\<lambda>f. add_reader f (DatagramReady t))) (ret t)))"

definition dg_read_ready :: "user \<Rightarrow> nat \<Rightarrow> unit act" where
  "dg_read_ready U t = bindM (getM (the_dg t)) (\<lambda>s.
     if dg_closing s then ret ()
     else tryM
       (bindM (sock_recvfrom_now (dg_sock s)) (\<lambda>(data, a).
          notify U (DatagramReceived (dg_protocol s) data a)))
       is_Exception
       (\<lambda>exc. if is_BlockingIOError exc then ret ()
          else notify U (ErrorReceived (dg_protocol s) exc)))"

definition falsy_addr :: "addr option \<Rightarrow> bool" where
  "falsy_addr a \<longleftrightarrow> a = None \<or> a = Some (UnixPath []) \<or> a = Some (UnixAbstract [])"

definition dg_sendto :: "user \<Rightarrow> nat \<Rightarrow> bytes \<Rightarrow> addr option \<Rightarrow> unit act" where
  "dg_sendto U t data a = bindM (getM (the_dg t)) (\<lambda>s.
     if dg_closing s then ret ()
     else tryM
       (let a' = (if a = None then dg_address s else a) in
        bindM (sock_sendto_now (dg_sock s) data (if falsy_addr a' then None else a')) (\<lambda>_. ret ()))
       is_Exception
       (\<lambda>exc. if is_BlockingIOError exc then ret ()
          else notify U (ErrorReceived (dg_protocol s) exc)))"

definition dg_is_closing :: "nat \<Rightarrow> world \<Rightarrow> bool" where
  "dg_is_closing t w \<longleftrightarrow> dg_closing (the_dg t w) \<or> dg_closed (the_dg t w)"

definition dg_close :: "nat \<Rightarrow> unit act" where
  "dg_close t = bindM (getM (the_dg t)) (\<lambda>s.
     if dg_closing s then ret ()
     else
       seqM (mod_dg t (\<lambda>s. s\<lparr>dg_closing := True\<rparr>))
      (seqM (bindM (getM (sock_fileno (dg_sock s))) remove_reader)
      (seqM (modM (sock_close (dg_sock s)))
      (seqM (mod_dg t (\<lambda>s. s\<lparr>dg_closed := True\<rparr>))
            (bindM (call_soon (DatagramConnectionLost t None)) (\<lambda>_. ret ()))))))"

definition dg_call_connection_lost :: "user \<Rightarrow> nat \<Rightarrow> exn option \<Rightarrow> unit act" where
  "dg_call_connection_lost U t exc = bindM (getM (the_dg t)) (\<lambda>s.
     tryM (notify U (ConnectionLost (dg_protocol s) exc)) is_Exception (\<lambda>_. ret ()))"

definition dg_abort :: "nat \<Rightarrow> unit act" where
  "dg_abort t = dg_close t"

definition dg_get_write_buffer_size :: nat where
  "dg_get_write_buffer_size = 0"

definition dg_get_write_buffer_limits :: "nat \<times> nat" where
  "dg_get_write_buffer_limits = (0, 0)"

section \<open>The endpoint\<close>

text \<open>
  \<open>given\<close> is the caller's socket; \<open>made\<close> is the answer of creating, configuring, binding and
  connecting a fresh one.
\<close>

definition create_datagram_endpoint ::
  "user \<Rightarrow> nat \<Rightarrow> addr option \<Rightarrow> addr option \<Rightarrow> nat option \<Rightarrow> exn + nat \<Rightarrow> (nat \<times> nat) act" where
  "create_datagram_endpoint U factory local_addr remote_addr given made =
    seqM check_closed
   (bindM (case given of
       Some k \<Rightarrow>
         if \<not> falsy_addr local_addr \<or> \<not> falsy_addr remote_addr
         then raise (ValueError ''socket and host/port cannot both be specified'')
         else ret k
     | None \<Rightarrow> (case made of Inl e \<Rightarrow> raise e | Inr k \<Rightarrow> ret k)) (\<lambda>k.
    bindM (make_protocol U factory) (\<lambda>p.
    bindM (datagram_new k p remote_addr) (\<lambda>t.
    seqM (notify U (ConnectionMade p (DatagramT t))) (ret (t, p))))))"

end
