(* ===== verification/Subprocess.thy ===== *)
theory Subprocess
  imports Datagram
begin

text \<open>
  \<open>SubprocessTransport\<close> and its two pipe transports (\<open>src/python/uringcore/subprocess.py\<close>), and
  the loop's \<open>subprocess_exec\<close> and \<open>subprocess_shell\<close>. The drain loop of \<open>_process_exited\<close> reads
  a pipe to its end; it takes fuel and says whether it finished. Theory \<open>Subprocess_Props\<close>
  gives the fuel that is enough.
\<close>

section \<open>Operations of the read pipe\<close>

abbreviation the_sr :: "nat \<Rightarrow> world \<Rightarrow> sub_read" where
  "the_sr t w \<equiv> wo_sub_reads w t"

definition mod_sr :: "nat \<Rightarrow> (sub_read \<Rightarrow> sub_read) \<Rightarrow> unit act" where
  "mod_sr t g = modM (\<lambda>w. w\<lparr>wo_sub_reads := (wo_sub_reads w)(t := g (wo_sub_reads w t))\<rparr>)"

definition sr_fileno :: "nat \<Rightarrow> fd act" where
  "sr_fileno t = bindM (getM (\<lambda>w. sr_pipe (the_sr t w))) pipe_fileno"

definition sr_pause_reading :: "nat \<Rightarrow> unit act" where
  "sr_pause_reading t = bindM (sr_fileno t) (\<lambda>f. bindM (remove_reader f) (\<lambda>_. ret ()))"

definition sr_resume_reading :: "nat \<Rightarrow> unit act" where
  "sr_resume_reading t = bindM (sr_fileno t) (\<lambda>f. add_reader f (SubReadReady t))"

definition sub_read_new :: "nat \<Rightarrow> nat \<Rightarrow> int \<Rightarrow> nat act" where
  "sub_read_new pipe p f = bindM new_id (\<lambda>t.
     seqM (mod_sr t (\<lambda>_. \<lparr>sr_pipe = pipe, sr_protocol = p, sr_fd = f, sr_closing = False\<rparr>))
    (seqM (bindM (sr_fileno t) os_set_nonblocking)
    (seqM (sr_resume_reading t) (ret t))))"

definition sr_read_ready :: "user \<Rightarrow> nat \<Rightarrow> unit act" where
  "sr_read_ready U t = bindM (getM (the_sr t)) (\<lambda>s.
     tryM
       (bindM (bindM (sr_fileno t) (\<lambda>f. os_read f 65536)) (\<lambda>data.
        if data \<noteq> [] then notify U (PipeDataReceived (sr_protocol s) (sr_fd s) data)
        else seqM (sr_pause_reading t)
                  (notify U (PipeConnectionLost (sr_protocol s) (sr_fd s) None))))
       is_OSError
       (\<lambda>exc. seqM (sr_pause_reading t)
                 (notify U (PipeConnectionLost (sr_protocol s) (sr_fd s) (Some exc)))))"

definition sr_close :: "nat \<Rightarrow> unit act" where
  "sr_close t = bindM (getM (the_sr t)) (\<lambda>s.
     if sr_closing s then ret ()
     else seqM (mod_sr t (\<lambda>s. s\<lparr>sr_closing := True\<rparr>))
         (seqM (sr_pause_reading t) (modM (pipe_close (sr_pipe s)))))"

section \<open>Operations of the write pipe\<close>

abbreviation the_sw :: "nat \<Rightarrow> world \<Rightarrow> sub_write" where
  "the_sw t w \<equiv> wo_sub_writes w t"

definition mod_sw :: "nat \<Rightarrow> (sub_write \<Rightarrow> sub_write) \<Rightarrow> unit act" where
  "mod_sw t g = modM (\<lambda>w. w\<lparr>wo_sub_writes := (wo_sub_writes w)(t := g (wo_sub_writes w t))\<rparr>)"

definition sw_fileno :: "nat \<Rightarrow> fd act" where
  "sw_fileno t = bindM (getM (\<lambda>w. sw_pipe (the_sw t w))) pipe_fileno"

definition sw_remove_writer :: "nat \<Rightarrow> unit act" where
  "sw_remove_writer t = bindM (sw_fileno t) (\<lambda>f. bindM (remove_writer f) (\<lambda>_. ret ()))"

definition sub_write_new :: "nat \<Rightarrow> nat \<Rightarrow> int \<Rightarrow> nat act" where
  "sub_write_new pipe p f = bindM new_id (\<lambda>t.
     seqM (mod_sw t (\<lambda>_. \<lparr>sw_pipe = pipe, sw_protocol = p, sw_fd = f, sw_closing = False, sw_buffer = []\<rparr>))
    (seqM (tryM (bindM (sw_fileno t) os_set_nonblocking) is_OSError_or_ValueError
             (\<lambda>_. mod_sw t (\<lambda>s. s\<lparr>sw_closing := True\<rparr>)))
          (ret t)))"

definition sw_write :: "nat \<Rightarrow> bytes \<Rightarrow> unit act" where
  "sw_write t data = bindM (getM (the_sw t)) (\<lambda>s.
     if sw_closing s then ret ()
     else seqM (mod_sw t (\<lambda>s. s\<lparr>sw_buffer := sw_buffer s @ data\<rparr>))
               (bindM (sw_fileno t) (\<lambda>f. add_writer f (SubWriteReady t))))"

definition sw_write_ready :: "user \<Rightarrow> nat \<Rightarrow> unit act" where
  "sw_write_ready U t = bindM (getM (the_sw t)) (\<lambda>s.
     if sw_buffer s = [] then sw_remove_writer t
     else tryM
       (bindM (bindM (sw_fileno t) (\<lambda>f. os_write f (sw_buffer s))) (\<lambda>n.
        seqM (mod_sw t (\<lambda>s. s\<lparr>sw_buffer := drop n (sw_buffer s)\<rparr>))
       (bindM (getM (the_sw t)) (\<lambda>s.
          whenM (sw_buffer s = [])
            (seqM (sw_remove_writer t)
                  (whenM (sw_closing s) (modM (pipe_close (sw_pipe s)))))))))
       is_OSError
       (\<lambda>exc. if is_BlockingIOError exc then ret ()
          else seqM (sw_remove_writer t)
                    (notify U (PipeConnectionLost (sw_protocol s) (sw_fd s) (Some exc)))))"

definition sw_close :: "nat \<Rightarrow> unit act" where
  "sw_close t = bindM (getM (the_sw t)) (\<lambda>s.
     if sw_closing s then ret ()
     else seqM (mod_sw t (\<lambda>s. s\<lparr>sw_closing := True\<rparr>))
         (whenM (sw_buffer s = []) (modM (pipe_close (sw_pipe s)))))"

definition sw_write_eof :: "nat \<Rightarrow> unit act" where
  "sw_write_eof t = sw_close t"

definition sw_abort :: "nat \<Rightarrow> unit act" where
  "sw_abort t =
    seqM (mod_sw t (\<lambda>s. s\<lparr>sw_buffer := []\<rparr>))
   (seqM (sw_remove_writer t)
   (seqM (bindM (getM (\<lambda>w. sw_pipe (the_sw t w))) (\<lambda>k. modM (pipe_close k)))
         (mod_sw t (\<lambda>s. s\<lparr>sw_closing := True\<rparr>))))"

definition sw_get_write_buffer_size :: "nat \<Rightarrow> world \<Rightarrow> nat" where
  "sw_get_write_buffer_size t w = length (sw_buffer (the_sw t w))"

section \<open>The process\<close>

abbreviation the_sp :: "nat \<Rightarrow> world \<Rightarrow> subproc" where
  "the_sp k w \<equiv> wo_subprocs w k"

definition mod_sp :: "nat \<Rightarrow> (subproc \<Rightarrow> subproc) \<Rightarrow> unit act" where
  "mod_sp k g = modM (\<lambda>w. w\<lparr>wo_subprocs := (wo_subprocs w)(k := g (wo_subprocs w k))\<rparr>)"

definition sub_pipe_close :: "sub_pipe \<Rightarrow> unit act" where
  "sub_pipe_close sp = (case sp of SubRead t \<Rightarrow> sr_close t | SubWrite t \<Rightarrow> sw_close t)"

text \<open>
  A \<open>Popen\<close> object: the process id and the pipe objects of the three streams. \<open>pidfd\<close> is the
  answer of \<open>os.pidfd_open\<close>; \<open>None\<close> is a Python without it.
\<close>

record popen =
  po_pid :: nat
  po_stdin :: "nat option"
  po_stdout :: "nat option"
  po_stderr :: "nat option"

definition start_exit_waiter :: "(errno + fd) option \<Rightarrow> nat \<Rightarrow> unit act" where
  "start_exit_waiter pidfd k =
    (let fallback = mod_sp k (\<lambda>s. s\<lparr>sp_thread := True\<rparr>) in
     case pidfd of
       None \<Rightarrow> fallback
     | Some (Inl e) \<Rightarrow> fallback
     | Some (Inr f) \<Rightarrow>
         tryM (seqM (mod_sp k (\<lambda>s. s\<lparr>sp_pidfd := Some f\<rparr>)) (add_reader f (PidfdReady k)))
           (\<lambda>e. is_OSError e \<or> (\<exists>m. e = AttributeError m)) (\<lambda>_. fallback))"

definition add_pipe :: "nat \<Rightarrow> int \<Rightarrow> sub_pipe act \<Rightarrow> unit act" where
  "add_pipe k n mk = bindM mk (\<lambda>sp. mod_sp k (\<lambda>s. s\<lparr>sp_pipes := sp_pipes s @ [(n, sp)]\<rparr>))"

definition subprocess_new :: "(errno + fd) option \<Rightarrow> nat \<Rightarrow> popen \<Rightarrow> nat act" where
  "subprocess_new pidfd p proc = bindM new_id (\<lambda>k.
     seqM (mod_sp k (\<lambda>_. \<lparr>sp_protocol = p, sp_pid = po_pid proc, sp_returncode = None,
             sp_closed = False, sp_exit_waiters = [], sp_pipes = [], sp_pidfd = None, sp_thread = False\<rparr>))
    (seqM (case po_stdin proc of None \<Rightarrow> ret ()
             | Some i \<Rightarrow> add_pipe k 0 (bindM (sub_write_new i p 0) (\<lambda>t. ret (SubWrite t))))
    (seqM (case po_stdout proc of None \<Rightarrow> ret ()
             | Some i \<Rightarrow> add_pipe k 1 (bindM (sub_read_new i p 1) (\<lambda>t. ret (SubRead t))))
    (seqM (case po_stderr proc of None \<Rightarrow> ret ()
             | Some i \<Rightarrow> add_pipe k 2 (bindM (sub_read_new i p 2) (\<lambda>t. ret (SubRead t))))
    (seqM (start_exit_waiter pidfd k) (ret k))))))"

text \<open>The inner loop of \<open>_process_exited\<close>: read until the end of the pipe, or until it blocks.\<close>

fun drain_loop :: "user \<Rightarrow> nat \<Rightarrow> int \<Rightarrow> nat \<Rightarrow> nat \<Rightarrow> bool act" where
  "drain_loop U p n t 0 = ret False"
| "drain_loop U p n t (Suc fuel) =
    bindM (bindM (sr_fileno t) (\<lambda>f. os_read f 65536)) (\<lambda>data.
    if data = [] then ret True
    else seqM (notify U (PipeDataReceived p n data)) (drain_loop U p n t fuel))"

definition drain_pipe :: "user \<Rightarrow> nat \<Rightarrow> nat \<Rightarrow> int \<times> sub_pipe \<Rightarrow> bool act" where
  "drain_pipe U fuel p = (\<lambda>(n, sp). case sp of
      SubRead t \<Rightarrow> tryM (drain_loop U p n t fuel) is_OSError (\<lambda>_. ret True)
    | SubWrite t \<Rightarrow> ret True)"

fun drain_pipes :: "user \<Rightarrow> nat \<Rightarrow> nat \<Rightarrow> (int \<times> sub_pipe) list \<Rightarrow> bool act" where
  "drain_pipes U fuel p [] = ret True"
| "drain_pipes U fuel p (x # xs) = bindM (drain_pipe U fuel p x) (\<lambda>done.
     if done then drain_pipes U fuel p xs else ret False)"

definition wake_waiter :: "int \<Rightarrow> fut_id \<Rightarrow> unit act" where
  "wake_waiter rc f = bindM (getM (fut_done f)) (\<lambda>d. whenM (\<not> d) (set_result f (VInt rc)))"

text \<open>The result says whether the drain loops finished within the fuel.\<close>

definition process_exited :: "user \<Rightarrow> nat \<Rightarrow> nat \<Rightarrow> int \<Rightarrow> bool act" where
  "process_exited U fuel k rc =
    seqM (mod_sp k (\<lambda>s. s\<lparr>sp_returncode := Some rc\<rparr>))
   (bindM (getM (the_sp k)) (\<lambda>s.
    bindM (drain_pipes U fuel (sp_protocol s) (sp_pipes s)) (\<lambda>done.
    if \<not> done then ret False
    else
      bindM (getM (\<lambda>w. map snd (sp_pipes (the_sp k w)))) (\<lambda>ps.
      seqM (forM ps sub_pipe_close)
     (seqM (tryM (notify U (ProcessExited (sp_protocol s))) is_Exception (\<lambda>_. ret ()))
     (bindM (getM (\<lambda>w. sp_exit_waiters (the_sp k w))) (\<lambda>ws.
      seqM (forM ws (wake_waiter rc)) (ret True))))))))"

definition close_pidfd :: "nat \<Rightarrow> unit act" where
  "close_pidfd k = bindM (getM (\<lambda>w. sp_pidfd (the_sp k w))) (\<lambda>pf. case pf of
      None \<Rightarrow> ret ()
    | Some f \<Rightarrow>
        seqM (remove_reader f)
       (seqM (tryM (os_close_fd f) is_OSError (\<lambda>_. ret ()))
             (mod_sp k (\<lambda>s. s\<lparr>sp_pidfd := None\<rparr>))))"

definition on_pidfd_ready :: "user \<Rightarrow> nat \<Rightarrow> nat \<Rightarrow> bool act" where
  "on_pidfd_ready U fuel k =
    seqM (close_pidfd k)
   (tryM (bindM (getM (\<lambda>w. os_exit (wo_os w) (sp_pid (the_sp k w)))) (process_exited U fuel k))
      is_Exception (\<lambda>_. ret True))"

text \<open>The fallback thread, once \<open>wait()\<close> has returned.\<close>

definition exit_thread_done :: "nat \<Rightarrow> unit act" where
  "exit_thread_done k = bindM (getM (\<lambda>w. os_exit (wo_os w) (sp_pid (the_sp k w)))) (\<lambda>rc.
     bindM (call_soon_threadsafe (ProcessExitedCb k rc)) (\<lambda>_. ret ()))"

definition get_returncode :: "nat \<Rightarrow> world \<Rightarrow> int option" where
  "get_returncode k w = sp_returncode (the_sp k w)"

text \<open>The coroutine \<open>_wait\<close>, split at its \<open>await\<close>.\<close>

definition wait_start :: "nat \<Rightarrow> (int + fut_id) act" where
  "wait_start k = bindM (getM (\<lambda>w. sp_returncode (the_sp k w))) (\<lambda>rc. case rc of
      Some v \<Rightarrow> ret (Inl v)
    | None \<Rightarrow> bindM create_future (\<lambda>f.
        seqM (mod_sp k (\<lambda>s. s\<lparr>sp_exit_waiters := sp_exit_waiters s @ [f]\<rparr>)) (ret (Inr f))))"

definition wait_finish :: "nat \<Rightarrow> fut_id \<Rightarrow> pyval act" where
  "wait_finish k f = finallyM (fut_result f)
    (bindM (getM (\<lambda>w. sp_exit_waiters (the_sp k w))) (\<lambda>ws.
       if f \<in> set ws then mod_sp k (\<lambda>s. s\<lparr>sp_exit_waiters := remove1 f (sp_exit_waiters s)\<rparr>)
       else raise (ValueError ''list.remove(x): x not in list'')))"

definition get_pipe_transport :: "nat \<Rightarrow> int \<Rightarrow> world \<Rightarrow> sub_pipe option" where
  "get_pipe_transport k n w = map_of (sp_pipes (the_sp k w)) n"

definition send_signal :: "nat \<Rightarrow> int \<Rightarrow> unit act" where
  "send_signal k sig = modM (\<lambda>w. w\<lparr>wo_os := (wo_os w)\<lparr>os_signals :=
     os_signals (wo_os w) @ [(sp_pid (the_sp k w), sig)]\<rparr>\<rparr>)"

definition terminate_process :: "nat \<Rightarrow> unit act" where
  "terminate_process k = send_signal k 15"

definition kill_process :: "nat \<Rightarrow> unit act" where
  "kill_process k = send_signal k 9"

definition sp_close :: "nat \<Rightarrow> unit act" where
  "sp_close k = bindM (getM (the_sp k)) (\<lambda>s.
     if sp_closed s then ret ()
     else
       seqM (mod_sp k (\<lambda>s. s\<lparr>sp_closed := True\<rparr>))
      (seqM (forM (map snd (sp_pipes s)) sub_pipe_close)
      (seqM (close_pidfd k)
      (bindM (getM (\<lambda>w. sp_returncode (the_sp k w))) (\<lambda>rc.
         whenM (rc = None) (terminate_process k))))))"

section \<open>Starting a subprocess\<close>

text \<open>
  The keyword arguments that are checked; \<open>proc\<close> is the answer of \<open>subprocess.Popen\<close>.
\<close>

record popen_opts =
  op_universal_newlines :: bool
  op_shell :: bool
  op_encoding :: bool \<comment> \<open>a non-empty encoding was given\<close>
  op_errors :: bool

definition start_process ::
  "user \<Rightarrow> bool \<Rightarrow> string \<Rightarrow> popen_opts \<Rightarrow> nat \<Rightarrow> exn + popen \<Rightarrow> (errno + fd) option \<Rightarrow> (nat \<times> nat) act" where
  "start_process U want_shell shell_msg opts factory proc pidfd =
    seqM check_closed
   (if op_universal_newlines opts then raise (ValueError ''universal_newlines must be False'')
    else if op_shell opts \<noteq> want_shell then raise (ValueError shell_msg)
    else if op_encoding opts then raise (ValueError ''encoding must be None'')
    else if op_errors opts then raise (ValueError ''errors must be None'')
    else case proc of
       Inl e \<Rightarrow> raise e
     | Inr po \<Rightarrow>
        bindM (make_protocol U factory) (\<lambda>p.
        bindM (subprocess_new pidfd p po) (\<lambda>k.
        seqM (notify U (ConnectionMade p (SubprocT k))) (ret (k, p)))))"

definition subprocess_exec where
  "subprocess_exec U = start_process U False ''shell must be False''"

definition subprocess_shell where
  "subprocess_shell U = start_process U True ''shell must be True''"

end
