(* ===== verification/Ssl.thy ===== *)
theory Ssl
  imports Transport
begin

text \<open>
  \<open>SSLTransport\<close> and \<open>_SSLProtocol\<close> (\<open>src/python/uringcore/ssl_transport.py\<close>) and the loop's
  \<open>start_tls\<close>. The TLS engine (OpenSSL behind \<open>ssl.SSLObject\<close>) is a parameter: its four
  operations as functions on the object with its two memory buffers.
\<close>

record ssl_engine =
  se_handshake :: "ssl_object \<Rightarrow> (exn + unit) \<times> ssl_object"
  se_read :: "nat \<Rightarrow> ssl_object \<Rightarrow> (exn + bytes) \<times> ssl_object"
  se_write :: "bytes \<Rightarrow> ssl_object \<Rightarrow> (exn + nat) \<times> ssl_object"
  se_unwrap :: "ssl_object \<Rightarrow> (exn + unit) \<times> ssl_object"

abbreviation the_sl :: "nat \<Rightarrow> world \<Rightarrow> ssl_transport" where
  "the_sl t w \<equiv> wo_ssls w t"

definition mod_sl :: "nat \<Rightarrow> (ssl_transport \<Rightarrow> ssl_transport) \<Rightarrow> unit act" where
  "mod_sl t g = modM (\<lambda>w. w\<lparr>wo_ssls := (wo_ssls w)(t := g (wo_ssls w t))\<rparr>)"

definition on_ssl :: "nat \<Rightarrow> (ssl_object \<Rightarrow> (exn + 'a) \<times> ssl_object) \<Rightarrow> 'a act" where
  "on_ssl t m w = (case m (sl_object (the_sl t w)) of
     (r, b) \<Rightarrow> (r, w\<lparr>wo_ssls := (wo_ssls w)(t := (wo_ssls w t)\<lparr>sl_object := b\<rparr>)\<rparr>))"

definition ssl_new :: "nat \<Rightarrow> nat \<Rightarrow> nat \<Rightarrow> nat act" where
  "ssl_new base p st = bindM new_id (\<lambda>t.
     seqM (mod_sl t (\<lambda>_. \<lparr>sl_base = base, sl_protocol = p, sl_closing = False, sl_closed = False,
             sl_object = \<lparr>sb_state = st, sb_incoming = [], sb_outgoing = []\<rparr>,
             sl_handshake_started = False, sl_handshake_complete = False,
             sl_handshake_future = None\<rparr>)) (ret t))"

definition flush_outgoing :: "user \<Rightarrow> nat \<Rightarrow> unit act" where
  "flush_outgoing U t =
    bindM (on_ssl t (\<lambda>b. (Inr (sb_outgoing b), b\<lparr>sb_outgoing := []\<rparr>))) (\<lambda>data.
    whenM (data \<noteq> []) (bindM (getM (\<lambda>w. sl_base (the_sl t w))) (\<lambda>base. tr_write U base data)))"

definition settle_handshake :: "nat \<Rightarrow> (fut_id \<Rightarrow> unit act) \<Rightarrow> unit act" where
  "settle_handshake t m = bindM (getM (\<lambda>w. sl_handshake_future (the_sl t w))) (\<lambda>hf. case hf of
      None \<Rightarrow> ret ()
    | Some f \<Rightarrow> bindM (getM (fut_done f)) (\<lambda>d. whenM (\<not> d) (m f)))"

definition do_handshake_step :: "ssl_engine \<Rightarrow> user \<Rightarrow> nat \<Rightarrow> unit act" where
  "do_handshake_step S U t =
    tryM
      (seqM (on_ssl t (se_handshake S))
      (seqM (mod_sl t (\<lambda>s. s\<lparr>sl_handshake_complete := True\<rparr>))
      (seqM (settle_handshake t (\<lambda>f. set_result f VNone))
            (bindM (getM (\<lambda>w. sl_protocol (the_sl t w))) (\<lambda>p. notify U (ConnectionMade p (SslT t)))))))
      is_Exception
      (\<lambda>e. if e = SSLWantReadError \<or> e = SSLWantWriteError then flush_outgoing U t
           else settle_handshake t (\<lambda>f. set_exception f e))"

text \<open>\<open>do_handshake\<close> up to its \<open>await\<close>; \<open>None\<close> when the handshake is already done.\<close>

definition do_handshake_start :: "ssl_engine \<Rightarrow> user \<Rightarrow> nat \<Rightarrow> fut_id option act" where
  "do_handshake_start S U t = bindM (getM (the_sl t)) (\<lambda>s.
     if sl_handshake_complete s then ret None
     else
       seqM (mod_sl t (\<lambda>s. s\<lparr>sl_handshake_started := True\<rparr>))
      (bindM create_future (\<lambda>f.
       seqM (mod_sl t (\<lambda>s. s\<lparr>sl_handshake_future := Some f\<rparr>))
      (seqM (do_handshake_step S U t) (ret (Some f))))))"

definition ssl_force_close :: "nat \<Rightarrow> exn option \<Rightarrow> unit act" where
  "ssl_force_close t exc = bindM (getM (the_sl t)) (\<lambda>s.
     if sl_closed s then ret ()
     else
       seqM (mod_sl t (\<lambda>s. s\<lparr>sl_closed := True, sl_closing := True\<rparr>))
      (seqM (tr_close (sl_base s))
            (bindM (call_soon (ConnectionLostCb (sl_protocol s) exc)) (\<lambda>_. ret ()))))"

text \<open>
  The read loop: it ends on an empty read, on \<open>SSLWantReadError\<close> or on an exception. The result
  says whether it ended within the fuel.
\<close>

fun read_decrypted_data :: "ssl_engine \<Rightarrow> user \<Rightarrow> nat \<Rightarrow> nat \<Rightarrow> bool act" where
  "read_decrypted_data S U t 0 = ret False"
| "read_decrypted_data S U t (Suc fuel) =
    bindM (tryM
       (bindM (on_ssl t (se_read S 65536)) (\<lambda>data.
        if data \<noteq> []
        then bindM (getM (\<lambda>w. sl_protocol (the_sl t w))) (\<lambda>p.
             seqM (notify U (DataReceived p (VBytes data))) (ret True))
        else ret False))
       is_Exception
       (\<lambda>e. if e = SSLWantReadError then ret False
            else seqM (ssl_force_close t (Some e)) (ret False)))
     (\<lambda>again. if again then read_decrypted_data S U t fuel else ret True)"

definition ssl_data_received :: "ssl_engine \<Rightarrow> user \<Rightarrow> nat \<Rightarrow> nat \<Rightarrow> bytes \<Rightarrow> bool act" where
  "ssl_data_received S U fuel t data =
    seqM (on_ssl t (\<lambda>b. (Inr (), b\<lparr>sb_incoming := sb_incoming b @ data\<rparr>)))
   (bindM (getM (\<lambda>w. sl_handshake_complete (the_sl t w))) (\<lambda>c.
    if \<not> c then seqM (do_handshake_step S U t) (ret True)
    else read_decrypted_data S U t fuel))"

definition ssl_write :: "ssl_engine \<Rightarrow> user \<Rightarrow> nat \<Rightarrow> bytes \<Rightarrow> unit act" where
  "ssl_write S U t data = bindM (getM (the_sl t)) (\<lambda>s.
     if sl_closing s then ret ()
     else tryM (seqM (on_ssl t (se_write S data)) (flush_outgoing U t))
            is_Exception (\<lambda>e. ssl_force_close t (Some e)))"

definition ssl_close :: "ssl_engine \<Rightarrow> user \<Rightarrow> nat \<Rightarrow> unit act" where
  "ssl_close S U t = bindM (getM (the_sl t)) (\<lambda>s.
     if sl_closing s then ret ()
     else
       seqM (mod_sl t (\<lambda>s. s\<lparr>sl_closing := True\<rparr>))
      (seqM (tryM (seqM (on_ssl t (se_unwrap S)) (flush_outgoing U t)) is_Exception (\<lambda>_. ret ()))
      (seqM (tr_close (sl_base s))
            (mod_sl t (\<lambda>s. s\<lparr>sl_closed := True\<rparr>)))))"

definition ssl_is_closing :: "nat \<Rightarrow> world \<Rightarrow> bool" where
  "ssl_is_closing t w \<longleftrightarrow> sl_closing (the_sl t w) \<or> sl_closed (the_sl t w)"

definition ssl_abort :: "nat \<Rightarrow> unit act" where
  "ssl_abort t = ssl_force_close t None"

definition ssl_get_write_buffer_size :: "nat \<Rightarrow> world \<Rightarrow> int" where
  "ssl_get_write_buffer_size t w = get_write_buffer_size (sl_base (the_sl t w)) w"

definition ssl_get_write_buffer_limits :: "nat \<Rightarrow> world \<Rightarrow> int \<times> int" where
  "ssl_get_write_buffer_limits t w = get_write_buffer_limits (sl_base (the_sl t w)) w"

definition ssl_set_write_buffer_limits :: "nat \<Rightarrow> int option \<Rightarrow> int option \<Rightarrow> unit act" where
  "ssl_set_write_buffer_limits t high low =
    bindM (getM (\<lambda>w. sl_base (the_sl t w))) (\<lambda>base. set_write_buffer_limits base high low)"

text \<open>\<open>_SSLProtocol\<close>, the protocol meant for the base transport.\<close>

definition ssl_protocol_data_received where
  "ssl_protocol_data_received S U fuel t data = ssl_data_received S U fuel t data"

definition ssl_protocol_connection_lost :: "user \<Rightarrow> nat \<Rightarrow> exn option \<Rightarrow> unit act" where
  "ssl_protocol_connection_lost U t exc =
    bindM (getM (\<lambda>w. sl_protocol (the_sl t w))) (\<lambda>p. notify U (ConnectionLost p exc))"

text \<open>
  \<open>start_tls\<close> up to the wait for the handshake, and what follows it. The base transport is a
  socket transport or some other object, which is refused.
\<close>

definition start_tls_start ::
  "ssl_engine \<Rightarrow> user \<Rightarrow> tref \<Rightarrow> nat \<Rightarrow> nat \<Rightarrow> (nat \<times> fut_id option) act" where
  "start_tls_start S U base p st =
    seqM check_closed
   (case base of
      SockT b \<Rightarrow>
        bindM (ssl_new b p st) (\<lambda>t.
        tryM (bindM (do_handshake_start S U t) (\<lambda>f. ret (t, f))) is_Exception
          (\<lambda>e. seqM (ssl_close S U t) (raise e)))
    | _ \<Rightarrow> raise (TypeError ''transport must be an asyncio.Transport''))"

definition start_tls_finish :: "ssl_engine \<Rightarrow> user \<Rightarrow> nat \<Rightarrow> fut_id option \<Rightarrow> nat act" where
  "start_tls_finish S U t f =
    tryM (case f of None \<Rightarrow> ret t | Some fut \<Rightarrow> bindM (fut_result fut) (\<lambda>_. ret t))
      is_Exception (\<lambda>e. seqM (ssl_close S U t) (raise e))"

end
