(* ===== verification/Event_Loop.thy ===== *)
theory Event_Loop
  imports Server Subprocess Ssl
begin

text \<open>
  The running loop: the phases of the engine's \<open>run_tick\<close> that call into Python, one iteration
  \<open>_run_once\<close>, the dispatch of completions to transports, servers and futures, \<open>run_forever\<close> and
  \<open>run_until_complete\<close>, the socket coroutines and the connection and server constructors of
  \<open>src/python/uringcore/loop.py\<close>. A coroutine is split at its \<open>await\<close> into a start, which gives
  the future waited for, and a finish.
\<close>

unbundle bit_operations_syntax

section \<open>Running a callback\<close>

text \<open>\<open>fuel\<close> bounds the drain loop of a subprocess exit.\<close>

definition finished :: "bool act \<Rightarrow> unit act" where
  "finished m = bindM m (\<lambda>_. ret ())"

definition run_callback :: "user \<Rightarrow> nat \<Rightarrow> callback \<Rightarrow> unit act" where
  "run_callback U fuel cb = (case cb of
      OnRecvComplete t f \<Rightarrow> on_recv_complete U t f
    | OnWriteComplete t f \<Rightarrow> on_write_complete U t f
    | SockConnectionLost t e \<Rightarrow> call_connection_lost U t e
    | StopCb \<Rightarrow> stop
    | FutSetResult f v \<Rightarrow> set_result f v
    | FutSetException f e \<Rightarrow> set_exception f e
    | WakeWaiter f \<Rightarrow> bindM (getM (fut_done f)) (\<lambda>d. whenM (\<not> d) (set_result f VNone))
    | ConnectionMadeCb p t \<Rightarrow> notify U (ConnectionMade p t)
    | ConnectionLostCb p e \<Rightarrow> notify U (ConnectionLost p e)
    | ReadPipeReady t \<Rightarrow> rp_read_ready U t
    | WritePipeReady t \<Rightarrow> wp_write_ready U t
    | DatagramReady t \<Rightarrow> dg_read_ready U t
    | DatagramConnectionLost t e \<Rightarrow> dg_call_connection_lost U t e
    | SubReadReady t \<Rightarrow> sr_read_ready U t
    | SubWriteReady t \<Rightarrow> sw_write_ready U t
    | PidfdReady k \<Rightarrow> finished (on_pidfd_ready U fuel k)
    | ProcessExitedCb k rc \<Rightarrow> finished (process_exited U fuel k rc)
    | TaskStep k f \<Rightarrow> notify U (RunTaskStep k f)
    | UserCb k \<Rightarrow> notify U (RunUserCb k))"

text \<open>\<open>e.print(py)\<close>: the traceback goes to standard error.\<close>

definition print_error :: "exn \<Rightarrow> unit act" where
  "print_error e = modM (\<lambda>w. w\<lparr>lo_tracebacks := lo_tracebacks w @ [e]\<rparr>)"

text \<open>
  Running a handle of the ready batch. A cancelled one is skipped. An exception of a native
  handle's callback is printed; an \<open>asyncio\<close> handle first gives it to the loop's exception
  handler.
\<close>

definition run_handle :: "user \<Rightarrow> nat \<Rightarrow> nat \<Rightarrow> unit act" where
  "run_handle U fuel h = bindM (getM (\<lambda>w. lo_handles w h)) (\<lambda>x. case x of
      None \<Rightarrow> ret ()
    | Some ha \<Rightarrow>
        if ha_cancelled ha then ret ()
        else tryM
          (case ha_kind ha of
             NativeHandle \<Rightarrow> run_callback U fuel (ha_callback ha)
           | AsyncioHandle \<Rightarrow> tryM (run_callback U fuel (ha_callback ha)) (\<lambda>_. True)
               (\<lambda>_. report U ''Exception in callback''))
          (\<lambda>_. True) print_error)"

definition run_ready :: "user \<Rightarrow> nat \<Rightarrow> unit act" where
  "run_ready U fuel =
    bindM (on_core (\<lambda>c. case sched_drain (uc_scheduler c) of
             (hs, q) \<Rightarrow> (Inr hs, c\<lparr>uc_scheduler := q\<rparr>)))
      (\<lambda>hs. forM hs (run_handle U fuel))"

section \<open>Resolving futures\<close>

definition resolve_future :: "item \<Rightarrow> fut_id \<Rightarrow> unit act" where
  "resolve_future i f =
    tryM
      (if it_result i < 0 then set_exception f (OSError (- it_result i))
       else if it_op i = Recv \<or> it_op i = RecvMulti \<or> it_op i = RecvMsg
       then set_result f (case it_data i of Some v \<Rightarrow> v | None \<Rightarrow> VBytes [])
       else set_result f (VInt (it_result i)))
      (\<lambda>_. True) print_error"

text \<open>One completion as Python sees it: descriptor, operation name, result, data.\<close>

type_synonym completion = "fd \<times> string \<times> int \<times> pyval"

definition completion_of :: "item \<Rightarrow> completion" where
  "completion_of i = (it_fd i, as_str (it_op i), it_result i,
     case it_data i of Some v \<Rightarrow> v | None \<Rightarrow> VNone)"

fun phase3 :: "item list \<Rightarrow> (fd \<rightharpoonup> fut_id) \<Rightarrow> completion list act" where
  "phase3 [] futs = ret []"
| "phase3 (i # is) futs =
    seqM (case futs (it_fd i) of None \<Rightarrow> ret () | Some f \<Rightarrow> resolve_future i f)
   (bindM (phase3 is (futs(it_fd i := None))) (\<lambda>cs. ret (completion_of i # cs)))"

definition run_tick :: "user \<Rightarrow> nat \<Rightarrow> completion list act" where
  "run_tick U fuel = bindM (getM lo_time) (\<lambda>now.
     bindM (on_core (tick_core now)) (\<lambda>(items, futs).
     bindM (phase3 items futs) (\<lambda>cs.
     seqM (run_ready U fuel) (ret cs))))"

section \<open>Completion handlers\<close>

definition pop_io_future :: "fd \<Rightarrow> string \<Rightarrow> fut_id option act" where
  "pop_io_future f op w = (Inr (lo_io_futures w (f, op)),
     w\<lparr>lo_io_futures := (lo_io_futures w)((f, op) := None)\<rparr>)"

definition unless_done :: "fut_id \<Rightarrow> unit act \<Rightarrow> unit act" where
  "unless_done f m = bindM (getM (fut_done f)) (\<lambda>d. whenM (\<not> d) m)"

definition handle_recv_completion :: "user \<Rightarrow> fd \<Rightarrow> int \<Rightarrow> pyval \<Rightarrow> unit act" where
  "handle_recv_completion U f result data =
    bindM (pop_io_future f ''recv'') (\<lambda>fut.
    bindM (getM (\<lambda>w. lo_transports w f)) (\<lambda>transport.
    if result > 0 \<and> truthy data
    then (case fut of Some x \<Rightarrow> unless_done x (set_result x data) | None \<Rightarrow> ret ())
    else if result = 0
    then (case fut of
        Some x \<Rightarrow> unless_done x (set_result x (VBytes []))
      | None \<Rightarrow> (case transport of Some t \<Rightarrow> eof_received U t | None \<Rightarrow> ret ()))
    else (case fut of
        Some x \<Rightarrow> unless_done x (set_exception x (OSError (- result)))
      | None \<Rightarrow> (case transport of Some t \<Rightarrow> error_received t (Inl result) | None \<Rightarrow> ret ()))))"

definition handle_recvmsg_completion :: "fd \<Rightarrow> int \<Rightarrow> pyval \<Rightarrow> unit act" where
  "handle_recvmsg_completion f result data =
    bindM (pop_io_future f ''recvmsg'') (\<lambda>fut. case fut of
      None \<Rightarrow> ret ()
    | Some x \<Rightarrow> unless_done x
        (if result \<ge> 0 then set_result x (if truthy data then data else VDatagram [] None)
         else set_exception x (OSError (- result))))"

definition settle_int :: "fut_id option \<Rightarrow> int \<Rightarrow> unit act" where
  "settle_int fut result = (case fut of
      None \<Rightarrow> ret ()
    | Some x \<Rightarrow> unless_done x
        (if result \<ge> 0 then set_result x (VInt result) else set_exception x (OSError (- result))))"

definition handle_sendmsg_completion :: "fd \<Rightarrow> int \<Rightarrow> pyval \<Rightarrow> unit act" where
  "handle_sendmsg_completion f result data =
    bindM (pop_io_future f ''sendmsg'') (\<lambda>fut. settle_int fut result)"

definition handle_send_completion :: "user \<Rightarrow> fd \<Rightarrow> int \<Rightarrow> pyval \<Rightarrow> unit act" where
  "handle_send_completion U f result data =
    bindM (pop_io_future f ''send'') (\<lambda>fut.
    seqM (settle_int fut result)
   (bindM (getM (\<lambda>w. lo_transports w f)) (\<lambda>transport. case transport of
      Some t \<Rightarrow> send_completed U t (VInt result)
    | None \<Rightarrow> ret ())))"

text \<open>
  \<open>_create_transport_for_accepted\<close>: \<open>socket.socket(fileno=fd)\<close> raises on a bad descriptor.
\<close>

definition wrap_fd :: "fd \<Rightarrow> nat act" where
  "wrap_fd f = bindM (getM (\<lambda>w. lo_open_fds w f)) (\<lambda>opn.
     if opn then new_sock f else raise (OSError EBADF))"

definition create_transport_for_accepted :: "user \<Rightarrow> fd \<Rightarrow> nat \<Rightarrow> unit act" where
  "create_transport_for_accepted U f factory =
    bindM (wrap_fd f) (\<lambda>k.
    bindM (make_protocol U factory) (\<lambda>p.
    bindM (new_transport f p (Some k)) (\<lambda>t.
    seqM (modM (\<lambda>w. w\<lparr>lo_transports := (lo_transports w)(f \<mapsto> t)\<rparr>))
   (seqM (notify U (ConnectionMade p (SockT t)))
   (seqM (mod_core (register_fd f ''tcp''))
         (rearm_recv t))))))"

definition accept_or_close :: "user \<Rightarrow> fd \<Rightarrow> nat \<Rightarrow> unit act" where
  "accept_or_close U client factory =
    tryM (create_transport_for_accepted U client factory) is_Exception
      (\<lambda>_. tryM (os_close_fd client) is_OSError (\<lambda>_. ret ()))"

definition submit_accept_future :: "fd \<Rightarrow> unit act" where
  "submit_accept_future f =
    bindM create_future (\<lambda>fut.
    seqM (modM (\<lambda>w. w\<lparr>lo_io_futures := (lo_io_futures w)((f, ''accept'') \<mapsto> fut)\<rparr>))
         (on_core (submit_accept f fut)))"

definition handle_accept_completion :: "user \<Rightarrow> fd \<Rightarrow> int \<Rightarrow> pyval \<Rightarrow> unit act" where
  "handle_accept_completion U f result data =
    bindM (pop_io_future f ''accept'') (\<lambda>fut.
    if result \<ge> 0
    then seqM (case fut of None \<Rightarrow> ret () | Some x \<Rightarrow> unless_done x (set_result x (VInt result)))
        (bindM (getM (\<lambda>w. lo_servers w f)) (\<lambda>sv. case sv of
           None \<Rightarrow> ret ()
         | Some (server, factory) \<Rightarrow>
             seqM (accept_or_close U result factory) (submit_accept_future f)))
    else (case fut of None \<Rightarrow> ret () | Some x \<Rightarrow> unless_done x (set_exception x (OSError (- result)))))"

definition handle_accept_multi_completion :: "user \<Rightarrow> fd \<Rightarrow> int \<Rightarrow> pyval \<Rightarrow> unit act" where
  "handle_accept_multi_completion U f result data =
    (if result \<ge> 0
     then bindM (getM (\<lambda>w. lo_servers w f)) (\<lambda>sv. case sv of
         None \<Rightarrow> ret ()
       | Some (server, factory) \<Rightarrow> accept_or_close U result factory)
     else modM (\<lambda>w. w\<lparr>lo_printed := lo_printed w @
            [''ERROR: AcceptMulti failed with result='' @ show_int result]\<rparr>))"

definition handle_close_completion :: "fd \<Rightarrow> int \<Rightarrow> pyval \<Rightarrow> unit act" where
  "handle_close_completion f result data =
    seqM (modM (\<lambda>w. w\<lparr>lo_transports := (lo_transports w)(f := None)\<rparr>))
         (mod_core (unregister_fd f))"

definition completion_handler :: "user \<Rightarrow> string \<Rightarrow> (fd \<Rightarrow> int \<Rightarrow> pyval \<Rightarrow> unit act) option" where
  "completion_handler U op =
    (if op = ''recv'' then Some (handle_recv_completion U)
     else if op = ''recv_multi'' then Some (handle_recv_completion U)
     else if op = ''send'' then Some (handle_send_completion U)
     else if op = ''accept'' then Some (handle_accept_completion U)
     else if op = ''accept_multi'' then Some (handle_accept_multi_completion U)
     else if op = ''recvmsg'' then Some handle_recvmsg_completion
     else if op = ''sendmsg'' then Some handle_sendmsg_completion
     else if op = ''close'' then Some handle_close_completion
     else None)"

definition process_completion :: "user \<Rightarrow> completion \<Rightarrow> unit act" where
  "process_completion U = (\<lambda>(f, op, result, data). case completion_handler U op of
      Some h \<Rightarrow> h f result data
    | None \<Rightarrow> ret ())"

definition process_completions :: "user \<Rightarrow> completion list \<Rightarrow> unit act" where
  "process_completions U cs = forM cs (process_completion U)"

section \<open>One iteration\<close>

definition push_handle :: "callback \<Rightarrow> unit act" where
  "push_handle cb = bindM (new_handle AsyncioHandle cb) (\<lambda>h. mod_core (push_task h))"

definition READ_MASK :: "32 word" where
  "READ_MASK = (EPOLLIN OR EPOLLHUP OR EPOLLERR)"

definition drain_eventfd :: "unit act" where
  "drain_eventfd = modM (\<lambda>w. w\<lparr>lo_eventfd_count := 0\<rparr>)"

definition process_event :: "fd \<times> 32 word \<Rightarrow> unit act" where
  "process_event = (\<lambda>(f, ev). bindM (getM event_fd) (\<lambda>efd.
     if f = efd then drain_eventfd
     else
       seqM (bindM (getM (\<lambda>w. lo_readers w f)) (\<lambda>r. case r of
               Some cb \<Rightarrow> whenM (ev AND READ_MASK \<noteq> 0) (push_handle cb) | None \<Rightarrow> ret ()))
            (bindM (getM (\<lambda>w. lo_writers w f)) (\<lambda>r. case r of
               Some cb \<Rightarrow> whenM (ev AND EPOLLOUT \<noteq> 0) (push_handle cb) | None \<Rightarrow> ret ()))))"

text \<open>
  \<open>poll\<close> is the answer of \<open>epoll.poll\<close> for the timeout it is given: what the kernel reports and
  what happened meanwhile (time passed, operations completed).
\<close>

record poll_answer =
  pa_world :: "world \<Rightarrow> world"
  pa_events :: "(fd \<times> 32 word) list"

definition epoll_poll :: "(real \<Rightarrow> poll_answer) \<Rightarrow> real \<Rightarrow> (fd \<times> 32 word) list act" where
  "epoll_poll poll timeout = bindM (getM lo_epoll_closed) (\<lambda>c.
     if c then raise (ValueError ''I/O operation on closed epoll object'')
     else seqM (modM (pa_world (poll timeout))) (ret (pa_events (poll timeout))))"

definition run_once :: "user \<Rightarrow> nat \<Rightarrow> (real \<Rightarrow> poll_answer) \<Rightarrow> unit act" where
  "run_once U fuel poll =
    seqM (bindM (getM (\<lambda>w. ready_len (lo_core w))) (\<lambda>n.
           whenM (n = 0)
             (bindM (getM calculate_timeout) (\<lambda>timeout.
              bindM (epoll_poll poll timeout) (\<lambda>events. forM events process_event)))))
   (bindM (run_tick U fuel) (process_completions U))"

section \<open>Running the loop\<close>

text \<open>
  The loop of \<open>run_forever\<close> over the kernel's answers to come: \<open>True\<close> when it was stopped,
  \<open>False\<close> when the answers ran out first.
\<close>

fun run_iterations :: "user \<Rightarrow> nat \<Rightarrow> (real \<Rightarrow> poll_answer) list \<Rightarrow> bool act" where
  "run_iterations U fuel polls = bindM (getM lo_stopping) (\<lambda>st.
     if st then ret True
     else (case polls of
        [] \<Rightarrow> ret False
      | p # ps \<Rightarrow> seqM (run_once U fuel p) (run_iterations U fuel ps)))"

declare run_iterations.simps [simp del]

definition run_forever :: "user \<Rightarrow> nat \<Rightarrow> (real \<Rightarrow> poll_answer) list \<Rightarrow> bool act" where
  "run_forever U fuel polls =
    seqM check_closed
   (seqM check_running
   (seqM (modM (\<lambda>w. w\<lparr>lo_running := True\<rparr>))
   (bindM (getM wo_running_loop) (\<lambda>old_loop.
    finallyM
      (seqM (modM (\<lambda>w. w\<lparr>wo_running_loop := True\<rparr>)) (run_iterations U fuel polls))
      (modM (\<lambda>w. w\<lparr>wo_running_loop := old_loop, lo_stopping := False, lo_running := False\<rparr>))))))"

text \<open>\<open>None\<close>: the answers ran out before the loop was stopped.\<close>

definition run_until_complete ::
  "user \<Rightarrow> nat \<Rightarrow> (real \<Rightarrow> poll_answer) list \<Rightarrow> fut_id \<Rightarrow> pyval option act" where
  "run_until_complete U fuel polls fut =
    seqM check_closed
   (seqM check_running
   (seqM (add_done_callback fut StopCb)
   (bindM (tryM (run_forever U fuel polls) is_Exception
            (\<lambda>e. bindM (getM (fut_done fut)) (\<lambda>d.
               seqM (whenM (\<not> d) (bindM (fut_cancel fut) (\<lambda>_. ret ()))) (raise e)))) (\<lambda>stopped.
    if \<not> stopped then ret None
    else bindM (getM (fut_done fut)) (\<lambda>d.
      if \<not> d then raise (RuntimeError ''Event loop stopped before Future completed'')
      else bindM (fut_result fut) (\<lambda>v. ret (Some v)))))))"

end
