(* ===== verification/Loop_Api.thy ===== *)
theory Loop_Api
  imports Event_Loop
begin

text \<open>
  The rest of \<open>UringEventLoop\<close>: construction, tasks, the executor, the socket coroutines, and the
  constructors of servers and connections. Answers of the operating system (socket creation,
  \<open>bind\<close>, \<open>connect\<close>, name resolution) are arguments.
\<close>

section \<open>Construction\<close>

record loop_kwargs =
  kw_buffer_count :: "int option"
  kw_buffer_size :: "int option"
  kw_ring_size :: nat
  kw_try_sqpoll :: bool

definition DEFAULT_BUFFER_COUNT :: int where "DEFAULT_BUFFER_COUNT = 4096"
definition DEFAULT_BUFFER_SIZE :: int where "DEFAULT_BUFFER_SIZE = 8192"

text \<open>
  \<open>env\<close> is \<open>int(os.environ[name])\<close> for a set variable: the number or the \<open>ValueError\<close> of \<open>int\<close>.
\<close>

definition env_int :: "(string \<Rightarrow> (exn + int) option) \<Rightarrow> string \<Rightarrow> int \<Rightarrow> exn + int" where
  "env_int env name dflt = (case env name of None \<Rightarrow> Inr dflt | Some r \<Rightarrow> r)"

definition to_usize :: "int \<Rightarrow> exn + nat" where
  "to_usize i = (if i < 0 then Inl (OverflowError ''out of range for usize'') else Inr (nat i))"

definition memlock_error :: "int \<Rightarrow> int \<Rightarrow> exn \<Rightarrow> exn" where
  "memlock_error cnt sz e = (case e of
      RuntimeError msg \<Rightarrow>
        if contains ''os error 12'' msg \<or> contains ''Cannot allocate memory'' msg
        then RuntimeError (''Failed to initialize io_uring with '' @ show_int cnt @ ''x'' @ show_int sz
               @ '' buffers: '' @ msg @ ''.'' @ [CHR 0x0A]
               @ ''This is typically due to low RLIMIT_MEMLOCK limits.'' @ [CHR 0x0A]
               @ ''Please increase your memlock limit (e.g., 'ulimit -l 65536' or higher).'' @ [CHR 0x0A]
               @ ''On WSL/Docker, you may need to configure /etc/security/limits.conf.'')
        else e
    | _ \<Rightarrow> e)"

definition loop_of_core :: "(nat, callback) uring_core \<Rightarrow> world \<Rightarrow> world" where
  "loop_of_core c w = w\<lparr>lo_core := c, lo_closed := False, lo_stopping := False, lo_running := False,
     lo_debug := False, lo_transports := Map.empty, lo_servers := Map.empty, lo_io_futures := Map.empty,
     lo_epoll := [rg_event_fd (uc_ring c) \<mapsto> EPOLLIN], lo_epoll_closed := False,
     lo_readers := Map.empty, lo_writers := Map.empty, lo_signal_handlers := Map.empty,
     lo_exception_handler := None, lo_default_executor := None\<rparr>"

definition new_loop ::
  "(string \<Rightarrow> (exn + int) option) \<Rightarrow> loop_kwargs \<Rightarrow> kernel_answers \<Rightarrow> world \<Rightarrow> exn + world" where
  "new_loop env kw k w =
    (case env_int env ''URINGCORE_BUFFER_COUNT'' DEFAULT_BUFFER_COUNT of Inl e \<Rightarrow> Inl e | Inr ec \<Rightarrow>
     case env_int env ''URINGCORE_BUFFER_SIZE'' DEFAULT_BUFFER_SIZE of Inl e \<Rightarrow> Inl e | Inr es \<Rightarrow>
     let cnt = (case kw_buffer_count kw of Some n \<Rightarrow> n | None \<Rightarrow> ec);
         sz = (case kw_buffer_size kw of Some n \<Rightarrow> n | None \<Rightarrow> es)
     in case to_usize sz of Inl e \<Rightarrow> Inl e | Inr usz \<Rightarrow>
        case to_usize cnt of Inl e \<Rightarrow> Inl e | Inr ucnt \<Rightarrow>
        case core_new k usz ucnt (kw_ring_size kw) (kw_try_sqpoll kw) of
          Inl e \<Rightarrow> Inl (memlock_error cnt sz e)
        | Inr c \<Rightarrow> Inr (loop_of_core c w))"

section \<open>Tasks\<close>

text \<open>\<open>set_task_factory\<close> stores nothing, so \<open>_task_factory\<close> stays \<open>None\<close>.\<close>

definition get_task_factory :: "nat option" where
  "get_task_factory = None"

definition set_task_factory :: "nat option \<Rightarrow> unit act" where
  "set_task_factory factory = ret ()"

text \<open>A task is a future whose coroutine's first step is scheduled.\<close>

definition create_task :: "nat \<Rightarrow> fut_id act" where
  "create_task coro =
    seqM check_closed
   (bindM create_future (\<lambda>f. seqM (call_soon (TaskStep coro f)) (ret f)))"

section \<open>Executor\<close>

definition get_default_executor :: "nat act" where
  "get_default_executor = bindM (getM lo_default_executor) (\<lambda>e. case e of
      Some x \<Rightarrow> ret x
    | None \<Rightarrow> bindM new_id (\<lambda>x. seqM (modM (\<lambda>w. w\<lparr>lo_default_executor := Some x\<rparr>)) (ret x)))"

text \<open>
  The job runs in the executor's thread; \<open>run_in_executor\<close> gives the loop's future and
  \<open>executor_done\<close> is the callback when the job has ended, with its result or exception.
\<close>

definition run_in_executor :: "nat option \<Rightarrow> fut_id act" where
  "run_in_executor executor =
    seqM check_closed
   (seqM (case executor of Some x \<Rightarrow> ret x | None \<Rightarrow> get_default_executor) create_future)"

definition executor_done :: "fut_id \<Rightarrow> exn + pyval \<Rightarrow> unit act" where
  "executor_done f outcome = bindM (getM lo_closed) (\<lambda>c.
     if c then ret ()
     else tryM
       (case outcome of
          Inl e \<Rightarrow> raise e
        | Inr v \<Rightarrow> bindM (call_soon_threadsafe (FutSetResult f v)) (\<lambda>_. ret ()))
       is_Exception
       (\<lambda>e. tryM (bindM (call_soon_threadsafe (FutSetException f e)) (\<lambda>_. ret ()))
              is_RuntimeError (\<lambda>_. ret ())))"

definition shutdown_default_executor :: "unit act" where
  "shutdown_default_executor = modM (\<lambda>w. w\<lparr>lo_default_executor := None\<rparr>)"

section \<open>Socket coroutines\<close>

definition put_io_future :: "fd \<Rightarrow> string \<Rightarrow> fut_id \<Rightarrow> unit act" where
  "put_io_future f op fut = modM (\<lambda>w. w\<lparr>lo_io_futures := (lo_io_futures w)((f, op) \<mapsto> fut)\<rparr>)"

definition sock_recv_start :: "nat \<Rightarrow> nat \<Rightarrow> fut_id act" where
  "sock_recv_start k nbytes = bindM (getM (sock_fileno k)) (\<lambda>f.
     seqM (mod_core (register_fd f ''tcp''))
    (bindM create_future (\<lambda>fut.
     seqM (put_io_future f ''recv'' fut) (seqM (on_core (submit_recv f fut)) (ret fut)))))"

definition sock_recvfrom_start :: "nat \<Rightarrow> nat \<Rightarrow> fut_id act" where
  "sock_recvfrom_start k bufsize = bindM (getM (sock_fileno k)) (\<lambda>f.
     seqM (mod_core (register_fd f ''udp''))
    (bindM create_future (\<lambda>fut.
     seqM (put_io_future f ''recvmsg'' fut) (seqM (on_core (submit_recvfrom f fut)) (ret fut)))))"

definition sock_accept_start :: "nat \<Rightarrow> fut_id act" where
  "sock_accept_start k = bindM (getM (sock_fileno k)) (\<lambda>f.
     seqM (mod_core (register_fd f ''tcp_listener''))
    (bindM create_future (\<lambda>fut.
     seqM (put_io_future f ''accept'' fut) (seqM (on_core (submit_accept f fut)) (ret fut)))))"

text \<open>
  \<open>conn, addr = await fut\<close>: only a pair can be unpacked; the future of an accept carries the
  new descriptor, an int.
\<close>

definition sock_accept_finish :: "fut_id \<Rightarrow> (pyval \<times> pyval) act" where
  "sock_accept_finish fut = bindM (fut_result fut) (\<lambda>v. case v of
      VDatagram a b \<Rightarrow> raise (AttributeError ''setblocking'')
    | VBytes b \<Rightarrow> if length b = 2 then raise (AttributeError ''setblocking'')
                  else raise (ValueError ''values to unpack'')
    | VInt n \<Rightarrow> raise (TypeError ''cannot unpack non-iterable int object'')
    | _ \<Rightarrow> raise (TypeError ''cannot unpack non-iterable object''))"

text \<open>\<open>None\<close>: there was nothing to send. The data are bytes-like or not.\<close>

definition sock_sendall_start :: "nat \<Rightarrow> bytes option \<Rightarrow> fut_id option act" where
  "sock_sendall_start k data = bindM (getM (sock_fileno k)) (\<lambda>f.
     if data = Some [] then ret None
     else
       seqM (mod_core (register_fd f ''tcp''))
      (bindM create_future (\<lambda>fut.
       seqM (put_io_future f ''send'' fut)
        (case data of
           None \<Rightarrow> raise (TypeError ''data argument must be byte-ish'')
         | Some bs \<Rightarrow> seqM (on_core (submit_send f bs fut)) (ret (Some fut))))))"

text \<open>
  \<open>sock_sendto\<close>: the direct system call first; when it would block, the engine. \<open>Inl n\<close> is the
  number of bytes already sent, \<open>Inr fut\<close> the future waited for.
\<close>

definition sock_sendto_start ::
  "(string \<Rightarrow> bool) \<Rightarrow> (string \<Rightarrow> bool) \<Rightarrow> nat \<Rightarrow> bytes \<Rightarrow> addr \<Rightarrow> (int + fut_id) act" where
  "sock_sendto_start v4 v6 k data a = bindM (getM (\<lambda>w. (lo_debug w, sock_fileno k w))) (\<lambda>(dbg, f).
     if dbg then raise (AttributeError ''_check_socket'')
     else tryM (bindM (sock_sendto_now k data (Some a)) (\<lambda>n. ret (Inl n))) is_BlockingIOError
       (\<lambda>_. bindM create_future (\<lambda>fut.
          seqM (put_io_future f ''sendmsg'' fut)
           (tryM (seqM (on_core (submit_sendto v4 v6 f data a fut)) (ret (Inr fut)))
              is_Exception
              (\<lambda>e. seqM (bindM (pop_io_future f ''sendmsg'') (\<lambda>_. ret ()))
                 (if is_OSError e then raise (NameError ''errno'') else raise e))))))"

text \<open>
  After the wait: an \<open>OSError\<close> of the future reaches a clause that names \<open>errno\<close>, a module
  \<open>loop.py\<close> does not import.
\<close>

definition sock_sendto_finish :: "fd \<Rightarrow> fut_id \<Rightarrow> pyval act" where
  "sock_sendto_finish f fut =
    tryM (fut_result fut) is_Exception
      (\<lambda>e. seqM (bindM (pop_io_future f ''sendmsg'') (\<lambda>_. ret ()))
         (if is_OSError e then raise (NameError ''errno'') else raise e))"

section \<open>Servers\<close>

text \<open>
  One address of \<open>getaddrinfo\<close>: what creating the socket gives, and the error of configuring,
  binding or listening.
\<close>

record addr_info =
  ai_socket :: "errno + nat"
  ai_setup_err :: "exn option"

fun open_listeners :: "addr_info list \<Rightarrow> exn + nat list" where
  "open_listeners [] = Inr []"
| "open_listeners (i # is) = (case ai_socket i of
      Inl e \<Rightarrow> open_listeners is
    | Inr k \<Rightarrow> (case ai_setup_err i of
        Some e \<Rightarrow> Inl e
      | None \<Rightarrow> (case open_listeners is of Inl e \<Rightarrow> Inl e | Inr ks \<Rightarrow> Inr (k # ks))))"

definition serve_socket :: "string \<Rightarrow> (fd \<Rightarrow> unit act) \<Rightarrow> bool \<Rightarrow> nat \<Rightarrow> nat \<Rightarrow> nat \<Rightarrow> unit act" where
  "serve_socket kind arm start server factory k = bindM (getM (sock_fileno k)) (\<lambda>f.
     seqM (mod_core (register_fd f kind))
    (seqM (modM (\<lambda>w. w\<lparr>lo_servers := (lo_servers w)(f \<mapsto> (server, factory))\<rparr>))
          (whenM start (arm f))))"

definition create_server ::
  "bool \<Rightarrow> nat option \<Rightarrow> exn + addr_info list \<Rightarrow> bool \<Rightarrow> nat \<Rightarrow> nat act" where
  "create_server ssl given infos start factory =
    (if ssl then raise (NotImplementedError ''SSL not yet supported'')
     else case (case given of Some k \<Rightarrow> Inr [k]
                | None \<Rightarrow> (case infos of Inl e \<Rightarrow> Inl e | Inr is \<Rightarrow> open_listeners is)) of
         Inl e \<Rightarrow> raise e
       | Inr socks \<Rightarrow>
           bindM (new_server socks factory) (\<lambda>sv.
           seqM (forM socks (serve_socket ''tcp_listener'' submit_accept_future start sv factory))
                (ret sv)))"

definition submit_accept_untracked :: "fd \<Rightarrow> unit act" where
  "submit_accept_untracked f = bindM create_future (\<lambda>fut. on_core (submit_accept f fut))"

text \<open>\<open>made\<close>: the answer of creating, unlinking, binding and listening on a fresh socket.\<close>

definition create_unix_server ::
  "string option \<Rightarrow> nat option \<Rightarrow> exn + nat \<Rightarrow> bool \<Rightarrow> nat \<Rightarrow> nat act" where
  "create_unix_server path given made start factory =
    seqM check_closed
   (let named = (path \<noteq> None \<and> path \<noteq> Some []) in
    case (case given of
        Some k \<Rightarrow> if named then Inl (ValueError ''path and sock cannot be used at the same time'') else Inr k
      | None \<Rightarrow> if \<not> named then Inl (ValueError ''path must be specified'') else made) of
      Inl e \<Rightarrow> raise e
    | Inr k \<Rightarrow>
        bindM (new_server [k] factory) (\<lambda>sv.
        seqM (serve_socket ''unix_listener'' submit_accept_untracked start sv factory k) (ret sv)))"

section \<open>Connections\<close>

text \<open>
  The client socket: the caller's, or a fresh one with the answer of \<open>connect\<close> on it, where
  \<open>BlockingIOError\<close> is expected.
\<close>

definition connected_socket :: "nat option \<Rightarrow> exn + nat \<Rightarrow> exn option \<Rightarrow> nat act" where
  "connected_socket given made conn = (case given of
      Some k \<Rightarrow> ret k
    | None \<Rightarrow> (case made of
        Inl e \<Rightarrow> raise e
      | Inr k \<Rightarrow> (case conn of
          None \<Rightarrow> ret k
        | Some e \<Rightarrow> if is_BlockingIOError e then ret k else raise e)))"

definition create_connection ::
  "user \<Rightarrow> bool \<Rightarrow> nat option \<Rightarrow> exn + nat \<Rightarrow> exn option \<Rightarrow> nat \<Rightarrow> (nat \<times> nat) act" where
  "create_connection U ssl given made conn factory =
    (if ssl then raise (NotImplementedError ''SSL not yet supported'')
     else bindM (connected_socket given made conn) (\<lambda>k.
       bindM (getM (sock_fileno k)) (\<lambda>f.
       bindM (make_protocol U factory) (\<lambda>p.
       bindM (new_transport f p (Some k)) (\<lambda>t.
       seqM (modM (\<lambda>w. w\<lparr>lo_transports := (lo_transports w)(f \<mapsto> t)\<rparr>))
      (seqM (mod_core (register_fd f ''tcp''))
      (seqM (notify U (ConnectionMade p (SockT t)))
      (seqM (rearm_recv t) (ret (t, p))))))))))"

text \<open>The Unix variant closes its own socket when \<open>connect\<close> fails and starts with \<open>resume_reading\<close>.\<close>

definition unix_socket :: "nat option \<Rightarrow> exn + nat \<Rightarrow> exn option \<Rightarrow> nat act" where
  "unix_socket given made conn = (case given of
      Some k \<Rightarrow> ret k
    | None \<Rightarrow> (case made of
        Inl e \<Rightarrow> raise e
      | Inr k \<Rightarrow> (case conn of
          None \<Rightarrow> ret k
        | Some e \<Rightarrow>
            if is_BlockingIOError e then ret k
            else if is_Exception e then seqM (modM (sock_close k)) (raise e)
            else raise e)))"

definition create_unix_connection ::
  "user \<Rightarrow> bool \<Rightarrow> nat option \<Rightarrow> exn + nat \<Rightarrow> exn option \<Rightarrow> nat \<Rightarrow> (nat \<times> nat) act" where
  "create_unix_connection U ssl given made conn factory =
    seqM check_closed
   (if ssl then raise (NotImplementedError ''SSL not yet supported for Unix sockets'')
    else bindM (unix_socket given made conn) (\<lambda>k.
      bindM (make_protocol U factory) (\<lambda>p.
      bindM (getM (sock_fileno k)) (\<lambda>f.
      seqM (mod_core (register_fd f ''unix''))
     (bindM (new_transport f p (Some k)) (\<lambda>t.
      bindM (getM (sock_fileno k)) (\<lambda>f'.
      seqM (modM (\<lambda>w. w\<lparr>lo_transports := (lo_transports w)(f' \<mapsto> t)\<rparr>))
     (seqM (notify U (ConnectionMade p (SockT t)))
     (seqM (tr_resume_reading t) (ret (t, p)))))))))))"

section \<open>Statistics and pickling\<close>

definition get_buffer_stats :: "world \<Rightarrow> nat \<times> nat \<times> nat \<times> nat" where
  "get_buffer_stats w = buffer_stats (lo_core w)"

definition get_fd_stats :: "world \<Rightarrow> nat \<times> nat \<times> nat \<times> nat" where
  "get_fd_stats w = fd_stats (lo_core w)"

definition loop_reduce :: "unit act" where
  "loop_reduce = raise (TypeError ''UringEventLoop cannot be pickled'')"

end
