(* ===== verification/Queries.thy ===== *)
theory Queries
  imports Loop_Api
begin

text \<open>
  The operations that only answer: \<open>get_extra_info\<close> of every transport, the getters of
  transports, server and loop, and the loop's methods that hand their work to the executor or to the
  base class, whose versions raise \<open>NotImplementedError\<close>.
\<close>

section \<open>Extra information\<close>

datatype extra =
    XNone
  | XSock nat
  | XAddr addr
  | XPipe nat
  | XProcess nat
  | XObj nat \<comment> \<open>any other Python object: a default, a certificate, a cipher\<close>

text \<open>\<open>peer\<close> and \<open>local\<close> are the answers of \<open>getpeername()\<close> and \<open>getsockname()\<close>.\<close>

definition tr_get_extra_info ::
  "(nat \<Rightarrow> errno + addr) \<Rightarrow> (nat \<Rightarrow> errno + addr) \<Rightarrow> nat \<Rightarrow> string \<Rightarrow> extra \<Rightarrow> world \<Rightarrow> extra" where
  "tr_get_extra_info peer local t name dflt w = (
     let sock = st_sock (the_tr t w) in
     if name = ''socket'' then (case sock of Some k \<Rightarrow> XSock k | None \<Rightarrow> XNone)
     else case sock of
        None \<Rightarrow> dflt
      | Some k \<Rightarrow>
          if name = ''peername'' then (case peer k of Inr a \<Rightarrow> XAddr a | Inl _ \<Rightarrow> dflt)
          else if name = ''sockname'' then (case local k of Inr a \<Rightarrow> XAddr a | Inl _ \<Rightarrow> dflt)
          else dflt)"

definition dg_get_extra_info ::
  "(nat \<Rightarrow> errno + addr) \<Rightarrow> nat \<Rightarrow> string \<Rightarrow> extra \<Rightarrow> world \<Rightarrow> extra" where
  "dg_get_extra_info local t name dflt w = (
     if name = ''socket'' then XSock (dg_sock (the_dg t w))
     else if name = ''peername'' then (case dg_address (the_dg t w) of Some a \<Rightarrow> XAddr a | None \<Rightarrow> XNone)
     else if name = ''sockname'' then (case local (dg_sock (the_dg t w)) of Inr a \<Rightarrow> XAddr a | Inl _ \<Rightarrow> XNone)
     else dflt)"

text \<open>\<open>extra\<close> is the dictionary given to the constructor.\<close>

definition rp_get_extra_info :: "(string \<rightharpoonup> extra) \<Rightarrow> nat \<Rightarrow> string \<Rightarrow> extra \<Rightarrow> world \<Rightarrow> extra" where
  "rp_get_extra_info extra t name dflt w = (case extra name of
      Some v \<Rightarrow> v
    | None \<Rightarrow> if name = ''pipe'' then XPipe (rp_pipe (the_rp t w)) else dflt)"

definition wp_get_extra_info :: "(string \<rightharpoonup> extra) \<Rightarrow> nat \<Rightarrow> string \<Rightarrow> extra \<Rightarrow> world \<Rightarrow> extra" where
  "wp_get_extra_info extra t name dflt w = (case extra name of
      Some v \<Rightarrow> v
    | None \<Rightarrow> if name = ''pipe'' then XPipe (wp_pipe (the_wp t w)) else dflt)"

definition sp_get_extra_info :: "nat \<Rightarrow> string \<Rightarrow> extra \<Rightarrow> world \<Rightarrow> extra" where
  "sp_get_extra_info k name dflt w = (if name = ''subprocess'' then XProcess (sp_pid (the_sp k w)) else dflt)"

definition sr_get_extra_info :: "nat \<Rightarrow> string \<Rightarrow> extra \<Rightarrow> world \<Rightarrow> extra" where
  "sr_get_extra_info t name dflt w = (if name = ''pipe'' then XPipe (sr_pipe (the_sr t w)) else dflt)"

definition sw_get_extra_info :: "nat \<Rightarrow> string \<Rightarrow> extra \<Rightarrow> world \<Rightarrow> extra" where
  "sw_get_extra_info t name dflt w = (if name = ''pipe'' then XPipe (sw_pipe (the_sw t w)) else dflt)"

text \<open>\<open>cert\<close> and \<open>cipher\<close> are answers of the TLS object; what it does not know the base transport answers.\<close>

definition ssl_get_extra_info ::
  "(nat \<Rightarrow> errno + addr) \<Rightarrow> (nat \<Rightarrow> errno + addr) \<Rightarrow> extra \<Rightarrow> extra \<Rightarrow> extra \<Rightarrow> nat \<Rightarrow> string \<Rightarrow> extra \<Rightarrow> world \<Rightarrow> extra" where
  "ssl_get_extra_info peer local obj cert cipher t name dflt w = (
     if name = ''ssl_object'' then obj
     else if name = ''peercert'' then cert
     else if name = ''cipher'' then cipher
     else tr_get_extra_info peer local (sl_base (the_sl t w)) name dflt w)"

section \<open>Getters\<close>

definition loop_is_running :: "world \<Rightarrow> bool" where
  "loop_is_running w = lo_running w"

definition loop_is_closed :: "world \<Rightarrow> bool" where
  "loop_is_closed w = lo_closed w"

definition sp_get_pid :: "nat \<Rightarrow> world \<Rightarrow> nat" where
  "sp_get_pid k w = sp_pid (the_sp k w)"

definition sp_is_closing :: "nat \<Rightarrow> world \<Rightarrow> bool" where
  "sp_is_closing k w = sp_closed (the_sp k w)"

definition sr_is_closing :: "nat \<Rightarrow> world \<Rightarrow> bool" where
  "sr_is_closing t w = sr_closing (the_sr t w)"

definition sw_is_closing :: "nat \<Rightarrow> world \<Rightarrow> bool" where
  "sw_is_closing t w = sw_closing (the_sw t w)"

definition sw_can_write_eof :: bool where
  "sw_can_write_eof \<longleftrightarrow> True"

definition sw_get_write_buffer_limits :: "nat \<times> nat" where
  "sw_get_write_buffer_limits = (0, 0)"

definition server_sockets :: "nat \<Rightarrow> world \<Rightarrow> nat list" where
  "server_sockets k w = sv_sockets (the_sv k w)"

text \<open>\<open>_SSLProtocol.eof_received\<close>: the base transport is to be closed.\<close>

definition ssl_protocol_eof_received :: bool where
  "ssl_protocol_eof_received \<longleftrightarrow> False"

text \<open>
  Methods with an empty body: \<open>shutdown_asyncgens\<close>, \<open>_process_ready\<close>, \<open>_timer_handle_cancelled\<close>, the
  server's \<open>wait_closed\<close>, \<open>abort_clients\<close> and \<open>close_clients\<close>, \<open>_SSLProtocol.connection_made\<close>, the
  datagram's and the child's \<open>set_write_buffer_limits\<close>, the policy's \<open>set_child_watcher\<close>.
\<close>

definition server_wait_closed :: "unit act" where
  "server_wait_closed = ret ()"

definition timer_handle_cancelled :: "unit act" where
  "timer_handle_cancelled = ret ()"

text \<open>The module's factory.\<close>

definition new_event_loop ::
  "(string \<Rightarrow> (exn + int) option) \<Rightarrow> loop_kwargs \<Rightarrow> kernel_answers \<Rightarrow> world \<Rightarrow> exn + world" where
  "new_event_loop env kw k w = new_loop env kw k w"

section \<open>Work handed on\<close>

text \<open>The default executor runs the call; these are the coroutines up to their \<open>await\<close>.\<close>

definition sock_connect_start :: "fut_id act" where
  "sock_connect_start = run_in_executor None"

definition sock_recv_into_start :: "fut_id act" where
  "sock_recv_into_start = run_in_executor None"

definition sock_recvfrom_into_start :: "fut_id act" where
  "sock_recvfrom_into_start = run_in_executor None"

definition getnameinfo_start :: "fut_id act" where
  "getnameinfo_start = run_in_executor None"

text \<open>\<open>getaddrinfo\<close> asks the resolver synchronously; \<open>answer\<close> is what it says.\<close>

definition getaddrinfo :: "exn + addr list \<Rightarrow> addr list act" where
  "getaddrinfo answer = (case answer of Inl e \<Rightarrow> raise e | Inr as \<Rightarrow> ret as)"

definition sendfile :: "nat act" where
  "sendfile = raise (NotImplementedError [])"

definition sock_sendfile :: "nat act" where
  "sock_sendfile = raise (NotImplementedError [])"

section \<open>What the queries promise\<close>

text \<open>A TLS transport over an open connection answers the address queries as its base does.\<close>

lemma ssl_extra_info_base:
  "name \<notin> {''ssl_object'', ''peercert'', ''cipher''} \<Longrightarrow>
     ssl_get_extra_info peer local obj cert cipher t name dflt w =
     tr_get_extra_info peer local (sl_base (the_sl t w)) name dflt w"
  by (simp add: ssl_get_extra_info_def)

lemma extra_info_socket:
  "st_sock (the_tr t w) = Some k \<Longrightarrow> tr_get_extra_info peer local t ''socket'' dflt w = XSock k"
  "peer k = Inl e \<Longrightarrow> tr_get_extra_info peer local t ''peername'' dflt (w\<lparr>wo_transports :=
     (wo_transports w)(t := transport_new f p (Some k))\<rparr>) = dflt"
  by (simp_all add: tr_get_extra_info_def transport_new_def)

end
