(* ===== verification/Loop_Props.thy ===== *)
theory Loop_Props
  imports Loop_Api
begin

text \<open>
  Properties of the running loop: a tick survives every callback, the ready batch runs in order,
  \<open>run_forever\<close> and \<open>run_until_complete\<close> restore and return what they promise, the poll timeout
  is bounded, a closed loop refuses work, and what the completion handlers do.
\<close>

section \<open>A small loop for the witnesses\<close>

definition demo_lcore :: "(nat, callback) uring_core" where
  "demo_lcore = \<lparr>uc_ring = \<lparr>rg_sq = [], rg_sq_capacity = 8, rg_kernel = [], rg_cq = [],
        rg_enter_err = None, rg_event_fd = 3, rg_sqpoll_enabled = False,
        rg_generation_id = 1, rg_original_pid = 1, rg_is_active = True,
        rg_buffers_registered = True, rg_registered_fds = None, rg_provided_buf_group = None,
        rg_kernel_files = None\<rparr>,
     uc_buffer_pool = \<lparr>bp_base = 4096, bp_buffer_size = 4, bp_buffer_count = 2, bp_free_list = [0, 1],
        bp_quarantine = [], bp_generation = 1, bp_mem = (\<lambda>_. replicate 4 0)\<rparr>,
     uc_fd_states = fd_manager_new,
     uc_inflight_recv_buffers = Map.empty, uc_timers = [], uc_scheduler = sched_new,
     uc_futures = Map.empty, uc_readers = Map.empty, uc_writers = Map.empty,
     uc_recvmsg_states = Map.empty, uc_sendmsg_states = Map.empty, uc_pbuf_ring = None,
     uc_stopping = False, uc_clock = 0\<rparr>"

definition demo_os :: os where
  "demo_os = \<lparr>os_in = (\<lambda>_. []), os_eof = (\<lambda>_. False), os_room = (\<lambda>_. 0), os_out = (\<lambda>_. []),
     os_dgram_in = (\<lambda>_. []), os_dgram_out = (\<lambda>_. []), os_err = (\<lambda>_. None), os_exit = (\<lambda>_. 0),
     os_signals = []\<rparr>"

definition demo_world :: world where
  "demo_world = \<lparr>lo_core = demo_lcore, lo_handles = Map.empty, lo_next_handle = 0,
     lo_futs = (\<lambda>_. \<lparr>fu_state = Pending, fu_callbacks = []\<rparr>), lo_next_fut = 0,
     lo_closed = False, lo_stopping = False, lo_running = False, lo_debug = False,
     lo_transports = Map.empty, lo_servers = Map.empty, lo_io_futures = Map.empty,
     lo_epoll = [3 \<mapsto> EPOLLIN], lo_epoll_closed = False, lo_open_fds = (\<lambda>f. f \<in> {3, 5, 6}),
     lo_eventfd_count = 0, lo_readers = Map.empty, lo_writers = Map.empty,
     lo_signal_handlers = Map.empty, lo_os_signals = Map.empty, lo_exception_handler = None,
     lo_default_executor = None, lo_time = 0, lo_printed = [], lo_tracebacks = [],
     wo_calls = [],
     wo_socks = (\<lambda>_. \<lparr>so_fd = 5, so_closed = False, so_shut_wr = False\<rparr>),
     wo_transports = (\<lambda>_. transport_new 5 0 (Some 0)),
     wo_servers = (\<lambda>_. server_new [0] 0),
     wo_pipes = (\<lambda>_. \<lparr>pi_fd = 6, pi_closed = False\<rparr>),
     wo_read_pipes = (\<lambda>_. \<lparr>rp_pipe = 0, rp_protocol = 0, rp_closing = False, rp_paused = False\<rparr>),
     wo_write_pipes = (\<lambda>_. \<lparr>wp_pipe = 0, wp_protocol = 0, wp_closing = False, wp_buffer = [],
        wp_high_water = 65536, wp_low_water = 16384\<rparr>),
     wo_datagrams = (\<lambda>_. \<lparr>dg_sock = 0, dg_protocol = 0, dg_address = None, dg_closing = False, dg_closed = False\<rparr>),
     wo_sub_reads = (\<lambda>_. \<lparr>sr_pipe = 0, sr_protocol = 0, sr_fd = 1, sr_closing = False\<rparr>),
     wo_sub_writes = (\<lambda>_. \<lparr>sw_pipe = 0, sw_protocol = 0, sw_fd = 0, sw_closing = False, sw_buffer = []\<rparr>),
     wo_subprocs = (\<lambda>_. \<lparr>sp_protocol = 0, sp_pid = 0, sp_returncode = None, sp_closed = False,
        sp_exit_waiters = [], sp_pipes = [], sp_pidfd = None, sp_thread = False\<rparr>),
     wo_ssls = (\<lambda>_. \<lparr>sl_base = 0, sl_protocol = 0, sl_closing = False, sl_closed = False,
        sl_object = \<lparr>sb_state = 0, sb_incoming = [], sb_outgoing = []\<rparr>, sl_handshake_started = False,
        sl_handshake_complete = False, sl_handshake_future = None\<rparr>),
     wo_next_id = 10, wo_running_loop = False, wo_os = demo_os\<rparr>"

text \<open>User code that returns \<open>None\<close> from every call, and user code that always raises.\<close>

definition quiet :: user where
  "quiet c = ret VNone"

definition failing :: user where
  "failing c = raise (UserExn 0)"

text \<open>
  User code that returns from every call and leaves the part \<open>V\<close> of the state as it was. Each
  transport's properties say which part they need.
\<close>

definition polite :: "(world \<Rightarrow> 'v) \<Rightarrow> user \<Rightarrow> bool" where
  "polite V U \<longleftrightarrow> (\<forall>c w. \<exists>v w'. U c w = (Inr v, w') \<and> V w' = V w \<and> wo_calls w' = wo_calls w)"

lemma polite_quiet: "polite V quiet"
  by (simp add: polite_def quiet_def)

lemma polite_notify:
  assumes "polite V U" "\<And>w x. V (w\<lparr>wo_calls := x\<rparr>) = V w"
  shows "\<exists>w'. notify U c w = (Inr (), w') \<and> V w' = V w \<and> wo_calls w' = wo_calls w @ [c]"
proof -
  let ?w = "w\<lparr>wo_calls := wo_calls w @ [c]\<rparr>"
  obtain v w' where "U c ?w = (Inr v, w')" "V w' = V ?w" "wo_calls w' = wo_calls ?w"
    using assms(1) unfolding polite_def by blast
  then show ?thesis using assms(2) by (simp add: notify_def call_user_def)
qed

section \<open>A tick survives its callbacks\<close>

lemma print_error_ok [simp]: "print_error e w = (Inr (), w\<lparr>lo_tracebacks := lo_tracebacks w @ [e]\<rparr>)"
  by (simp add: print_error_def)

lemma try_print_total: "fst (tryM m (\<lambda>_. True) print_error w) = Inr ()"
  by (auto simp: tryM_def split: prod.splits sum.splits)

lemma run_handle_total: "fst (run_handle U fuel h w) = Inr ()"
  by (simp add: run_handle_def try_print_total split: option.split)

lemma forM_total: "(\<And>x s. fst (f x s) = Inr ()) \<Longrightarrow> fst (forM xs f s) = Inr ()"
proof (induction xs arbitrary: s)
  case (Cons x xs)
  obtain s' where "f x s = (Inr (), s')" using Cons.prems [of x s] by (cases "f x s") simp
  with Cons show ?case by simp
qed simp

lemma run_ready_total: "fst (run_ready U fuel w) = Inr ()"
  by (simp add: run_ready_def on_core_def forM_total run_handle_total bindM_def split: prod.split)

lemma resolve_future_total: "fst (resolve_future i f w) = Inr ()"
  unfolding resolve_future_def by (rule try_print_total)

lemma phase3_total: "fst (phase3 items futs w) = Inr (map completion_of items)"
proof (induction items arbitrary: futs w)
  case (Cons i items)
  let ?m = "case futs (it_fd i) of None \<Rightarrow> ret () | Some f \<Rightarrow> resolve_future i f"
  have "fst (?m w) = Inr ()" by (simp add: resolve_future_total split: option.split)
  then obtain w1 where w1: "?m w = (Inr (), w1)" by (cases "?m w") simp
  obtain w2 where "phase3 items (futs(it_fd i := None)) w1 = (Inr (map completion_of items), w2)"
    using Cons [of "futs(it_fd i := None)" w1] by (cases "phase3 items (futs(it_fd i := None)) w1") (simp del: fun_upd_apply)
  with w1 show ?case by simp
qed simp

lemma run_tick_fst:
  "fst (run_tick U fuel w) = (case tick_core (lo_time w) (lo_core w) of
      (Inl e, _) \<Rightarrow> Inl e
    | (Inr (items, futs), _) \<Rightarrow> Inr (map completion_of items))"
proof (cases "tick_core (lo_time w) (lo_core w)")
  case (Pair r c)
  show ?thesis
  proof (cases r)
    case (Inl e)
    with Pair show ?thesis by (simp add: run_tick_def on_core_def bindM_def)
  next
    case (Inr x)
    obtain items futs where x: "x = (items, futs)" by fastforce
    obtain w2 where w2: "phase3 items futs (w\<lparr>lo_core := c\<rparr>) = (Inr (map completion_of items), w2)"
      using phase3_total [of items futs "w\<lparr>lo_core := c\<rparr>"]
      by (cases "phase3 items futs (w\<lparr>lo_core := c\<rparr>)") simp
    obtain w3 where "run_ready U fuel w2 = (Inr (), w3)" using run_ready_total [of U fuel w2]
      by (cases "run_ready U fuel w2") simp
    with w2 Pair Inr x show ?thesis by (simp add: run_tick_def on_core_def bindM_def seqM_def)
  qed
qed


section \<open>The ready batch\<close>

text \<open>
  User code that may schedule callbacks and change anything else, but leaves the record of calls
  and the handles that already exist alone.
\<close>

definition schedules_only :: "user \<Rightarrow> bool" where
  "schedules_only U \<longleftrightarrow> (\<forall>c w. wo_calls (snd (U c w)) = wo_calls w \<and>
     (\<forall>h x. lo_handles w h = Some x \<longrightarrow> lo_handles (snd (U c w)) h = Some x))"

definition user_handle :: "world \<Rightarrow> nat \<Rightarrow> nat \<Rightarrow> bool \<Rightarrow> bool" where
  "user_handle w h k cancelled \<longleftrightarrow>
     lo_handles w h = Some \<lparr>ha_kind = NativeHandle, ha_callback = UserCb k, ha_cancelled = cancelled\<rparr>"

lemma run_user_handle:
  assumes U: "schedules_only U" and h: "user_handle w h k cancelled"
  shows "\<exists>w'. run_handle U fuel h w = (Inr (), w') \<and>
    wo_calls w' = wo_calls w @ (if cancelled then [] else [RunUserCb k]) \<and>
    (\<forall>h x. lo_handles w h = Some x \<longrightarrow> lo_handles w' h = Some x)"
proof (cases cancelled)
  case True
  with h show ?thesis by (simp add: run_handle_def user_handle_def)
next
  case False
  let ?w1 = "w\<lparr>wo_calls := wo_calls w @ [RunUserCb k]\<rparr>"
  obtain r w2 where w2: "U (RunUserCb k) ?w1 = (r, w2)" by fastforce
  from U have spec: "wo_calls (snd (U c v)) = wo_calls v"
    "lo_handles v h = Some x \<Longrightarrow> lo_handles (snd (U c v)) h = Some x" for c v h x
    by (auto simp: schedules_only_def)
  have "wo_calls w2 = wo_calls ?w1" "\<forall>h x. lo_handles w h = Some x \<longrightarrow> lo_handles w2 h = Some x"
    using spec(1) [of "RunUserCb k" ?w1] spec(2) [of ?w1 _ _ "RunUserCb k"] w2 by simp_all
  then show ?thesis
    using h False w2
    by (cases r) (auto simp: run_handle_def user_handle_def run_callback_def notify_def call_user_def
        tryM_def bindM_def seqM_def)
qed

lemma run_user_batch:
  assumes U: "schedules_only U"
    and q: "list_all2 (\<lambda>h (k, cancelled). user_handle w h k cancelled) q ks"
  shows "\<exists>w'. forM q (run_handle U fuel) w = (Inr (), w') \<and>
    wo_calls w' = wo_calls w @ map (RunUserCb \<circ> fst) (filter (Not \<circ> snd) ks)"
  using q
proof (induction q arbitrary: w ks)
  case (Cons h q)
  from Cons.prems obtain k cancelled ks' where ks: "ks = (k, cancelled) # ks'"
    and h: "user_handle w h k cancelled"
    and rest: "list_all2 (\<lambda>h (k, cancelled). user_handle w h k cancelled) q ks'"
    by (auto simp: list_all2_Cons1)
  from run_user_handle [OF U h] obtain w1 where
    w1: "run_handle U fuel h w = (Inr (), w1)"
      "wo_calls w1 = wo_calls w @ (if cancelled then [] else [RunUserCb k])"
      "\<forall>h x. lo_handles w h = Some x \<longrightarrow> lo_handles w1 h = Some x" by blast
  have "list_all2 (\<lambda>h (k, cancelled). user_handle w1 h k cancelled) q ks'"
    using rest by (rule list_all2_mono) (use w1(3) in \<open>auto simp: user_handle_def\<close>)
  from Cons.IH [OF this] w1 ks show ?case by auto
qed simp

text \<open>
  C8. The ready batch: with callbacks that schedule more callbacks (and raise or not), the tick
  runs exactly the callbacks that were queued when it took the batch, each once, in the order
  they were scheduled, and skips the cancelled ones; what is scheduled meanwhile waits.
\<close>

theorem ready_batch_in_order:
  assumes "schedules_only U"
    and "list_all2 (\<lambda>h (k, cancelled). user_handle w h k cancelled) (uc_scheduler (lo_core w)) ks"
  shows "wo_calls (snd (run_ready U fuel w)) =
    wo_calls w @ map (RunUserCb \<circ> fst) (filter (Not \<circ> snd) ks)"
proof -
  let ?w = "w\<lparr>lo_core := (lo_core w)\<lparr>uc_scheduler := []\<rparr>\<rparr>"
  have "list_all2 (\<lambda>h (k, cancelled). user_handle ?w h k cancelled) (uc_scheduler (lo_core w)) ks"
    using assms(2) by (simp add: user_handle_def)
  from run_user_batch [OF assms(1) this, of fuel] show ?thesis
    by (auto simp: run_ready_def on_core_def sched_drain_def sched_is_empty_def sched_new_def bindM_def)
qed

lemma demo_world_simps [simp]:
  "lo_core demo_world = demo_lcore" "lo_closed demo_world = False" "lo_debug demo_world = False"
  "lo_running demo_world = False" "lo_stopping demo_world = False" "wo_calls demo_world = []"
  "lo_handles demo_world = Map.empty" "lo_next_handle demo_world = 0"
  "uc_scheduler demo_lcore = []"
  by (simp_all add: demo_world_def demo_lcore_def sched_new_def)

theorem ready_batch_in_order_witness:
  "wo_calls (snd (run_ready quiet 0 (scheduled (UserCb 2) (scheduled (UserCb 1) demo_world)))) =
     [RunUserCb 1, RunUserCb 2]"
proof -
  let ?w = "scheduled (UserCb 2) (scheduled (UserCb 1) demo_world)"
  have "list_all2 (\<lambda>h (k, cancelled). user_handle ?w h k cancelled) (uc_scheduler (lo_core ?w))
      [(1, False), (2, False)]" "wo_calls ?w = []"
    by (simp_all add: scheduled_def user_handle_def push_task_def sched_push_def)
  then show ?thesis
    using ready_batch_in_order [of quiet ?w "[(1, False), (2, False)]" 0]
    by (simp add: schedules_only_def quiet_def)
qed

section \<open>Running until stopped\<close>

text \<open>
  C20. However \<open>run_forever\<close> ends, by \<open>stop\<close> or by an exception out of an iteration, the loop is
  afterwards neither running nor stopping and the thread's running loop is what it was before.
\<close>

theorem run_forever_restores:
  assumes "\<not> lo_closed w" and "\<not> lo_running w"
  shows "\<not> lo_running (snd (run_forever U fuel polls w)) \<and> \<not> lo_stopping (snd (run_forever U fuel polls w)) \<and>
    wo_running_loop (snd (run_forever U fuel polls w)) = wo_running_loop w"
  using assms by (auto simp: run_forever_def finallyM_def split: prod.split)

theorem run_forever_restores_witness:
  "\<not> lo_running (snd (run_forever quiet 0 [\<lambda>_. \<lparr>pa_world = id, pa_events = []\<rparr>] demo_world))"
  using run_forever_restores [of demo_world quiet 0] by simp

text \<open>
  \<open>stop\<close> called before \<open>run_forever\<close> makes it return at once: no iteration is made, no queued
  callback runs, and the stop request is used up.
\<close>

lemma stop_before_run_forever:
  assumes "\<not> lo_closed w" and "\<not> lo_running w"
  shows "seqM stop (run_forever U fuel polls) w =
    (Inr True, w\<lparr>lo_stopping := False, lo_running := False\<rparr>)"
  using assms
  by (simp add: run_forever_def stop_def finallyM_def run_iterations.simps)


text \<open>A loop with nothing to do: no timer, nothing to submit, nothing completed, nothing ready.\<close>

definition idle_core :: "('h, 'c) uring_core \<Rightarrow> bool" where
  "idle_core c \<longleftrightarrow> uc_timers c = [] \<and> rg_sq (uc_ring c) = [] \<and> rg_cq (uc_ring c) = [] \<and> uc_scheduler c = []"

lemma tick_core_quiet:
  assumes "uc_timers c = []" "rg_sq (uc_ring c) = []" "rg_cq (uc_ring c) = []"
  shows "tick_core now c = (Inr ([], Map.empty), c)"
proof -
  have "c\<lparr>uc_timers := []\<rparr> = c" using assms(1) by simp
  moreover have "(uc_ring c)\<lparr>rg_cq := []\<rparr> = uc_ring c" using assms(3) by simp
  ultimately show ?thesis
    using assms by (simp add: tick_core_def tick_timers_def pop_expired.simps tick_drain_def flush_def on_ring_def
        ring_submit_def drain_cq_def)
qed

lemma run_ready_single:
  assumes "uc_scheduler (lo_core w) = []"
  shows "run_ready U fuel (scheduled cb w) =
    run_handle U fuel (lo_next_handle w) ((scheduled cb w)\<lparr>lo_core := lo_core w\<rparr>)"
proof -
  let ?w = "scheduled cb w"
  have "(lo_core ?w)\<lparr>uc_scheduler := []\<rparr> = lo_core w"
    using assms by (simp add: scheduled_def push_task_def)
  moreover have "uc_scheduler (lo_core ?w) = [lo_next_handle w]" using assms by simp
  ultimately show ?thesis
    by (simp add: run_ready_def on_core_def sched_drain_def sched_is_empty_def sched_new_def bindM_def
        seqM_def split: prod.split sum.split)
qed

lemma run_handle_scheduled:
  "run_handle U fuel (lo_next_handle w) ((scheduled cb w)\<lparr>lo_core := c\<rparr>) =
     tryM (run_callback U fuel cb) (\<lambda>_. True) print_error ((scheduled cb w)\<lparr>lo_core := c\<rparr>)"
  by (simp add: run_handle_def scheduled_def)

lemma run_once_single:
  assumes "idle_core (lo_core w)" "refusal w = None"
  shows "run_once U fuel p (scheduled cb w) =
    (Inr (), snd (run_handle U fuel (lo_next_handle w)
       ((scheduled cb w)\<lparr>lo_core := lo_core w\<rparr>)))"
proof -
  let ?w = "scheduled cb w"
  have tick: "tick_core (lo_time ?w) (lo_core ?w) = (Inr ([], Map.empty), lo_core ?w)"
    using assms(1) by (intro tick_core_quiet) (simp_all add: idle_core_def scheduled_def push_task_def)
  have ready: "run_ready U fuel ?w = run_handle U fuel (lo_next_handle w) (?w\<lparr>lo_core := lo_core w\<rparr>)"
    using assms(1) by (intro run_ready_single) (simp add: idle_core_def)
  obtain w' where w': "run_ready U fuel ?w = (Inr (), w')"
    using run_ready_total [of U fuel ?w] by (cases "run_ready U fuel ?w") simp
  have "run_tick U fuel ?w = (Inr [], w')"
    using tick w' by (simp add: run_tick_def on_core_def bindM_def seqM_def)
  moreover have "ready_len (lo_core ?w) \<noteq> 0"
    using assms(1) by (simp add: ready_len_def sched_len_def scheduled_def push_task_def sched_push_def)
  ultimately show ?thesis using w' ready by (simp add: run_once_def process_completions_def)
qed

lemma run_until_complete_finished:
  assumes "refusal w = None" and "\<not> lo_running w" and "\<not> lo_stopping w" and "idle_core (lo_core w)"
    and "fu_state (lo_futs w fut) = Finished v"
  shows "\<exists>w'. run_until_complete U fuel (p # ps) fut w = (Inr (Some v), w')"
proof -
  let ?w1 = "(scheduled StopCb w)\<lparr>lo_running := True, wo_running_loop := True\<rparr>"
  let ?w = "w\<lparr>lo_running := True, wo_running_loop := True\<rparr>"
  have w1: "?w1 = scheduled StopCb ?w" by (simp add: scheduled_def)
  have add: "add_done_callback fut StopCb w = (Inr (), scheduled StopCb w)"
    using assms by (simp add: add_done_callback_def)
  have "run_once U fuel p ?w1 = (Inr (), (scheduled StopCb ?w)\<lparr>lo_core := lo_core w, lo_stopping := True\<rparr>)"
    unfolding w1 using assms
    by (subst run_once_single) (simp_all add: run_handle_def scheduled_def run_callback_def stop_def)
  then have "run_iterations U fuel (p # ps) ?w1 =
      (Inr True, (scheduled StopCb ?w)\<lparr>lo_core := lo_core w, lo_stopping := True\<rparr>)"
    using assms(3) by (simp add: run_iterations.simps)
  then have "run_forever U fuel (p # ps) (scheduled StopCb w) =
      (Inr True, (scheduled StopCb ?w)\<lparr>lo_core := lo_core w, lo_stopping := False, lo_running := False,
          wo_running_loop := wo_running_loop w\<rparr>)"
    using assms by (simp add: run_forever_def finallyM_def scheduled_def)
  then show ?thesis using assms add
    by (simp add: run_until_complete_def fut_done_def fut_result_def)
qed

text \<open>
  \<open>run_until_complete\<close> on a future that is already done returns its result after one
  iteration, whatever the kernel reports in it.
\<close>

lemma run_until_complete_done:
  assumes "refusal w = None" and "\<not> lo_running w" and "\<not> lo_stopping w" and "idle_core (lo_core w)"
    and "fu_state (lo_futs w fut) = Finished v"
  shows "fst (run_until_complete U fuel (p # ps) fut w) = Inr (Some v)"
  using run_until_complete_finished [OF assms, of U fuel p ps] by auto

definition demo_done :: world where
  "demo_done = demo_world\<lparr>lo_futs := (\<lambda>_. \<lparr>fu_state = Finished (VInt 3), fu_callbacks = []\<rparr>)\<rparr>"

lemma demo_done_facts:
  "refusal demo_done = None" "\<not> lo_running demo_done" "\<not> lo_stopping demo_done"
  "idle_core (lo_core demo_done)" "fu_state (lo_futs demo_done 0) = Finished (VInt 3)"
  by (simp_all add: demo_done_def demo_world_def demo_lcore_def idle_core_def sched_new_def)


section \<open>Timeouts and timers\<close>

text \<open>
  C19. The poll timeout is between 0 and 10 ms, it is 0 when the loop is stopping or a callback is
  ready, and it never sleeps past the earliest timer.
\<close>

theorem calculate_timeout_bounds:
  "0 \<le> calculate_timeout w \<and> calculate_timeout w \<le> 1 / 100 \<and>
   (lo_stopping w \<or> uc_scheduler (lo_core w) \<noteq> [] \<longrightarrow> calculate_timeout w = 0) \<and>
   (\<forall>e \<in> set (uc_timers (lo_core w)). calculate_timeout w \<le> max 0 (fst e - lo_time w))"
proof -
  have least: "fst e \<le> fst e'" if "heap_peek (uc_timers (lo_core w)) = Some e" "e' \<in> set (uc_timers (lo_core w))" for e e'
    using timers.peek_least [of "uc_timers (lo_core w)" e e'] that by simp
  show ?thesis
  proof (cases "heap_peek (uc_timers (lo_core w))")
    case None
    then show ?thesis
      by (simp add: calculate_timeout_def ready_len_def sched_len_def next_expiration_def)
  next
    case (Some e)
    have "calculate_timeout w \<le> max 0 (fst e' - lo_time w)" if "e' \<in> set (uc_timers (lo_core w))" for e'
      using least [OF Some that] Some
      by (simp add: calculate_timeout_def ready_len_def sched_len_def next_expiration_def min_le_iff_disj
          max_def)
    moreover have "0 \<le> calculate_timeout w \<and> calculate_timeout w \<le> 1 / 100 \<and>
        (lo_stopping w \<or> uc_scheduler (lo_core w) \<noteq> [] \<longrightarrow> calculate_timeout w = 0)"
      using Some
      by (simp add: calculate_timeout_def ready_len_def sched_len_def next_expiration_def min_def)
    ultimately show ?thesis by blast
  qed
qed

theorem calculate_timeout_bounds_witness:
  "calculate_timeout (demo_world\<lparr>lo_stopping := True\<rparr>) = 0"
  using calculate_timeout_bounds [of "demo_world\<lparr>lo_stopping := True\<rparr>"] by simp

text \<open>
  \<open>call_later\<close>: the callback becomes ready in the first tick whose time has reached the
  deadline, and in no tick before it.
\<close>

lemma call_later_fires_at_deadline:
  assumes "\<not> lo_closed w" and "uc_timers (lo_core w) = []"
  shows "\<exists>w'. call_later delay cb w = (Inr (lo_next_handle w), w') \<and>
    (map_option ha_callback (lo_handles w' (lo_next_handle w)) = Some cb) \<and>
    (lo_time w + delay \<le> now \<longrightarrow>
       uc_scheduler (tick_timers now (lo_core w')) = uc_scheduler (lo_core w) @ [lo_next_handle w] \<and>
       uc_timers (tick_timers now (lo_core w')) = []) \<and>
    (now < lo_time w + delay \<longrightarrow> tick_timers now (lo_core w') = lo_core w')"
  using assms
  by (simp add: call_later_def call_at_def new_handle_def mod_core_def push_timer_def timer_push_def
      tick_timers_def pop_expired.simps push_task_def sched_push_def split: prod.split)

section \<open>A closed loop, and debug mode\<close>

text \<open>
  A closed loop refuses every piece of work with the same error and is not changed by the
  attempt: callbacks, timers, readers, writers, signal handlers, tasks, executor jobs, running.
\<close>

lemma closed_loop_refuses:
  assumes "lo_closed w"
  defines "refused \<equiv> RuntimeError ''Event loop is closed''"
  shows "call_soon cb w = (Inl refused, w) \<and> call_soon_threadsafe cb w = (Inl refused, w) \<and>
    call_at t cb w = (Inl refused, w) \<and> call_later delay cb w = (Inl refused, w) \<and>
    add_reader f cb w = (Inl refused, w) \<and> add_writer f cb w = (Inl refused, w) \<and>
    add_signal_handler se sig cb w = (Inl refused, w) \<and> create_task coro w = (Inl refused, w) \<and>
    run_in_executor ex w = (Inl refused, w) \<and> run_forever U fuel polls w = (Inl refused, w) \<and>
    run_until_complete U fuel polls fut w = (Inl refused, w) \<and>
    connect_read_pipe U fac pipe w = (Inl refused, w) \<and> connect_write_pipe U fac pipe w = (Inl refused, w) \<and>
    subprocess_exec U opts fac proc pidfd w = (Inl refused, w) \<and>
    create_unix_server path given made st fac w = (Inl refused, w)"
  using assms
  by (simp add: refused_def call_soon_def call_soon_threadsafe_def call_at_def call_later_def add_reader_def
      add_writer_def add_signal_handler_def create_task_def run_in_executor_def run_forever_def
      run_until_complete_def connect_read_pipe_def connect_write_pipe_def subprocess_exec_def start_process_def
      create_unix_server_def)

text \<open>
  Debug mode breaks futures: settling a future that has callbacks raises \<open>AttributeError\<close>
  (the loop has no \<open>_check_callback\<close>), the future is settled all the same, and its callbacks are
  gone without having been scheduled.
\<close>

lemma debug_mode_loses_callbacks:
  assumes "lo_debug w" and "\<not> lo_closed w" and "fu_state (lo_futs w f) = Pending"
    and "fu_callbacks (lo_futs w f) \<noteq> []"
  shows "set_result f v w = (Inl (AttributeError ''_check_callback''),
    set_fut f \<lparr>fu_state = Finished v, fu_callbacks = []\<rparr> w)"
proof -
  obtain cb cbs where "fu_callbacks (lo_futs w f) = cb # cbs" using assms(4) by (cases "fu_callbacks (lo_futs w f)") auto
  then show ?thesis
    using assms by (simp add: set_result_def fut_done_def settle_def call_soon_eq set_fut_def refusal_def)
qed

end
