(* ===== verification/Dispatch_Props.thy ===== *)
theory Dispatch_Props
  imports Loop_Props
begin

text \<open>
  Properties of completion dispatch: the accept loop goes on whatever the user's factory or
  protocol raises, a failed accept is never resubmitted, a completion whose future has been settled
  is not delivered again; and of the socket coroutines, signal handlers and the executor.
\<close>

section \<open>Settling a future\<close>

lemma schedule_all:
  assumes "refusal w = None"
  shows "\<exists>w'. forM cbs (\<lambda>cb. bindM (call_soon cb) (\<lambda>_. ret ())) w = (Inr (), w') \<and> refusal w' = None \<and>
    lo_futs w' = lo_futs w \<and> lo_servers w' = lo_servers w \<and> uc_ring (lo_core w') = uc_ring (lo_core w) \<and>
    uc_futures (lo_core w') = uc_futures (lo_core w) \<and> wo_calls w' = wo_calls w \<and> wo_subprocs w' = wo_subprocs w \<and> wo_ssls w' = wo_ssls w"
  using assms
proof (induction cbs arbitrary: w)
  case (Cons cb cbs)
  have "refusal (scheduled cb w) = None" using Cons.prems by simp
  from Cons.IH [OF this] Cons.prems show ?case by (auto simp: scheduled_def push_task_def)
qed simp

lemma settle_ok:
  assumes "refusal w = None"
  shows "\<exists>w'. settle f st w = (Inr (), w') \<and> refusal w' = None \<and>
    lo_futs w' = (lo_futs w)(f := \<lparr>fu_state = st, fu_callbacks = []\<rparr>) \<and> lo_servers w' = lo_servers w \<and>
    uc_ring (lo_core w') = uc_ring (lo_core w) \<and> uc_futures (lo_core w') = uc_futures (lo_core w) \<and>
    wo_calls w' = wo_calls w \<and> wo_subprocs w' = wo_subprocs w \<and> wo_ssls w' = wo_ssls w"
  using schedule_all [of "set_fut f \<lparr>fu_state = st, fu_callbacks = []\<rparr> w" "fu_callbacks (lo_futs w f)"] assms
  by (auto simp: settle_def set_fut_def refusal_def split: if_splits)

lemma unless_done_settle:
  assumes "refusal w = None"
  shows "\<exists>w'. unless_done x (set_result x v) w = (Inr (), w') \<and> refusal w' = None \<and>
      lo_servers w' = lo_servers w \<and> uc_ring (lo_core w') = uc_ring (lo_core w) \<and>
      uc_futures (lo_core w') = uc_futures (lo_core w) \<and> wo_calls w' = wo_calls w \<and> wo_ssls w' = wo_ssls w"
    and "\<exists>w'. unless_done x (set_exception x e) w = (Inr (), w') \<and> refusal w' = None \<and>
      lo_servers w' = lo_servers w \<and> uc_ring (lo_core w') = uc_ring (lo_core w) \<and>
      uc_futures (lo_core w') = uc_futures (lo_core w)"
  using settle_ok [OF assms] assms
  by (auto simp: unless_done_def set_result_def set_exception_def whenM_def)

section \<open>Accepting connections\<close>

definition well_raised :: "user \<Rightarrow> bool" where
  "well_raised U \<longleftrightarrow> (\<forall>c. raises_only is_Exception (U c))"

lemma raises_call_user [raises_intros]: "well_raised U \<Longrightarrow> raises_only is_Exception (call_user U c)"
  unfolding call_user_def well_raised_def by (intro raises_intros) simp

lemma raises_notify [raises_intros]: "well_raised U \<Longrightarrow> raises_only is_Exception (notify U c)"
  unfolding notify_def by (intro raises_intros)

lemma raises_call_soon [raises_intros]: "raises_only is_Exception (call_soon cb)"
  by (rule raises_onlyI) (auto simp: call_soon_eq refusal_def split: if_splits option.splits)

lemma raises_force_close [raises_intros]: "raises_only is_Exception (force_close t e)"
  unfolding force_close_def mod_tr_def by (intro raises_intros)

lemma raises_on_error [raises_intros]: "raises_only P m \<Longrightarrow> raises_only P (on_error m g)"
  by (rule raises_onlyI) (auto simp: on_error_apply dest: raises_onlyD split: prod.splits sum.splits)

lemma raises_on_core [raises_intros]: "raises_only P m \<Longrightarrow> raises_only P (on_core m)"
  by (rule raises_onlyI) (auto simp: on_core_def dest: raises_onlyD split: prod.splits)

lemma raises_engine [raises_intros]:
  "raises_only is_Exception (on_fds (with_state_mut f g))"
  "raises_only is_Exception (on_ring (prep_recv f' idx len gen))"
  "raises_only is_Exception flush"
  "raises_only P core_acquire"
  by (rule raises_onlyI; auto simp: on_fds_def with_state_mut_def fm_check_def on_ring_def prep_defs flush_def
      ring_submit_def ring_op_error_def bindM_def core_acquire_def
      split: prod.splits sum.splits option.splits if_splits)+

lemma raises_submit_recv [raises_intros]: "raises_only is_Exception (submit_recv f fut)"
  unfolding submit_recv_def by (intro raises_intros) simp

lemma raises_create_future [raises_intros]: "raises_only P create_future"
  by (simp add: raises_only_def create_future_def)

lemma raises_new_id [raises_intros]: "raises_only P new_id"
  by (simp add: raises_only_def new_id_def)

lemma raises_add_done_callback [raises_intros]: "raises_only is_Exception (add_done_callback fut cb)"
  unfolding add_done_callback_def by (intro raises_intros)

lemma raises_rearm_recv [raises_intros]: "raises_only is_Exception (rearm_recv t)"
  unfolding rearm_recv_def mod_tr_def error_received_def
  by (intro raises_intros raises_tryM) (simp_all add: raises_intros)

lemma raises_create_transport [raises_intros]:
  assumes "well_raised U"
  shows "raises_only is_Exception (create_transport_for_accepted U f factory)"
  using assms
  unfolding create_transport_for_accepted_def wrap_fd_def new_sock_def make_protocol_def new_transport_def
    mod_tr_def mod_core_def
  by (intro raises_intros) simp_all

lemma accept_or_close_total:
  assumes "well_raised U"
  shows "\<exists>w'. accept_or_close U client factory w = (Inr (), w')"
proof -
  have "raises_only (\<lambda>_. False) (tryM (os_close_fd client) is_OSError (\<lambda>_. ret ()))"
    by (rule raises_onlyI) (auto simp: tryM_def os_close_fd_def split: prod.splits sum.splits if_splits)
  then have "raises_only (\<lambda>_. False) (accept_or_close U client factory)"
    unfolding accept_or_close_def using raises_create_transport [OF assms]
    by (intro raises_tryM [where p = is_Exception]) simp_all
  then show ?thesis using raises_only_False [of "accept_or_close U client factory" w] by auto
qed



text \<open>
  A failed accept ends the accept loop: the handler settles the waiting future with the error
  and submits nothing, neither to the ring nor to the engine's futures, so a server whose accept
  fails once (too many open files, say) accepts no further connection.
\<close>

lemma failed_accept_never_resubmitted:
  assumes "refusal w = None" and "result < 0"
  shows "\<exists>w'. handle_accept_completion U f result data w = (Inr (), w') \<and>
    uc_ring (lo_core w') = uc_ring (lo_core w) \<and> uc_futures (lo_core w') = uc_futures (lo_core w)"
proof -
  let ?w0 = "w\<lparr>lo_io_futures := (lo_io_futures w)((f, ''accept'') := None)\<rparr>"
  have "refusal ?w0 = None" using assms(1) by (simp add: refusal_def split: if_splits)
  from unless_done_settle(2) [OF this] show ?thesis
    using assms(2)
    by (cases "lo_io_futures w (f, ''accept'')")
      (fastforce simp: handle_accept_completion_def pop_io_future_def bindM_def)+
qed

section \<open>Completions of settled receives\<close>

text \<open>
  A receive completion whose future has already been settled by the tick does nothing more
  than forget the future: no second delivery to the transport or the protocol, for data, end of
  file and errors alike. For data the handler never touches the transport at all. (What happens
  when the transport has armed its next receive by then is shown in the root theory.)
\<close>

lemma settled_recv_not_delivered_again:
  "(lo_io_futures w (f, ''recv'') = Some x \<and> fut_done x w \<longrightarrow>
      handle_recv_completion U f result data w =
        (Inr (), w\<lparr>lo_io_futures := (lo_io_futures w)((f, ''recv'') := None)\<rparr>)) \<and>
   (lo_io_futures w (f, ''recv'') = None \<and> 0 < result \<and> truthy data \<longrightarrow>
      handle_recv_completion U f result data w = (Inr (), w))"
  by (auto simp: handle_recv_completion_def pop_io_future_def bindM_def unless_done_def fut_done_def fun_upd_idem)

section \<open>Socket coroutines\<close>

text \<open>
  \<open>sock_accept\<close> can never return a connection: when its accept completes with a new descriptor,
  the tick settles its future with that int, and unpacking an int into a pair raises
  \<open>TypeError\<close>.
\<close>

lemma sock_accept_never_succeeds:
  assumes "refusal w = None" and "fu_state (lo_futs w fut) = Pending"
    and "it_op i = Accept" and "0 \<le> it_result i"
  shows "\<exists>w'. resolve_future i fut w = (Inr (), w') \<and>
    fst (sock_accept_finish fut w') = Inl (TypeError ''cannot unpack non-iterable int object'')"
proof -
  obtain w' where "settle fut (Finished (VInt (it_result i))) w = (Inr (), w')"
    "lo_futs w' = (lo_futs w)(fut := \<lparr>fu_state = Finished (VInt (it_result i)), fu_callbacks = []\<rparr>)"
    using settle_ok [OF assms(1)] by blast
  then show ?thesis
    using assms(2-4)
    by (intro exI [of _ w']) (simp add: resolve_future_def set_result_def fut_done_def sock_accept_finish_def fut_result_def py_defs)
qed

text \<open>
  Every error of a datagram send that had to wait surfaces as \<open>NameError\<close>: the clause that
  should tell \<open>EAGAIN\<close> from a real error names a module that is not imported, so neither the
  error nor a retry reaches the caller. Without an error the number of bytes is returned.
\<close>

lemma sock_sendto_error_is_NameError:
  "(fu_state (lo_futs w fut) = Failed (OSError n) \<longrightarrow>
      sock_sendto_finish f fut w =
        (Inl (NameError ''errno''), w\<lparr>lo_io_futures := (lo_io_futures w)((f, ''sendmsg'') := None)\<rparr>)) \<and>
   (fu_state (lo_futs w fut) = Finished v \<longrightarrow> sock_sendto_finish f fut w = (Inr v, w))"
  by (simp add: sock_sendto_finish_def fut_result_def pop_io_future_def)

section \<open>Signals\<close>

lemma call_soon_threadsafe_eq:
  "refusal w = None \<Longrightarrow> call_soon_threadsafe cb w =
     (Inr (lo_next_handle w), snd (write_to_self (scheduled cb w)))"
  by (simp add: call_soon_threadsafe_def debug_check_def new_handle_def mod_core_def write_to_self_def scheduled_def
      py_defs)

lemma write_to_self_scheduled:
  assumes "lo_open_fds w (event_fd w)"
  shows "snd (write_to_self (scheduled cb w)) = (scheduled cb w)\<lparr>lo_eventfd_count := lo_eventfd_count w + 1\<rparr>"
proof -
  have "event_fd (scheduled cb w) = event_fd w" by (simp add: event_fd_def)
  moreover have "lo_eventfd_count (scheduled cb w) = lo_eventfd_count w" by (simp add: scheduled_def)
  ultimately show ?thesis using assms by (simp add: write_to_self_def)
qed

lemma deliver_signal_ok:
  assumes "lo_os_signals w sig = Some cb" "refusal w = None" "lo_open_fds w (event_fd w)"
  shows "deliver_signal sig w = (Inr (), (scheduled cb w)\<lparr>lo_eventfd_count := lo_eventfd_count w + 1\<rparr>)"
  using assms(1) call_soon_threadsafe_eq [OF assms(2), of cb] write_to_self_scheduled [OF assms(3), of cb]
  by (simp add: deliver_signal_def)



section \<open>Executor\<close>

text \<open>
  A job in the executor: when it ends, its value or exception is scheduled for the loop's
  future exactly once and the loop is woken; if the loop has been closed meanwhile, nothing
  happens and nothing is raised in the executor's thread.
\<close>

lemma executor_result_delivered:
  "(lo_closed w \<longrightarrow> executor_done f outcome w = (Inr (), w)) \<and>
   (refusal w = None \<longrightarrow> executor_done f (Inr v) w =
      (Inr (), snd (write_to_self (scheduled (FutSetResult f v) w)))) \<and>
   (refusal w = None \<and> is_Exception e \<longrightarrow> executor_done f (Inl e) w =
      (Inr (), snd (write_to_self (scheduled (FutSetException f e) w))))"
  by (simp add: executor_done_def call_soon_threadsafe_eq py_defs)

end
