(* ===== verification/Typing.thy ===== *)
theory Typing
  imports Dispatch_Props Core_Props
begin

text \<open>
  The types of the values that travel from the ring to Python. The engine is untyped where it
  meets Python: a completion carries any object, a future takes any result. These are the types
  that actually occur, operation by operation.
\<close>

section \<open>Completions\<close>

definition bytes_upto :: "int \<Rightarrow> pyval \<Rightarrow> bool" where
  "bytes_upto n v \<longleftrightarrow> (case v of VBytes b \<Rightarrow> int (length b) \<le> n | _ \<Rightarrow> False)"

definition datagram_upto :: "int \<Rightarrow> pyval \<Rightarrow> bool" where
  "datagram_upto n v \<longleftrightarrow> (case v of VDatagram b (Some _) \<Rightarrow> int (length b) \<le> n | _ \<Rightarrow> bytes_upto n v)"

fun data_typed :: "op_type \<Rightarrow> int \<Rightarrow> pyval \<Rightarrow> bool" where
  "data_typed SendMsg n v = (v = VInt n)"
| "data_typed Recv n v = (0 < n \<and> bytes_upto n v)"
| "data_typed RecvMulti n v = (0 < n \<and> bytes_upto n v)"
| "data_typed RecvMsg n v = (0 < n \<and> datagram_upto n v)"
| "data_typed _ n v = False"

definition item_typed :: "item \<Rightarrow> bool" where
  "item_typed i \<longleftrightarrow> - (2 ^ 31) \<le> it_fd i \<and> it_fd i < 2 ^ 31 \<and>
     (case it_data i of None \<Rightarrow> it_op i \<noteq> SendMsg | Some v \<Rightarrow> data_typed (it_op i) (it_result i) v)"

lemma slice_upto: "0 < n \<Longrightarrow> int (length (get_buffer_slice p i (nat n))) \<le> n"
  by (simp add: get_buffer_slice_def)

lemma sint_range: "- (2 ^ 31) \<le> sint (w :: 32 word) \<and> sint w < 2 ^ 31"
  using sint_greater_eq [of w] sint_less [of w] by simp

lemma phase1_typed: "item_typed (fst (phase1 e c))"
  using sint_range [of "ce_fd e"]
  by (cases "ce_op_type e")
    (auto simp: item_typed_def phase1_def Let_def recv_data_def bytes_upto_def datagram_upto_def slice_upto
      split: option.split)

lemma phase1_all_typed: "phase1_all es c = (items, c') \<Longrightarrow> list_all item_typed items"
proof (induction es c arbitrary: items c' rule: phase1_all.induct)
  case (2 e es c)
  obtain i c1 where i: "phase1 e c = (i, c1)" by (rule prod.exhaust)
  then have "item_typed i" using phase1_typed [of e c] by simp
  with 2 i show ?case by (auto split: prod.splits)
qed simp

lemma phase2_dom: "phase2 fs c res = (futs, c') \<Longrightarrow> dom futs \<subseteq> dom res \<union> set fs"
  by (induction fs c res rule: phase2.induct) (auto split: option.splits)

lemma tick_core_items:
  assumes "tick_core now c = (Inr (items, futs), c')"
  obtains es c1 c2 where "phase1_all es c1 = (items, c2)" "phase2 (map it_fd items) c2 Map.empty = (futs, c')"
  using assms that by (auto simp: tick_core_def seqM_def bindM_def split: prod.splits sum.splits)

section \<open>Futures\<close>

definition outcome_typed :: "op_type \<Rightarrow> fut_state \<Rightarrow> bool" where
  "outcome_typed op st \<longleftrightarrow> (case st of
      Failed e \<Rightarrow> (\<exists>n > 0. e = OSError n)
    | Finished v \<Rightarrow> if op \<in> {Recv, RecvMulti} then (\<exists>b. v = VBytes b)
        else if op = RecvMsg then (\<exists>b a. v = VBytes b \<or> v = VDatagram b a)
        else (\<exists>n \<ge> 0. v = VInt n)
    | _ \<Rightarrow> False)"

lemma keeps_futs_schedule:
  "keeps (\<lambda>w. lo_futs w = X) (forM cbs (\<lambda>cb. bindM (call_soon cb) (\<lambda>_. ret ())))"
  by (intro keeps_intros) (simp add: keeps_def call_soon_eq split: option.split)

lemma settle_fut_state: "fu_state (lo_futs (snd (settle f st w)) f) = st"
proof -
  let ?w = "set_fut f \<lparr>fu_state = st, fu_callbacks = []\<rparr> w"
  have "lo_futs (snd (forM (fu_callbacks (lo_futs w f)) (\<lambda>cb. bindM (call_soon cb) (\<lambda>_. ret ())) ?w)) = lo_futs ?w"
    using keeps_futs_schedule [of "lo_futs ?w" "fu_callbacks (lo_futs w f)"] unfolding keeps_def by blast
  then show ?thesis by (simp add: settle_def set_fut_def)
qed

lemma try_print_futs: "lo_futs (snd (tryM m (\<lambda>_. True) print_error w)) = lo_futs (snd (m w))"
  by (simp add: tryM_def split: prod.split sum.split)

lemma resolve_future_typed:
  assumes "item_typed i" "fu_state (lo_futs w f) = Pending"
  shows "outcome_typed (it_op i) (fu_state (lo_futs (snd (resolve_future i f w)) f))"
proof -
  have set: "fu_state (lo_futs (snd (set_result f v w)) f) = Finished v"
    "fu_state (lo_futs (snd (set_exception f e w)) f) = Failed e" for v e
    using assms(2) settle_fut_state [of f _ w] by (simp_all add: set_result_def set_exception_def fut_done_def bindM_def)
  show ?thesis
    using assms(1)
    by (cases "it_op i"; cases "it_data i")
      (auto simp: resolve_future_def try_print_futs set outcome_typed_def item_typed_def bytes_upto_def datagram_upto_def
        split: pyval.splits option.splits)
qed

text \<open>
  C6. Values keep their types on the way from the ring to Python. Every completion a tick reports
  names a 32-bit descriptor and carries, operation by operation, data of one type only: bytes, no
  more than the result says, for a receive, a datagram or bytes for a message, the count for a
  sent message, nothing otherwise. And a pending future that the tick settles for it ends as an
  \<open>OSError\<close> with a positive number, as bytes, as a datagram, or as a non-negative number, again
  fixed by the operation.
\<close>

theorem completion_values_typed:
  assumes "tick_core now c = (Inr (items, futs), c')" and "i \<in> set items"
    and "fu_state (lo_futs w f) = Pending"
  shows "item_typed i \<and> dom futs \<subseteq> it_fd ` set items \<and>
    outcome_typed (it_op i) (fu_state (lo_futs (snd (resolve_future i f w)) f))"
proof -
  from assms(1) obtain es c1 c2 where p: "phase1_all es c1 = (items, c2)" "phase2 (map it_fd items) c2 Map.empty = (futs, c')"
    by (rule tick_core_items)
  have "item_typed i" using phase1_all_typed [OF p(1)] assms(2) by (simp add: list_all_iff)
  moreover have "dom futs \<subseteq> it_fd ` set items" using phase2_dom [OF p(2)] by auto
  ultimately show ?thesis using resolve_future_typed assms(3) by blast
qed

theorem completion_values_typed_witness:
  "\<exists>i. item_typed i \<and> outcome_typed Recv (fu_state (lo_futs (snd (resolve_future i 0 demo_world)) 0))"
proof -
  let ?i = "\<lparr>it_fd = 5, it_result = 2, it_op = Recv, it_data = Some (VBytes [104, 105])\<rparr>"
  have "rg_cq (uc_ring demo_registered) = []" "bp_buffer_size (uc_buffer_pool demo_registered) = 4"
    "uc_inflight_recv_buffers demo_registered 5 = None"
    by (simp_all add: demo_registered_def demo_core_def register_fd_def)
  then obtain c' where "tick_core 0 (recv_answered 0 [104, 105] 0 (snd (submit_recv 5 7 demo_registered))) =
      (Inr ([?i], [5 \<mapsto> 7]), c')"
    using recv_tick [OF demo_can_recv, of "[104, 105]" 0 0 7] by auto
  moreover have "fu_state (lo_futs demo_world 0) = Pending" by (simp add: demo_world_def)
  ultimately show ?thesis using completion_values_typed [of 0 _ "[?i]" _ c' ?i demo_world 0] by auto
qed

end
