(* ===== verification/Native_Loop.thy ===== *)
theory Native_Loop
  imports Loop_Props
begin

text \<open>
  The engine's own event loop \<open>run_until_stopped\<close> (\<open>src/src/lib.rs\<close>), which the Python package does not
  use: it polls epoll itself, calls reader and writer callbacks directly, and runs ticks until the
  engine's stop flag is set. As in \<open>run_forever\<close> the kernel's answers to come are a list; each comes
  with the reading of the wall clock before it.
\<close>

definition EINTR :: errno where "EINTR = 4"

record native_poll =
  np_world :: "world \<Rightarrow> world"
  np_result :: "errno + (fd \<times> 32 word) list"

text \<open>
  Milliseconds to block, a saturating cast to \<open>i32\<close>. The expiration is on the monotonic clock, the
  other operand is the time of day.
\<close>

definition native_timeout :: "real \<Rightarrow> (nat, callback) uring_core \<Rightarrow> int" where
  "native_timeout wall c =
    (if uc_scheduler c \<noteq> [] then 0
     else (case next_expiration (uc_timers c) of
        Some next_exp \<Rightarrow> min (2 ^ 31 - 1) \<lfloor>max (next_exp - wall) 0 * 1000\<rfloor>
      | None \<Rightarrow> 100))"

definition call_watcher :: "user \<Rightarrow> nat \<Rightarrow> callback option \<Rightarrow> unit act" where
  "call_watcher U fuel cb = (case cb of
      None \<Rightarrow> ret ()
    | Some c \<Rightarrow> tryM (run_callback U fuel c) (\<lambda>_. True) print_error)"

text \<open>\<open>signal\<close> raises the eventfd's counter, so that a poll returns.\<close>

definition core_signal :: "unit act" where
  "core_signal = modM (\<lambda>w. w\<lparr>lo_eventfd_count := lo_eventfd_count w + 1\<rparr>)"

definition native_event :: "user \<Rightarrow> nat \<Rightarrow> fd \<Rightarrow> fd \<times> 32 word \<Rightarrow> unit act" where
  "native_event U fuel eventfd = (\<lambda>(f, ev).
     if f = eventfd then drain_eventfd
     else
       seqM (whenM (ev AND READ_MASK \<noteq> 0)
              (bindM (getM (\<lambda>w. uc_readers (lo_core w) f)) (call_watcher U fuel)))
            (whenM (ev AND EPOLLOUT \<noteq> 0)
              (bindM (getM (\<lambda>w. uc_writers (lo_core w) f)) (call_watcher U fuel))))"

text \<open>
  \<open>True\<close> when the flag was found set, \<open>False\<close> when the answers ran out. An error of \<open>epoll_wait\<close> is
  raised as an \<open>OSError\<close> made of its text only, so its \<open>errno\<close> is not set; 0 stands for that.
\<close>

fun native_iterations ::
  "user \<Rightarrow> nat \<Rightarrow> fd \<Rightarrow> (real \<times> (int \<Rightarrow> native_poll)) list \<Rightarrow> bool act" where
  "native_iterations U fuel eventfd polls = bindM (getM (\<lambda>w. uc_stopping (lo_core w))) (\<lambda>st.
     if st then ret True
     else (case polls of
        [] \<Rightarrow> ret False
      | (wall, poll) # ps \<Rightarrow>
          bindM (getM (\<lambda>w. native_timeout wall (lo_core w))) (\<lambda>ms.
          seqM (modM (np_world (poll ms)))
          (case np_result (poll ms) of
             Inl e \<Rightarrow> if e = EINTR then native_iterations U fuel eventfd ps else raise (OSError 0)
           | Inr evs \<Rightarrow>
               seqM (forM evs (native_event U fuel eventfd))
              (seqM (run_tick U fuel) (native_iterations U fuel eventfd ps))))))"

declare native_iterations.simps [simp del]

definition run_until_stopped :: "user \<Rightarrow> nat \<Rightarrow> (real \<times> (int \<Rightarrow> native_poll)) list \<Rightarrow> bool act" where
  "run_until_stopped U fuel polls =
    seqM (mod_core (\<lambda>c. c\<lparr>uc_stopping := False\<rparr>))
   (bindM (getM event_fd) (\<lambda>eventfd. native_iterations U fuel eventfd polls))"

section \<open>Outcome\<close>

lemma call_watcher_total: "fst (call_watcher U fuel cb w) = Inr ()"
  by (simp add: call_watcher_def try_print_total split: option.split)

lemma seqM_total: "(\<And>w. fst (m w) = Inr ()) \<Longrightarrow> (\<And>w. fst (n w) = Inr ()) \<Longrightarrow> fst (seqM m n w) = Inr ()"
  by (simp add: seqM_def bindM_def split: prod.split sum.split) (metis fst_conv sum.distinct(1))

lemma native_event_total: "fst (native_event U fuel eventfd x w) = Inr ()"
  by (cases x) (auto simp: native_event_def drain_eventfd_def whenM_def call_watcher_total intro!: seqM_total)

text \<open>What a tick can raise is the engine's error for a failed submission.\<close>

lemma flush_raises: "fst (flush c) = Inl e \<Longrightarrow> \<exists>msg. e = ring_op_error (''submit failed: '' @ msg)"
  by (auto simp: flush_def on_ring_def ring_submit_def bindM_def split: prod.splits sum.splits if_splits option.splits)

lemma tick_core_raises: "fst (tick_core now c) = Inl e \<Longrightarrow> \<exists>msg. e = ring_op_error (''submit failed: '' @ msg)"
  using flush_raises [of "tick_timers now c" e]
  by (auto simp: tick_core_def tick_drain_def seqM_def bindM_def split: prod.splits sum.splits)

lemma run_tick_raises: "fst (run_tick U fuel w) = Inl e \<Longrightarrow> \<exists>msg. e = ring_op_error (''submit failed: '' @ msg)"
  using tick_core_raises [of "lo_time w" "lo_core w"] by (auto simp: run_tick_fst split: prod.splits sum.splits)

text \<open>
  The native loop ends as promised: whatever the callbacks do or raise, it raises only if
  \<open>epoll_wait\<close> failed (an interrupted one is retried) or a submission did, and it returns \<open>True\<close>
  exactly when the stop flag is set in the end.
\<close>

lemma native_iterations_outcome:
  "case native_iterations U fuel eventfd polls w of
     (Inr b, w') \<Rightarrow> b = uc_stopping (lo_core w')
   | (Inl e, _) \<Rightarrow> e = OSError 0 \<or> (\<exists>msg. e = ring_op_error (''submit failed: '' @ msg))"
proof (induction polls arbitrary: w)
  case Nil
  show ?case by (simp add: native_iterations.simps)
next
  case (Cons x ps)
  obtain wall poll where x: "x = (wall, poll)" by fastforce
  let ?p = "poll (native_timeout wall (lo_core w))"
  let ?w1 = "np_world ?p w"
  show ?case
  proof (cases "uc_stopping (lo_core w)")
    case True
    then show ?thesis by (simp add: native_iterations.simps)
  next
    case False
    show ?thesis
    proof (cases "np_result ?p")
      case (Inl e)
      with False x Cons [of ?w1] show ?thesis
        by (simp add: native_iterations.simps [of _ _ _ "(wall, poll) # ps"])
    next
      case (Inr evs)
      obtain w2 where w2: "forM evs (native_event U fuel eventfd) ?w1 = (Inr (), w2)"
        using forM_total [of "native_event U fuel eventfd" evs ?w1, OF native_event_total]
        by (cases "forM evs (native_event U fuel eventfd) ?w1") simp
      obtain r w3 where w3: "run_tick U fuel w2 = (r, w3)" by (rule prod.exhaust)
      have "native_iterations U fuel eventfd (x # ps) w =
          (case r of Inl e \<Rightarrow> (Inl e, w3) | Inr _ \<Rightarrow> native_iterations U fuel eventfd ps w3)"
        using False x Inr w2 w3 by (simp add: native_iterations.simps [of _ _ _ "(wall, poll) # ps"] seqM_def bindM_def split: sum.split)
      then show ?thesis using Cons [of w3] run_tick_raises [of U fuel w2] w3 by (auto split: sum.split)
    qed
  qed
qed

lemma run_until_stopped_outcome:
  "case run_until_stopped U fuel polls w of
     (Inr b, w') \<Rightarrow> b = uc_stopping (lo_core w')
   | (Inl e, _) \<Rightarrow> e = OSError 0 \<or> (\<exists>msg. e = ring_op_error (''submit failed: '' @ msg))"
  using native_iterations_outcome [of U fuel] by (simp add: run_until_stopped_def mod_core_def)

text \<open>
  With a timer pending the native loop does not block at all once the time of day is past the
  timer's monotonic expiration, however far in the future the timer is.
\<close>

lemma native_loop_spins:
  assumes "uc_scheduler c = []" "next_expiration (uc_timers c) = Some t" "t \<le> wall"
  shows "native_timeout wall c = 0"
  using assms by (simp add: native_timeout_def max_def)

end
