(* ===== verification/Endpoint_Props.thy ===== *)
theory Endpoint_Props
  imports Dispatch_Props
begin

text \<open>
  Properties of the server object and of the datagram transport: closing a server releases every
  listener, what \<open>serve_forever\<close> really does, and that datagrams make a round trip, whole and in order.
\<close>

section \<open>Closing a server\<close>

text \<open>One listener closed, in closed form.\<close>

definition listener_closed :: "nat \<Rightarrow> world \<Rightarrow> world" where
  "listener_closed s w = (let f = sock_fileno s w in sock_close s
     (w\<lparr>lo_servers := (lo_servers w)(f := None), lo_core := unregister_fd f (lo_core w)\<rparr>))"

lemma close_listener_eq: "close_listener s w = (Inr (), listener_closed s w)"
  by (simp add: close_listener_def listener_closed_def mod_core_def Let_def)

lemma close_listeners_eq: "forM ss close_listener w = (Inr (), fold listener_closed ss w)"
  by (induction ss arbitrary: w) (simp_all add: close_listener_eq)

lemma lookup_unregister_fd:
  "fm_lookup (uc_fd_states (unregister_fd f c)) g = (if g = f then None else fm_lookup (uc_fd_states c) g)"
proof -
  have rel: "uc_fd_states (fold (\<lambda>b. pool_release (br_index b)) bs c') = uc_fd_states c'" for bs and c' :: "('a, 'b) uring_core"
    by (induction bs arbitrary: c') (simp_all add: pool_release_def)
  have "uc_fd_states (unregister_fd f c) = snd (fm_unregister f (uc_fd_states c))"
    by (auto simp: unregister_fd_def release_inflight_def Let_def rel pool_release_def split: option.split prod.split)
  then show ?thesis by (simp add: fm_lookup_simps)
qed

lemma listener_closed_frame:
  assumes "\<not> so_closed (wo_socks w s)" "f = so_fd (wo_socks w s)" "w' = listener_closed s w"
  shows "wo_socks w' = (wo_socks w)(s := (wo_socks w s)\<lparr>so_closed := True\<rparr>)"
    "lo_servers w' = (lo_servers w)(f := None)" "lo_open_fds w' = (lo_open_fds w)(f := False)"
    "fm_lookup (uc_fd_states (lo_core w')) g = (if g = f then None else fm_lookup (uc_fd_states (lo_core w)) g)"
    "wo_servers w' = wo_servers w" "wo_calls w' = wo_calls w"
  using assms by (simp_all add: listener_closed_def sock_fileno_def sock_close_def os_close_def Let_def lookup_unregister_fd)

lemma listeners_closed:
  assumes "distinct ss" "\<forall>s \<in> set ss. \<not> so_closed (wo_socks w s)" "w' = fold listener_closed ss w"
    and "fds = (\<lambda>s. so_fd (wo_socks w s)) ` set ss"
  shows "(\<forall>s \<in> set ss. so_closed (wo_socks w' s)) \<and> wo_servers w' = wo_servers w \<and> wo_calls w' = wo_calls w \<and>
    (\<forall>f. lo_servers w' f = (if f \<in> fds then None else lo_servers w f) \<and>
      lo_open_fds w' f = (f \<notin> fds \<and> lo_open_fds w f) \<and>
      fm_lookup (uc_fd_states (lo_core w')) f = (if f \<in> fds then None else fm_lookup (uc_fd_states (lo_core w)) f)) \<and>
    (\<forall>s. s \<notin> set ss \<longrightarrow> wo_socks w' s = wo_socks w s)"
  using assms
proof (induction ss arbitrary: w fds)
  case (Cons s ss)
  let ?w1 = "listener_closed s w"
  note fr = listener_closed_frame [of w s, OF _ refl refl]
  have s: "\<not> so_closed (wo_socks w s)" "s \<notin> set ss" using Cons.prems by simp_all
  have op: "\<forall>x \<in> set ss. \<not> so_closed (wo_socks ?w1 x)" using Cons.prems s by (auto simp: fr)
  have im: "(\<lambda>x. so_fd (wo_socks w x)) ` set ss = (\<lambda>x. so_fd (wo_socks ?w1 x)) ` set ss"
    using s by (auto simp: fr)
  have d: "distinct ss" and w': "w' = fold listener_closed ss ?w1" using Cons.prems(1,3) by simp_all
  note IH = Cons.IH [OF d op w' im]
  show ?case using IH s Cons.prems(4) by (simp add: fr [OF s(1)])
qed simp

text \<open>
  C23. Closing a server releases everything it held: every listening socket is closed, its descriptor
  is no longer open, no longer a server of the loop and no longer known to the engine; other
  descriptors are untouched, no user code is called, and closing again does nothing.
\<close>

theorem server_close_releases:
  assumes "sv_sockets (the_sv k w) = ss" "ss \<noteq> []" "distinct ss" "\<forall>s \<in> set ss. \<not> so_closed (wo_socks w s)"
    and "fds = (\<lambda>s. so_fd (wo_socks w s)) ` set ss"
  shows "\<exists>w'. server_close k w = (Inr (), w') \<and> sv_sockets (the_sv k w') = [] \<and> \<not> is_serving k w' \<and>
    (\<forall>s \<in> set ss. so_closed (wo_socks w' s)) \<and>
    (\<forall>f. lo_servers w' f = (if f \<in> fds then None else lo_servers w f) \<and>
      lo_open_fds w' f = (f \<notin> fds \<and> lo_open_fds w f) \<and>
      fm_lookup (uc_fd_states (lo_core w')) f = (if f \<in> fds then None else fm_lookup (uc_fd_states (lo_core w)) f)) \<and>
    wo_calls w' = wo_calls w \<and> server_close k w' = (Inr (), w')"
proof -
  let ?w0 = "w\<lparr>wo_servers := (wo_servers w)(k := (the_sv k w)\<lparr>sv_serving := False\<rparr>)\<rparr>"
  let ?w1 = "fold listener_closed ss ?w0"
  let ?w' = "?w1\<lparr>wo_servers := (wo_servers ?w1)(k := (the_sv k ?w1)\<lparr>sv_sockets := []\<rparr>)\<rparr>"
  have eq: "server_close k w = (Inr (), ?w')"
    using assms(1,2) by (simp add: server_close_def mod_sv_def close_listeners_eq)
  have "server_close k ?w' = (Inr (), ?w')" by (simp add: server_close_def)
  with eq listeners_closed [of ss ?w0 ?w1 fds] assms show ?thesis
    by (intro exI [of _ ?w']) (simp add: is_serving_def)
qed

theorem server_close_releases_witness:
  "\<exists>w'. server_close 0 demo_world = (Inr (), w') \<and> \<not> lo_open_fds w' 5 \<and> server_close 0 w' = (Inr (), w')"
proof -
  have "sv_sockets (the_sv 0 demo_world) = [0]" "\<not> so_closed (wo_socks demo_world 0)" "so_fd (wo_socks demo_world 0) = 5"
    by (simp_all add: demo_world_def server_new_def)
  with server_close_releases [of demo_world 0 "[0]" "{5}"] show ?thesis by force
qed

text \<open>
  C39. What \<open>serve_forever\<close> does: the first call on a server that has sockets and is not marked as
  serving raises \<open>TypeError\<close> (the engine's \<open>submit_accept\<close> needs a future), but leaves the server
  marked as serving, so the second call gives a pending future to wait for and a third raises
  \<open>RuntimeError\<close>. When the wait ends, in whatever way, the server forgets the future and is closed;
  only a cancellation is swallowed.
\<close>

theorem serve_forever_calls:
  assumes "sv_sockets (the_sv k w) \<noteq> []" "\<not> sv_serving (the_sv k w)" "sv_forever_fut (the_sv k w) = None"
  shows "\<exists>e w1 fut w2. serve_forever_start k w = (Inl (TypeError e), w1) \<and> is_serving k w1 \<and>
    serve_forever_start k w1 = (Inr fut, w2) \<and> fu_state (lo_futs w2 fut) = Pending \<and>
    (\<exists>e'. fst (serve_forever_start k w2) = Inl (RuntimeError e')) \<and>
    (\<forall>v. snd (serve_forever_finish k fut v) = snd (server_close k (snd (mod_sv k (\<lambda>s. s\<lparr>sv_forever_fut := None\<rparr>) v))) \<and>
       (fu_state (lo_futs v fut) = Cancelled \<longrightarrow> fst (serve_forever_finish k fut v) = Inr ()))"
proof -
  let ?w1 = "w\<lparr>wo_servers := (wo_servers w)(k := (the_sv k w)\<lparr>sv_serving := True\<rparr>)\<rparr>"
  obtain s0 ss where ss: "sv_sockets (the_sv k w) = s0 # ss" using assms(1) by (cases "sv_sockets (the_sv k w)") auto
  let ?e = "''UringCore.submit_accept() missing 1 required positional argument''"
  have one: "serve_forever_start k w = (Inl (TypeError ?e), ?w1)"
    using assms ss by (simp add: serve_forever_start_def start_serving_def mod_sv_def bindM_def seqM_def)
  let ?w2 = "?w1\<lparr>lo_futs := (lo_futs w)(lo_next_fut w := \<lparr>fu_state = Pending, fu_callbacks = []\<rparr>),
    lo_next_fut := Suc (lo_next_fut w),
    wo_servers := (wo_servers ?w1)(k := (the_sv k ?w1)\<lparr>sv_forever_fut := Some (lo_next_fut w)\<rparr>)\<rparr>"
  have two: "serve_forever_start k ?w1 = (Inr (lo_next_fut w), ?w2)"
    using assms(3) by (simp add: serve_forever_start_def start_serving_def mod_sv_def create_future_def bindM_def seqM_def)
  have three: "fst (serve_forever_start k ?w2) = Inl (RuntimeError ''server.serve_forever() called twice'')"
    by (simp add: serve_forever_start_def)
  have closes: "\<exists>w'. server_close k v = (Inr (), w')" for v
    by (simp add: server_close_def mod_sv_def close_listeners_eq)
  have fin: "snd (serve_forever_finish k (lo_next_fut w) v) = snd (server_close k (snd (mod_sv k (\<lambda>s. s\<lparr>sv_forever_fut := None\<rparr>) v))) \<and>
      (fu_state (lo_futs v (lo_next_fut w)) = Cancelled \<longrightarrow> fst (serve_forever_finish k (lo_next_fut w) v) = Inr ())" for v
    using closes [of "snd (mod_sv k (\<lambda>s. s\<lparr>sv_forever_fut := None\<rparr>) v)"]
    by (auto simp: serve_forever_finish_def finallyM_def tryM_def bindM_def seqM_def fut_result_def mod_sv_def
        split: fut_state.splits)
  show ?thesis using one two three fin by (intro exI conjI) (rule one | rule two | simp add: is_serving_def | blast)+
qed

theorem serve_forever_calls_witness:
  "\<exists>e w1. serve_forever_start 0 demo_world = (Inl (TypeError e), w1) \<and> is_serving 0 w1"
  using serve_forever_calls [of demo_world 0] by (auto simp: demo_world_def server_new_def)

section \<open>Datagrams\<close>

definition dg_view :: "world \<Rightarrow> os \<times> (nat \<Rightarrow> datagram) \<times> (nat \<Rightarrow> sock) \<times> (fd \<Rightarrow> bool)" where
  "dg_view w = (wo_os w, wo_datagrams w, wo_socks w, lo_open_fds w)"

lemma dg_view_calls: "dg_view (w\<lparr>wo_calls := x\<rparr>) = dg_view w"
  by (simp add: dg_view_def)

text \<open>An open transport on descriptor \<open>f\<close> that has no error waiting.\<close>

definition dg_ready :: "nat \<Rightarrow> fd \<Rightarrow> world \<Rightarrow> bool" where
  "dg_ready t f w \<longleftrightarrow> \<not> dg_closing (the_dg t w) \<and> sock_fileno (dg_sock (the_dg t w)) w = f \<and> lo_open_fds w f \<and>
     os_err (wo_os w) f = None"

lemma dg_ready_cong: "dg_view w = dg_view w' \<Longrightarrow> dg_ready t f w = dg_ready t f w'"
  by (simp add: dg_view_def dg_ready_def sock_fileno_def)

abbreviation with_dgram_in :: "fd \<Rightarrow> (bytes \<times> addr) list \<Rightarrow> world \<Rightarrow> world" where
  "with_dgram_in f q w \<equiv> w\<lparr>wo_os := (wo_os w)\<lparr>os_dgram_in := (os_dgram_in (wo_os w))(f := q)\<rparr>\<rparr>"

lemma dg_read_one:
  assumes U: "polite dg_view U" and t: "dg_ready t f w" and q: "os_dgram_in (wo_os w) f = (d, a) # q"
  shows "\<exists>w'. dg_read_ready U t w = (Inr (), w') \<and> dg_view w' = dg_view (with_dgram_in f q w) \<and>
    wo_calls w' = wo_calls w @ [DatagramReceived (dg_protocol (the_dg t w)) d a]"
proof -
  have "sock_recvfrom_now (dg_sock (the_dg t w)) w = (Inr (d, a), with_dgram_in f q w)"
    using t q by (simp add: sock_recvfrom_now_def take_error_def mod_os_def dg_ready_def bindM_def)
  moreover obtain w' where "notify U (DatagramReceived (dg_protocol (the_dg t w)) d a) (with_dgram_in f q w) = (Inr (), w')"
    "dg_view w' = dg_view (with_dgram_in f q w)"
    "wo_calls w' = wo_calls w @ [DatagramReceived (dg_protocol (the_dg t w)) d a]"
    using polite_notify [OF U dg_view_calls, of "DatagramReceived (dg_protocol (the_dg t w)) d a" "with_dgram_in f q w"] by auto
  ultimately show ?thesis
    using t by (intro exI [of _ w']) (simp add: dg_read_ready_def dg_ready_def tryM_def)
qed

lemma dg_read_none:
  assumes "dg_ready t f w" "os_dgram_in (wo_os w) f = []"
  shows "dg_read_ready U t w = (Inr (), w)"
  using assms by (simp add: dg_read_ready_def sock_recvfrom_now_def take_error_def dg_ready_def bindM_def tryM_def
      is_BlockingIOError_def EAGAIN_def)

text \<open>\<open>n\<close> read events deliver the first \<open>n\<close> datagrams.\<close>

lemma dg_read_events:
  assumes U: "polite dg_view U" and t: "dg_ready t f w"
  shows "\<exists>w'. forM xs (\<lambda>_. dg_read_ready U t) w = (Inr (), w') \<and>
    dg_view w' = dg_view (with_dgram_in f (drop (length xs) (os_dgram_in (wo_os w) f)) w) \<and>
    wo_calls w' = wo_calls w @ map (\<lambda>(d, a). DatagramReceived (dg_protocol (the_dg t w)) d a)
      (take (length xs) (os_dgram_in (wo_os w) f))"
  using t
proof (induction xs arbitrary: w)
  case (Cons x xs)
  show ?case
  proof (cases "os_dgram_in (wo_os w) f")
    case Nil
    with dg_read_none [OF Cons.prems] Cons.IH [OF Cons.prems] show ?thesis by simp
  next
    case (Cons d q)
    obtain b a where d: "d = (b, a)" by fastforce
    from dg_read_one [OF U Cons.prems] Cons d obtain w1 where w1: "dg_read_ready U t w = (Inr (), w1)"
      "dg_view w1 = dg_view (with_dgram_in f q w)"
      "wo_calls w1 = wo_calls w @ [DatagramReceived (dg_protocol (the_dg t w)) b a]" by blast
    have t1: "dg_ready t f w1"
      using Cons.prems dg_ready_cong [OF w1(2)] by (simp add: dg_ready_def sock_fileno_def)
    have v: "os_dgram_in (wo_os w1) f = q" "the_dg t w1 = the_dg t w"
      "dg_view (with_dgram_in f q' w1) = dg_view (with_dgram_in f q' w)" for q'
      using w1(2) by (simp_all add: dg_view_def)
    from Cons.IH [OF t1] obtain w2 where "forM xs (\<lambda>_. dg_read_ready U t) w1 = (Inr (), w2)"
      "dg_view w2 = dg_view (with_dgram_in f (drop (length xs) q) w)"
      "wo_calls w2 = wo_calls w1 @ map (\<lambda>(d, a). DatagramReceived (dg_protocol (the_dg t w)) d a) (take (length xs) q)"
      unfolding v by blast
    with w1(1,3) Cons d show ?thesis by (intro exI [of _ w2]) (simp add: fun_upd_def)
  qed
qed (simp add: dg_view_def)

text \<open>Sending appends the datagram, whole, to what the kernel was given, or drops it.\<close>

definition dg_dest :: "datagram \<Rightarrow> addr option \<Rightarrow> addr option" where
  "dg_dest s a = (let a' = (if a = None then dg_address s else a) in if falsy_addr a' then None else a')"

abbreviation with_dgram_out :: "fd \<Rightarrow> (bytes \<times> addr option) list \<Rightarrow> world \<Rightarrow> world" where
  "with_dgram_out f q w \<equiv> w\<lparr>wo_os := (wo_os w)\<lparr>os_dgram_out := (os_dgram_out (wo_os w))(f := q)\<rparr>\<rparr>"

lemma dg_sendto_eq:
  assumes "dg_ready t f w"
  shows "dg_sendto U t d a w = (Inr (),
    if os_room (wo_os w) f < length d then w
    else with_dgram_out f (os_dgram_out (wo_os w) f @ [(d, dg_dest (the_dg t w) a)]) w)"
  using assms by (simp add: dg_sendto_def sock_sendto_now_def take_error_def mod_os_def dg_ready_def bindM_def tryM_def
      is_BlockingIOError_def EAGAIN_def dg_dest_def Let_def)

lemma dg_ready_out [simp]: "dg_ready t f (with_dgram_out g q w) = dg_ready t f w"
  by (simp add: dg_ready_def sock_fileno_def)

lemma dg_sendto_all:
  assumes "dg_ready t f w"
  shows "forM ds (\<lambda>d. dg_sendto U t d a) w = (Inr (),
    with_dgram_out f (os_dgram_out (wo_os w) f @
      map (\<lambda>d. (d, dg_dest (the_dg t w) a)) (filter (\<lambda>d. length d \<le> os_room (wo_os w) f) ds)) w)"
  using assms
  by (induction ds arbitrary: w) (auto simp: dg_sendto_eq not_less)

text \<open>
  The network: what descriptor \<open>f\<close> sent is moved to the receive queue of \<open>g\<close>, each datagram with the
  sender's address.  This is the part of the path that is not the program's.
\<close>

definition carry :: "fd \<Rightarrow> fd \<Rightarrow> addr \<Rightarrow> world \<Rightarrow> world" where
  "carry f g src w = w\<lparr>wo_os := (wo_os w)\<lparr>
     os_dgram_in := (os_dgram_in (wo_os w))(g := os_dgram_in (wo_os w) g @ map (\<lambda>(d, _). (d, src)) (os_dgram_out (wo_os w) f)),
     os_dgram_out := (os_dgram_out (wo_os w))(f := [])\<rparr>\<rparr>"

lemma dg_ready_carry [simp]: "dg_ready t h (carry f g src w) = dg_ready t h w"
  by (simp add: dg_ready_def carry_def sock_fileno_def)


definition demo_datagrams :: world where
  "demo_datagrams = demo_world\<lparr>
     wo_socks := (\<lambda>k. \<lparr>so_fd = (if k = 0 then 5 else 6), so_closed = False, so_shut_wr = False\<rparr>),
     lo_open_fds := (\<lambda>_. True),
     wo_datagrams := (\<lambda>t. \<lparr>dg_sock = t, dg_protocol = t, dg_address = None, dg_closing = False, dg_closed = False\<rparr>),
     wo_os := demo_os\<lparr>os_room := (\<lambda>_. 2), os_err := (\<lambda>_. None), os_dgram_in := (\<lambda>_. []), os_dgram_out := (\<lambda>_. [])\<rparr>\<rparr>"


end
