(* ===== verification/Transport_Props.thy ===== *)
theory Transport_Props
  imports Dispatch_Props Core_Props
begin

text \<open>
  Properties of the socket transport: \<open>connection_lost\<close> is scheduled at most once, \<open>close\<close> alone
  never schedules it, sent bytes are counted twice, received bytes reach the protocol and the
  next receive is armed, and a receive the engine declines stalls the transport.
\<close>

section \<open>The end of a connection is reported at most once\<close>

definition lost_handles :: "nat \<Rightarrow> world \<Rightarrow> nat set" where
  "lost_handles t w = {h. \<exists>x exc. lo_handles w h = Some x \<and> ha_callback x = SockConnectionLost t exc}"

text \<open>
  A closed transport is closing, and the handles ever made for its \<open>connection_lost\<close> are at most
  one, and none while it is not closed. (Handles are never removed from the table.)
\<close>

definition lost_once :: "nat \<Rightarrow> world \<Rightarrow> bool" where
  "lost_once t w \<longleftrightarrow> (st_closed (the_tr t w) \<longrightarrow> st_closing (the_tr t w)) \<and>
     (if st_closed (the_tr t w) then \<exists>h. lost_handles t w \<subseteq> {h} else lost_handles t w = {})"

lemma lost_handles_scheduled:
  "lost_handles t (scheduled cb w) \<subseteq>
     (if \<exists>exc. cb = SockConnectionLost t exc then insert (lo_next_handle w) (lost_handles t w) else lost_handles t w)"
  by (auto simp: lost_handles_def scheduled_def split: if_splits)

lemma the_tr_scheduled [simp]: "wo_transports (scheduled cb w) = wo_transports w"
  by (simp add: scheduled_def)

lemma lost_once_scheduled:
  assumes "lost_once t w" "\<And>exc. cb \<noteq> SockConnectionLost t exc"
  shows "lost_once t (scheduled cb w)"
  using assms lost_handles_scheduled [of t cb w] by (auto simp: lost_once_def split: if_splits)

lemma lost_once_call_soon:
  assumes "\<And>exc. cb \<noteq> SockConnectionLost t exc"
  shows "keeps (lost_once t) (call_soon cb)"
  using lost_once_scheduled [OF _ assms]
  by (intro keepsI) (auto simp: call_soon_eq split: option.splits)

text \<open>Operations that touch neither the handles nor the transports.\<close>

lemma lost_once_untouched:
  "(\<And>w. wo_transports (snd (m w)) = wo_transports w \<and> lo_handles (snd (m w)) = lo_handles w) \<Longrightarrow>
     keeps (lost_once t) m"
  by (simp add: keeps_def lost_once_def lost_handles_def)

lemma lost_once_frame [keeps_intros]:
  "keeps (lost_once t) (on_core m)" "keeps (lost_once t) (mod_core g)" "keeps (lost_once t) create_future"
  "keeps (lost_once t) (modM (sock_close k))" "keeps (lost_once t) (fut_exception f)"
  "keeps (lost_once t) (fut_result f)"
  "keeps (lost_once t) (modM (\<lambda>w. w\<lparr>lo_io_futures := F w\<rparr>))"
  "keeps (lost_once t) (modM (\<lambda>w. w\<lparr>wo_calls := G w\<rparr>))"
  "keeps (lost_once t) (modM (set_fut f x))"
  by (rule lost_once_untouched; simp add: on_core_def mod_core_def create_future_def sock_close_def os_close_def
      Let_def fut_exception_def fut_result_def set_fut_def bindM_def split: prod.split fut_state.split)+

lemma lost_once_mod_tr:
  assumes "\<And>s. st_closed (g s) = st_closed s" "\<And>s. st_closing s \<Longrightarrow> st_closing (g s)"
  shows "keeps (lost_once t) (mod_tr t' g)"
  using assms by (auto intro!: keepsI simp: mod_tr_def lost_once_def lost_handles_def)

lemma lost_once_add_done_callback:
  assumes "\<And>exc. cb \<noteq> SockConnectionLost t exc"
  shows "keeps (lost_once t) (add_done_callback f cb)"
  unfolding add_done_callback_def by (intro keeps_intros lost_once_call_soon assms)

text \<open>Closed form of the forced close; \<open>tr_gone\<close> is the state before the callback is scheduled.\<close>

definition tr_gone :: "nat \<Rightarrow> world \<Rightarrow> world" where
  "tr_gone t w = (case st_sock (the_tr t w) of Some k \<Rightarrow> sock_close k | None \<Rightarrow> (\<lambda>w. w))
     (w\<lparr>wo_transports := (wo_transports w)(t := (the_tr t w)\<lparr>st_closed := True, st_closing := True\<rparr>)\<rparr>)"

lemma sock_close_frame [simp]:
  "wo_transports (sock_close k w) = wo_transports w" "lo_handles (sock_close k w) = lo_handles w"
  "lo_core (sock_close k w) = lo_core w" "wo_calls (sock_close k w) = wo_calls w"
  "refusal (sock_close k w) = refusal w" "lo_next_handle (sock_close k w) = lo_next_handle w"
  "lo_transports (sock_close k w) = lo_transports w" "lo_futs (sock_close k w) = lo_futs w"
  "so_closed (wo_socks (sock_close k w) k)" "lo_closed (sock_close k w) = lo_closed w"
  "lo_debug (sock_close k w) = lo_debug w"
  by (simp_all add: sock_close_def os_close_def Let_def refusal_def)

lemma tr_gone_frame [simp]:
  "wo_transports (tr_gone t w) = (wo_transports w)(t := (the_tr t w)\<lparr>st_closed := True, st_closing := True\<rparr>)"
  "lo_handles (tr_gone t w) = lo_handles w" "lo_core (tr_gone t w) = lo_core w"
  "wo_calls (tr_gone t w) = wo_calls w" "refusal (tr_gone t w) = refusal w"
  "lo_next_handle (tr_gone t w) = lo_next_handle w" "lost_handles t' (tr_gone t w) = lost_handles t' w"
  "st_sock (the_tr t w) = Some k \<Longrightarrow> so_closed (wo_socks (tr_gone t w) k)"
  by (simp_all add: tr_gone_def refusal_def lost_handles_def split: option.split)

lemma force_close_eq:
  "force_close t exc w =
     (if st_closed (the_tr t w) then (Inr (), w)
      else case refusal w of
        Some e \<Rightarrow> (Inl e, tr_gone t w)
      | None \<Rightarrow> (Inr (), scheduled (SockConnectionLost t exc) (tr_gone t w)))"
proof -
  have "seqM (mod_tr t (\<lambda>s. s\<lparr>st_closed := True, st_closing := True\<rparr>))
      (seqM (case st_sock (the_tr t w) of Some k \<Rightarrow> modM (sock_close k) | None \<Rightarrow> ret ()) m) w = m (tr_gone t w)"
    for m :: "unit act"
    by (simp add: mod_tr_def tr_gone_def seqM_def bindM_def split: option.split)
  then show ?thesis
    by (simp add: force_close_def call_soon_eq bindM_def del: refusal_None split: option.split)
qed

lemma force_close_open:
  "\<not> st_closed (the_tr t w) \<Longrightarrow> refusal w = None \<Longrightarrow>
     force_close t exc w = (Inr (), scheduled (SockConnectionLost t exc) (tr_gone t w))"
  by (simp add: force_close_eq del: refusal_None)

lemma lost_once_force_close [keeps_intros]: "keeps (lost_once t) (force_close t' exc)"
proof (rule keepsI)
  fix w assume w: "lost_once t w"
  have "lost_once t (tr_gone t' w)"
    using w by (auto simp: lost_once_def split: if_splits)
  moreover have "lost_once t (scheduled (SockConnectionLost t' exc) (tr_gone t' w))" if "\<not> st_closed (the_tr t' w)"
    using w that lost_handles_scheduled [of t "SockConnectionLost t' exc" "tr_gone t' w"]
    by (auto simp: lost_once_def split: if_splits)
  ultimately show "lost_once t (snd (force_close t' exc w))"
    using w by (simp add: force_close_eq del: refusal_None split: option.split)
qed


lemma lost_once_user:
  assumes "\<And>c. keeps (lost_once t) (U c)"
  shows "keeps (lost_once t) (call_user U c)" "keeps (lost_once t) (notify U c)" "keeps (lost_once t) (report U msg)"
proof -
  show "keeps (lost_once t) (call_user U c)" for c
    unfolding call_user_def by (intro keeps_intros assms)
  then show n: "keeps (lost_once t) (notify U c)" for c
    unfolding notify_def by (intro keeps_intros)
  have "keeps (lost_once t) (default_exception_handler m)" for m
    by (rule lost_once_untouched) (simp add: default_exception_handler_def)
  then show "keeps (lost_once t) (report U msg)"
    unfolding report_def call_exception_handler_def by (intro keeps_intros n)
qed

text \<open>The operations of the transports, as the loop and the user call them.\<close>

inductive transport_op :: "user \<Rightarrow> unit act \<Rightarrow> bool" for U where
  "transport_op U (tr_close t)"
| "transport_op U (tr_pause_reading t)"
| "transport_op U (tr_resume_reading t)"
| "transport_op U (rearm_recv t)"
| "transport_op U (on_recv_complete U t fut)"
| "transport_op U (on_write_complete U t fut)"
| "transport_op U (tr_write U t data)"
| "transport_op U (writelines U t datas)"
| "transport_op U (write_eof t)"
| "transport_op U (set_write_buffer_limits t high low)"
| "transport_op U (data_received U t v)"
| "transport_op U (eof_received U t)"
| "transport_op U (error_received t err)"
| "transport_op U (send_completed U t v)"
| "transport_op U (call_connection_lost U t exc)"
| "transport_op U (abort t)"

lemmas lost_once_rules = lost_once_mod_tr lost_once_add_done_callback lost_once_call_soon

lemma lost_once_close [keeps_intros]: "keeps (lost_once t) (tr_close t')"
  unfolding tr_close_def by (intro keeps_intros lost_once_rules) simp_all

lemma lost_once_error_received [keeps_intros]:
  "keeps (lost_once t) (error_received t' err)" "keeps (lost_once t) (error_received_exc t' exc)"
  unfolding error_received_def error_received_exc_def by (intro keeps_intros)+

lemma lost_once_rearm [keeps_intros]: "keeps (lost_once t) (rearm_recv t')"
  unfolding rearm_recv_def by (intro keeps_intros lost_once_rules) simp_all

lemma lost_once_callbacks:
  assumes "\<And>c. keeps (lost_once t) (U c)"
  shows "keeps (lost_once t) (data_received U t' v)" "keeps (lost_once t) (eof_received U t')"
    "keeps (lost_once t) (send_completed U t' v)" "keeps (lost_once t) (tr_write U t' data)"
proof -
  note user = lost_once_user [OF assms]
  show "keeps (lost_once t) (data_received U t' v)" "keeps (lost_once t) (eof_received U t')"
    unfolding data_received_def eof_received_def by (intro keeps_intros user)+
  show "keeps (lost_once t) (send_completed U t' v)"
    unfolding send_completed_def by (cases v; simp only: pyval.case; intro keeps_intros lost_once_rules user) simp_all
  show "keeps (lost_once t) (tr_write U t' data)"
    unfolding tr_write_def by (intro keeps_intros lost_once_rules user) simp_all
qed

lemma transport_op_lost_once:
  assumes U: "\<And>c. keeps (lost_once t) (U c)" and "transport_op U m"
  shows "keeps (lost_once t) m"
  using assms(2)
proof (induction rule: transport_op.induct)
  case (5 t' fut)
  show ?case unfolding on_recv_complete_def
    by (intro keeps_intros lost_once_rules lost_once_callbacks [OF U]) simp_all
next
  case (6 t' fut)
  show ?case unfolding on_write_complete_def by (intro keeps_intros lost_once_callbacks [OF U])
next
  case (9 t')
  have "keeps (lost_once t) (modM (\<lambda>w. let so = wo_socks w k in
        if so_closed so then w else w\<lparr>wo_socks := (wo_socks w)(k := so\<lparr>so_shut_wr := True\<rparr>)\<rparr>))" for k
    by (rule lost_once_untouched) (simp add: Let_def)
  then show ?case unfolding write_eof_def by (intro keeps_intros)
qed (unfold tr_pause_reading_def tr_resume_reading_def writelines_def set_write_buffer_limits_def
    call_connection_lost_def abort_def, (intro keeps_intros lost_once_rules lost_once_callbacks [OF U]
    lost_once_user [OF U]; simp)+)

text \<open>
  C5. The end of a connection is reported at most once: under any sequence of operations on any
  transports, with user code that obeys the same rule, a transport that is not closed has no
  \<open>connection_lost\<close> scheduled, a closed one has at most the one its closing scheduled, and a
  closed transport is a closing one.
\<close>

theorem connection_lost_at_most_once:
  assumes "\<And>c. keeps (lost_once t) (U c)" and "\<forall>m \<in> set ms. transport_op U m"
  shows "keeps (lost_once t) (forM ms (\<lambda>m. m))"
  using assms(2)
proof (induction ms)
  case (Cons m ms)
  then have "keeps (lost_once t) m" "keeps (lost_once t) (forM ms (\<lambda>m. m))"
    using transport_op_lost_once [where U = U and t = t] assms(1) by simp_all
  then show ?case by (simp add: keeps_seqM)
qed (simp add: keeps_ret)


lemma demo_transport [simp]:
  "wo_transports demo_world t = transport_new 5 0 (Some 0)"
  "st_closing (transport_new f p k) = False" "st_closed (transport_new f p k) = False"
  "st_paused (transport_new f p k) = False" "st_recv_pending (transport_new f p k) = False"
  "st_sock (transport_new f p k) = k" "st_fd (transport_new f p k) = f"
  "st_protocol (transport_new f p k) = p" "st_write_buffer_size (transport_new f p k) = 0"
  by (simp_all add: demo_world_def transport_new_def)

theorem connection_lost_at_most_once_witness:
  "lost_once 0 (snd (forM [tr_close 0, abort 0, abort 0, error_received 0 (Inl 5)] (\<lambda>m. m) demo_world))"
proof -
  have "lost_once 0 demo_world"
    by (simp add: lost_once_def lost_handles_def)
  moreover have "keeps (lost_once 0) (forM [tr_close 0, abort 0, abort 0, error_received 0 (Inl 5)] (\<lambda>m. m))"
    by (rule connection_lost_at_most_once [of _ quiet])
      (auto simp: quiet_def keeps_ret intro: transport_op.intros)
  ultimately show ?thesis by (simp only: keeps_def)
qed

section \<open>An orderly close\<close>

lemma tr_close_eq:
  assumes "\<not> st_closing (the_tr t w)" "st_sock (the_tr t w) = Some k"
  shows "tr_close t w = (Inr (), sock_close k (w\<lparr>wo_transports :=
     (wo_transports w)(t := (the_tr t w)\<lparr>st_closing := True\<rparr>)\<rparr>))"
  using assms by (simp add: tr_close_def mod_tr_def)

lemma closing_ignores_completions:
  assumes "st_closing (the_tr t w)"
  shows "on_recv_complete U t fut w = mod_tr t (\<lambda>s. s\<lparr>st_recv_pending := False\<rparr>) w"
    "on_write_complete U t fut w = (Inr (), w)" "tr_close t w = (Inr (), w)"
    "tr_write U t data w = (Inr (), w)" "rearm_recv t w = (Inr (), w)"
  using assms by (simp_all add: on_recv_complete_def mod_tr_def on_write_complete_def tr_close_def tr_write_def
      rearm_recv_def)

text \<open>
  C38. An orderly close never reports its end: \<open>close()\<close> closes the socket and from then on every
  completion, write and rearm of the transport is ignored, but it schedules nothing, calls nothing,
  and leaves the transport in the loop's table and its descriptor in the engine's; only a
  later \<open>abort()\<close> schedules \<open>connection_lost\<close>.
\<close>

theorem orderly_close_never_reports:
  assumes "\<not> st_closing (the_tr t w)" "\<not> st_closed (the_tr t w)" "st_sock (the_tr t w) = Some k"
    and "refusal w = None"
  shows "\<exists>w'. tr_close t w = (Inr (), w') \<and> so_closed (wo_socks w' k) \<and> is_closing t w' \<and>
    lo_core w' = lo_core w \<and> lo_handles w' = lo_handles w \<and> wo_calls w' = wo_calls w \<and>
    lo_transports w' = lo_transports w \<and> on_write_complete U t fut w' = (Inr (), w') \<and>
    tr_write U t data w' = (Inr (), w') \<and> rearm_recv t w' = (Inr (), w') \<and>
    on_recv_complete U t fut w' = mod_tr t (\<lambda>s. s\<lparr>st_recv_pending := False\<rparr>) w' \<and>
    abort t w' = (Inr (), scheduled (SockConnectionLost t None) (tr_gone t w'))"
proof -
  let ?w = "sock_close k (w\<lparr>wo_transports := (wo_transports w)(t := (the_tr t w)\<lparr>st_closing := True\<rparr>)\<rparr>)"
  have "st_closing (the_tr t ?w)" "\<not> st_closed (the_tr t ?w)" "refusal ?w = None"
    using assms(2,4) by simp_all
  then show ?thesis
    using tr_close_eq [OF assms(1,3)] force_close_open [of ?w t None]
    by (intro exI [of _ ?w]) (simp add: closing_ignores_completions is_closing_def abort_def)
qed

theorem orderly_close_never_reports_witness:
  "\<exists>w'. tr_close 0 demo_world = (Inr (), w') \<and> so_closed (wo_socks w' 0) \<and> lo_core w' = demo_lcore \<and> wo_calls w' = []"
  using orderly_close_never_reports [of demo_world 0 0 quiet 0 "[]"] by auto


section \<open>Counting sent bytes\<close>

text \<open>User code that may raise exceptions and change anything but the transports, the futures, the
  loop's tables of them, the engine and the record of calls.\<close>

definition leaves_io :: "user \<Rightarrow> bool" where
  "leaves_io U \<longleftrightarrow> (\<forall>c w. wo_transports (snd (U c w)) = wo_transports w \<and> lo_futs (snd (U c w)) = lo_futs w \<and>
     lo_next_fut (snd (U c w)) = lo_next_fut w \<and>
     lo_transports (snd (U c w)) = lo_transports w \<and> lo_io_futures (snd (U c w)) = lo_io_futures w \<and>
     lo_core (snd (U c w)) = lo_core w \<and> wo_calls (snd (U c w)) = wo_calls w)"

lemma notify_caught:
  assumes "leaves_io U" "well_raised U"
  shows "\<exists>w'. tryM (notify U c) is_Exception (\<lambda>_. ret ()) w = (Inr (), w') \<and>
    wo_transports w' = wo_transports w \<and> lo_futs w' = lo_futs w \<and> lo_transports w' = lo_transports w \<and>
    lo_io_futures w' = lo_io_futures w \<and> wo_calls w' = wo_calls w @ [c]"
proof -
  let ?w = "w\<lparr>wo_calls := wo_calls w @ [c]\<rparr>"
  obtain r w' where r: "U c ?w = (r, w')" by fastforce
  have "raises_only is_Exception (U c)" using assms(2) by (simp add: well_raised_def)
  from raises_onlyD [OF this] have ex: "is_Exception e" if "r = Inl e" for e
    using r unfolding that by this
  have "tryM (notify U c) is_Exception (\<lambda>_. ret ()) w = (Inr (), w')"
  proof (cases r)
    case (Inl e)
    with r ex [OF Inl] show ?thesis by (simp add: notify_def call_user_def)
  next
    case (Inr v)
    with r show ?thesis by (simp add: notify_def call_user_def)
  qed
  moreover have "wo_transports w' = wo_transports w \<and> lo_futs w' = lo_futs w \<and> lo_transports w' = lo_transports w \<and>
    lo_io_futures w' = lo_io_futures w \<and> wo_calls w' = wo_calls w @ [c]"
  proof -
    have "snd (U c ?w) = w'" using r by simp
    then show ?thesis using assms(1) [unfolded leaves_io_def, rule_format, of c ?w] by simp
  qed
  ultimately show ?thesis by (intro exI [of _ w'] conjI) simp_all
qed

lemma send_completed_size:
  assumes "leaves_io U" "well_raised U" "0 \<le> n"
  shows "\<exists>w'. send_completed U t (VInt n) w = (Inr (), w') \<and>
    wo_transports w' = (wo_transports w)(t := (the_tr t w)\<lparr>st_write_buffer_size :=
       max 0 (st_write_buffer_size (the_tr t w) - n)\<rparr>) \<and>
    lo_futs w' = lo_futs w \<and> lo_transports w' = lo_transports w \<and> lo_io_futures w' = lo_io_futures w"
proof -
  let ?w1 = "w\<lparr>wo_transports := (wo_transports w)(t := (the_tr t w)\<lparr>st_write_buffer_size :=
       max 0 (st_write_buffer_size (the_tr t w) - n)\<rparr>)\<rparr>"
  have "send_completed U t (VInt n) w =
     whenM (st_write_buffer_size (the_tr t ?w1) \<le> st_low_water (the_tr t w))
       (tryM (notify U (ResumeWriting (st_protocol (the_tr t w)))) is_Exception (\<lambda>_. ret ())) ?w1"
    using assms(3) by (simp add: send_completed_def mod_tr_def)
  then show ?thesis
    using notify_caught [OF assms(1,2), of "ResumeWriting (st_protocol (the_tr t w))" ?w1]
    by (cases "st_write_buffer_size (the_tr t ?w1) \<le> st_low_water (the_tr t w)") auto
qed

text \<open>
  A completed send is counted twice: its future's callback subtracts the bytes sent from the
  transport's write buffer size, and the completion handler of the same tick subtracts them again,
  so with other writes outstanding the size the flow control looks at is too small by the whole
  send. It never becomes negative.
\<close>

lemma sent_bytes_counted_twice:
  assumes "leaves_io U" "well_raised U" "\<not> st_closing (the_tr t w)"
    and "fu_state (lo_futs w fut) = Finished (VInt n)" "0 \<le> n"
    and "lo_transports w f = Some t" "lo_io_futures w (f, ''send'') = None"
  shows "\<exists>w'. seqM (on_write_complete U t fut) (process_completion U (f, ''send'', n, VNone)) w = (Inr (), w') \<and>
    get_write_buffer_size t w' = max 0 (get_write_buffer_size t w - 2 * n)"
proof -
  from send_completed_size [OF assms(1,2,5), of t w] obtain w1 where w1:
    "send_completed U t (VInt n) w = (Inr (), w1)" "lo_transports w1 f = Some t" "lo_io_futures w1 (f, ''send'') = None"
    "get_write_buffer_size t w1 = max 0 (get_write_buffer_size t w - n)"
    using assms(6,7) by (auto simp: get_write_buffer_size_def)
  let ?w1 = "w1\<lparr>lo_io_futures := (lo_io_futures w1)((f, ''send'') := None)\<rparr>"
  have "on_write_complete U t fut w = (Inr (), w1)"
    using assms(3,4) w1(1) by (simp add: on_write_complete_def fut_exception_def fut_result_def)
  moreover from send_completed_size [OF assms(1,2,5), of t ?w1] obtain w2 where
    "send_completed U t (VInt n) ?w1 = (Inr (), w2)"
    "get_write_buffer_size t w2 = max 0 (get_write_buffer_size t w1 - n)"
    by (auto simp: get_write_buffer_size_def)
  ultimately show ?thesis
    using w1 assms(5) by (auto simp: process_completion_def completion_handler_def handle_send_completion_def
        pop_io_future_def settle_int_def bindM_def)
qed


lemma leaves_io_quiet: "leaves_io quiet" and well_raised_quiet: "well_raised quiet"
  by (simp_all add: leaves_io_def well_raised_def quiet_def raises_ret)

definition demo_sent :: world where
  "demo_sent = demo_world\<lparr>lo_transports := [5 \<mapsto> 0],
     lo_futs := (\<lambda>_. \<lparr>fu_state = Finished (VInt 10), fu_callbacks = []\<rparr>),
     wo_transports := (\<lambda>_. (transport_new 5 0 (Some 0))\<lparr>st_write_buffer_size := 30\<rparr>), lo_io_futures := Map.empty\<rparr>"

section \<open>The receive loop\<close>

text \<open>The state after the next receive was handed to the engine, which is left as \<open>c\<close>.\<close>

definition recv_armed :: "nat \<Rightarrow> world \<Rightarrow> (nat, callback) uring_core \<Rightarrow> world" where
  "recv_armed t w c = w\<lparr>
     lo_futs := (lo_futs w)(lo_next_fut w :=
        \<lparr>fu_state = Pending, fu_callbacks = [OnRecvComplete t (lo_next_fut w)]\<rparr>),
     lo_next_fut := Suc (lo_next_fut w),
     lo_io_futures := (lo_io_futures w)((st_fd (the_tr t w), ''recv'') \<mapsto> lo_next_fut w),
     wo_transports := (wo_transports w)(t := (the_tr t w)\<lparr>st_recv_pending := True\<rparr>),
     lo_core := c\<rparr>"

lemma rearm_recv_ok:
  assumes "\<not> st_closing (the_tr t w)" "\<not> st_paused (the_tr t w)" "\<not> st_recv_pending (the_tr t w)"
    and "submit_recv (st_fd (the_tr t w)) (lo_next_fut w) (lo_core w) = (Inr (), c)"
  shows "rearm_recv t w = (Inr (), recv_armed t w c)"
  using assms by (simp add: rearm_recv_def mod_tr_def create_future_def add_done_callback_def set_fut_def on_core_def
      recv_armed_def)

text \<open>The state in which \<open>data_received\<close> is called.\<close>

definition at_delivery :: "nat \<Rightarrow> bytes \<Rightarrow> world \<Rightarrow> world" where
  "at_delivery t data w = w\<lparr>
     wo_transports := (wo_transports w)(t := (the_tr t w)\<lparr>st_recv_pending := False\<rparr>),
     wo_calls := wo_calls w @ [DataReceived (st_protocol (the_tr t w)) (VBytes data)]\<rparr>"

lemma on_recv_data:
  assumes U: "leaves_io U" "U (DataReceived (st_protocol (the_tr t w)) (VBytes data)) (at_delivery t data w) = (Inr v, w1)"
    and t: "\<not> st_closing (the_tr t w)" "\<not> st_paused (the_tr t w)"
    and fut: "fu_state (lo_futs w fut) = Finished (VBytes data)" "data \<noteq> []"
  shows "on_recv_complete U t fut w = tryM (rearm_recv t) is_Exception (error_received_exc t) w1"
proof -
  let ?w0 = "w\<lparr>wo_transports := (wo_transports w)(t := (the_tr t w)\<lparr>st_recv_pending := False\<rparr>)\<rparr>"
  have "wo_transports w1 = wo_transports ?w0"
    using U(1) [unfolded leaves_io_def, rule_format, of "DataReceived (st_protocol (the_tr t w)) (VBytes data)" "at_delivery t data w"]
      U(2) by (simp add: at_delivery_def)
  moreover have "data_received U t (VBytes data) ?w0 = (Inr (), w1)"
    using U(2) by (simp add: data_received_def notify_def call_user_def at_delivery_def)
  ultimately show ?thesis
    using t fut by (simp add: on_recv_complete_def mod_tr_def fut_exception_def fut_result_def tryM_def)
qed

text \<open>
  C9. Received bytes reach the protocol and the loop goes on: when the receive of an open,
  unpaused transport completes with data, \<open>data_received\<close> is called exactly once, with exactly
  those bytes, and then the next receive is handed to the engine under a fresh future whose
  callback is this transport's again.
\<close>

theorem received_bytes_delivered:
  assumes U: "leaves_io U" "\<And>w. fst (U (DataReceived p (VBytes data)) w) = Inr v"
    and t: "\<not> st_closing (the_tr t w)" "\<not> st_paused (the_tr t w)" "st_protocol (the_tr t w) = p"
    and fut: "fu_state (lo_futs w fut) = Finished (VBytes data)" "data \<noteq> []"
    and sub: "submit_recv (st_fd (the_tr t w)) (lo_next_fut w) (lo_core w) = (Inr (), c)"
  shows "\<exists>w1. on_recv_complete U t fut w = (Inr (), recv_armed t w1 c) \<and>
    wo_calls w1 = wo_calls w @ [DataReceived p (VBytes data)] \<and>
    the_tr t w1 = (the_tr t w)\<lparr>st_recv_pending := False\<rparr> \<and> lo_next_fut w1 = lo_next_fut w"
proof -
  let ?c = "DataReceived p (VBytes data)"
  obtain w1 where w1: "U ?c (at_delivery t data w) = (Inr v, w1)"
    using U(2) [of "at_delivery t data w"] by (cases "U ?c (at_delivery t data w)") simp
  with U(1) [unfolded leaves_io_def, rule_format, of ?c "at_delivery t data w"] t(3)
  have fr: "the_tr t w1 = (the_tr t w)\<lparr>st_recv_pending := False\<rparr>" "lo_next_fut w1 = lo_next_fut w"
    "lo_core w1 = lo_core w" "wo_calls w1 = wo_calls w @ [?c]" by (simp_all add: at_delivery_def)
  have "rearm_recv t w1 = (Inr (), recv_armed t w1 c)"
    using t sub fr by (intro rearm_recv_ok) simp_all
  then have "on_recv_complete U t fut w = (Inr (), recv_armed t w1 c)"
    using on_recv_data [OF U(1) _ t(1,2) fut] w1 t(3) by (simp add: tryM_def)
  with fr show ?thesis by blast
qed


definition demo_tcp :: world where
  "demo_tcp = demo_world\<lparr>lo_core := register_fd 5 ''tcp'' demo_lcore,
     lo_futs := (\<lambda>_. \<lparr>fu_state = Finished (VBytes [104, 105]), fu_callbacks = []\<rparr>)\<rparr>"

lemma demo_tcp_can_recv: "can_recv 5 0 [1] (fd_state_new 1 TcpStream) (lo_core demo_tcp)"
  by (simp add: can_recv_def demo_tcp_def demo_lcore_def register_fd_def fm_register_def
      fd_manager_new_def fm_lookup_def socket_type_of_def pool_wf_def fs_should_submit_recv_def
      fd_state_new_def has_credit_def fs_used_def DEFAULT_CREDIT_BUDGET_def is_valid_generation_def)

theorem received_bytes_delivered_witness:
  "\<exists>w' c. on_recv_complete quiet 0 7 demo_tcp = (Inr (), w') \<and> st_recv_pending (the_tr 0 w') \<and>
     wo_calls w' = [DataReceived 0 (VBytes [104, 105])] \<and> uc_inflight_recv_buffers (lo_core w') 5 = Some 0"
proof -
  let ?c = "after_recv 5 (lo_next_fut demo_tcp) 0 [1] (fd_state_new 1 TcpStream) (lo_core demo_tcp)"
  have "fst (quiet (DataReceived 0 (VBytes [104, 105])) w) = Inr VNone" for w by (simp add: quiet_def)
  from received_bytes_delivered [OF leaves_io_quiet this, of demo_tcp 0 7 ?c]
  obtain w1 where "on_recv_complete quiet 0 7 demo_tcp = (Inr (), recv_armed 0 w1 ?c)"
    "wo_calls w1 = [DataReceived 0 (VBytes [104, 105])]"
    using submit_recv_ok [OF demo_tcp_can_recv, of "lo_next_fut demo_tcp"] by (auto simp: demo_tcp_def)
  then show ?thesis by (auto simp: recv_armed_def after_recv_def)
qed

text \<open>
  A receive the engine declines stalls the transport: when the descriptor has no credit left
  (or is paused in the engine), the engine submits nothing and reports no error, but the transport
  marks the receive as pending; from then on neither rearming nor \<open>resume_reading()\<close> tries again.
\<close>

lemma declined_receive_stalls:
  assumes "\<not> st_closing (the_tr t w)" "\<not> st_paused (the_tr t w)" "\<not> st_recv_pending (the_tr t w)"
    and "\<not> fm_should_submit_recv (st_fd (the_tr t w)) (uc_fd_states (lo_core w))"
  shows "\<exists>w'. rearm_recv t w = (Inr (), w') \<and> lo_core w' = lo_core w \<and> is_reading t w' \<and>
    st_recv_pending (the_tr t w') \<and> rearm_recv t w' = (Inr (), w') \<and> tr_resume_reading t w' = (Inr (), w')"
proof -
  have "submit_recv (st_fd (the_tr t w)) (lo_next_fut w) (lo_core w) = (Inr (), lo_core w)"
    using submit_recv_refused [OF assms(4)] by blast
  then have "rearm_recv t w = (Inr (), recv_armed t w (lo_core w))"
    by (rule rearm_recv_ok [OF assms(1-3)])
  then show ?thesis
    using assms(1-3)
    by (intro exI [of _ "recv_armed t w (lo_core w)"])
      (simp add: recv_armed_def rearm_recv_def tr_resume_reading_def is_reading_def)
qed

end
