(* ===== verification/Receive_Path.thy ===== *)
theory Receive_Path
  imports Transport_Props
begin

text \<open>
  The way of received bytes through all layers: a transport arms a receive, the kernel answers it
  during a poll, the engine's tick extracts the bytes and settles the future, the future's callback
  runs in the same tick and delivers them, and the loop then dispatches the completion a second
  time. The lemmas here give each step in closed form; the properties are in the root theory.
\<close>

section \<open>A protocol that takes its data\<close>

definition takes_data :: "user \<Rightarrow> bool" where
  "takes_data U \<longleftrightarrow> leaves_io U \<and> (\<forall>c w. (\<exists>v. fst (U c w) = Inr v) \<and>
     refusal (snd (U c w)) = refusal w)"

lemma takes_data_quiet: "takes_data quiet"
  using leaves_io_quiet by (simp add: takes_data_def quiet_def)

lemma takes_dataE:
  assumes "takes_data U"
  obtains v w1 where "U c w = (Inr v, w1)" "wo_transports w1 = wo_transports w" "lo_futs w1 = lo_futs w"
    "lo_next_fut w1 = lo_next_fut w" "lo_io_futures w1 = lo_io_futures w" "lo_core w1 = lo_core w"
    "wo_calls w1 = wo_calls w" "refusal w1 = refusal w"
proof (cases "U c w")
  case (Pair r w1)
  with assms have "leaves_io U" "\<exists>v. r = Inr v" "refusal w1 = refusal w"
    unfolding takes_data_def by (metis fst_conv snd_conv)+
  with Pair \<open>leaves_io U\<close> [unfolded leaves_io_def, rule_format, of c w] that show thesis by auto
qed

section \<open>Arming\<close>

text \<open>A transport that reads, on a descriptor for which the engine can take a receive.\<close>

definition can_arm :: "nat \<Rightarrow> nat \<Rightarrow> nat list \<Rightarrow> fd_state \<Rightarrow> world \<Rightarrow> bool" where
  "can_arm t idx rest s w \<longleftrightarrow>
     \<not> st_closing (the_tr t w) \<and> \<not> st_paused (the_tr t w) \<and> \<not> st_recv_pending (the_tr t w) \<and>
     can_recv (st_fd (the_tr t w)) idx rest s (lo_core w)"

lemma rearm_recv_armed:
  assumes "can_arm t idx rest s w"
  shows "rearm_recv t w = (Inr (), recv_armed t w (after_recv (st_fd (the_tr t w)) (lo_next_fut w) idx rest s (lo_core w)))"
  using assms submit_recv_ok [of "st_fd (the_tr t w)" idx rest s "lo_core w" "lo_next_fut w"]
  by (intro rearm_recv_ok) (simp_all add: can_arm_def)

text \<open>After the tick the engine can take the next receive, if there is credit for it.\<close>

lemma can_recv_next:
  assumes "can_recv f idx rest s c" "fs_should_submit_recv (on_submit s)"
    and "bp_free_list (uc_buffer_pool c') = rest @ [idx]" "pool_wf (uc_buffer_pool c')"
    "uc_fd_states c' = (uc_fd_states c)\<lparr>fm_states := AList.update f (on_submit s) (fm_states (uc_fd_states c))\<rparr>"
    "rg_sq (uc_ring c') = []" "rg_enter_err (uc_ring c') = None"
    "rg_sq_capacity (uc_ring c') = rg_sq_capacity (uc_ring c)"
  shows "can_recv f (hd (rest @ [idx])) (tl (rest @ [idx])) (on_submit s) c'"
  using assms by (auto simp: can_recv_def fm_lookup_def update_conv' is_valid_generation_def on_submit_def)

section \<open>The tick\<close>

lemma set_result_single:
  assumes "refusal w = None" "fu_state (lo_futs w f) = Pending" "fu_callbacks (lo_futs w f) = [cb]"
  shows "set_result f v w = (Inr (), scheduled cb (set_fut f \<lparr>fu_state = Finished v, fu_callbacks = []\<rparr> w))"
  using assms by (simp add: set_result_def fut_done_def settle_def set_fut_def bindM_def)

text \<open>
  From an armed receive whose bytes the kernel has delivered, one tick calls \<open>data_received\<close>, arms
  the next receive and reports the completion.
\<close>

lemma tick_delivers:
  assumes U: "takes_data U" and arm: "can_arm t idx rest s w" and f: "f = st_fd (the_tr t w)" "- (2 ^ 31) \<le> f" "f < 2 ^ 31"
    and w: "refusal w = None" "idle_core (lo_core w)" "uc_inflight_recv_buffers (lo_core w) f = None"
    and data: "data \<noteq> []" "length data \<le> bp_buffer_size (uc_buffer_pool (lo_core w))"
    and credit: "fs_should_submit_recv (on_submit s)"
    and wa: "rearm_recv t w = (Inr (), wa)"
  shows "\<exists>w4. run_tick U fuel (wa\<lparr>lo_core := recv_answered idx data flags (lo_core wa)\<rparr>) =
      (Inr [(f, ''recv'', int (length data), VBytes data)],
       recv_armed t w4 (after_recv f (lo_next_fut w4) (hd (rest @ [idx])) (tl (rest @ [idx])) (on_submit s) (lo_core w4))) \<and>
    wo_calls w4 = wo_calls w @ [DataReceived (st_protocol (the_tr t w)) (VBytes data)] \<and>
    the_tr t w4 = the_tr t w \<and> refusal w4 = None \<and> idle_core (lo_core w4) \<and>
    uc_inflight_recv_buffers (lo_core w4) f = None"
proof -
  let ?fut = "lo_next_fut w" and ?d = "DataReceived (st_protocol (the_tr t w)) (VBytes data)"
  have can: "can_recv f idx rest s (lo_core w)" and open_t: "\<not> st_closing (the_tr t w)" "\<not> st_paused (the_tr t w)"
    "\<not> st_recv_pending (the_tr t w)" using arm f(1) by (simp_all add: can_arm_def)
  have wa': "wa = recv_armed t w (snd (submit_recv f ?fut (lo_core w)))"
    using rearm_recv_armed [OF arm] wa submit_recv_ok [OF can] f(1) by simp
  from recv_tick [OF can _ w(3) f(2,3) data, of "lo_time w" flags ?fut] w(2)
  obtain c' where c': "tick_core (lo_time w) (recv_answered idx data flags (lo_core wa)) =
      (Inr ([\<lparr>it_fd = f, it_result = int (length data), it_op = Recv, it_data = Some (VBytes data)\<rparr>], [f \<mapsto> ?fut]), c')"
    and pool: "bp_free_list (uc_buffer_pool c') = rest @ [idx]" "pool_wf (uc_buffer_pool c')"
    "uc_fd_states c' = (uc_fd_states (lo_core w))\<lparr>fm_states := AList.update f (on_submit s) (fm_states (uc_fd_states (lo_core w)))\<rparr>"
    and ring: "rg_sq (uc_ring c') = []" "rg_enter_err (uc_ring c') = None"
    "rg_sq_capacity (uc_ring c') = rg_sq_capacity (uc_ring (lo_core w))"
    and rest: "idle_core c'" "uc_inflight_recv_buffers c' f = None"
    using w(3) by (auto simp: wa' recv_armed_def idle_core_def)
  let ?w2 = "set_fut ?fut \<lparr>fu_state = Finished (VBytes data), fu_callbacks = []\<rparr> (wa\<lparr>lo_core := c'\<rparr>)"
  let ?w3 = "(scheduled (OnRecvComplete t ?fut) ?w2)\<lparr>lo_core := c'\<rparr>"
  have tr3: "the_tr t ?w3 = (the_tr t w)\<lparr>st_recv_pending := True\<rparr>"
    by (simp add: wa' recv_armed_def scheduled_def set_fut_def)
  have w3: "fu_state (lo_futs ?w3 ?fut) = Finished (VBytes data)" "refusal ?w3 = None" "wo_calls ?w3 = wo_calls w"
    using w(1) by (simp_all add: wa' recv_armed_def scheduled_def set_fut_def)
  have w3d: "lo_core (at_delivery t data ?w3) = c'" "wo_calls (at_delivery t data ?w3) = wo_calls w @ [?d]"
    "refusal (at_delivery t data ?w3) = None"
    using w3 tr3 by (simp_all add: at_delivery_def)
  obtain v w4 where U4: "U ?d (at_delivery t data ?w3) = (Inr v, w4)" "wo_transports w4 = wo_transports (at_delivery t data ?w3)"
    "lo_core w4 = lo_core (at_delivery t data ?w3)" "wo_calls w4 = wo_calls (at_delivery t data ?w3)"
    "refusal w4 = refusal (at_delivery t data ?w3)"
    by (rule takes_dataE [OF U, of ?d "at_delivery t data ?w3"])
  note w4 = U4(1,2) U4(3) [unfolded w3d] U4(4) [unfolded w3d] U4(5) [unfolded w3d]
  have tr4: "the_tr t w4 = the_tr t w" using w4(2) tr3 open_t(3) by (simp add: at_delivery_def)
  have "can_arm t (hd (rest @ [idx])) (tl (rest @ [idx])) (on_submit s) w4"
    using can_recv_next [OF can credit pool(1,2,3) ring] open_t f(1) w4(3) by (simp add: can_arm_def tr4)
  note arm4 = rearm_recv_armed [OF this]
  have "on_recv_complete U t ?fut ?w3 = tryM (rearm_recv t) is_Exception (error_received_exc t) w4"
    using U tr3 open_t w3(1) data(1) w4(1) by (intro on_recv_data) (simp_all add: takes_data_def)
  then have run: "run_handle U fuel (lo_next_handle ?w2) ?w3 = (Inr (), recv_armed t w4
      (after_recv f (lo_next_fut w4) (hd (rest @ [idx])) (tl (rest @ [idx])) (on_submit s) (lo_core w4)))"
    using arm4 f(1) by (simp add: run_handle_scheduled run_callback_def tryM_def tr4)
  have "set_result ?fut (VBytes data) (wa\<lparr>lo_core := c'\<rparr>) = (Inr (), scheduled (OnRecvComplete t ?fut) ?w2)"
    using w(1) by (intro set_result_single) (simp_all add: wa' recv_armed_def)
  moreover have "run_ready U fuel (scheduled (OnRecvComplete t ?fut) ?w2) = run_handle U fuel (lo_next_handle ?w2) ?w3"
    using rest(1) by (subst run_ready_single) (simp_all add: idle_core_def set_fut_def)
  moreover have "lo_time wa = lo_time w" by (simp add: wa' recv_armed_def)
  ultimately have "run_tick U fuel (wa\<lparr>lo_core := recv_answered idx data flags (lo_core wa)\<rparr>) =
      (Inr [(f, ''recv'', int (length data), VBytes data)], recv_armed t w4
      (after_recv f (lo_next_fut w4) (hd (rest @ [idx])) (tl (rest @ [idx])) (on_submit s) (lo_core w4)))"
    using c' run by (simp add: run_tick_def on_core_def resolve_future_def completion_of_def tryM_def)
  with tr4 w4 rest show ?thesis by blast
qed

section \<open>Two iterations of the loop\<close>

text \<open>The kernel answers the receive, and nothing else happens, while the loop polls.\<close>

definition kernel_answers :: "nat \<Rightarrow> bytes \<Rightarrow> 32 word \<Rightarrow> real \<Rightarrow> poll_answer" where
  "kernel_answers idx data flags _ =
    \<lparr>pa_world = (\<lambda>w. w\<lparr>lo_core := recv_answered idx data flags (lo_core w)\<rparr>), pa_events = []\<rparr>"

text \<open>
  Dispatching the completion of a receive whose transport has already armed the next one: the
  future found under the descriptor is that of the next receive, and it is settled with the
  bytes of this one.
\<close>

lemma dispatch_settles_next:
  assumes "refusal w = None" "data \<noteq> []" "f = st_fd (the_tr t w)" "fut = lo_next_fut w"
  shows "process_completions U [(f, ''recv'', int (length data), VBytes data)] (recv_armed t w c) =
    (Inr (), scheduled (OnRecvComplete t fut) (set_fut fut \<lparr>fu_state = Finished (VBytes data), fu_callbacks = []\<rparr>
       ((recv_armed t w c)\<lparr>lo_io_futures := (lo_io_futures w)((f, ''recv'') := None)\<rparr>)))"
proof -
  let ?w = "(recv_armed t w c)\<lparr>lo_io_futures := (lo_io_futures w)((f, ''recv'') := None)\<rparr>"
  have "set_result fut (VBytes data) ?w = (Inr (), scheduled (OnRecvComplete t fut)
      (set_fut fut \<lparr>fu_state = Finished (VBytes data), fu_callbacks = []\<rparr> ?w))"
    using assms by (intro set_result_single) (simp_all add: recv_armed_def)
  moreover have "pop_io_future f ''recv'' (recv_armed t w c) = (Inr (Some fut), ?w)"
    using assms by (simp add: pop_io_future_def recv_armed_def)
  moreover have "\<not> fut_done fut ?w" using assms by (simp add: fut_done_def recv_armed_def)
  ultimately show ?thesis
    using assms(2) by (simp add: process_completions_def process_completion_def completion_handler_def
        handle_recv_completion_def unless_done_def bindM_def)
qed

lemma first_iteration:
  assumes U: "takes_data U" and arm: "can_arm t idx rest s w" and f: "f = st_fd (the_tr t w)" "- (2 ^ 31) \<le> f" "f < 2 ^ 31"
    and w: "refusal w = None" "idle_core (lo_core w)" "uc_inflight_recv_buffers (lo_core w) f = None" "\<not> lo_epoll_closed w"
    and data: "data \<noteq> []" "length data \<le> bp_buffer_size (uc_buffer_pool (lo_core w))"
    and credit: "fs_should_submit_recv (on_submit s)"
    and wa: "rearm_recv t w = (Inr (), wa)"
  shows "\<exists>w5 fut. run_once U fuel (kernel_answers idx data flags) wa = (Inr (), scheduled (OnRecvComplete t fut) w5) \<and>
    fu_state (lo_futs w5 fut) = Finished (VBytes data) \<and> idle_core (lo_core w5) \<and> refusal w5 = None \<and>
    the_tr t w5 = (the_tr t w)\<lparr>st_recv_pending := True\<rparr> \<and>
    wo_calls w5 = wo_calls w @ [DataReceived (st_protocol (the_tr t w)) (VBytes data)]"
proof -
  from tick_delivers [OF U arm f w(1-3) data credit wa, of fuel flags] obtain w4 c where
    tick: "run_tick U fuel (wa\<lparr>lo_core := recv_answered idx data flags (lo_core wa)\<rparr>) =
      (Inr [(f, ''recv'', int (length data), VBytes data)], recv_armed t w4 c)"
    and c: "c = after_recv f (lo_next_fut w4) (hd (rest @ [idx])) (tl (rest @ [idx])) (on_submit s) (lo_core w4)"
    and w4: "wo_calls w4 = wo_calls w @ [DataReceived (st_protocol (the_tr t w)) (VBytes data)]"
      "the_tr t w4 = the_tr t w" "refusal w4 = None" "idle_core (lo_core w4)" "uc_inflight_recv_buffers (lo_core w4) f = None"
    by blast
  let ?w5 = "set_fut (lo_next_fut w4) \<lparr>fu_state = Finished (VBytes data), fu_callbacks = []\<rparr>
       ((recv_armed t w4 c)\<lparr>lo_io_futures := (lo_io_futures w4)((f, ''recv'') := None)\<rparr>)"
  have "wa = recv_armed t w (after_recv f (lo_next_fut w) idx rest s (lo_core w))"
    using rearm_recv_armed [OF arm] wa f(1) by simp
  then have "ready_len (lo_core wa) = 0" "\<not> lo_epoll_closed wa"
    using w(2,3,4) by (simp_all add: recv_armed_def after_recv_def track_recv_def idle_core_def ready_len_def sched_len_def)
  then have "run_once U fuel (kernel_answers idx data flags) wa =
      process_completions U [(f, ''recv'', int (length data), VBytes data)] (recv_armed t w4 c)"
    using tick by (simp add: run_once_def epoll_poll_def kernel_answers_def)
  also have "\<dots> = (Inr (), scheduled (OnRecvComplete t (lo_next_fut w4)) ?w5)"
    using w4 data(1) f(1) by (intro dispatch_settles_next) simp_all
  finally have run: "run_once U fuel (kernel_answers idx data flags) wa =
      (Inr (), scheduled (OnRecvComplete t (lo_next_fut w4)) ?w5)" .
  have "idle_core (lo_core ?w5)"
    using w4(4,5) by (simp add: set_fut_def recv_armed_def c after_recv_def track_recv_def idle_core_def)
  then show ?thesis
    using w4 by (intro exI [of _ ?w5] exI [of _ "lo_next_fut w4"] conjI run) (simp_all add: set_fut_def recv_armed_def)
qed

section \<open>Arming calls nobody\<close>

lemma keeps_calls_basic:
  "keeps (\<lambda>w. wo_calls w = X) (call_soon cb)" "keeps (\<lambda>w. wo_calls w = X) (on_core m)"
  "keeps (\<lambda>w. wo_calls w = X) (mod_tr t g)" "keeps (\<lambda>w. wo_calls w = X) create_future"
  "keeps (\<lambda>w. wo_calls w = X) (modM (sock_close k))" "keeps (\<lambda>w. wo_calls w = X) (print_error e)"
  "keeps (\<lambda>w. wo_calls w = X) (modM (\<lambda>w. w\<lparr>lo_io_futures := h w\<rparr>))"
  by (simp_all add: keeps_def call_soon_eq scheduled_def on_core_def mod_tr_def create_future_def sock_close_def
      print_error_def Let_def os_close_def split: option.split prod.split)

lemma keeps_calls_rearm:
  "keeps (\<lambda>w. wo_calls w = X) (rearm_recv t)" "keeps (\<lambda>w. wo_calls w = X) (error_received_exc t e)"
proof -
  have force: "keeps (\<lambda>w. wo_calls w = X) (force_close t e)" for e
    unfolding force_close_def by (intro keeps_intros keeps_calls_basic)
  moreover have "keeps (\<lambda>w. wo_calls w = X) (add_done_callback f cb)" for f cb
    unfolding add_done_callback_def by (intro keeps_intros keeps_calls_basic) (simp add: keeps_def set_fut_def)
  ultimately show "keeps (\<lambda>w. wo_calls w = X) (rearm_recv t)"
    unfolding rearm_recv_def error_received_def by (intro keeps_intros keeps_calls_basic)
  show "keeps (\<lambda>w. wo_calls w = X) (error_received_exc t e)"
    unfolding error_received_exc_def by (rule force)
qed

text \<open>
  An iteration that finds the callback of a receive settled with bytes, and nothing else, calls
  \<open>data_received\<close> with them, whatever becomes of the next receive.
\<close>

lemma second_iteration:
  assumes U: "takes_data U" and t: "\<not> st_closing (the_tr t w)" "\<not> st_paused (the_tr t w)"
    and w: "fu_state (lo_futs w fut) = Finished (VBytes data)" "data \<noteq> []" "idle_core (lo_core w)" "refusal w = None"
  shows "\<exists>w'. run_once U fuel p (scheduled (OnRecvComplete t fut) w) = (Inr (), w') \<and>
    wo_calls w' = wo_calls w @ [DataReceived (st_protocol (the_tr t w)) (VBytes data)]"
proof -
  let ?w = "(scheduled (OnRecvComplete t fut) w)\<lparr>lo_core := lo_core w\<rparr>"
  let ?d = "DataReceived (st_protocol (the_tr t w)) (VBytes data)"
  let ?rearm = "tryM (rearm_recv t) is_Exception (error_received_exc t)"
  have fr: "the_tr t ?w = the_tr t w" "wo_calls ?w = wo_calls w" by (simp_all add: scheduled_def)
  obtain v w1 where w1: "U ?d (at_delivery t data ?w) = (Inr v, w1)" "wo_calls w1 = wo_calls (at_delivery t data ?w)"
    by (rule takes_dataE [OF U, of ?d "at_delivery t data ?w"])
  have "on_recv_complete U t fut ?w = ?rearm w1"
    using U t w w1(1) by (intro on_recv_data) (simp_all add: takes_data_def fr)
  then have run: "run_handle U fuel (lo_next_handle w) ?w = tryM ?rearm (\<lambda>_. True) print_error w1"
    by (simp add: run_handle_scheduled run_callback_def tryM_def)
  have "keeps (\<lambda>w. wo_calls w = X) (tryM ?rearm (\<lambda>_. True) print_error)" for X
    by (intro keeps_intros keeps_calls_rearm keeps_calls_basic)
  then have "wo_calls (snd (tryM ?rearm (\<lambda>_. True) print_error w1)) = wo_calls w @ [?d]"
    using w1(2) by (simp add: keeps_def at_delivery_def fr)
  with run run_once_single [OF w(3,4), of U fuel p "OnRecvComplete t fut"] show ?thesis by simp
qed

end
