(* ===== verification/Send_Path.thy ===== *)
theory Send_Path
  imports Receive_Path
begin

text \<open>
  The way of written bytes through all layers: \<open>write\<close> copies them into buffers of the pool and hands
  the kernel one send for each, the tick settles the future of a completed send, whose callback adjusts
  the flow control, and the loop dispatches the completion once more. What happens to a send that the
  kernel completes only in part is at the end.
\<close>

section \<open>What the kernel has been given to send\<close>

definition send_data :: "('h, 'c) uring_core \<Rightarrow> sqe \<Rightarrow> bytes" where
  "send_data c e = get_buffer_slice (uc_buffer_pool c) (the (sq_buf e)) (sq_len e)"

definition in_flight :: "fd \<Rightarrow> ('h, 'c) uring_core \<Rightarrow> bytes" where
  "in_flight f c = concat (map (send_data c) (filter (\<lambda>e. sq_op e = Send \<and> sq_fd e = f) (rg_kernel (uc_ring c))))"

text \<open>No send in flight reads a buffer that is free.\<close>

definition sends_kept :: "('h, 'c) uring_core \<Rightarrow> bool" where
  "sends_kept c \<longleftrightarrow> (\<forall>e \<in> set (rg_kernel (uc_ring c)). sq_op e = Send \<longrightarrow>
     the (sq_buf e) \<notin> set (bp_free_list (uc_buffer_pool c)))"

text \<open>There is a buffer for each of the writes, which all fit, and the kernel takes submissions.\<close>

definition can_write :: "bytes list \<Rightarrow> ('h, 'c) uring_core \<Rightarrow> bool" where
  "can_write ds c \<longleftrightarrow> pool_wf (uc_buffer_pool c) \<and> distinct (bp_free_list (uc_buffer_pool c)) \<and>
     length (filter (\<lambda>d. d \<noteq> []) ds) \<le> length (bp_free_list (uc_buffer_pool c)) \<and>
     (\<forall>d \<in> set ds. length d \<le> bp_buffer_size (uc_buffer_pool c)) \<and>
     rg_sq (uc_ring c) = [] \<and> 0 < rg_sq_capacity (uc_ring c) \<and> rg_enter_err (uc_ring c) = None \<and> sends_kept c"

lemma can_write_send:
  assumes "can_write (d # ds) c" "d \<noteq> []"
  obtains idx rest where "can_send idx rest d c" "bp_free_list (uc_buffer_pool c) = idx # rest"
  using assms by (cases "bp_free_list (uc_buffer_pool c)") (auto simp: can_write_def can_send_def)

lemma in_flight_kept:
  assumes "sends_kept c" "idx \<in> set (bp_free_list (uc_buffer_pool c))"
    and "bp_mem (uc_buffer_pool c') = (bp_mem (uc_buffer_pool c))(idx := x)"
    and "bp_buffer_size (uc_buffer_pool c') = bp_buffer_size (uc_buffer_pool c)"
  shows "concat (map (send_data c') (filter (\<lambda>e. sq_op e = Send \<and> sq_fd e = g) (rg_kernel (uc_ring c)))) = in_flight g c"
proof -
  have "send_data c' e = send_data c e" if "e \<in> set (rg_kernel (uc_ring c))" "sq_op e = Send" for e
  proof -
    have "the (sq_buf e) \<noteq> idx" using that assms(1,2) by (auto simp: sends_kept_def)
    then show ?thesis by (simp add: send_data_def get_buffer_slice_def assms(3,4))
  qed
  then show ?thesis unfolding in_flight_def by (intro arg_cong [where f = concat] map_cong) auto
qed

lemma after_send_in_flight:
  assumes can: "can_write (d # ds) c" "d \<noteq> []" and free: "bp_free_list (uc_buffer_pool c) = idx # rest"
    and c': "c' = after_send f d fut idx rest c"
  shows "in_flight g c' = in_flight g c @ (if g = f then d else [])" "can_write ds c'"
    "bp_free_list (uc_buffer_pool c') = rest"
proof -
  have "concat (map (send_data c') (filter (\<lambda>e. sq_op e = Send \<and> sq_fd e = g) (rg_kernel (uc_ring c)))) = in_flight g c"
    using can(1) free by (intro in_flight_kept) (auto simp: can_write_def c' after_send_def)
  moreover have "rg_kernel (uc_ring c') = rg_kernel (uc_ring c) @ [mk_sqe Send f (Some idx) (length d) (ring_gen c) (uc_ring c)]"
    using can(1) by (simp add: c' after_send_def can_write_def)
  moreover have "send_data c' (mk_sqe Send f (Some idx) (length d) (ring_gen c) (uc_ring c)) = d"
    using can(1) by (simp add: can_write_def c' send_data_def after_send_def get_buffer_slice_def mk_sqe_def)
  ultimately show "in_flight g c' = in_flight g c @ (if g = f then d else [])"
    by (simp add: in_flight_def [of g c'] mk_sqe_def)
  show "can_write ds c'" "bp_free_list (uc_buffer_pool c') = rest"
    using can free by (auto simp: can_write_def sends_kept_def c' after_send_def mk_sqe_def pool_wf_def)
qed

section \<open>One write\<close>

definition send_view :: "world \<Rightarrow> (nat \<Rightarrow> sock_transport) \<times> (nat, callback) uring_core" where
  "send_view w = (wo_transports w, lo_core w)"

lemma send_view_calls: "send_view (w\<lparr>wo_calls := x\<rparr>) = send_view w"
  by (simp add: send_view_def)

definition write_submitted :: "nat \<Rightarrow> bytes \<Rightarrow> world \<Rightarrow> (nat, callback) uring_core \<Rightarrow> world" where
  "write_submitted t d w c = w\<lparr>
     lo_next_fut := Suc (lo_next_fut w),
     lo_futs := (lo_futs w)(lo_next_fut w :=
        \<lparr>fu_state = Pending, fu_callbacks = [OnWriteComplete t (lo_next_fut w)]\<rparr>),
     lo_core := c,
     wo_transports := (wo_transports w)(t := (the_tr t w)
        \<lparr>st_write_buffer_size := st_write_buffer_size (the_tr t w) + int (length d)\<rparr>)\<rparr>"

lemma tr_write_ok:
  assumes "\<not> st_closing (the_tr t w)" "d \<noteq> []"
    and "submit_send (st_fd (the_tr t w)) d (lo_next_fut w) (lo_core w) = (Inr (), c)"
  shows "tr_write U t d w = tryM
    (whenM (st_high_water (the_tr t w) \<le> st_write_buffer_size (the_tr t w) + int (length d))
      (notify U (PauseWriting (st_protocol (the_tr t w))))) is_Exception (error_received_exc t) (write_submitted t d w c)"
  using assms by (simp add: tr_write_def mod_tr_def create_future_def add_done_callback_def set_fut_def on_core_def
      write_submitted_def tryM_def)

definition paused_at :: "int \<Rightarrow> nat \<Rightarrow> sock_transport \<Rightarrow> user_call list" where
  "paused_at high n s = (if high \<le> st_write_buffer_size s + int n then [PauseWriting (st_protocol s)] else [])"

lemma write_one:
  assumes U: "polite send_view U" and t: "\<not> st_closing (the_tr t w)" "s = the_tr t w"
    and can: "can_write (d # ds) (lo_core w)" "d \<noteq> []"
  shows "\<exists>w1 idx rest. tr_write U t d w = (Inr (), w1) \<and> bp_free_list (uc_buffer_pool (lo_core w)) = idx # rest \<and>
    lo_core w1 = after_send (st_fd s) d (lo_next_fut w) idx rest (lo_core w) \<and>
    the_tr t w1 = s\<lparr>st_write_buffer_size := st_write_buffer_size s + int (length d)\<rparr> \<and>
    wo_calls w1 = wo_calls w @ paused_at (st_high_water s) (length d) s"
proof -
  obtain idx rest where c: "can_send idx rest d (lo_core w)" "bp_free_list (uc_buffer_pool (lo_core w)) = idx # rest"
    by (rule can_write_send [OF can])
  let ?w = "write_submitted t d w (after_send (st_fd s) d (lo_next_fut w) idx rest (lo_core w))"
  have eq: "tr_write U t d w = tryM
    (whenM (st_high_water s \<le> st_write_buffer_size s + int (length d)) (notify U (PauseWriting (st_protocol s))))
      is_Exception (error_received_exc t) ?w"
    unfolding t(2) by (rule tr_write_ok [OF t(1) can(2) submit_send_ok [OF c(1)]])
  obtain w1 where w1: "notify U (PauseWriting (st_protocol s)) ?w = (Inr (), w1)" "send_view w1 = send_view ?w"
    "wo_calls w1 = wo_calls ?w @ [PauseWriting (st_protocol s)]"
    using polite_notify [OF U send_view_calls] by blast
  let ?r = "if st_high_water s \<le> st_write_buffer_size s + int (length d) then w1 else ?w"
  have "tr_write U t d w = (Inr (), ?r)" using eq w1(1) by (simp add: tryM_def)
  moreover have "lo_core ?r = lo_core ?w" "the_tr t ?r = the_tr t ?w"
    "wo_calls ?r = wo_calls w @ paused_at (st_high_water s) (length d) s"
    using w1(2,3) by (simp_all add: send_view_def paused_at_def write_submitted_def)
  ultimately show ?thesis using c(2) t(2) by (simp add: write_submitted_def)
qed

section \<open>Any number of writes\<close>

text \<open>The calls of \<open>pause_writing\<close> that the writes \<open>ds\<close> make, one for each that leaves too much waiting.\<close>

fun pauses :: "int \<Rightarrow> nat \<Rightarrow> int \<Rightarrow> bytes list \<Rightarrow> user_call list" where
  "pauses high p n [] = []"
| "pauses high p n (d # ds) =
    (if d \<noteq> [] \<and> high \<le> n + int (length d) then [PauseWriting p] else []) @ pauses high p (n + int (length d)) ds"

text \<open>
  C10. Written bytes reach the kernel: any sequence of writes on an open transport, for which the pool
  has buffers and the ring takes submissions, puts exactly the written bytes, in order, behind what
  the kernel was already sending on the descriptor, changes nothing on any other descriptor, counts
  every byte in the write buffer size, and calls \<open>pause_writing\<close> once for every write that leaves the
  size at the high-water mark or above.
\<close>

theorem writes_reach_kernel:
  assumes U: "polite send_view U" and t: "\<not> st_closing (the_tr t w)" "s = the_tr t w"
    and can: "can_write ds (lo_core w)"
  shows "\<exists>w'. writelines U t ds w = (Inr (), w') \<and>
    (\<forall>g. in_flight g (lo_core w') = in_flight g (lo_core w) @ (if g = st_fd s then concat ds else [])) \<and>
    bp_free_list (uc_buffer_pool (lo_core w')) =
      drop (length (filter (\<lambda>d. d \<noteq> []) ds)) (bp_free_list (uc_buffer_pool (lo_core w))) \<and>
    the_tr t w' = s\<lparr>st_write_buffer_size := st_write_buffer_size s + int (length (concat ds))\<rparr> \<and>
    wo_calls w' = wo_calls w @ pauses (st_high_water s) (st_protocol s) (st_write_buffer_size s) ds"
  using t can unfolding writelines_def
proof (induction ds arbitrary: w s)
  case (Cons d ds)
  show ?case
  proof (cases "d = []")
    case True
    have "tr_write U t d w = (Inr (), w)" using True by (simp add: tr_write_def)
    with Cons.IH [of w s] Cons.prems True show ?thesis by (auto simp: can_write_def)
  next
    case False
    from write_one [OF U Cons.prems False] obtain w1 idx rest where w1: "tr_write U t d w = (Inr (), w1)"
      and free: "bp_free_list (uc_buffer_pool (lo_core w)) = idx # rest"
      and core: "lo_core w1 = after_send (st_fd s) d (lo_next_fut w) idx rest (lo_core w)"
      and tr: "the_tr t w1 = s\<lparr>st_write_buffer_size := st_write_buffer_size s + int (length d)\<rparr>"
      and calls: "wo_calls w1 = wo_calls w @ paused_at (st_high_water s) (length d) s" by blast
    note fl = after_send_in_flight [OF Cons.prems(3) False free core]
    have "\<not> st_closing (the_tr t w1)" using tr Cons.prems(1,2) by simp
    from Cons.IH [OF this refl fl(2)] obtain w2 where "forM ds (tr_write U t) w1 = (Inr (), w2)"
      "\<forall>g. in_flight g (lo_core w2) = in_flight g (lo_core w1) @ (if g = st_fd s then concat ds else [])"
      "bp_free_list (uc_buffer_pool (lo_core w2)) = drop (length (filter (\<lambda>d. d \<noteq> []) ds)) rest"
      "the_tr t w2 = s\<lparr>st_write_buffer_size := st_write_buffer_size s + int (length d) + int (length (concat ds))\<rparr>"
      "wo_calls w2 = wo_calls w1 @ pauses (st_high_water s) (st_protocol s) (st_write_buffer_size s + int (length d)) ds"
      unfolding tr fl(3) by auto
    with w1 free calls fl(1) False show ?thesis
      by (intro exI [of _ w2]) (simp add: paused_at_def)
  qed
qed simp

theorem writes_reach_kernel_witness:
  "\<exists>w'. writelines quiet 0 [[1], [], [2, 3]] demo_world = (Inr (), w') \<and> in_flight 5 (lo_core w') = [1, 2, 3] \<and>
     get_write_buffer_size 0 w' = 3 \<and> wo_calls w' = []"
proof -
  have "can_write [[1], [], [2, 3]] (lo_core demo_world)" "in_flight 5 (lo_core demo_world) = []"
    by (simp_all add: can_write_def sends_kept_def in_flight_def demo_lcore_def pool_wf_def)
  moreover have "\<not> st_closing (the_tr 0 demo_world)" "st_fd (the_tr 0 demo_world) = 5"
    "st_high_water (the_tr 0 demo_world) = 65536" "st_write_buffer_size (the_tr 0 demo_world) = 0" "wo_calls demo_world = []"
    by (simp_all add: demo_transport(1) transport_new_def)
  ultimately show ?thesis
    using writes_reach_kernel [OF polite_quiet, of demo_world 0 "the_tr 0 demo_world" "[[1], [], [2, 3]]"]
    by (auto simp: get_write_buffer_size_def)
qed

section \<open>A completed send\<close>

text \<open>The kernel has sent \<open>n\<close> bytes of the last submission.\<close>

definition send_answered :: "nat \<Rightarrow> 32 word \<Rightarrow> ('h, 'c) uring_core \<Rightarrow> ('h, 'c) uring_core" where
  "send_answered n flags c = c\<lparr>uc_ring := kernel_complete (length (rg_kernel (uc_ring c)) - 1) (int n) flags (uc_ring c)\<rparr>"

definition after_sent :: "fd \<Rightarrow> bytes \<Rightarrow> nat \<Rightarrow> nat list \<Rightarrow> ('h, 'c) uring_core \<Rightarrow> ('h, 'c) uring_core" where
  "after_sent f d idx rest c = c\<lparr>
     uc_buffer_pool := (uc_buffer_pool c)\<lparr>bp_free_list := rest, bp_mem := (bp_mem (uc_buffer_pool c))
        (idx := d @ drop (length d) (bp_mem (uc_buffer_pool c) idx))\<rparr>,
     uc_futures := (uc_futures c)(f := None)\<rparr>"

lemma send_tick:
  assumes can: "can_send idx rest d c" and idle: "idle_core c" and f: "- (2 ^ 31) \<le> f" "f < 2 ^ 31"
  shows "tick_core now (send_answered n flags (after_send f d fut idx rest c)) =
    (Inr ([\<lparr>it_fd = f, it_result = int n, it_op = Send, it_data = None\<rparr>], [f \<mapsto> fut]), after_sent f d idx rest c)"
  using can idle
  by (simp add: tick_core_def tick_drain_def flush_def on_ring_def ring_submit_def drain_cq_def phase1_def Let_def
      entry_of_def ce_fd_tag [OF f] ce_op_type_def decode_op from_u8_def tick_timers_def pop_expired.simps
      send_answered_def after_send_def after_sent_def kernel_complete_def mk_sqe_def idle_core_def can_send_def
      future_remove_def nth_append)

text \<open>What \<open>send_completed\<close> does to a transport, and the call it may make.\<close>

definition completed :: "nat \<Rightarrow> sock_transport \<Rightarrow> sock_transport" where
  "completed n s = s\<lparr>st_write_buffer_size := max 0 (st_write_buffer_size s - int n)\<rparr>"

definition flow_calls :: "nat \<Rightarrow> user_call list \<Rightarrow> bool" where
  "flow_calls p cs \<longleftrightarrow> set cs \<subseteq> {PauseWriting p, ResumeWriting p}"

lemma send_completed_ok:
  assumes U: "takes_data U" and s: "s = the_tr t w"
  shows "\<exists>w' cs. send_completed U t (VInt (int n)) w = (Inr (), w') \<and> the_tr t w' = completed n s \<and>
    lo_core w' = lo_core w \<and> lo_transports w' = lo_transports w \<and> lo_io_futures w' = lo_io_futures w \<and>
    wo_calls w' = wo_calls w @ cs \<and> flow_calls (st_protocol s) cs"
proof -
  let ?w = "w\<lparr>wo_transports := (wo_transports w)(t := completed n s)\<rparr>"
  let ?c = "ResumeWriting (st_protocol s)"
  obtain v w1 where w1: "U ?c (?w\<lparr>wo_calls := wo_calls w @ [?c]\<rparr>) = (Inr v, w1)" "wo_transports w1 = wo_transports ?w"
    "lo_core w1 = lo_core w" "lo_io_futures w1 = lo_io_futures w" "wo_calls w1 = wo_calls w @ [?c]"
    by (rule takes_dataE [OF U, of ?c "?w\<lparr>wo_calls := wo_calls w @ [?c]\<rparr>"]) simp
  have tr: "lo_transports w1 = lo_transports w"
    using U [unfolded takes_data_def leaves_io_def, THEN conjunct1, rule_format, of ?c "?w\<lparr>wo_calls := wo_calls w @ [?c]\<rparr>"]
      w1(1) by simp
  let ?r = "if st_write_buffer_size (completed n s) \<le> st_low_water s then w1 else ?w"
  have "send_completed U t (VInt (int n)) w = whenM (st_write_buffer_size (completed n s) \<le> st_low_water s)
      (tryM (notify U ?c) is_Exception (\<lambda>_. ret ())) ?w"
    by (simp add: send_completed_def mod_tr_def completed_def s)
  moreover have "tryM (notify U ?c) is_Exception (\<lambda>_. ret ()) ?w = (Inr (), w1)"
    using w1(1) by (simp add: notify_def call_user_def)
  ultimately have "send_completed U t (VInt (int n)) w = (Inr (), ?r)"
    by (cases "st_write_buffer_size (completed n s) \<le> st_low_water s") simp_all
  then show ?thesis
    using w1 tr by (intro exI [of _ ?r] exI [of _ "if st_write_buffer_size (completed n s) \<le> st_low_water s then [?c] else []"])
      (simp add: flow_calls_def)
qed

lemma write_one_taken:
  assumes U: "takes_data U" and t: "\<not> st_closing (the_tr t w)" "s = the_tr t w" and can: "can_send idx rest d (lo_core w)" "d \<noteq> []"
    and w0: "w0 = write_submitted t d w (after_send (st_fd s) d (lo_next_fut w) idx rest (lo_core w))"
  shows "\<exists>w1 cs. tr_write U t d w = (Inr (), w1) \<and> wo_transports w1 = wo_transports w0 \<and> lo_core w1 = lo_core w0 \<and>
    lo_futs w1 = lo_futs w0 \<and> lo_transports w1 = lo_transports w \<and> lo_io_futures w1 = lo_io_futures w \<and>
    refusal w1 = refusal w \<and> wo_calls w1 = wo_calls w @ cs \<and> flow_calls (st_protocol s) cs"
proof -
  let ?c = "PauseWriting (st_protocol s)"
  let ?b = "st_high_water s \<le> st_write_buffer_size s + int (length d)"
  have eq: "tr_write U t d w = tryM (whenM ?b (notify U ?c)) is_Exception (error_received_exc t) w0"
    unfolding t(2) w0 by (rule tr_write_ok [OF t(1) can(2) submit_send_ok [OF can(1)]])
  have w0': "lo_transports w0 = lo_transports w" "lo_io_futures w0 = lo_io_futures w" "refusal w0 = refusal w"
    "wo_calls w0 = wo_calls w" "refusal (w0\<lparr>wo_calls := x\<rparr>) = refusal w" for x
    by (simp_all add: w0 write_submitted_def refusal_def)
  obtain v w1 where w1: "U ?c (w0\<lparr>wo_calls := wo_calls w @ [?c]\<rparr>) = (Inr v, w1)" "wo_transports w1 = wo_transports w0"
    "lo_core w1 = lo_core w0" "lo_futs w1 = lo_futs w0" "lo_io_futures w1 = lo_io_futures w"
    "wo_calls w1 = wo_calls w @ [?c]" "refusal w1 = refusal w"
    by (rule takes_dataE [OF U, of ?c "w0\<lparr>wo_calls := wo_calls w @ [?c]\<rparr>"]) (simp add: w0')
  have tr: "lo_transports w1 = lo_transports w"
    using U [unfolded takes_data_def leaves_io_def, THEN conjunct1, rule_format, of ?c "w0\<lparr>wo_calls := wo_calls w @ [?c]\<rparr>"]
      w1(1) w0' by simp
  let ?r = "if ?b then w1 else w0"
  have "notify U ?c w0 = (Inr (), w1)" using w1(1) w0' by (simp add: notify_def call_user_def)
  with eq have "tr_write U t d w = (Inr (), ?r)" by (cases ?b) (simp_all add: tryM_def)
  then show ?thesis
    using w1 tr w0' by (intro exI [of _ ?r] exI [of _ "if ?b then [?c] else []"]) (simp add: flow_calls_def)
qed

text \<open>One tick after the kernel's answer: the callback of the send's future has run.\<close>

lemma send_run_tick:
  assumes U: "takes_data U" and t: "\<not> st_closing (the_tr t w)" "s = the_tr t w"
    and w: "refusal w = None" "lo_futs w fut = \<lparr>fu_state = Pending, fu_callbacks = [OnWriteComplete t fut]\<rparr>"
    and core: "lo_core w = send_answered n flags (after_send f d fut idx rest c)" "can_send idx rest d c" "idle_core c"
      "- (2 ^ 31) \<le> f" "f < 2 ^ 31"
  shows "\<exists>w' cs. run_tick U fuel w = (Inr [(f, ''send'', int n, VNone)], w') \<and> the_tr t w' = completed n s \<and>
    lo_core w' = after_sent f d idx rest c \<and> lo_transports w' = lo_transports w \<and> lo_io_futures w' = lo_io_futures w \<and>
    wo_calls w' = wo_calls w @ cs \<and> flow_calls (st_protocol s) cs"
proof -
  let ?c = "after_sent f d idx rest c"
  let ?w2 = "set_fut fut \<lparr>fu_state = Finished (VInt (int n)), fu_callbacks = []\<rparr> (w\<lparr>lo_core := ?c\<rparr>)"
  let ?w3 = "(scheduled (OnWriteComplete t fut) ?w2)\<lparr>lo_core := ?c\<rparr>"
  have tick: "tick_core (lo_time w) (lo_core w) =
      (Inr ([\<lparr>it_fd = f, it_result = int n, it_op = Send, it_data = None\<rparr>], [f \<mapsto> fut]), ?c)"
    unfolding core(1) by (rule send_tick [OF core(2-5)])
  have set: "set_result fut (VInt (int n)) (w\<lparr>lo_core := ?c\<rparr>) = (Inr (), scheduled (OnWriteComplete t fut) ?w2)"
    using w by (intro set_result_single) simp_all
  have w3: "the_tr t ?w3 = s" "fu_state (lo_futs ?w3 fut) = Finished (VInt (int n))" "lo_core ?w3 = ?c"
    "lo_transports ?w3 = lo_transports w" "lo_io_futures ?w3 = lo_io_futures w" "wo_calls ?w3 = wo_calls w"
    using t(2) by (simp_all add: scheduled_def set_fut_def)
  obtain w' cs where w': "send_completed U t (VInt (int n)) ?w3 = (Inr (), w')" "the_tr t w' = completed n s"
    "lo_core w' = ?c" "lo_transports w' = lo_transports w" "lo_io_futures w' = lo_io_futures w"
    "wo_calls w' = wo_calls w @ cs" "flow_calls (st_protocol s) cs"
    using send_completed_ok [OF U w3(1) [symmetric], of n] unfolding w3(3-6) by blast
  have "on_write_complete U t fut ?w3 = (Inr (), w')"
    using w'(1) t w3(1,2) by (simp add: on_write_complete_def fut_exception_def fut_result_def)
  then have run: "run_handle U fuel (lo_next_handle ?w2) ?w3 = (Inr (), w')"
    by (simp add: run_handle_scheduled run_callback_def tryM_def)
  have idle: "uc_scheduler ?c = []" using core(3) by (simp add: after_sent_def idle_core_def)
  have "run_ready U fuel (scheduled (OnWriteComplete t fut) ?w2) = run_handle U fuel (lo_next_handle ?w2) ?w3"
    using idle by (subst run_ready_single) (simp_all add: set_fut_def)
  with tick set run have "run_tick U fuel w = (Inr [(f, ''send'', int n, VNone)], w')"
    by (simp add: run_tick_def on_core_def resolve_future_def completion_of_def tryM_def)
  with w' show ?thesis by blast
qed

text \<open>
  C32. A send through all layers, and what is lost when it is short. After one write on an otherwise
  idle loop the kernel sends \<open>n\<close> of the bytes, fewer than all perhaps, as it may on a stream; the next tick
  and the dispatch of its completion then leave nothing to do: the kernel holds no send of this write
  and none is submitted or scheduled again, so the bytes after the first \<open>n\<close> are never sent; the transport
  is as open as before and the protocol hears of flow control only, no error. The buffer of the send
  is gone from the free list, and the write buffer size went down by \<open>n\<close> twice: once in the callback of
  the future and once in the dispatch.
\<close>

theorem short_send_loses_rest:
  assumes U: "takes_data U" and t: "\<not> st_closing (the_tr t w)" "s = the_tr t w" "f = st_fd s" "- (2 ^ 31) \<le> f" "f < 2 ^ 31"
    and can: "can_write [d] (lo_core w)" "d \<noteq> []"
    and w: "idle_core (lo_core w)" "refusal w = None" "lo_transports w f = Some t" "lo_io_futures w (f, ''send'') = None"
  shows "\<exists>w' cs. seqM (tr_write U t d) (seqM (modM (\<lambda>w. w\<lparr>lo_core := send_answered n flags (lo_core w)\<rparr>))
      (bindM (run_tick U fuel) (process_completions U))) w = (Inr (), w') \<and>
    (\<forall>g. in_flight g (lo_core w') = in_flight g (lo_core w)) \<and> idle_core (lo_core w') \<and>
    bp_free_list (uc_buffer_pool (lo_core w')) = tl (bp_free_list (uc_buffer_pool (lo_core w))) \<and>
    the_tr t w' = completed n (completed n (s\<lparr>st_write_buffer_size := st_write_buffer_size s + int (length d)\<rparr>)) \<and>
    wo_calls w' = wo_calls w @ cs \<and> flow_calls (st_protocol s) cs"
proof -
  obtain idx rest where c: "can_send idx rest d (lo_core w)" "bp_free_list (uc_buffer_pool (lo_core w)) = idx # rest"
    by (rule can_write_send [OF can])
  let ?a = "after_send f d (lo_next_fut w) idx rest (lo_core w)" and ?c = "after_sent f d idx rest (lo_core w)"
  let ?s1 = "s\<lparr>st_write_buffer_size := st_write_buffer_size s + int (length d)\<rparr>"
  obtain w1 cs1 where w1: "tr_write U t d w = (Inr (), w1)" "the_tr t w1 = ?s1" "lo_core w1 = ?a"
    "lo_futs w1 (lo_next_fut w) = \<lparr>fu_state = Pending, fu_callbacks = [OnWriteComplete t (lo_next_fut w)]\<rparr>"
    "lo_transports w1 = lo_transports w" "lo_io_futures w1 = lo_io_futures w" "refusal w1 = None"
    "wo_calls w1 = wo_calls w @ cs1" "flow_calls (st_protocol s) cs1"
    using write_one_taken [OF U t(1,2) c(1) can(2) refl] w(2) t(2,3) by (auto simp: write_submitted_def)
  let ?w2 = "w1\<lparr>lo_core := send_answered n flags ?a\<rparr>"
  have p2: "\<not> st_closing (the_tr t ?w2)" "?s1 = the_tr t ?w2" "refusal ?w2 = None"
    "lo_futs ?w2 (lo_next_fut w) = \<lparr>fu_state = Pending, fu_callbacks = [OnWriteComplete t (lo_next_fut w)]\<rparr>"
    using w1 t(1,2) by simp_all
  obtain w3 cs2 where w3: "run_tick U fuel ?w2 = (Inr [(f, ''send'', int n, VNone)], w3)" "the_tr t w3 = completed n ?s1"
    "lo_core w3 = ?c" "lo_transports w3 = lo_transports w" "lo_io_futures w3 = lo_io_futures w"
    "wo_calls w3 = wo_calls w @ cs1 @ cs2" "flow_calls (st_protocol s) cs2"
    using send_run_tick [OF U p2, of n flags f d idx rest "lo_core w" fuel] c(1) w(1) t(4,5) w1(5,6,8) by auto
  let ?w4 = "w3\<lparr>lo_io_futures := (lo_io_futures w3)((f, ''send'') := None)\<rparr>"
  have "completed n ?s1 = the_tr t ?w4" using w3(2) by simp
  from send_completed_ok [OF U this, of n] obtain w5 cs3 where w5: "send_completed U t (VInt (int n)) ?w4 = (Inr (), w5)"
    "the_tr t w5 = completed n (completed n ?s1)" "lo_core w5 = ?c" "wo_calls w5 = wo_calls w @ cs1 @ cs2 @ cs3"
    "flow_calls (st_protocol s) cs3"
    using w3 by (auto simp: completed_def)
  have "process_completions U [(f, ''send'', int n, VNone)] w3 = (Inr (), w5)"
    using w3(4,5) w(3,4) w5(1) by (simp add: process_completions_def process_completion_def completion_handler_def
        handle_send_completion_def pop_io_future_def settle_int_def bindM_def)
  moreover have "in_flight g ?c = in_flight g (lo_core w)" for g
  proof -
    have "sends_kept (lo_core w)" "idx \<in> set (bp_free_list (uc_buffer_pool (lo_core w)))"
      using can(1) c(2) by (simp_all add: can_write_def)
    from in_flight_kept [OF this, of ?c "d @ drop (length d) (bp_mem (uc_buffer_pool (lo_core w)) idx)" g]
    show ?thesis unfolding in_flight_def [of g ?c] by (simp add: after_sent_def)
  qed
  moreover have "idle_core ?c" "bp_free_list (uc_buffer_pool ?c) = rest"
    using w(1) by (simp_all add: idle_core_def after_sent_def)
  moreover have "flow_calls (st_protocol s) (cs1 @ cs2 @ cs3)" using w1(9) w3(7) w5(5) by (simp add: flow_calls_def)
  ultimately show ?thesis
    using w1(1,3) w3(1) w5(2-4) c(2) by (intro exI [of _ w5] exI [of _ "cs1 @ cs2 @ cs3"]) simp
qed

definition demo_idle :: world where
  "demo_idle = demo_world\<lparr>lo_transports := [5 \<mapsto> 0]\<rparr>"

lemma demo_idle_facts:
  "can_write [[1, 2, 3]] (lo_core demo_idle)" "in_flight 5 (lo_core demo_idle) = []" "idle_core (lo_core demo_idle)"
  "refusal demo_idle = None" "lo_transports demo_idle 5 = Some 0" "lo_io_futures demo_idle (5, ''send'') = None"
  "bp_free_list (uc_buffer_pool (lo_core demo_idle)) = [0, 1]" "the_tr 0 demo_idle = transport_new 5 0 (Some 0)"
  by (simp_all add: demo_idle_def can_write_def sends_kept_def in_flight_def demo_lcore_def pool_wf_def idle_core_def
      sched_new_def refusal_def demo_world_def)

theorem short_send_loses_rest_witness:
  "\<exists>w'. seqM (tr_write quiet 0 [1, 2, 3]) (seqM (modM (\<lambda>w. w\<lparr>lo_core := send_answered 1 0 (lo_core w)\<rparr>))
      (bindM (run_tick quiet 0) (process_completions quiet))) demo_idle = (Inr (), w') \<and>
    in_flight 5 (lo_core w') = [] \<and> idle_core (lo_core w') \<and> get_write_buffer_size 0 w' = 1 \<and>
    bp_free_list (uc_buffer_pool (lo_core w')) = [1]"
proof -
  note f = demo_idle_facts
  have "\<not> st_closing (the_tr 0 demo_idle)" "transport_new 5 0 (Some 0) = the_tr 0 demo_idle"
    "5 = st_fd (transport_new 5 0 (Some 0))" "- (2 ^ 31) \<le> (5 :: int)" "(5 :: int) < 2 ^ 31" "[1, 2, 3 :: 8 word] \<noteq> []"
    by (simp_all add: f)
  from short_send_loses_rest [OF takes_data_quiet this(1-5) f(1) this(6) f(3-6), of 1 0 0] obtain w' where
    "seqM (tr_write quiet 0 [1, 2, 3]) (seqM (modM (\<lambda>w. w\<lparr>lo_core := send_answered 1 0 (lo_core w)\<rparr>))
      (bindM (run_tick quiet 0) (process_completions quiet))) demo_idle = (Inr (), w')"
    "in_flight 5 (lo_core w') = []" "idle_core (lo_core w')" "bp_free_list (uc_buffer_pool (lo_core w')) = [1]"
    "the_tr 0 w' = completed 1 (completed 1 ((transport_new 5 0 (Some 0))\<lparr>st_write_buffer_size := 3\<rparr>))"
    unfolding f(7) using f(2) by auto
  moreover from this(5) have "get_write_buffer_size 0 w' = 1" by (simp add: get_write_buffer_size_def completed_def)
  ultimately show ?thesis by blast
qed

end
