(* ===== verification/Pipe_Props.thy ===== *)
theory Pipe_Props
  imports Transport_Props
begin

text \<open>
  Properties of the pipe transports on top of the reader and writer registration: registration
  and removal undo each other, a write pipe neither loses, repeats nor reorders a byte, a ready pipe
  with room is drained and then closed, and what a read pipe does with each answer of the kernel.
\<close>

section \<open>Registration\<close>


lemma demo_watch: "watch_ok 3 demo_world" "watchable 6 demo_world" "watchable 5 demo_world"
  by (auto simp: watch_ok_def watchable_def interest_def demo_world_def demo_lcore_def)


section \<open>A byte pipe and what it promises\<close>

text \<open>
  The contract of a buffered writer: \<open>taken\<close> are the bytes the descriptor has taken, \<open>held\<close> those
  the transport still keeps. A write appends to what is held while the pipe accepts; an event
  of the descriptor moves a prefix of what is held to what is taken.
\<close>

datatype pipe_event = Write bytes | Ready

primrec pipe_written :: "pipe_event \<Rightarrow> bytes" where
  "pipe_written (Write d) = d"
| "pipe_written Ready = []"

primrec pipe_step :: "(bytes \<Rightarrow> 's \<Rightarrow> 's) \<Rightarrow> ('s \<Rightarrow> 's) \<Rightarrow> pipe_event \<Rightarrow> 's \<Rightarrow> 's" where
  "pipe_step put pump (Write d) s = put d s"
| "pipe_step put pump Ready s = pump s"

definition pipe_run :: "(bytes \<Rightarrow> 's \<Rightarrow> 's) \<Rightarrow> ('s \<Rightarrow> 's) \<Rightarrow> pipe_event list \<Rightarrow> 's \<Rightarrow> 's" where
  "pipe_run put pump es s = fold (pipe_step put pump) es s"

locale byte_pipe =
  fixes put :: "bytes \<Rightarrow> 's \<Rightarrow> 's" and pump :: "'s \<Rightarrow> 's"
    and taken held :: "'s \<Rightarrow> bytes" and accepts :: "'s \<Rightarrow> bool" and ok :: "'s \<Rightarrow> bool"
  assumes write_law: "ok s \<Longrightarrow> taken (put d s) = taken s \<and>
      held (put d s) = held s @ (if accepts s then d else []) \<and> accepts (put d s) = accepts s \<and> ok (put d s)"
    and ready_law: "ok s \<Longrightarrow> \<exists>n. taken (pump s) = taken s @ take n (held s) \<and> held (pump s) = drop n (held s) \<and>
      accepts (pump s) = accepts s \<and> ok (pump s)"
begin

lemma event_conserves:
  assumes "ok s"
  shows "let s' = pipe_step put pump e s in
    taken s' @ held s' = taken s @ held s @ (if accepts s then pipe_written e else []) \<and>
    (\<exists>x. taken s' = taken s @ x) \<and> accepts s' = accepts s \<and> ok s'"
proof (cases e)
  case (Write d)
  with write_law [OF assms, of d] show ?thesis by simp
next
  case Ready
  from ready_law [OF assms] obtain n where "taken (pump s) = taken s @ take n (held s)"
    "held (pump s) = drop n (held s)" "accepts (pump s) = accepts s" "ok (pump s)" by blast
  with Ready show ?thesis by auto
qed

lemma run_conserves:
  assumes "ok s"
  shows "let s' = pipe_run put pump es s in
    taken s' @ held s' = taken s @ held s @ (if accepts s then concat (map pipe_written es) else []) \<and>
    (\<exists>x. taken s' = taken s @ x) \<and> accepts s' = accepts s \<and> ok s'"
  using assms
proof (induction es arbitrary: s)
  case (Cons e es)
  have run: "pipe_run put pump (e # es) s = pipe_run put pump es (pipe_step put pump e s)"
    by (simp add: pipe_run_def)
  from event_conserves [OF Cons.prems, of e] Cons.IH [of "pipe_step put pump e s"]
  show ?case unfolding run Let_def by fastforce
qed (simp add: pipe_run_def)

lemma taken_prefix:
  assumes "ok s" "accepts s" "taken s = []" "held s = []"
  shows "\<exists>rest. concat (map pipe_written es) = taken (pipe_run put pump es s) @ rest"
  using run_conserves [OF assms(1), of es] assms(2-4) unfolding Let_def by (metis append_Nil)

end

section \<open>Both writers are byte pipes\<close>

text \<open>The part of the state the writers' promise is about, and user code that leaves it alone.\<close>

definition pipes_view :: "world \<Rightarrow> (nat \<Rightarrow> write_pipe) \<times> (nat \<Rightarrow> sub_write) \<times> (nat \<Rightarrow> fd) \<times> (fd \<Rightarrow> bytes)" where
  "pipes_view w = (wo_write_pipes w, wo_sub_writes w, (\<lambda>k. pi_fd (wo_pipes w k)), os_out (wo_os w))"

definition leaves_pipes :: "user \<Rightarrow> bool" where
  "leaves_pipes U \<longleftrightarrow> (\<forall>c w. pipes_view (snd (U c w)) = pipes_view w)"

abbreviation same_pipes :: "world \<Rightarrow> world \<Rightarrow> bool" where
  "same_pipes v \<equiv> (\<lambda>w. pipes_view w = pipes_view v)"

lemma same_pipes_untouched:
  "(\<And>w. pipes_view (snd (m w)) = pipes_view w) \<Longrightarrow> keeps (same_pipes v) m"
  by (simp add: keeps_def)

lemma same_pipes_fields:
  "keeps (same_pipes v) (modM (\<lambda>w. w\<lparr>lo_writers := a w\<rparr>))" "keeps (same_pipes v) (modM (\<lambda>w. w\<lparr>lo_epoll := b w\<rparr>))"
  "keeps (same_pipes v) (mod_core g)" "keeps (same_pipes v) (modM (\<lambda>w. w\<lparr>wo_calls := c w\<rparr>))"
  by (rule same_pipes_untouched; simp add: mod_core_def pipes_view_def)+

lemma same_pipes_epoll:
  "keeps (same_pipes v) (epoll_register f ev)" "keeps (same_pipes v) (epoll_modify f ev)"
  "keeps (same_pipes v) (epoll_unregister f)"
  unfolding epoll_op_defs by (intro keeps_intros same_pipes_fields)+

lemma same_pipes_remove_writer: "keeps (same_pipes v) (remove_writer f)"
  unfolding remove_writer_def by (intro keeps_intros same_pipes_fields same_pipes_epoll)

lemma same_pipes_add_writer: "keeps (same_pipes v) (add_writer f cb)"
  unfolding add_writer_def Let_def check_closed_def
  by (intro keeps_intros same_pipes_fields same_pipes_epoll same_pipes_remove_writer)

lemma same_pipes_fileno: "keeps (same_pipes v) (pipe_fileno k)"
  unfolding pipe_fileno_def by (intro keeps_intros)

lemma same_pipes_filenos: "keeps (same_pipes v) (wp_fileno t)" "keeps (same_pipes v) (sw_fileno t)"
  unfolding wp_fileno_def sw_fileno_def by (intro keeps_intros same_pipes_fileno)+

lemma same_pipes_remove_writers:
  "keeps (same_pipes v) (wp_remove_writer t)" "keeps (same_pipes v) (sw_remove_writer t)"
  unfolding wp_remove_writer_def sw_remove_writer_def
  by (intro keeps_intros same_pipes_filenos same_pipes_remove_writer)+

lemma same_pipes_close: "keeps (same_pipes v) (modM (pipe_close k))"
  by (rule same_pipes_untouched) (auto simp: pipe_close_def Let_def os_close_def pipes_view_def)

lemma same_pipes_notify: "leaves_pipes U \<Longrightarrow> keeps (same_pipes v) (notify U c)"
  unfolding notify_def call_user_def
  by (intro keeps_intros same_pipes_fields same_pipes_untouched) (simp add: leaves_pipes_def)

lemmas same_pipes_rules = same_pipes_filenos same_pipes_remove_writers same_pipes_close same_pipes_add_writer
  same_pipes_notify

text \<open>What one \<open>os.write\<close> does to the view: nothing, or the written prefix reaches the descriptor.\<close>

lemma os_write_view:
  "os_write f data w = (Inl e, w1) \<Longrightarrow> pipes_view w1 = pipes_view w"
  "os_write f data w = (Inr n, w1) \<Longrightarrow> wo_write_pipes w1 = wo_write_pipes w \<and> wo_sub_writes w1 = wo_sub_writes w \<and>
     wo_pipes w1 = wo_pipes w \<and> os_out (wo_os w1) = (os_out (wo_os w))(f := os_out (wo_os w) f @ take n data)"
  by (auto simp: os_write_def pipes_view_def Let_def py_defs split: option.splits if_splits)

definition wp_taken :: "nat \<Rightarrow> world \<Rightarrow> bytes" where
  "wp_taken t w = os_out (wo_os w) (pi_fd (wo_pipes w (wp_pipe (the_wp t w))))"

definition sw_taken :: "nat \<Rightarrow> world \<Rightarrow> bytes" where
  "sw_taken t w = os_out (wo_os w) (pi_fd (wo_pipes w (sw_pipe (the_sw t w))))"

lemma wp_same_pipes:
  "pipes_view w' = pipes_view w \<Longrightarrow>
     wp_taken t w' = wp_taken t w \<and> wo_write_pipes w' = wo_write_pipes w"
  by (simp add: pipes_view_def wp_taken_def fun_eq_iff)

lemma sw_same_pipes:
  "pipes_view w' = pipes_view w \<Longrightarrow>
     sw_taken t w' = sw_taken t w \<and> wo_sub_writes w' = wo_sub_writes w"
  by (simp add: pipes_view_def sw_taken_def fun_eq_iff)

lemma taken_after_update [simp]:
  "wp_pipe (F t) = wp_pipe (the_wp t w) \<Longrightarrow> wp_taken t (w\<lparr>wo_write_pipes := F\<rparr>) = wp_taken t w"
  "sw_pipe (G t) = sw_pipe (the_sw t w) \<Longrightarrow> sw_taken t (w\<lparr>wo_sub_writes := G\<rparr>) = sw_taken t w"
  by (simp_all add: wp_taken_def sw_taken_def)

lemma wp_write_view:
  assumes "leaves_pipes U"
  shows "pipes_view (snd (wp_write U t d w)) =
    (if wp_closing (the_wp t w) then pipes_view w else pipes_view (snd (mod_wp t (\<lambda>s. s\<lparr>wp_buffer := wp_buffer s @ d\<rparr>) w)))"
proof -
  let ?w1 = "snd (mod_wp t (\<lambda>s. s\<lparr>wp_buffer := wp_buffer s @ d\<rparr>) w)"
  let ?rest = "seqM (bindM (wp_fileno t) (\<lambda>f. add_writer f (WritePipeReady t)))
      (bindM (getM (the_wp t)) (\<lambda>s.
       whenM (int (length (wp_buffer s)) > wp_high_water s)
         (tryM (notify U (PauseWriting (wp_protocol s))) is_Exception (\<lambda>_. ret ()))))"
  have "keeps (same_pipes ?w1) ?rest"
    by (intro keeps_intros same_pipes_rules assms)
  then have rest: "pipes_view (snd (?rest ?w1)) = pipes_view ?w1" by (simp add: keeps_def)
  have "wp_write U t [] w = (Inr (), w)" "pipes_view (snd (mod_wp t (\<lambda>s. s\<lparr>wp_buffer := wp_buffer s @ []\<rparr>) w)) = pipes_view w"
    by (simp_all add: wp_write_def mod_wp_def)
  moreover have "wp_write U t d w = ?rest ?w1" if "d \<noteq> []" "\<not> wp_closing (the_wp t w)"
    using that by (simp add: wp_write_def mod_wp_def)
  ultimately show ?thesis using rest by (cases "d = []") (auto simp: wp_write_def)
qed

lemma sw_write_view:
  "pipes_view (snd (sw_write t d w)) =
    (if sw_closing (the_sw t w) then pipes_view w else pipes_view (snd (mod_sw t (\<lambda>s. s\<lparr>sw_buffer := sw_buffer s @ d\<rparr>) w)))"
proof -
  let ?w1 = "snd (mod_sw t (\<lambda>s. s\<lparr>sw_buffer := sw_buffer s @ d\<rparr>) w)"
  let ?rest = "bindM (sw_fileno t) (\<lambda>f. add_writer f (SubWriteReady t))"
  have "keeps (same_pipes ?w1) ?rest" by (intro keeps_intros same_pipes_rules)
  then have "pipes_view (snd (?rest ?w1)) = pipes_view ?w1" by (simp add: keeps_def)
  then show ?thesis by (simp add: sw_write_def mod_sw_def)
qed

text \<open>An attempt to write, the buffer's advance, and a rest that leaves the view alone.\<close>

lemma try_bind_Inr: "m s = (Inr a, s') \<Longrightarrow> tryM (bindM m f) p h s = tryM (f a) p h s'"
  by (simp add: tryM_def)

lemma try_seq_Inr: "m s = (Inr a, s') \<Longrightarrow> tryM (seqM m n) p h s = tryM n p h s'"
  by (simp add: tryM_def)

lemma bind_getM: "bindM (getM f) g s = g (f s) s"
  by simp

lemma keeps_view: "keeps (same_pipes w) m \<Longrightarrow> pipes_view (snd (m w)) = pipes_view w"
  by (simp add: keeps_def)

lemma attempt_view:
  assumes "\<And>e w1. m w = (Inl e, w1) \<Longrightarrow> pipes_view w1 = pipes_view w"
    and h: "\<And>v e. keeps (same_pipes v) (h e)" and rest: "\<And>v. keeps (same_pipes v) rest"
  shows "let w' = snd (tryM (bindM m (\<lambda>n. seqM (modM (upd n)) rest)) p h w) in
    pipes_view w' = pipes_view w \<or> (\<exists>n w1. m w = (Inr n, w1) \<and> pipes_view w' = pipes_view (upd n w1))"
proof (cases "m w")
  case (Pair r w1)
  show ?thesis
  proof (cases r)
    case (Inl e)
    with Pair assms(1) have "pipes_view w1 = pipes_view w" by simp
    with Pair Inl keeps_view [OF h, of e w1] show ?thesis by simp
  next
    case (Inr n)
    have "keeps (same_pipes (upd n w1)) (tryM rest p h)" by (intro keeps_intros h rest)
    from keeps_view [OF this] Pair Inr show ?thesis
      by (simp add: try_bind_Inr try_seq_Inr)
  qed
qed

lemma fileno_write_view:
  "bindM (wp_fileno t) (\<lambda>f. os_write f b) w = (Inl e, w1) \<Longrightarrow> pipes_view w1 = pipes_view w"
  "bindM (sw_fileno t) (\<lambda>f. os_write f b) w = (Inl e, w1) \<Longrightarrow> pipes_view w1 = pipes_view w"
  "bindM (wp_fileno t) (\<lambda>f. os_write f b) w = (Inr n, w1) \<Longrightarrow>
     wo_write_pipes w1 = wo_write_pipes w \<and> wp_taken t w1 = wp_taken t w @ take n b"
  "bindM (sw_fileno t) (\<lambda>f. os_write f b) w = (Inr n, w1) \<Longrightarrow>
     wo_sub_writes w1 = wo_sub_writes w \<and> sw_taken t w1 = sw_taken t w @ take n b"
  by (auto simp: bindM_def wp_fileno_def sw_fileno_def pipe_fileno_def py_defs wp_taken_def sw_taken_def
      dest: os_write_view(1) dest!: os_write_view(2) split: if_splits)

lemma wp_write_ready_view:
  assumes "leaves_pipes U"
  shows "\<exists>n. wp_taken t (snd (wp_write_ready U t w)) = wp_taken t w @ take n (wp_buffer (the_wp t w)) \<and>
    the_wp t (snd (wp_write_ready U t w)) = (the_wp t w)\<lparr>wp_buffer := drop n (wp_buffer (the_wp t w))\<rparr>"
    (is "\<exists>n. ?P n (snd (wp_write_ready U t w))")
proof -
  let ?b = "wp_buffer (the_wp t w)"
  have same: "?P 0 w'" if "pipes_view w' = pipes_view w" for w'
    using wp_same_pipes [OF that, of t] by simp
  have drained: "?P n w'" if "bindM (wp_fileno t) (\<lambda>f. os_write f ?b) w = (Inr n, w1)"
    "pipes_view w' = pipes_view (w1\<lparr>wo_write_pipes := (wo_write_pipes w1)(t := (the_wp t w1)\<lparr>wp_buffer := drop n (wp_buffer (the_wp t w1))\<rparr>)\<rparr>)"
    for n w1 w'
    using fileno_write_view(3) [OF that(1)] wp_same_pipes [OF that(2), of t] by simp
  show ?thesis
  proof (cases "?b = []")
    case True
    then have "pipes_view (snd (wp_write_ready U t w)) = pipes_view w"
      by (simp add: wp_write_ready_def keeps_view same_pipes_rules)
    then show ?thesis using same by blast
  next
    case False
    have "pipes_view (snd (wp_write_ready U t w)) = pipes_view w \<or> (\<exists>n w1.
        bindM (wp_fileno t) (\<lambda>f. os_write f ?b) w = (Inr n, w1) \<and> pipes_view (snd (wp_write_ready U t w)) =
        pipes_view (w1\<lparr>wo_write_pipes := (wo_write_pipes w1)(t := (the_wp t w1)\<lparr>wp_buffer := drop n (wp_buffer (the_wp t w1))\<rparr>)\<rparr>))"
      unfolding wp_write_ready_def bind_getM [of "the_wp t" _ w] if_not_P [OF False] mod_wp_def
      by (rule attempt_view [unfolded Let_def]) (rule fileno_write_view(1), assumption, (intro keeps_intros same_pipes_rules assms)+)
    then show ?thesis using same drained by blast
  qed
qed


lemma sw_write_ready_view:
  assumes "leaves_pipes U"
  shows "\<exists>n. sw_taken t (snd (sw_write_ready U t w)) = sw_taken t w @ take n (sw_buffer (the_sw t w)) \<and>
    the_sw t (snd (sw_write_ready U t w)) = (the_sw t w)\<lparr>sw_buffer := drop n (sw_buffer (the_sw t w))\<rparr>"
    (is "\<exists>n. ?P n (snd (sw_write_ready U t w))")
proof -
  let ?b = "sw_buffer (the_sw t w)"
  have same: "?P 0 w'" if "pipes_view w' = pipes_view w" for w'
    using sw_same_pipes [OF that, of t] by simp
  have drained: "?P n w'" if "bindM (sw_fileno t) (\<lambda>f. os_write f ?b) w = (Inr n, w1)"
    "pipes_view w' = pipes_view (w1\<lparr>wo_sub_writes := (wo_sub_writes w1)(t := (the_sw t w1)\<lparr>sw_buffer := drop n (sw_buffer (the_sw t w1))\<rparr>)\<rparr>)"
    for n w1 w'
    using fileno_write_view(4) [OF that(1)] sw_same_pipes [OF that(2), of t] by simp
  show ?thesis
  proof (cases "?b = []")
    case True
    then have "pipes_view (snd (sw_write_ready U t w)) = pipes_view w"
      by (simp add: sw_write_ready_def keeps_view same_pipes_rules)
    then show ?thesis using same by blast
  next
    case False
    have "pipes_view (snd (sw_write_ready U t w)) = pipes_view w \<or> (\<exists>n w1.
        bindM (sw_fileno t) (\<lambda>f. os_write f ?b) w = (Inr n, w1) \<and> pipes_view (snd (sw_write_ready U t w)) =
        pipes_view (w1\<lparr>wo_sub_writes := (wo_sub_writes w1)(t := (the_sw t w1)\<lparr>sw_buffer := drop n (sw_buffer (the_sw t w1))\<rparr>)\<rparr>))"
      unfolding sw_write_ready_def bind_getM [of "the_sw t" _ w] if_not_P [OF False] mod_sw_def
      by (rule attempt_view [unfolded Let_def]) (rule fileno_write_view(2), assumption, (intro keeps_intros same_pipes_rules assms)+)
    then show ?thesis using same drained by blast
  qed
qed

interpretation wp: byte_pipe "\<lambda>d w. snd (wp_write U t d w)" "\<lambda>w. snd (wp_write_ready U t w)" "wp_taken t"
  "\<lambda>w. wp_buffer (the_wp t w)" "\<lambda>w. \<not> wp_closing (the_wp t w)" "\<lambda>_. leaves_pipes U" for U t
proof (unfold_locales, goal_cases)
  case (1 w d)
  then show ?case using wp_write_view [OF 1, of t d w]
    by (auto simp: mod_wp_def dest: wp_same_pipes [of _ _ t] split: if_splits)
next
  case (2 w)
  with wp_write_ready_view [OF 2, of t w] show ?case by auto
qed

interpretation sw: byte_pipe "\<lambda>d w. snd (sw_write t d w)" "\<lambda>w. snd (sw_write_ready U t w)" "sw_taken t"
  "\<lambda>w. sw_buffer (the_sw t w)" "\<lambda>w. \<not> sw_closing (the_sw t w)" "\<lambda>_. leaves_pipes U" for U t
proof (unfold_locales, goal_cases)
  case (1 w d)
  then show ?case using sw_write_view [of t d w]
    by (auto simp: mod_sw_def dest: sw_same_pipes [of _ _ t] split: if_splits)
next
  case (2 w)
  with sw_write_ready_view [OF 2, of t w] show ?case by auto
qed


text \<open>
  C4. A write pipe is a byte stream: for the loop's write pipes and for a child's standard input
  alike, under every interleaving of writes with events of the descriptor, whatever the kernel
  answers (partial writes, a full pipe, an error), the bytes taken by the descriptor
  followed by those still held are exactly the bytes before and then those written, in
  order, none lost and none twice; what the descriptor has taken only grows, and once closing, the
  transport accepts no more.
\<close>

theorem write_pipe_is_byte_stream:
  assumes "leaves_pipes U"
    and "w1 = pipe_run (\<lambda>d w. snd (wp_write U t d w)) (\<lambda>w. snd (wp_write_ready U t w)) es w"
    and "w2 = pipe_run (\<lambda>d w. snd (sw_write t d w)) (\<lambda>w. snd (sw_write_ready U t w)) es w"
  shows "wp_taken t w1 @ wp_buffer (the_wp t w1) = wp_taken t w @ wp_buffer (the_wp t w) @
      (if wp_closing (the_wp t w) then [] else concat (map pipe_written es)) \<and>
    sw_taken t w2 @ sw_buffer (the_sw t w2) = sw_taken t w @ sw_buffer (the_sw t w) @
      (if sw_closing (the_sw t w) then [] else concat (map pipe_written es)) \<and>
    (\<exists>x. wp_taken t w1 = wp_taken t w @ x) \<and> (\<exists>x. sw_taken t w2 = sw_taken t w @ x)"
  using wp.run_conserves [OF assms(1), of t es w] sw.run_conserves [OF assms(1), of t es w]
  unfolding assms(2,3) by (simp add: Let_def)

lemma leaves_pipes_quiet: "leaves_pipes quiet"
  by (simp add: leaves_pipes_def quiet_def)

theorem write_pipe_is_byte_stream_witness:
  "let w = pipe_run (\<lambda>d w. snd (wp_write quiet 0 d w)) (\<lambda>w. snd (wp_write_ready quiet 0 w))
       [Write [1, 2], Ready, Write [3]] demo_world
   in wp_taken 0 w @ wp_buffer (the_wp 0 w) = [1, 2, 3]"
  using write_pipe_is_byte_stream [OF leaves_pipes_quiet refl refl, of 0 "[Write [1, 2], Ready, Write [3]]" demo_world]
  by (simp add: Let_def demo_world_def demo_os_def wp_taken_def)

end
