(* ===== verification/Subprocess_Props.thy ===== *)
theory Subprocess_Props
  imports Pipe_Props
begin

text \<open>
  The exit of a child process: the drain loops end (with the fuel that is enough), every byte the
  child had written is delivered before \<open>process_exited\<close>, and the waiters get the return code;
  and the exit that never reaches its waiters.
\<close>

section \<open>Draining one pipe\<close>

text \<open>The data as \<open>os.read\<close> hands it out, 65536 bytes at a time.\<close>

function chunks :: "bytes \<Rightarrow> bytes list" where
  "chunks xs = (if xs = [] then [] else take 65536 xs # chunks (drop 65536 xs))"
  by pat_completeness auto
termination
  by (relation "measure length") auto

declare chunks.simps [simp del]

lemma chunks_Nil [simp]: "chunks [] = []"
  by (simp add: chunks.simps)

lemma chunks_step: "xs \<noteq> [] \<Longrightarrow> chunks xs = take 65536 xs # chunks (drop 65536 xs)"
  by (subst chunks.simps) simp

lemma concat_chunks [simp]: "concat (chunks xs) = xs"
  by (induction xs rule: chunks.induct) (subst chunks.simps, simp)

text \<open>
  The state the exit handling works on, and user code that returns from every call, may schedule
  callbacks and change anything else, but leaves that state and the record of calls alone.
\<close>

definition proc_view where
  "proc_view w = (wo_os w, wo_pipes w, wo_sub_reads w, wo_sub_writes w, wo_subprocs w, lo_open_fds w,
     lo_epoll_closed w, lo_futs w, lo_closed w, lo_debug w)"

definition proc_user :: "user \<Rightarrow> bool" where
  "proc_user U \<longleftrightarrow> polite proc_view U"

lemma proc_user_notify:
  assumes "proc_user U"
  shows "\<exists>w'. notify U c w = (Inr (), w') \<and> proc_view w' = proc_view w \<and> wo_calls w' = wo_calls w @ [c]"
  using polite_notify [of proc_view U] assms by (simp add: proc_user_def proc_view_def)

definition sr_descriptor :: "nat \<Rightarrow> world \<Rightarrow> fd" where
  "sr_descriptor t w = pi_fd (wo_pipes w (sr_pipe (the_sr t w)))"

definition sr_readable :: "nat \<Rightarrow> world \<Rightarrow> bool" where
  "sr_readable t w \<longleftrightarrow> \<not> pi_closed (wo_pipes w (sr_pipe (the_sr t w))) \<and> lo_open_fds w (sr_descriptor t w) \<and>
     os_err (wo_os w) (sr_descriptor t w) = None"

definition taken_in :: "fd \<Rightarrow> nat \<Rightarrow> world \<Rightarrow> world" where
  "taken_in f n w = w\<lparr>wo_os := (wo_os w)\<lparr>os_in := (os_in (wo_os w))(f := drop n (os_in (wo_os w) f))\<rparr>\<rparr>"

lemma sr_read:
  assumes "sr_readable t w" and "f = sr_descriptor t w"
  shows "bindM (sr_fileno t) (\<lambda>f. os_read f n) w =
    (if os_in (wo_os w) f \<noteq> [] then (Inr (take n (os_in (wo_os w) f)), taken_in f n w)
     else if os_eof (wo_os w) f then (Inr [], w) else (Inl (OSError EAGAIN), w))"
  using assms
  by (simp add: sr_readable_def sr_descriptor_def sr_fileno_def pipe_fileno_def os_read_def taken_in_def py_defs)

lemma view_cong:
  assumes "proc_view w' = proc_view w"
  shows "sr_readable t w' = sr_readable t w" "sr_descriptor t w' = sr_descriptor t w"
    "proc_view (taken_in f n w') = proc_view (taken_in f n w)" "wo_os w' = wo_os w"
  using assms by (simp_all add: proc_view_def sr_readable_def sr_descriptor_def taken_in_def)

lemma taken_in_simps [simp]:
  "sr_readable t (taken_in f n w) = sr_readable t w" "sr_descriptor t (taken_in f n w) = sr_descriptor t w"
  "wo_calls (taken_in f n w) = wo_calls w" "os_eof (wo_os (taken_in f n w)) = os_eof (wo_os w)"
  "os_in (wo_os (taken_in f n w)) = (os_in (wo_os w))(f := drop n (os_in (wo_os w) f))"
  "taken_in f n (taken_in f m w) = taken_in f (n + m) w"
  by (simp_all add: sr_readable_def sr_descriptor_def taken_in_def add.commute)

lemma taken_in_0 [simp]: "taken_in f 0 w = w"
  by (simp add: taken_in_def)

lemma drain_loop_ok:
  assumes "proc_user U" and "sr_readable t w" and "f = sr_descriptor t w"
    and "length (os_in (wo_os w) f) \<le> 65536 * fuel"
  shows "\<exists>w'. drain_loop U p n t (Suc fuel) w = (if os_eof (wo_os w) f then Inr True else Inl (OSError EAGAIN), w') \<and>
    proc_view w' = proc_view (taken_in f (length (os_in (wo_os w) f)) w) \<and>
    wo_calls w' = wo_calls w @ map (PipeDataReceived p n) (chunks (os_in (wo_os w) f))"
  using assms(2-4)
proof (induction fuel arbitrary: w)
  case 0
  then show ?case by (simp add: sr_read)
next
  case (Suc fuel)
  let ?d = "os_in (wo_os w) f"
  show ?case
  proof (cases "?d = []")
    case True
    with Suc.prems show ?thesis by (simp add: sr_read)
  next
    case False
    obtain w1 where w1: "notify U (PipeDataReceived p n (take 65536 ?d)) (taken_in f 65536 w) = (Inr (), w1)"
      "proc_view w1 = proc_view (taken_in f 65536 w)" "wo_calls w1 = wo_calls w @ [PipeDataReceived p n (take 65536 ?d)]"
      using proc_user_notify [OF assms(1)] by fastforce
    note v = view_cong [OF w1(2)]
    have "sr_readable t w1" "f = sr_descriptor t w1" "length (os_in (wo_os w1) f) \<le> 65536 * fuel"
      using Suc.prems v by simp_all
    from Suc.IH [OF this] obtain w' where w':
      "drain_loop U p n t (Suc fuel) w1 = (if os_eof (wo_os w) f then Inr True else Inl (OSError EAGAIN), w')"
      "proc_view w' = proc_view (taken_in f (length (os_in (wo_os w1) f)) w1)"
      "wo_calls w' = wo_calls w1 @ map (PipeDataReceived p n) (chunks (drop 65536 ?d))"
      using v by auto
    have "proc_view w' = proc_view (taken_in f (length ?d - 65536 + 65536) w)"
      using w'(2) v by simp
    also have "\<dots> = proc_view (taken_in f (length ?d) w)"
      by (simp add: taken_in_def proc_view_def)
    finally show ?thesis
      using False w1 w' Suc.prems(1,2) by (simp add: sr_read chunks_step)
  qed
qed


section \<open>Draining all pipes\<close>

fun sub_reads :: "(int \<times> sub_pipe) list \<Rightarrow> nat list" where
  "sub_reads [] = []"
| "sub_reads ((n, SubRead t) # ps) = t # sub_reads ps"
| "sub_reads ((n, SubWrite t) # ps) = sub_reads ps"

text \<open>The calls that deliver what is left in the pipes, in the order of the dictionary.\<close>

fun exit_calls :: "nat \<Rightarrow> world \<Rightarrow> (int \<times> sub_pipe) list \<Rightarrow> user_call list" where
  "exit_calls p w [] = []"
| "exit_calls p w ((n, SubRead t) # ps) =
     map (PipeDataReceived p n) (chunks (os_in (wo_os w) (sr_descriptor t w))) @ exit_calls p w ps"
| "exit_calls p w ((n, SubWrite t) # ps) = exit_calls p w ps"

definition drainable :: "nat \<Rightarrow> (int \<times> sub_pipe) list \<Rightarrow> world \<Rightarrow> bool" where
  "drainable fuel ps w \<longleftrightarrow> distinct (map (\<lambda>t. sr_descriptor t w) (sub_reads ps)) \<and>
     (\<forall>t \<in> set (sub_reads ps). sr_readable t w \<and> length (os_in (wo_os w) (sr_descriptor t w)) \<le> 65536 * fuel)"

lemma drain_pipe_ok:
  assumes "proc_user U" "sr_readable t w" "length (os_in (wo_os w) (sr_descriptor t w)) \<le> 65536 * fuel"
  shows "\<exists>w'. drain_pipe U (Suc fuel) p (n, SubRead t) w = (Inr True, w') \<and>
    proc_view w' = proc_view (taken_in (sr_descriptor t w) (length (os_in (wo_os w) (sr_descriptor t w))) w) \<and>
    wo_calls w' = wo_calls w @ map (PipeDataReceived p n) (chunks (os_in (wo_os w) (sr_descriptor t w)))"
proof -
  obtain r w' where r: "drain_loop U p n t (Suc fuel) w = (r, w')" "r = Inr True \<or> r = Inl (OSError EAGAIN)"
    and w': "proc_view w' = proc_view (taken_in (sr_descriptor t w) (length (os_in (wo_os w) (sr_descriptor t w))) w)"
    "wo_calls w' = wo_calls w @ map (PipeDataReceived p n) (chunks (os_in (wo_os w) (sr_descriptor t w)))"
    using drain_loop_ok [OF assms(1,2) refl assms(3), of p n] by (auto split: if_splits)
  from r have "drain_pipe U (Suc fuel) p (n, SubRead t) w = (Inr True, w')"
    by (auto simp: drain_pipe_def simp del: drain_loop.simps)
  with w' show ?thesis by blast
qed

lemma exit_calls_cong:
  assumes "\<And>t. t \<in> set (sub_reads ps) \<Longrightarrow>
    os_in (wo_os w') (sr_descriptor t w') = os_in (wo_os w) (sr_descriptor t w)"
  shows "exit_calls p w' ps = exit_calls p w ps"
  using assms by (induction ps rule: sub_reads.induct) auto

lemma drain_pipes_ok:
  assumes "proc_user U" "drainable fuel ps w"
  shows "\<exists>w' X. drain_pipes U (Suc fuel) p ps w = (Inr True, w') \<and> wo_calls w' = wo_calls w @ exit_calls p w ps \<and>
    proc_view w' = proc_view (w\<lparr>wo_os := (wo_os w)\<lparr>os_in := X\<rparr>\<rparr>)"
  using assms(2)
proof (induction ps arbitrary: w rule: sub_reads.induct)
  case 1
  have "w\<lparr>wo_os := (wo_os w)\<lparr>os_in := os_in (wo_os w)\<rparr>\<rparr> = w" by simp
  then show ?case by (intro exI [of _ w] exI [of _ "os_in (wo_os w)"]) simp
next
  case (2 n t ps)
  let ?f = "sr_descriptor t w"
  let ?w = "taken_in ?f (length (os_in (wo_os w) ?f)) w"
  from 2(2) have "sr_readable t w" "length (os_in (wo_os w) ?f) \<le> 65536 * fuel"
    by (auto simp: drainable_def)
  from drain_pipe_ok [OF assms(1) this, of p n] obtain w1 where w1:
    "drain_pipe U (Suc fuel) p (n, SubRead t) w = (Inr True, w1)" "proc_view w1 = proc_view ?w"
    "wo_calls w1 = wo_calls w @ map (PipeDataReceived p n) (chunks (os_in (wo_os w) ?f))" by blast
  have others: "os_in (wo_os w1) (sr_descriptor t' w1) = os_in (wo_os w) (sr_descriptor t' w)"
    if "t' \<in> set (sub_reads ps)" for t'
  proof -
    have "sr_descriptor t' w \<in> (\<lambda>t. sr_descriptor t w) ` set (sub_reads ps)" using that by blast
    moreover have "?f \<notin> (\<lambda>t. sr_descriptor t w) ` set (sub_reads ps)" using 2(2) by (simp add: drainable_def)
    ultimately have "sr_descriptor t' w \<noteq> ?f" by metis
    then show ?thesis by (simp add: view_cong(2,4) [OF w1(2)])
  qed
  with 2(2) have "drainable fuel ps w1"
    using view_cong(1,2) [OF w1(2)] by (simp add: drainable_def)
  from 2(1) [OF this] obtain w' X where w': "drain_pipes U (Suc fuel) p ps w1 = (Inr True, w')"
    "wo_calls w' = wo_calls w1 @ exit_calls p w1 ps"
    "proc_view w' = proc_view (w1\<lparr>wo_os := (wo_os w1)\<lparr>os_in := X\<rparr>\<rparr>)" by blast
  moreover have "proc_view (w1\<lparr>wo_os := (wo_os w1)\<lparr>os_in := X\<rparr>\<rparr>) = proc_view (w\<lparr>wo_os := (wo_os w)\<lparr>os_in := X\<rparr>\<rparr>)"
    using w1(2) by (simp add: proc_view_def taken_in_def)
  ultimately show ?case
    using w1 exit_calls_cong [of ps w1 w p, OF others] by (intro exI [of _ w'] exI [of _ X]) simp
next
  case (3 n t ps)
  then show ?case by (simp add: drainable_def drain_pipe_def)
qed


section \<open>Closing the pipes and waking the waiters\<close>

lemma remove_reader_returns:
  assumes "\<not> lo_epoll_closed w" "0 \<le> f"
  shows "\<exists>b r c ev. remove_reader f w = (Inr b, w\<lparr>lo_readers := r, lo_core := c, lo_epoll := ev\<rparr>)"
proof (cases "lo_readers w f")
  case None
  then show ?thesis
    by (intro exI [of _ False] exI [of _ "lo_readers w"] exI [of _ "lo_core w"] exI [of _ "lo_epoll w"])
      (simp add: remove_reader_def)
next
  case (Some cb)
  let ?w = "w\<lparr>lo_readers := (lo_readers w)(f := None), lo_core := core_remove_reader f (lo_core w)\<rparr>"
  have "\<exists>ev. tryM (if lo_writers ?w f \<noteq> None then epoll_modify f EPOLLOUT else epoll_unregister f)
      is_OSError (\<lambda>_. ret ()) ?w = (Inr (), ?w\<lparr>lo_epoll := ev\<rparr>)"
    using assms by (auto simp: epoll_op_defs py_defs split: option.split intro: exI [of _ "lo_epoll w"])
  then obtain ev where "tryM (if lo_writers ?w f \<noteq> None then epoll_modify f EPOLLOUT else epoll_unregister f)
      is_OSError (\<lambda>_. ret ()) ?w = (Inr (), ?w\<lparr>lo_epoll := ev\<rparr>)" by blast
  with Some have "remove_reader f w = (Inr True, ?w\<lparr>lo_epoll := ev\<rparr>)"
    by (simp add: remove_reader_def mod_core_def)
  then show ?thesis by auto
qed

definition pipe_object :: "world \<Rightarrow> sub_pipe \<Rightarrow> nat" where
  "pipe_object w sp = (case sp of SubRead t \<Rightarrow> sr_pipe (the_sr t w) | SubWrite t \<Rightarrow> sw_pipe (the_sw t w))"

definition closable :: "world \<Rightarrow> sub_pipe \<Rightarrow> bool" where
  "closable w sp \<longleftrightarrow> (case sp of SubRead t \<Rightarrow> sr_closing (the_sr t w) \<or>
      \<not> pi_closed (wo_pipes w (pipe_object w sp)) \<and> 0 \<le> pi_fd (wo_pipes w (pipe_object w sp)) | SubWrite t \<Rightarrow> True)"

text \<open>What closing one pipe leaves alone: everything the exit handling still needs.\<close>

definition closed_frame :: "sub_pipe \<Rightarrow> world \<Rightarrow> world \<Rightarrow> bool" where
  "closed_frame sp w w' \<longleftrightarrow> wo_calls w' = wo_calls w \<and> lo_futs w' = lo_futs w \<and> wo_subprocs w' = wo_subprocs w \<and>
     refusal w' = refusal w \<and> lo_epoll_closed w' = lo_epoll_closed w \<and> pipe_object w' = pipe_object w \<and>
     (\<forall>k. k \<noteq> pipe_object w sp \<longrightarrow> wo_pipes w' k = wo_pipes w k) \<and>
     (\<forall>t. SubRead t \<noteq> sp \<longrightarrow> sr_closing (the_sr t w') = sr_closing (the_sr t w))"

lemma pipe_close_frame [simp]:
  "wo_calls (pipe_close k w) = wo_calls w" "lo_futs (pipe_close k w) = lo_futs w"
  "wo_subprocs (pipe_close k w) = wo_subprocs w" "refusal (pipe_close k w) = refusal w"
  "lo_epoll_closed (pipe_close k w) = lo_epoll_closed w" "wo_sub_reads (pipe_close k w) = wo_sub_reads w"
  "wo_sub_writes (pipe_close k w) = wo_sub_writes w" "j \<noteq> k \<Longrightarrow> wo_pipes (pipe_close k w) j = wo_pipes w j"
  "lo_closed (pipe_close k w) = lo_closed w" "lo_debug (pipe_close k w) = lo_debug w"
  by (simp_all add: pipe_close_def Let_def os_close_def refusal_def)

lemma sub_pipe_close_ok:
  assumes "closable w sp" "\<not> lo_epoll_closed w"
  shows "\<exists>w'. sub_pipe_close sp w = (Inr (), w') \<and> closed_frame sp w w'"
proof (cases sp)
  case (SubWrite t)
  then show ?thesis
    by (auto simp: sub_pipe_close_def sw_close_def mod_sw_def closed_frame_def pipe_object_def fun_eq_iff refusal_def
        whenM_def split: sub_pipe.split)
next
  case (SubRead t)
  show ?thesis
  proof (cases "sr_closing (the_sr t w)")
    case True
    with SubRead show ?thesis by (simp add: sub_pipe_close_def sr_close_def closed_frame_def)
  next
    case False
    let ?f = "pi_fd (wo_pipes w (sr_pipe (the_sr t w)))"
    let ?w1 = "w\<lparr>wo_sub_reads := (wo_sub_reads w)(t := (the_sr t w)\<lparr>sr_closing := True\<rparr>)\<rparr>"
    have ok: "\<not> pi_closed (wo_pipes w (sr_pipe (the_sr t w)))" "0 \<le> ?f"
      using assms(1) SubRead False by (simp_all add: closable_def pipe_object_def)
    then obtain b r c ev where "remove_reader ?f ?w1 = (Inr b, ?w1\<lparr>lo_readers := r, lo_core := c, lo_epoll := ev\<rparr>)"
      using remove_reader_returns [of ?w1 ?f] assms(2) by auto
    with ok(1) SubRead False have "sub_pipe_close sp w =
        (Inr (), pipe_close (sr_pipe (the_sr t w)) (?w1\<lparr>lo_readers := r, lo_core := c, lo_epoll := ev\<rparr>))"
      by (simp add: sub_pipe_close_def sr_close_def mod_sr_def sr_pause_reading_def sr_fileno_def pipe_fileno_def)
    with SubRead show ?thesis
      by (auto simp: closed_frame_def pipe_object_def fun_eq_iff refusal_def split: sub_pipe.split)
  qed
qed


lemma closable_frame:
  assumes "closed_frame sp w w'" "closable w sp'" "pipe_object w sp' \<noteq> pipe_object w sp"
  shows "closable w' sp'"
proof (cases sp')
  case (SubRead t)
  with assms(3) have "SubRead t \<noteq> sp" by auto
  with assms SubRead show ?thesis by (auto simp: closable_def closed_frame_def)
qed (simp add: closable_def)

lemma close_pipes_ok:
  assumes "\<forall>sp \<in> set sps. closable w sp" "distinct (map (pipe_object w) sps)" "\<not> lo_epoll_closed w"
  shows "\<exists>w'. forM sps sub_pipe_close w = (Inr (), w') \<and> wo_calls w' = wo_calls w \<and> lo_futs w' = lo_futs w \<and>
    wo_subprocs w' = wo_subprocs w \<and> refusal w' = refusal w"
  using assms
proof (induction sps arbitrary: w)
  case (Cons sp sps)
  from Cons.prems obtain w1 where w1: "sub_pipe_close sp w = (Inr (), w1)" "closed_frame sp w w1"
    using sub_pipe_close_ok [of w sp] by auto
  have "\<forall>sp' \<in> set sps. closable w1 sp'"
  proof
    fix sp' assume sp': "sp' \<in> set sps"
    then have "pipe_object w sp' \<in> pipe_object w ` set sps" by blast
    with Cons.prems(2) have "pipe_object w sp' \<noteq> pipe_object w sp" by auto
    with closable_frame [OF w1(2)] Cons.prems(1) sp' show "closable w1 sp'" by simp
  qed
  moreover from w1(2) Cons.prems have "distinct (map (pipe_object w1) sps)" "\<not> lo_epoll_closed w1"
    by (simp_all add: closed_frame_def)
  ultimately obtain w' where "forM sps sub_pipe_close w1 = (Inr (), w')" "wo_calls w' = wo_calls w1"
    "lo_futs w' = lo_futs w1" "wo_subprocs w' = wo_subprocs w1" "refusal w' = refusal w1"
    using Cons.IH by blast
  with w1 show ?case by (simp add: closed_frame_def del: refusal_None)
qed simp

lemma wake_waiter_ok:
  assumes "refusal w = None"
  shows "\<exists>w'. wake_waiter rc f w = (Inr (), w') \<and> refusal w' = None \<and> wo_calls w' = wo_calls w \<and>
    wo_subprocs w' = wo_subprocs w \<and> lo_futs w' = (lo_futs w)(f :=
      if fu_state (lo_futs w f) = Pending then \<lparr>fu_state = Finished (VInt rc), fu_callbacks = []\<rparr> else lo_futs w f)"
proof (cases "fu_state (lo_futs w f) = Pending")
  case True
  then have "wake_waiter rc f w = settle f (Finished (VInt rc)) w"
    by (simp add: wake_waiter_def set_result_def fut_done_def bindM_def)
  with True show ?thesis using settle_ok [OF assms, of f "Finished (VInt rc)"] by auto
next
  case False
  with assms show ?thesis by (simp add: wake_waiter_def fut_done_def)
qed

lemma wake_waiters_ok:
  assumes "refusal w = None"
  shows "\<exists>w'. forM ws (wake_waiter rc) w = (Inr (), w') \<and> wo_calls w' = wo_calls w \<and> wo_subprocs w' = wo_subprocs w \<and>
    (\<forall>f. fu_state (lo_futs w' f) =
       (if f \<in> set ws \<and> fu_state (lo_futs w f) = Pending then Finished (VInt rc) else fu_state (lo_futs w f)))"
  using assms
proof (induction ws arbitrary: w)
  case (Cons f ws)
  from wake_waiter_ok [OF Cons.prems, of rc f] obtain w1 where w1: "wake_waiter rc f w = (Inr (), w1)"
    "refusal w1 = None" "wo_calls w1 = wo_calls w" "wo_subprocs w1 = wo_subprocs w" "lo_futs w1 = (lo_futs w)(f :=
      if fu_state (lo_futs w f) = Pending then \<lparr>fu_state = Finished (VInt rc), fu_callbacks = []\<rparr> else lo_futs w f)"
    by blast
  from Cons.IH [OF w1(2)] w1 show ?case by auto
qed simp

text \<open>
  C11. The exit of a child: with the fuel the waiting bytes need, the drain loops end; the
  protocol is given every byte left in the child's output pipes, stream by stream, in order
  and complete, and only then \<open>process_exited\<close>; the return code is recorded, and every waiter
  that was pending has it as its result.
\<close>

theorem process_exit_drains_then_reports:
  assumes U: "proc_user U" and loop: "refusal w = None" "\<not> lo_epoll_closed w"
    and ps: "ps = sp_pipes (the_sp k w)" "p = sp_protocol (the_sp k w)"
    and pipes: "drainable fuel ps w" "distinct (map (pipe_object w) (map snd ps))" "\<forall>sp \<in> snd ` set ps. closable w sp"
  shows "\<exists>w'. process_exited U (Suc fuel) k rc w = (Inr True, w') \<and>
    wo_calls w' = wo_calls w @ exit_calls p w ps @ [ProcessExited p] \<and> get_returncode k w' = Some rc \<and>
    (\<forall>t \<in> set (sub_reads ps). concat (chunks (os_in (wo_os w) (sr_descriptor t w))) = os_in (wo_os w) (sr_descriptor t w)) \<and>
    (\<forall>f \<in> set (sp_exit_waiters (the_sp k w)). fu_state (lo_futs w f) = Pending \<longrightarrow>
       fu_state (lo_futs w' f) = Finished (VInt rc))"
proof -
  let ?w0 = "w\<lparr>wo_subprocs := (wo_subprocs w)(k := (the_sp k w)\<lparr>sp_returncode := Some rc\<rparr>)\<rparr>"
  have same: "sr_readable t ?w0 = sr_readable t w" "sr_descriptor t ?w0 = sr_descriptor t w" for t
    by (simp_all add: sr_readable_def sr_descriptor_def)
  have ec: "exit_calls p ?w0 ps = exit_calls p w ps" by (rule exit_calls_cong) (simp add: same)
  have "drainable fuel ps ?w0" using pipes(1) by (simp add: drainable_def same)
  from drain_pipes_ok [OF U this, of p] ec obtain w1 X where w1: "drain_pipes U (Suc fuel) p ps ?w0 = (Inr True, w1)"
    "wo_calls w1 = wo_calls w @ exit_calls p w ps" "proc_view w1 = proc_view (?w0\<lparr>wo_os := (wo_os w)\<lparr>os_in := X\<rparr>\<rparr>)"
    by auto
  from w1(3) have v1: "wo_subprocs w1 = wo_subprocs ?w0" "refusal w1 = None" "\<not> lo_epoll_closed w1" "lo_futs w1 = lo_futs w"
    "pipe_object w1 = pipe_object w" "closable w1 = closable w"
    using loop by (simp_all add: proc_view_def pipe_object_def closable_def fun_eq_iff split: sub_pipe.split)
  obtain w2 where w2: "forM (map snd ps) sub_pipe_close w1 = (Inr (), w2)" "wo_calls w2 = wo_calls w1"
    "lo_futs w2 = lo_futs w1" "wo_subprocs w2 = wo_subprocs w1" "refusal w2 = None"
    using close_pipes_ok [of "map snd ps" w1] v1 pipes(2,3) by auto
  obtain w3 where w3: "notify U (ProcessExited p) w2 = (Inr (), w3)" "proc_view w3 = proc_view w2"
    "wo_calls w3 = wo_calls w2 @ [ProcessExited p]" using proc_user_notify [OF U] by blast
  then have v3: "refusal w3 = None" "lo_futs w3 = lo_futs w" "wo_subprocs w3 = wo_subprocs ?w0"
    using w2 v1 by (simp_all add: proc_view_def)
  obtain w4 where w4: "forM (sp_exit_waiters (the_sp k w)) (wake_waiter rc) w3 = (Inr (), w4)"
    "wo_calls w4 = wo_calls w3" "wo_subprocs w4 = wo_subprocs w3"
    "\<forall>f. fu_state (lo_futs w4 f) = (if f \<in> set (sp_exit_waiters (the_sp k w)) \<and> fu_state (lo_futs w3 f) = Pending
       then Finished (VInt rc) else fu_state (lo_futs w3 f))"
    using wake_waiters_ok [OF v3(1)] by blast
  have "process_exited U (Suc fuel) k rc w = (Inr True, w4)"
    using w1 v1 w2 w3 v3 w4(1) ps by (simp add: process_exited_def mod_sp_def del: drain_pipes.simps)
  with w1 w2 w3 v3 w4 show ?thesis by (simp add: get_returncode_def)
qed


definition demo_child :: world where
  "demo_child = demo_world\<lparr>wo_os := demo_os\<lparr>os_in := (\<lambda>_. [104, 105])\<rparr>,
     wo_subprocs := (\<lambda>_. \<lparr>sp_protocol = 0, sp_pid = 9, sp_returncode = None, sp_closed = False,
        sp_exit_waiters = [0], sp_pipes = [(1, SubRead 0)], sp_pidfd = None, sp_thread = True\<rparr>)\<rparr>"

lemma demo_child_pipes [simp]:
  "sr_descriptor 0 demo_child = 6" "sr_readable 0 demo_child" "closable demo_child (SubRead 0)"
  "\<not> lo_epoll_closed demo_child" "fu_state (lo_futs demo_child f) = Pending"
  by (simp_all add: demo_child_def demo_world_def demo_os_def sr_descriptor_def sr_readable_def closable_def pipe_object_def)

lemma proc_user_quiet: "proc_user quiet"
  by (simp add: proc_user_def polite_quiet)

theorem process_exit_drains_then_reports_witness:
  "\<exists>w'. process_exited quiet 2 0 7 demo_child = (Inr True, w') \<and>
     wo_calls w' = [PipeDataReceived 0 1 [104, 105], ProcessExited 0] \<and> get_returncode 0 w' = Some 7 \<and>
     fu_state (lo_futs w' 0) = Finished (VInt 7)"
proof -
  have "\<exists>w'. process_exited quiet (Suc 1) 0 7 demo_child = (Inr True, w') \<and>
    wo_calls w' = wo_calls demo_child @ exit_calls 0 demo_child [(1, SubRead 0)] @ [ProcessExited 0] \<and>
    get_returncode 0 w' = Some 7 \<and>
    (\<forall>t \<in> set (sub_reads [(1, SubRead 0)]). concat (chunks (os_in (wo_os demo_child) (sr_descriptor t demo_child))) =
       os_in (wo_os demo_child) (sr_descriptor t demo_child)) \<and>
    (\<forall>f \<in> set (sp_exit_waiters (the_sp 0 demo_child)). fu_state (lo_futs demo_child f) = Pending \<longrightarrow>
       fu_state (lo_futs w' f) = Finished (VInt 7))"
    by (rule process_exit_drains_then_reports [OF proc_user_quiet])
      (simp_all add: drainable_def, simp_all add: demo_child_def)
  then show ?thesis
    by (simp add: chunks.simps numeral_2_eq_2 del: drain_loop.simps) (simp add: demo_child_def numeral_2_eq_2)
qed

section \<open>An exit that never reaches its waiters\<close>

lemma drain_pipes_append:
  "drain_pipes U fuel p (xs @ ys) w = (case drain_pipes U fuel p xs w of
      (Inl e, w') \<Rightarrow> (Inl e, w') | (Inr b, w') \<Rightarrow> if b then drain_pipes U fuel p ys w' else (Inr False, w'))"
  by (induction xs arbitrary: w) (auto simp: bindM_def split: prod.split sum.split)

text \<open>
  C40. If an output pipe of the child was closed through its transport before the child exits,
  the exit is never reported: the drain raises \<open>ValueError\<close> on the closed file, which its clause
  does not catch, so the pipes after it are not drained, no pipe is closed, \<open>process_exited\<close> is not
  called, and every waiter stays as it was, although the return code is recorded.
\<close>

theorem exit_with_closed_pipe_unreported:
  assumes U: "proc_user U"
    and ps: "sp_pipes (the_sp k w) = before @ (n, SubRead t) # after" "p = sp_protocol (the_sp k w)"
    and closed: "pi_closed (wo_pipes w (sr_pipe (the_sr t w)))" and pipes: "drainable fuel before w"
  shows "\<exists>w'. process_exited U (Suc fuel) k rc w = (Inl (ValueError ''I/O operation on closed file''), w') \<and>
    wo_calls w' = wo_calls w @ exit_calls p w before \<and> lo_futs w' = lo_futs w \<and> wo_pipes w' = wo_pipes w \<and>
    get_returncode k w' = Some rc"
proof -
  let ?w0 = "w\<lparr>wo_subprocs := (wo_subprocs w)(k := (the_sp k w)\<lparr>sp_returncode := Some rc\<rparr>)\<rparr>"
  have same: "sr_readable t ?w0 = sr_readable t w" "sr_descriptor t ?w0 = sr_descriptor t w" for t
    by (simp_all add: sr_readable_def sr_descriptor_def)
  have "drainable fuel before ?w0" using pipes by (simp add: drainable_def same)
  moreover have "exit_calls p ?w0 before = exit_calls p w before" by (rule exit_calls_cong) (simp add: same)
  ultimately obtain w1 X where w1: "drain_pipes U (Suc fuel) p before ?w0 = (Inr True, w1)"
    "wo_calls w1 = wo_calls w @ exit_calls p w before" "proc_view w1 = proc_view (?w0\<lparr>wo_os := (wo_os w)\<lparr>os_in := X\<rparr>\<rparr>)"
    using drain_pipes_ok [OF U, of fuel before ?w0 p] by auto
  then have v1: "pi_closed (wo_pipes w1 (sr_pipe (the_sr t w1)))" "wo_subprocs w1 = wo_subprocs ?w0" "lo_futs w1 = lo_futs w"
    "wo_pipes w1 = wo_pipes w"
    using closed by (simp_all add: proc_view_def)
  have "drain_pipe U (Suc fuel) p (n, SubRead t) w1 = (Inl (ValueError ''I/O operation on closed file''), w1)"
    using v1(1) by (simp add: drain_pipe_def sr_fileno_def pipe_fileno_def)
  then have "process_exited U (Suc fuel) k rc w = (Inl (ValueError ''I/O operation on closed file''), w1)"
    using w1(1) ps by (simp add: process_exited_def mod_sp_def drain_pipes_append bindM_def seqM_def)
  with w1(2) v1 show ?thesis by (simp add: get_returncode_def)
qed

theorem exit_with_closed_pipe_unreported_witness:
  "\<exists>w'. process_exited quiet 2 0 7 (demo_child\<lparr>wo_pipes := (\<lambda>_. \<lparr>pi_fd = 6, pi_closed = True\<rparr>)\<rparr>) =
       (Inl (ValueError ''I/O operation on closed file''), w') \<and> fu_state (lo_futs w' 0) = Pending"
proof -
  let ?w = "demo_child\<lparr>wo_pipes := (\<lambda>_. \<lparr>pi_fd = 6, pi_closed = True\<rparr>)\<rparr>"
  have ps: "sp_pipes (the_sp 0 ?w) = [] @ (1, SubRead 0) # []" "pi_closed (wo_pipes ?w (sr_pipe (the_sr 0 ?w)))"
    by (simp_all add: demo_child_def)
  have "drainable 1 [] ?w" by (simp add: drainable_def)
  from exit_with_closed_pipe_unreported [OF proc_user_quiet ps(1) refl ps(2) this, of 7]
  show ?thesis by (auto simp: numeral_2_eq_2)
qed

end
