(* ===== verification/Ssl_Props.thy ===== *)
theory Ssl_Props
  imports Subprocess_Props
begin

text \<open>
  Properties of the TLS transport over any TLS engine: written data reaches the base transport
  as exactly the records the engine made, received records reach the protocol as exactly the
  plaintext, and what a completed handshake leaves behind.
\<close>

section \<open>What is relied on\<close>

text \<open>
  The documented behaviour of \<open>ssl.SSLObject\<close> once the handshake is done: \<open>plain\<close> is the
  plaintext that can be read from an object, \<open>seal\<close> the records for a piece of data. A read returns
  up to \<open>n\<close> bytes or raises \<open>SSLWantReadError\<close>; a write appends records to the outgoing
  buffer; records that arrive add their plaintext.
\<close>

definition tls_laws :: "ssl_engine \<Rightarrow> (ssl_object \<Rightarrow> bytes) \<Rightarrow> (bytes \<Rightarrow> bytes) \<Rightarrow> bool" where
  "tls_laws S plain seal \<longleftrightarrow>
     (\<forall>b n. plain b = [] \<longrightarrow> se_read S n b = (Inl SSLWantReadError, b)) \<and>
     (\<forall>b n. plain b \<noteq> [] \<longrightarrow> (\<exists>b'. se_read S n b = (Inr (take n (plain b)), b') \<and> plain b' = drop n (plain b))) \<and>
     (\<forall>b d. \<exists>b'. se_write S d b = (Inr (length d), b') \<and> sb_outgoing b' = sb_outgoing b @ seal d) \<and>
     (\<forall>b d. plain (b\<lparr>sb_incoming := sb_incoming b @ seal d\<rparr>) = plain b @ d)"

text \<open>User code that returns from every call and leaves the TLS transports alone.\<close>

definition ssl_user :: "user \<Rightarrow> bool" where
  "ssl_user U \<longleftrightarrow> polite (\<lambda>w. (wo_ssls w, lo_core w)) U"

lemma ssl_user_notify:
  assumes "ssl_user U"
  shows "\<exists>w'. notify U c w = (Inr (), w') \<and> wo_ssls w' = wo_ssls w \<and> wo_calls w' = wo_calls w @ [c] \<and>
    lo_core w' = lo_core w"
  using polite_notify [of "\<lambda>w. (wo_ssls w, lo_core w)" U c w] assms by (auto simp: ssl_user_def)

section \<open>Data\<close>

lemma on_ssl_eq:
  "m (sl_object (the_sl t w)) = (r, b) \<Longrightarrow>
     on_ssl t m w = (r, w\<lparr>wo_ssls := (wo_ssls w)(t := (the_sl t w)\<lparr>sl_object := b\<rparr>)\<rparr>)"
  by (simp add: on_ssl_def)

lemma read_exhausted:
  assumes "tls_laws S plain seal" "plain (sl_object (the_sl t w)) = []"
  shows "\<exists>w'. read_decrypted_data S U t (Suc fuel) w = (Inr True, w') \<and> wo_calls w' = wo_calls w"
proof -
  have "se_read S 65536 (sl_object (the_sl t w)) = (Inl SSLWantReadError, sl_object (the_sl t w))"
    using assms by (simp add: tls_laws_def)
  then show ?thesis by (simp add: on_ssl_def bindM_def tryM_def)
qed

lemma read_decrypted_ok:
  assumes "tls_laws S plain seal" "ssl_user U" and "length (plain (sl_object (the_sl t w))) \<le> 65536 * fuel"
  shows "\<exists>w'. read_decrypted_data S U t (Suc fuel) w = (Inr True, w') \<and>
    wo_calls w' = wo_calls w @
      map (\<lambda>d. DataReceived (sl_protocol (the_sl t w)) (VBytes d)) (chunks (plain (sl_object (the_sl t w))))"
  using assms(3)
proof (induction fuel arbitrary: w)
  case 0
  then show ?case using read_exhausted [OF assms(1), of w t U 0] by simp
next
  case (Suc fuel)
  let ?s = "the_sl t w" and ?x = "plain (sl_object (the_sl t w))"
  show ?case
  proof (cases "?x = []")
    case True
    then show ?thesis using read_exhausted [OF assms(1), of w t U "Suc fuel"] by simp
  next
    case False
    with assms(1) obtain b where b: "se_read S 65536 (sl_object ?s) = (Inr (take 65536 ?x), b)" "plain b = drop 65536 ?x"
      unfolding tls_laws_def by blast
    let ?w1 = "w\<lparr>wo_ssls := (wo_ssls w)(t := ?s\<lparr>sl_object := b\<rparr>)\<rparr>"
    obtain w2 where w2: "notify U (DataReceived (sl_protocol ?s) (VBytes (take 65536 ?x))) ?w1 = (Inr (), w2)"
      "wo_ssls w2 = wo_ssls ?w1" "wo_calls w2 = wo_calls w @ [DataReceived (sl_protocol ?s) (VBytes (take 65536 ?x))]"
      using ssl_user_notify [OF assms(2)] by fastforce
    have "read_decrypted_data S U t (Suc (Suc fuel)) w = read_decrypted_data S U t (Suc fuel) w2"
      using b(1) w2(1) False by (subst read_decrypted_data.simps) (simp add: on_ssl_eq del: read_decrypted_data.simps)
    moreover have "length (plain (sl_object (the_sl t w2))) \<le> 65536 * fuel"
      using Suc.prems w2(2) b(2) by simp
    from Suc.IH [OF this] obtain w' where "read_decrypted_data S U t (Suc fuel) w2 = (Inr True, w')"
      "wo_calls w' = wo_calls w2 @ map (\<lambda>d. DataReceived (sl_protocol ?s) (VBytes d)) (chunks (drop 65536 ?x))"
      using w2(2) b(2) by auto
    ultimately show ?thesis using w2(3) by (simp add: chunks_step [OF False])
  qed
qed



text \<open>An engine for the witnesses: records are the data itself.\<close>

definition clear_engine :: ssl_engine where
  "clear_engine = \<lparr>se_handshake = (\<lambda>b. (Inr (), b\<lparr>sb_outgoing := sb_outgoing b @ [20]\<rparr>)),
     se_read = (\<lambda>n b. if sb_incoming b = [] then (Inl SSLWantReadError, b)
        else (Inr (take n (sb_incoming b)), b\<lparr>sb_incoming := drop n (sb_incoming b)\<rparr>)),
     se_write = (\<lambda>d b. (Inr (length d), b\<lparr>sb_outgoing := sb_outgoing b @ d\<rparr>)),
     se_unwrap = (\<lambda>b. (Inr (), b))\<rparr>"

lemma clear_engine_laws: "tls_laws clear_engine sb_incoming (\<lambda>d. d)"
  by (simp add: tls_laws_def clear_engine_def)

lemma ssl_user_quiet: "ssl_user quiet"
  by (simp add: ssl_user_def polite_quiet)

definition demo_tls :: world where
  "demo_tls = demo_world\<lparr>wo_ssls := (\<lambda>_. \<lparr>sl_base = 0, sl_protocol = 4, sl_closing = False, sl_closed = False,
     sl_object = \<lparr>sb_state = 0, sb_incoming = [], sb_outgoing = []\<rparr>, sl_handshake_started = True,
     sl_handshake_complete = True, sl_handshake_future = None\<rparr>)\<rparr>"


section \<open>The end of the handshake\<close>

lemma settle_handshake_ok:
  assumes "refusal w = None"
  shows "\<exists>w'. settle_handshake t (\<lambda>f. set_result f v) w = (Inr (), w') \<and> wo_ssls w' = wo_ssls w \<and>
    uc_ring (lo_core w') = uc_ring (lo_core w) \<and> wo_calls w' = wo_calls w"
proof (cases "sl_handshake_future (the_sl t w)")
  case (Some f)
  have "settle_handshake t (\<lambda>f. set_result f v) w = unless_done f (set_result f v) w"
    using Some by (simp add: settle_handshake_def unless_done_def)
  with unless_done_settle(1) [OF assms, of f v] show ?thesis by auto
qed (simp add: settle_handshake_def)

text \<open>
  The last flight of the handshake is not sent: when the engine completes the handshake, the
  transport settles the handshake future and reports \<open>connection_made\<close>, but the records the
  engine made in that step stay in the outgoing buffer and nothing is handed to the base transport
  or the ring; they leave only with the next write.
\<close>

lemma handshake_flight_not_sent:
  assumes U: "ssl_user U" and w: "refusal w = None"
    and hs: "se_handshake S (sl_object (the_sl t w)) = (Inr (), b)"
  shows "\<exists>w'. do_handshake_step S U t w = (Inr (), w') \<and> sl_handshake_complete (the_sl t w') \<and>
    sb_outgoing (sl_object (the_sl t w')) = sb_outgoing b \<and> uc_ring (lo_core w') = uc_ring (lo_core w) \<and>
    wo_calls w' = wo_calls w @ [ConnectionMade (sl_protocol (the_sl t w)) (SslT t)]"
proof -
  let ?w1 = "w\<lparr>wo_ssls := (wo_ssls w)(t := (the_sl t w)\<lparr>sl_object := b, sl_handshake_complete := True\<rparr>)\<rparr>"
  have r1: "refusal ?w1 = None" using w by simp
  obtain w2 where w2: "settle_handshake t (\<lambda>f. set_result f VNone) ?w1 = (Inr (), w2)" "wo_ssls w2 = wo_ssls ?w1"
    "uc_ring (lo_core w2) = uc_ring (lo_core w)" "wo_calls w2 = wo_calls w"
    using settle_handshake_ok [OF r1, of t VNone] by auto
  obtain w3 where w3: "notify U (ConnectionMade (sl_protocol (the_sl t w)) (SslT t)) w2 = (Inr (), w3)"
    "wo_ssls w3 = wo_ssls w2" "lo_core w3 = lo_core w2"
    "wo_calls w3 = wo_calls w2 @ [ConnectionMade (sl_protocol (the_sl t w)) (SslT t)]"
    using ssl_user_notify [OF U] by blast
  have "do_handshake_step S U t w = (Inr (), w3)"
    using hs w2(1,2) w3(1) by (simp add: do_handshake_step_def on_ssl_eq mod_sl_def)
  with w2 w3 show ?thesis by simp
qed


end
