(* ===== verification/Native_Future.thy ===== *)
theory Native_Future
  imports Loop_State
begin

text \<open>
  The native future \<open>UringFuture\<close> (\<open>src/src/future.rs\<close>): its state machine, its callbacks, the
  iterator protocol, and the fast path by which a tick settles it without calling the
  loop. A future is a value beside the loop's state, which its callbacks are scheduled on. As for
  \<open>asyncio\<close> futures, a callback stands for the function with the future as its argument; contexts
  are not modelled.

  Both kinds of futures satisfy the interface \<open>one_shot\<close>: the first attempt to settle wins. The
  native one refines the \<open>asyncio\<close> one operation by operation, up to the class of the
  error on a second attempt, and the fast path equals the slow one on an open loop.
\<close>

record 'cb uring_future =
  uf_state :: fut_state
  uf_callbacks :: "'cb list"

type_synonym ('cb, 'x) native = "'cb uring_future \<times> ('cb, 'x) loop_scheme"

definition nf_new :: "'cb uring_future" where
  "nf_new = \<lparr>uf_state = Pending, uf_callbacks = []\<rparr>"

definition on_loop :: "(('cb, 'x) loop_scheme, 'a) pyM \<Rightarrow> (('cb, 'x) native, 'a) pyM" where
  "on_loop m = (\<lambda>(u, w). case m w of (r, w') \<Rightarrow> (r, (u, w')))"

definition mod_future :: "('cb uring_future \<Rightarrow> 'cb uring_future) \<Rightarrow> (('cb, 'x) native, unit) pyM" where
  "mod_future g = modM (\<lambda>(u, w). (g u, w))"

section \<open>Queries\<close>

definition nf_done :: "('cb, 'x) native \<Rightarrow> bool" where
  "nf_done s \<longleftrightarrow> uf_state (fst s) \<noteq> Pending"

definition nf_cancelled :: "('cb, 'x) native \<Rightarrow> bool" where
  "nf_cancelled s \<longleftrightarrow> uf_state (fst s) = Cancelled"

definition nf_result :: "(('cb, 'x) native, pyval) pyM" where
  "nf_result = bindM (getM (\<lambda>s. uf_state (fst s))) (\<lambda>st. case st of
      Pending \<Rightarrow> raise (ValueError ''Result is not ready.'')
    | Finished v \<Rightarrow> ret v
    | Failed e \<Rightarrow> raise e
    | Cancelled \<Rightarrow> raise CancelledError)"

definition nf_exception :: "(('cb, 'x) native, exn option) pyM" where
  "nf_exception = bindM (getM (\<lambda>s. uf_state (fst s))) (\<lambda>st. case st of
      Pending \<Rightarrow> raise (ValueError ''Exception is not set.'')
    | Finished v \<Rightarrow> ret None
    | Failed e \<Rightarrow> ret (Some e)
    | Cancelled \<Rightarrow> raise CancelledError)"

section \<open>Scheduling the callbacks\<close>

definition schedule_single :: "'cb \<Rightarrow> (('cb, 'x) native, unit) pyM" where
  "schedule_single cb = on_loop (bindM (call_soon cb) (\<lambda>_. ret ()))"

definition take_callbacks :: "(('cb, 'x) native, 'cb list) pyM" where
  "take_callbacks = (\<lambda>(u, w). (Inr (uf_callbacks u), (u\<lparr>uf_callbacks := []\<rparr>, w)))"

definition schedule_callbacks :: "(('cb, 'x) native, unit) pyM" where
  "schedule_callbacks = bindM take_callbacks (\<lambda>cbs. forM cbs schedule_single)"

text \<open>The fast path makes the handle itself and pushes it on the ready queue.\<close>

definition schedule_fast :: "(('cb, 'x) native, unit) pyM" where
  "schedule_fast = bindM take_callbacks (\<lambda>cbs. forM cbs (\<lambda>cb.
     on_loop (bindM (new_handle NativeHandle cb) (\<lambda>h. mod_core (push_task h)))))"

section \<open>Settling\<close>

text \<open>The state is written only while it is pending; \<open>m\<close> schedules the callbacks.\<close>

definition nf_settle :: "fut_state \<Rightarrow> (('cb, 'x) native, unit) pyM \<Rightarrow> (('cb, 'x) native, unit) pyM" where
  "nf_settle st m = bindM (getM nf_done) (\<lambda>d.
     if d then raise (ValueError ''Future is already done.'')
     else seqM (mod_future (\<lambda>u. u\<lparr>uf_state := st\<rparr>)) m)"

definition nf_set_result :: "pyval \<Rightarrow> (('cb, 'x) native, unit) pyM" where
  "nf_set_result v = nf_settle (Finished v) schedule_callbacks"

definition nf_set_exception :: "exn \<Rightarrow> (('cb, 'x) native, unit) pyM" where
  "nf_set_exception e = nf_settle (Failed e) schedule_callbacks"

definition set_result_fast :: "pyval \<Rightarrow> (('cb, 'x) native, unit) pyM" where
  "set_result_fast v = nf_settle (Finished v) schedule_fast"

definition set_exception_fast :: "exn \<Rightarrow> (('cb, 'x) native, unit) pyM" where
  "set_exception_fast e = nf_settle (Failed e) schedule_fast"

definition nf_cancel :: "(('cb, 'x) native, bool) pyM" where
  "nf_cancel = bindM (getM nf_done) (\<lambda>d.
     if d then ret False
     else seqM (mod_future (\<lambda>u. u\<lparr>uf_state := Cancelled\<rparr>)) (seqM schedule_callbacks (ret True)))"

definition nf_add_done_callback :: "'cb \<Rightarrow> (('cb, 'x) native, unit) pyM" where
  "nf_add_done_callback cb = bindM (getM nf_done) (\<lambda>d.
     if d then schedule_single cb
     else mod_future (\<lambda>u. u\<lparr>uf_callbacks := uf_callbacks u @ [cb]\<rparr>))"

definition nf_remove_done_callback :: "'cb \<Rightarrow> (('cb, 'x) native, nat) pyM" where
  "nf_remove_done_callback cb = (\<lambda>(u, w). (Inr (length (filter (\<lambda>x. x = cb) (uf_callbacks u))),
     (u\<lparr>uf_callbacks := filter (\<lambda>x. x \<noteq> cb) (uf_callbacks u)\<rparr>, w)))"

section \<open>The iterator protocol\<close>

text \<open>\<open>Yielded\<close>: the future gives itself to the task; \<open>StopIteration\<close> carries the result.\<close>

datatype awaited = Yielded | StopIteration pyval

definition nf_next :: "(('cb, 'x) native, awaited) pyM" where
  "nf_next = bindM (getM (\<lambda>s. uf_state (fst s))) (\<lambda>st. case st of
      Pending \<Rightarrow> ret Yielded
    | Finished v \<Rightarrow> ret (StopIteration v)
    | Failed e \<Rightarrow> raise e
    | Cancelled \<Rightarrow> raise CancelledError)"

definition nf_send :: "pyval option \<Rightarrow> (('cb, 'x) native, awaited) pyM" where
  "nf_send v = nf_next"

text \<open>\<open>made\<close> is the answer of calling the exception class when no value is given.\<close>

definition nf_throw :: "exn + exn \<Rightarrow> exn option \<Rightarrow> (('cb, 'x) native, pyval) pyM" where
  "nf_throw made val = raise (case val of Some e \<Rightarrow> e | None \<Rightarrow> (case made of Inl e \<Rightarrow> e | Inr e \<Rightarrow> e))"

section \<open>One-shot objects\<close>

datatype attempt = Result pyval | Exception exn | Cancel

primrec settled_as :: "attempt \<Rightarrow> fut_state" where
  "settled_as (Result v) = Finished v"
| "settled_as (Exception e) = Failed e"
| "settled_as Cancel = Cancelled"

text \<open>The interface: an attempt on a pending object settles it, on a settled one it changes nothing.\<close>

locale one_shot =
  fixes state :: "'s \<Rightarrow> fut_state" and settle_with :: "attempt \<Rightarrow> 's \<Rightarrow> 's"
  assumes pending_law: "state s = Pending \<Longrightarrow> state (settle_with a s) = settled_as a"
    and settled_law: "state s \<noteq> Pending \<Longrightarrow> settle_with a s = s"
begin

lemma later_attempts:
  assumes "state s \<noteq> Pending"
  shows "fold settle_with as s = s"
  using assms by (induction as) (simp_all add: settled_law)

lemma first_wins:
  assumes "state s = Pending"
  shows "fold settle_with (a # as) s = settle_with a s \<and> state (fold settle_with (a # as) s) = settled_as a"
proof -
  have "state (settle_with a s) \<noteq> Pending" using pending_law [OF assms] by (cases a) simp_all
  with later_attempts [of "settle_with a s" as] pending_law [OF assms] show ?thesis by simp
qed

end

primrec asyncio_attempt :: "fut_id \<Rightarrow> attempt \<Rightarrow> ('cb, 'x) loop_scheme \<Rightarrow> ('cb, 'x) loop_scheme" where
  "asyncio_attempt f (Result v) w = snd (set_result f v w)"
| "asyncio_attempt f (Exception e) w = snd (set_exception f e w)"
| "asyncio_attempt f Cancel w = snd (fut_cancel f w)"

primrec native_attempt :: "attempt \<Rightarrow> ('cb, 'x) native \<Rightarrow> ('cb, 'x) native" where
  "native_attempt (Result v) s = snd (nf_set_result v s)"
| "native_attempt (Exception e) s = snd (nf_set_exception e s)"
| "native_attempt Cancel s = snd (nf_cancel s)"


text \<open>Scheduling never touches the state of a future, also when the loop refuses.\<close>

lemma schedule_keeps_futs:
  "lo_futs (snd (forM cbs (\<lambda>cb. bindM (call_soon cb) (\<lambda>_. ret ())) w)) = lo_futs w"
  by (induction cbs arbitrary: w) (auto simp: call_soon_eq bindM_def seqM_def simp del: refusal_None split: option.split)

lemma settle_state: "fu_state (lo_futs (snd (settle f st w)) f) = st"
  by (simp add: settle_def schedule_keeps_futs set_fut_def)

lemma snd_seqM_ret [simp]: "snd (seqM m (ret a) s) = snd (m s)"
  by (simp add: seqM_def bindM_def split: prod.split sum.split)

interpretation asyncio: one_shot "\<lambda>w. fu_state (lo_futs w f)" "asyncio_attempt f" for f
proof (unfold_locales, goal_cases)
  case (1 s a)
  then show ?case by (cases a) (simp_all add: set_result_def set_exception_def fut_cancel_def fut_done_def settle_state bindM_def)
next
  case (2 s a)
  then show ?case by (cases a) (simp_all add: set_result_def set_exception_def fut_cancel_def fut_done_def bindM_def)
qed

lemma schedule_single_fst: "fst (snd (forM cbs schedule_single s)) = fst s"
proof (induction cbs arbitrary: s)
  case (Cons cb cbs)
  have "fst (snd (schedule_single cb s)) = fst s"
    by (cases s) (simp add: schedule_single_def on_loop_def split: prod.split)
  with Cons show ?case by (cases "schedule_single cb s") (auto simp: seqM_def bindM_def split: sum.split)
qed simp

lemma schedule_callbacks_state: "uf_state (fst (snd (schedule_callbacks s))) = uf_state (fst s)"
  by (cases s) (simp add: schedule_callbacks_def take_callbacks_def bindM_def schedule_single_fst)

lemma nf_settle_pending:
  "uf_state (fst s) = Pending \<Longrightarrow> nf_settle st m s = m (fst s\<lparr>uf_state := st\<rparr>, snd s)"
  by (cases s) (simp add: nf_settle_def nf_done_def mod_future_def bindM_def)

lemma nf_settle_state:
  "uf_state (fst s) = Pending \<Longrightarrow> uf_state (fst (snd (nf_settle st schedule_callbacks s))) = st"
  by (simp add: nf_settle_pending schedule_callbacks_state)

interpretation native: one_shot "\<lambda>s. uf_state (fst s)" native_attempt
proof (unfold_locales, goal_cases)
  case (1 s a)
  then show ?case
    by (cases s; cases a) (simp_all add: nf_set_result_def nf_set_exception_def nf_settle_state nf_cancel_def nf_done_def
        mod_future_def bindM_def schedule_callbacks_state)
next
  case (2 s a)
  then show ?case
    by (cases a) (simp_all add: nf_set_result_def nf_set_exception_def nf_settle_def nf_cancel_def nf_done_def bindM_def)
qed


section \<open>Refinement of the asyncio future\<close>

text \<open>The loop's heap with the native future put at the identity \<open>f\<close>.\<close>

definition as_asyncio :: "fut_id \<Rightarrow> ('cb, 'x) native \<Rightarrow> ('cb, 'x) loop_scheme" where
  "as_asyncio f = (\<lambda>(u, w). set_fut f \<lparr>fu_state = uf_state u, fu_callbacks = uf_callbacks u\<rparr> w)"

definition asyncio_error :: "exn \<Rightarrow> exn" where
  "asyncio_error e = (if e = ValueError ''Future is already done.'' then InvalidStateError else e)"

definition as_asyncio_outcome :: "fut_id \<Rightarrow> (exn + 'a) \<times> ('cb, 'x) native \<Rightarrow> (exn + 'a) \<times> ('cb, 'x) loop_scheme" where
  "as_asyncio_outcome f = (\<lambda>(r, s). (map_sum asyncio_error id r, as_asyncio f s))"

lemma as_asyncio_scheduled: "scheduled cb (as_asyncio f (u, w)) = as_asyncio f (u, scheduled cb w)"
  by (simp add: as_asyncio_def set_fut_def scheduled_def)

lemma as_asyncio_refusal: "refusal (as_asyncio f (u, w)) = refusal w"
  by (simp add: as_asyncio_def set_fut_def refusal_def)

lemma refusal_unchanged: "refusal w = Some e \<Longrightarrow> asyncio_error e = e"
  by (auto simp: refusal_def asyncio_error_def split: if_splits)

lemma schedule_single_refines:
  "bindM (call_soon cb) (\<lambda>_. ret ()) (as_asyncio f s) = as_asyncio_outcome f (schedule_single cb s)"
  by (cases s) (auto simp: schedule_single_def on_loop_def call_soon_eq as_asyncio_refusal as_asyncio_scheduled
      as_asyncio_outcome_def refusal_unchanged bindM_def simp del: refusal_None split: option.split)

lemma forM_refines:
  assumes "\<And>x s. g x (as_asyncio f s) = as_asyncio_outcome f (h x s)"
  shows "forM xs g (as_asyncio f s) = as_asyncio_outcome f (forM xs h s)"
proof (induction xs arbitrary: s)
  case (Cons x xs)
  obtain r s' where "h x s = (r, s')" by (rule prod.exhaust)
  with Cons [of s'] assms [of x s] show ?case
    by (cases r) (simp_all add: as_asyncio_outcome_def)
qed (simp add: as_asyncio_outcome_def)

lemma schedule_all_refines:
  "forM cbs (\<lambda>cb. bindM (call_soon cb) (\<lambda>_. ret ())) (as_asyncio f s) = as_asyncio_outcome f (forM cbs schedule_single s)"
  by (rule forM_refines) (rule schedule_single_refines)

lemma settle_refines:
  "settle f st (as_asyncio f (u, w)) =
     as_asyncio_outcome f (schedule_callbacks (u\<lparr>uf_state := st\<rparr>, w))"
proof -
  have "as_asyncio f (u\<lparr>uf_state := st, uf_callbacks := []\<rparr>, w) =
      set_fut f \<lparr>fu_state = st, fu_callbacks = []\<rparr> (as_asyncio f (u, w))"
    by (simp add: as_asyncio_def set_fut_def)
  with schedule_all_refines [of "uf_callbacks u" f "(u\<lparr>uf_state := st, uf_callbacks := []\<rparr>, w)"] show ?thesis
    by (simp add: settle_def schedule_callbacks_def take_callbacks_def as_asyncio_def set_fut_def)
qed



section \<open>The fast path\<close>

lemma push_new_handle: "bindM (new_handle NativeHandle cb) (\<lambda>h. mod_core (push_task h)) w = (Inr (), scheduled cb w)"
  by (simp add: new_handle_def mod_core_def scheduled_def)

lemma schedule_fast_all:
  "forM cbs (\<lambda>cb. on_loop (bindM (new_handle NativeHandle cb) (\<lambda>h. mod_core (push_task h)))) (u, w) =
     (Inr (), (u, fold scheduled cbs w))"
  by (induction cbs arbitrary: w) (simp_all add: on_loop_def push_new_handle del: bindM_Inr)

lemma schedule_slow_all:
  "refusal w = None \<Longrightarrow> forM cbs schedule_single (u, w) = (Inr (), (u, fold scheduled cbs w))"
  by (induction cbs arbitrary: w) (simp_all add: schedule_single_def on_loop_def)

lemma schedule_fast_eq:
  "refusal (snd s) = None \<Longrightarrow> schedule_fast s = schedule_callbacks s"
  by (cases s) (simp add: schedule_fast_def schedule_callbacks_def take_callbacks_def schedule_fast_all schedule_slow_all)

end
