(* ===== verification/Future_Props.thy ===== *)
theory Future_Props
  imports Native_Future Loop_Props
begin

text \<open>
  Properties of futures, the \<open>asyncio\<close> ones the Python layer creates and the native ones: the first
  attempt to settle wins, and the tick's fast path equals the slow one.
\<close>

text \<open>
  C15. Both kinds of futures settle once: of any attempts to give a pending future a result, an
  exception or a cancellation, the first one decides and every later one leaves future and loop
  exactly as they are.
\<close>

theorem futures_settle_once:
  "(fu_state (lo_futs w f) = Pending \<longrightarrow>
      fold (asyncio_attempt f) (a # as) w = asyncio_attempt f a w \<and>
      fu_state (lo_futs (fold (asyncio_attempt f) (a # as) w) f) = settled_as a) \<and>
   (uf_state (fst s) = Pending \<longrightarrow>
      fold native_attempt (a # as) s = native_attempt a s \<and>
      uf_state (fst (fold native_attempt (a # as) s)) = settled_as a)"
  using asyncio.first_wins [of w f a as] native.first_wins [of s a as] by blast

definition demo_native :: "callback uring_future \<times> world" where
  "demo_native = (\<lparr>uf_state = Pending, uf_callbacks = [UserCb 1, UserCb 2]\<rparr>, demo_world)"

theorem futures_settle_once_witness:
  "fu_state (lo_futs (fold (asyncio_attempt 0) [Result (VInt 1), Cancel] demo_world) 0) = Finished (VInt 1) \<and>
   uf_state (fst (fold native_attempt [Cancel, Result (VInt 1)] demo_native)) = Cancelled"
proof -
  have "fu_state (lo_futs demo_world 0) = Pending" "uf_state (fst demo_native) = Pending"
    by (simp_all add: demo_world_def demo_native_def)
  with futures_settle_once [of demo_world 0 "Result (VInt 1)" "[Cancel]" demo_native]
    futures_settle_once [of demo_world 0 Cancel "[Result (VInt 1)]" demo_native]
  show ?thesis by (metis settled_as.simps(1,3))
qed

text \<open>
  C16. The fast path by which a tick settles a native future is equivalent to the slow one on an
  open loop that is not in debug mode: the same result, the same handles in the same order on
  the ready queue. On a closed loop it still queues every callback, where the slow path raises.
\<close>

theorem fast_path_equivalent:
  "(refusal (snd s) = None \<longrightarrow>
      set_result_fast v s = nf_set_result v s \<and> set_exception_fast e s = nf_set_exception e s) \<and>
   (uf_state u = Pending \<longrightarrow> set_result_fast v (u, w) =
      (Inr (), (u\<lparr>uf_state := Finished v, uf_callbacks := []\<rparr>, fold scheduled (uf_callbacks u) w)))"
proof -
  have "nf_settle st schedule_fast s = nf_settle st schedule_callbacks s" if "refusal (snd s) = None" for st
    using that schedule_fast_eq [of "(fst s\<lparr>uf_state := st\<rparr>, snd s)"]
    by (cases s) (simp add: nf_settle_def mod_future_def bindM_def)
  moreover have "set_result_fast v (u, w) =
      (Inr (), (u\<lparr>uf_state := Finished v, uf_callbacks := []\<rparr>, fold scheduled (uf_callbacks u) w))" if "uf_state u = Pending"
    using that by (simp add: set_result_fast_def nf_settle_pending schedule_fast_def take_callbacks_def schedule_fast_all)
  ultimately show ?thesis
    by (simp add: set_result_fast_def nf_set_result_def set_exception_fast_def nf_set_exception_def)
qed

theorem fast_path_equivalent_witness:
  "set_result_fast (VInt 3) demo_native = nf_set_result (VInt 3) demo_native \<and>
   fst (set_result_fast (VInt 3) (fst demo_native, demo_world\<lparr>lo_closed := True\<rparr>)) = Inr ()"
  using fast_path_equivalent [of demo_native "VInt 3" CancelledError "fst demo_native" "demo_world\<lparr>lo_closed := True\<rparr>"]
  by (simp add: demo_native_def)

end
