(* ===== verification/Spec2Isabelle.thy ===== *)
theory Spec2Isabelle
  imports Core_Props Core_Multi Metrics_Props Policy Queries Typing Native_Loop
    Loop_Props Dispatch_Props Endpoint_Props Transport_Props Send_Path Pipe_Props Subprocess_Props Ssl_Props
    Future_Props
begin

text \<open>
  Verification of \<^bold>\<open>uringcore\<close>, an \<open>asyncio\<close> event loop whose network input and output goes through
  Linux's io_uring.

  \<^bold>\<open>The program.\<close> A native engine, \<open>UringCore\<close> (Rust, \<open>src/src\<close>), owns the ring, a pool of
  pre-registered buffers, the ready queue, the timer heap and the state of every registered
  descriptor. The Python package (\<open>src/python/uringcore\<close>) puts an \<open>asyncio\<close> loop on top:
  \<open>loop.py\<close> schedules callbacks, watches descriptors with epoll, calls the engine's \<open>run_tick\<close> once
  per iteration and dispatches what has completed to transports (\<open>transport.py\<close>, \<open>datagram.py\<close>,
  \<open>pipes.py\<close>, \<open>subprocess.py\<close>, \<open>ssl_transport.py\<close>), to servers (\<open>server.py\<close>) and to futures;
  \<open>metrics.py\<close> and \<open>policy.py\<close> stand beside it. A transport calls the engine to submit
  operations, the engine calls back through the futures and handles it was given, and both call
  protocols, factories and callbacks of the user.

  \<^bold>\<open>How it is modelled.\<close> An operation that can raise is a function from the state to a result
  (\<open>Inl\<close> an exception, \<open>Inr\<close> a value) and the new state (theory \<open>Prelude\<close>); \<open>try\<close>, \<open>finally\<close> and
  early returns are combinators. The engine is the record \<open>uring_core\<close>; the loop is a record that
  contains it; the \<open>world\<close> extends the loop by the Python objects, one record per class, reached
  by identity, so that aliasing is explicit. Coroutines are split at their \<open>await\<close>. Three things
  are parameters: user code (\<open>U\<close>, which may change the state in any way and may raise; every call to
  it is also recorded), the TLS engine, and the kernel, whose answers are arguments or fields of
  the state.

  \<^bold>\<open>Theories, and the code each one models.\<close>
  \<^item> \<open>Errors\<close>: the engine's error type with its texts (\<open>error.rs\<close>).
  \<^item> \<open>User_Data\<close>: the 64-bit tags of submissions (\<open>ring.rs\<close>). Round trip and bit layout.
  \<^item> \<open>Buffer_Pool\<close>: the pool (\<open>buffer.rs\<close>). Interface \<open>buffer_allocator\<close>.
  \<^item> \<open>Buf_Ring\<close>: the provided buffer ring (\<open>buf_ring.rs\<close>) with its wrapping 16-bit tail.
  \<^item> \<open>Fd_State\<close>: per-descriptor state, credit, generations (\<open>state.rs\<close>).
  \<^item> \<open>Fixed_Fd\<close>: the table of registered files (\<open>fixed_fd.rs\<close>).
  \<^item> \<open>Scheduler\<close>, \<open>Timer_Heap\<close>: ready queue and timers (\<open>scheduler.rs\<close>, \<open>timer.rs\<close>). Interfaces
    \<open>ready_queue\<close> and \<open>timer_queue\<close>.
  \<^item> \<open>Ring\<close>: submission and completion queues and what the kernel holds (\<open>ring.rs\<close>); \<open>Ring_Files\<close>:
    registered files against the kernel's table, linked connects, timers, capabilities.
  \<^item> \<open>Core\<close>: \<open>UringCore\<close> (\<open>lib.rs\<close>) up to the phases of a tick that call into Python; \<open>Core_Inv\<close>
    its ownership invariant; \<open>Core_Props\<close> the properties of the engine in every reachable state;
    \<open>Core_Multi\<close> the operations no Python code calls (multishot submissions, \<open>drain_completions\<close>);
    \<open>Typing\<close> the types of the values a tick reports and settles futures with.
  \<^item> \<open>Loop_State\<close>: the loop's fields, \<open>asyncio\<close> futures, handles (\<open>handle.rs\<close>), scheduling, epoll
    and signals (\<open>loop.py\<close>); \<open>Fd_Watch\<close> the consistency of watched descriptors, with the interface
    \<open>fd_watch\<close> which readers and writers both satisfy.
  \<^item> \<open>Native_Future\<close>, \<open>Future_Props\<close>: \<open>UringFuture\<close> (\<open>future.rs\<close>), a refinement of the \<open>asyncio\<close>
    future; interface \<open>one_shot\<close>, which both satisfy.
  \<^item> \<open>World\<close>: the objects of the Python layer; \<open>Transport\<close>, \<open>Server\<close>, \<open>Pipes\<close>, \<open>Datagram\<close>,
    \<open>Subprocess\<close>, \<open>Ssl\<close>: the methods of each class.
  \<^item> \<open>Event_Loop\<close>: \<open>run_tick\<close>, \<open>_run_once\<close>, completion dispatch, \<open>run_forever\<close>,
    \<open>run_until_complete\<close>; \<open>Native_Loop\<close>: the engine's own loop \<open>run_until_stopped\<close>;
    \<open>Loop_Api\<close>: construction, tasks, executor, socket coroutines, server and connection constructors;
    \<open>Queries\<close>: everything that only answers.
  \<^item> \<open>Metrics\<close>, \<open>Metrics_Props\<close>, \<open>Policy\<close>: \<open>metrics.py\<close>, \<open>policy.py\<close>.
  \<^item> \<open>Loop_Props\<close>, \<open>Dispatch_Props\<close>, \<open>Endpoint_Props\<close>, \<open>Transport_Props\<close>, \<open>Pipe_Props\<close>, \<open>Subprocess_Props\<close>,
    \<open>Ssl_Props\<close>: the properties of the layers above the engine. Where a property needs user code to
    leave something alone, it says what in \<open>polite V U\<close>: \<open>U\<close> returns and the view \<open>V\<close> of the world
    stays. Interface \<open>byte_pipe\<close>: a writer that neither loses, repeats nor reorders a byte, satisfied by both pipe writers.
  \<^item> \<open>Receive_Path\<close>: the steps of a receive from the transport through the engine, the kernel, the tick
    and the dispatch; the two properties at the end of this theory compose them. \<open>Send_Path\<close>: the same for
    written bytes.

  \<^bold>\<open>What is shown.\<close> In every state the engine can reach a buffer has at most one owner; received
  bytes reach the completion, and from there the protocol, exactly, and written bytes the kernel;
  \<open>submit_recv\<close> and \<open>submit_send\<close> are described on every path. A tick survives every callback, runs exactly the batch
  it took, in order, and fires exactly the due timers; the loop restores its flags however it ends.
  Registration of readers and writers is a round trip and keeps three tables in agreement. Pipe
  writers refine a byte stream. A transport reports the loss of its connection at most once. A
  child's output is delivered completely before its exit. TLS data makes a round trip over any
  engine that keeps its documented promises, and datagrams arrive whole, in order and with their
  sender. A fixed index in a submission names the file it was made for, whatever registrations the
  kernel refused before. Every value a tick reports or settles a future with has the type its
  operation promises. Closing a server releases all its listeners and nothing else. The native future
  refines the \<open>asyncio\<close> one, its fast path equals the slow one.

  Where the code does something else than it means to, the theorem states what it does: a received
  message is delivered twice, overlapping receives mix up their buffers, receive credit and send
  buffers are never given back, one future per descriptor mixes up a send and a receive, a send
  completed in part loses its rest, sent bytes are counted twice, \<open>close\<close> does not report, a failed
  accept ends the server, a child's exit is lost when one of its pipes is closed, the last handshake
  flight is not sent, the first \<open>serve_forever\<close> raises, a multishot receive has no sound way back for
  its buffer.

  \<^bold>\<open>Loops and fuel.\<close> Loops over data are total functions. The two loops that read until the other
  side has no more (the drain of a child's pipe, the TLS read loop) take fuel and return whether
  they ended; each step takes up to 65536 bytes, and the theorems show that they end whenever
  the waiting bytes are at most 65536 times the fuel. \<open>run_forever\<close> goes over the list of the
  kernel's answers to its polls, one iteration for each.

  \<^bold>\<open>Not modelled.\<close> Contexts of callbacks, reference counts, locks and memory ordering; the invariants
  of \<open>Core_Props\<close> are about the operations the Python package calls, not about those of \<open>Core_Multi\<close>,
  which break them. Floating-point time is a real number. Of the standard library, the thread pool and
  name resolution are arguments. Methods that do nothing (\<open>shutdown_asyncgens\<close>, \<open>_process_ready\<close>,
  \<open>abort_clients\<close>, \<open>close_clients\<close>, \<open>set_child_watcher\<close>), tests, benchmarks and scripts.
\<close>

section \<open>A receive through all layers\<close>

text \<open>
  C1. A receive through all layers: when a reading transport has armed a receive and the kernel has
  answered it with data, the next tick of an otherwise idle loop calls \<open>data_received\<close> of that
  transport's protocol exactly once, with exactly the kernel's bytes; the buffer is back in the
  pool, the next receive is already armed with a buffer from the pool under a fresh pending
  future, and the tick reports the completion.
\<close>

theorem receive_reaches_protocol:
  assumes U: "takes_data U" and arm: "can_arm t idx rest s w" and f: "f = st_fd (the_tr t w)" "- (2 ^ 31) \<le> f" "f < 2 ^ 31"
    and w: "refusal w = None" "idle_core (lo_core w)" "uc_inflight_recv_buffers (lo_core w) f = None"
    and data: "data \<noteq> []" "length data \<le> bp_buffer_size (uc_buffer_pool (lo_core w))"
    and credit: "fs_should_submit_recv (on_submit s)"
    and wa: "rearm_recv t w = (Inr (), wa)"
  shows "\<exists>w' fut. run_tick U fuel (wa\<lparr>lo_core := recv_answered idx data flags (lo_core wa)\<rparr>) =
      (Inr [(f, ''recv'', int (length data), VBytes data)], w') \<and>
    wo_calls w' = wo_calls w @ [DataReceived (st_protocol (the_tr t w)) (VBytes data)] \<and>
    bp_free_list (uc_buffer_pool (lo_core w')) = tl (rest @ [idx]) \<and>
    uc_inflight_recv_buffers (lo_core w') f = Some (hd (rest @ [idx])) \<and>
    uc_futures (lo_core w') f = Some fut \<and> lo_io_futures w' (f, ''recv'') = Some fut \<and>
    lo_futs w' fut = \<lparr>fu_state = Pending, fu_callbacks = [OnRecvComplete t fut]\<rparr>"
proof -
  from tick_delivers [OF assms, of fuel flags] obtain w4 w' where
    tick: "run_tick U fuel (wa\<lparr>lo_core := recv_answered idx data flags (lo_core wa)\<rparr>) =
      (Inr [(f, ''recv'', int (length data), VBytes data)], w')"
    and w': "w' = recv_armed t w4 (after_recv f (lo_next_fut w4) (hd (rest @ [idx])) (tl (rest @ [idx])) (on_submit s) (lo_core w4))"
    and w4: "wo_calls w4 = wo_calls w @ [DataReceived (st_protocol (the_tr t w)) (VBytes data)]"
      "the_tr t w4 = the_tr t w" "uc_inflight_recv_buffers (lo_core w4) f = None" by blast
  show ?thesis
    by (intro exI [of _ w'] exI [of _ "lo_next_fut w4"] conjI tick)
      (use w4 f(1) in \<open>simp_all add: w' recv_armed_def after_recv_def\<close>)
qed

lemma demo_tcp_armed:
  "can_arm 0 0 [1] (fd_state_new 1 TcpStream) demo_tcp" "idle_core (lo_core demo_tcp)" "refusal demo_tcp = None"
  "uc_inflight_recv_buffers (lo_core demo_tcp) 5 = None" "bp_buffer_size (uc_buffer_pool (lo_core demo_tcp)) = 4"
  "fs_should_submit_recv (on_submit (fd_state_new 1 TcpStream))" "\<not> lo_epoll_closed demo_tcp"
  "st_fd (the_tr 0 demo_tcp) = 5" "wo_calls demo_tcp = []" "st_protocol (the_tr 0 demo_tcp) = 0"
  using demo_tcp_can_recv
  by (simp_all add: can_arm_def demo_tcp_def demo_world_def demo_lcore_def register_fd_def idle_core_def
      fs_should_submit_recv_def on_submit_def fd_state_new_def has_credit_def fs_used_def DEFAULT_CREDIT_BUDGET_def
      sched_new_def)

theorem receive_reaches_protocol_witness:
  "\<exists>wa w'. rearm_recv 0 demo_tcp = (Inr (), wa) \<and>
     run_tick quiet 0 (wa\<lparr>lo_core := recv_answered 0 [104, 105] 0 (lo_core wa)\<rparr>) =
       (Inr [(5, ''recv'', 2, VBytes [104, 105])], w') \<and>
     wo_calls w' = [DataReceived 0 (VBytes [104, 105])] \<and> uc_inflight_recv_buffers (lo_core w') 5 = Some 1"
proof -
  obtain wa where wa: "rearm_recv 0 demo_tcp = (Inr (), wa)" using rearm_recv_armed [OF demo_tcp_armed(1)] by blast
  from receive_reaches_protocol [OF takes_data_quiet demo_tcp_armed(1) _ _ _ demo_tcp_armed(3,2) _ _ _ demo_tcp_armed(6) wa,
      of 5 "[104, 105]" 0 0]
  show ?thesis using wa by (auto simp: demo_tcp_armed)
qed

text \<open>
  C31. One message, two deliveries: after that tick the loop dispatches the completion again, finds the
  future of the \<open>next\<close> receive under the descriptor, settles it with the same bytes, and the
  following iteration, whatever it polls, calls \<open>data_received\<close> with them a second time.
\<close>

theorem received_bytes_delivered_twice:
  assumes U: "takes_data U" and arm: "can_arm t idx rest s w" and f: "f = st_fd (the_tr t w)" "- (2 ^ 31) \<le> f" "f < 2 ^ 31"
    and w: "refusal w = None" "idle_core (lo_core w)" "uc_inflight_recv_buffers (lo_core w) f = None" "\<not> lo_epoll_closed w"
    and data: "data \<noteq> []" "length data \<le> bp_buffer_size (uc_buffer_pool (lo_core w))"
    and credit: "fs_should_submit_recv (on_submit s)"
    and d: "d = DataReceived (st_protocol (the_tr t w)) (VBytes data)"
  shows "\<exists>w'. seqM (rearm_recv t) (seqM (run_once U fuel (kernel_answers idx data flags)) (run_once U fuel p)) w = (Inr (), w') \<and>
    wo_calls w' = wo_calls w @ [d, d]"
proof -
  obtain wa where wa: "rearm_recv t w = (Inr (), wa)" using rearm_recv_armed [OF arm] by blast
  from first_iteration [OF U arm f w data credit wa, of fuel flags] d obtain w5 fut where
    w5: "run_once U fuel (kernel_answers idx data flags) wa = (Inr (), scheduled (OnRecvComplete t fut) w5)"
      "fu_state (lo_futs w5 fut) = Finished (VBytes data)" "idle_core (lo_core w5)" "refusal w5 = None"
      "the_tr t w5 = (the_tr t w)\<lparr>st_recv_pending := True\<rparr>" "wo_calls w5 = wo_calls w @ [d]" by blast
  have "\<not> st_closing (the_tr t w5)" "\<not> st_paused (the_tr t w5)" using arm w5(5) by (simp_all add: can_arm_def)
  from second_iteration [OF U this w5(2) data(1) w5(3,4), of fuel p] obtain w' where
    "run_once U fuel p (scheduled (OnRecvComplete t fut) w5) = (Inr (), w')" "wo_calls w' = wo_calls w @ [d, d]"
    using w5(5,6) d by auto
  then show ?thesis using wa w5(1) by simp
qed

theorem received_bytes_delivered_twice_witness:
  "wo_calls (snd (seqM (rearm_recv 0) (seqM (run_once quiet 0 (kernel_answers 0 [104, 105] 0))
      (run_once quiet 0 (\<lambda>_. \<lparr>pa_world = id, pa_events = []\<rparr>))) demo_tcp)) =
     [DataReceived 0 (VBytes [104, 105]), DataReceived 0 (VBytes [104, 105])]"
  using received_bytes_delivered_twice [OF takes_data_quiet demo_tcp_armed(1) _ _ _ demo_tcp_armed(3,2) _ demo_tcp_armed(7) _ _ demo_tcp_armed(6),
      of 5 "[104, 105]" "DataReceived 0 (VBytes [104, 105])" 0 0 "\<lambda>_. \<lparr>pa_world = id, pa_events = []\<rparr>"]
  by (auto simp: demo_tcp_armed)

end
